(* ===== verification/Go_Prelude.thy ===== *)
theory Go_Prelude
  imports Main "HOL-Library.AList" "HOL-Library.State_Monad" "HOL-Library.Word"
    "HOL-Library.Sublist"
begin

text \<open>
  The part of the Go language and of its packages strings, strconv and builtin maps that
  vire-portal uses, as executable HOL functions, and the lemmas every component shares.

  A Go string and a Go byte slice are both a \<^typ>\<open>string\<close>: a list of \<^typ>\<open>char\<close>, which in
  HOL is exactly a byte. Case mapping and space trimming are those of ASCII: Go's functions agree
  with them on every string whose bytes are below 128.
  An error value is its message; a function that returns (value, error) returns
  \<open>error + 'a\<close>.
  A Go map is an association list with distinct keys; the order of the list is the
  order in which a range statement visits the map, and \<open>go_range\<close> lets the runtime
  choose any other.
  Stateful code is written in the state monad of HOL-Library; the Hoare triples at the end
  are the rules by which invariants of such code are proved.
\<close>

named_theorems wp \<open>rules that compute Hoare triples of the state monad\<close>
named_theorems inv_intros \<open>rules that establish invariants of the state monad\<close>
named_theorems go_strings \<open>equations of the string functions\<close>

type_synonym error = string

section \<open>Strings\<close>

definition HasPrefix :: "string \<Rightarrow> string \<Rightarrow> bool" where
  "HasPrefix s p \<longleftrightarrow> take (length p) s = p"

definition HasSuffix :: "string \<Rightarrow> string \<Rightarrow> bool" where
  "HasSuffix s p \<longleftrightarrow> length p \<le> length s \<and> drop (length s - length p) s = p"

definition TrimPrefix :: "string \<Rightarrow> string \<Rightarrow> string" where
  "TrimPrefix s p = (if HasPrefix s p then drop (length p) s else s)"

definition TrimSuffix :: "string \<Rightarrow> string \<Rightarrow> string" where
  "TrimSuffix s p = (if HasSuffix s p then take (length s - length p) s else s)"

text \<open>\<open>Index s sub\<close> is strings.Index: \<open>None\<close> stands for -1.\<close>

fun Index :: "string \<Rightarrow> string \<Rightarrow> nat option" where
  "Index [] sub = (if sub = [] then Some 0 else None)"
| "Index (c # s) sub = (if HasPrefix (c # s) sub then Some 0 else map_option Suc (Index s sub))"

definition Contains :: "string \<Rightarrow> string \<Rightarrow> bool" where
  "Contains s sub \<longleftrightarrow> Index s sub \<noteq> None"

text \<open>\<open>cut_chr c s\<close> is strings.Cut with a one-byte separator.\<close>

fun cut_chr :: "char \<Rightarrow> string \<Rightarrow> (string \<times> string) option" where
  "cut_chr c [] = None"
| "cut_chr c (x # s) =
     (if x = c then Some ([], s)
      else map_option (\<lambda>(a, b). (x # a, b)) (cut_chr c s))"

text \<open>strings.SplitN with a one-byte separator and n > 0: at most n parts, the last one unsplit.\<close>

fun SplitN :: "string \<Rightarrow> char \<Rightarrow> nat \<Rightarrow> string list" where
  "SplitN s c 0 = []"
| "SplitN s c (Suc 0) = [s]"
| "SplitN s c (Suc (Suc n)) =
     (case cut_chr c s of None \<Rightarrow> [s] | Some (a, b) \<Rightarrow> a # SplitN b c (Suc n))"

text \<open>strings.Split with a one-byte separator.\<close>

fun Split :: "string \<Rightarrow> char \<Rightarrow> string list" where
  "Split [] c = [[]]"
| "Split (x # s) c =
     (if x = c then [] # Split s c
      else (case Split s c of [] \<Rightarrow> [[x]] | p # ps \<Rightarrow> (x # p) # ps))"

fun Join :: "string list \<Rightarrow> string \<Rightarrow> string" where
  "Join [] sep = []"
| "Join [x] sep = x"
| "Join (x # y # zs) sep = x @ sep @ Join (y # zs) sep"

text \<open>strings.ReplaceAll for a non-empty old string: left to right, without overlaps.\<close>

function ReplaceAll :: "string \<Rightarrow> string \<Rightarrow> string \<Rightarrow> string" where
  "ReplaceAll s old new =
     (if old = [] \<or> s = [] then s
      else if HasPrefix s old then new @ ReplaceAll (drop (length old) s) old new
      else hd s # ReplaceAll (tl s) old new)"
  by pat_completeness auto
termination
  by (relation "measure (\<lambda>(s, old, new). length s)") auto

declare ReplaceAll.simps [simp del]

definition isUpper :: "char \<Rightarrow> bool" where
  "isUpper c \<longleftrightarrow> (65::nat) \<le> of_char c \<and> of_char c \<le> (90::nat)"

definition isLower :: "char \<Rightarrow> bool" where
  "isLower c \<longleftrightarrow> (97::nat) \<le> of_char c \<and> of_char c \<le> (122::nat)"

definition isDigit :: "char \<Rightarrow> bool" where
  "isDigit c \<longleftrightarrow> (48::nat) \<le> of_char c \<and> of_char c \<le> (57::nat)"

definition lower_chr :: "char \<Rightarrow> char" where
  "lower_chr c = (if isUpper c then char_of (of_char c + 32 :: nat) else c)"

definition upper_chr :: "char \<Rightarrow> char" where
  "upper_chr c = (if isLower c then char_of (of_char c - 32 :: nat) else c)"

definition ToLower :: "string \<Rightarrow> string" where
  "ToLower s = map lower_chr s"

definition ToUpper :: "string \<Rightarrow> string" where
  "ToUpper s = map upper_chr s"

definition EqualFold :: "string \<Rightarrow> string \<Rightarrow> bool" where
  "EqualFold s t \<longleftrightarrow> ToLower s = ToLower t"

definition isSpace :: "char \<Rightarrow> bool" where
  "isSpace c \<longleftrightarrow> c \<in> {CHR 0x09, CHR 0x0A, CHR 0x0B, CHR 0x0C, CHR 0x0D, CHR 0x20}"

definition TrimLeftFunc :: "(char \<Rightarrow> bool) \<Rightarrow> string \<Rightarrow> string" where
  "TrimLeftFunc p s = dropWhile p s"

definition TrimRightFunc :: "(char \<Rightarrow> bool) \<Rightarrow> string \<Rightarrow> string" where
  "TrimRightFunc p s = rev (dropWhile p (rev s))"

definition TrimSpace :: "string \<Rightarrow> string" where
  "TrimSpace s = TrimRightFunc isSpace (TrimLeftFunc isSpace s)"

text \<open>strings.Trim and strings.TrimRight with a one-byte cutset.\<close>

definition TrimRight :: "string \<Rightarrow> char \<Rightarrow> string" where
  "TrimRight s c = TrimRightFunc (\<lambda>x. x = c) s"

definition Trim :: "string \<Rightarrow> char \<Rightarrow> string" where
  "Trim s c = TrimRightFunc (\<lambda>x. x = c) (TrimLeftFunc (\<lambda>x. x = c) s)"

section \<open>Decimal numbers\<close>

definition digit_chr :: "nat \<Rightarrow> char" where
  "digit_chr d = char_of (48 + d)"

definition chr_digit :: "char \<Rightarrow> nat" where
  "chr_digit c = of_char c - 48"

fun show_nat :: "nat \<Rightarrow> string" where
  "show_nat n = (if n < 10 then [digit_chr n] else show_nat (n div 10) @ [digit_chr (n mod 10)])"

declare show_nat.simps [simp del]

text \<open>strconv.Itoa, and the verb \<^verbatim>\<open>%d\<close> of package fmt.\<close>

definition Itoa :: "int \<Rightarrow> string" where
  "Itoa i = (if i < 0 then CHR ''-'' # show_nat (nat (- i)) else show_nat (nat i))"

definition read_nat :: "string \<Rightarrow> nat" where
  "read_nat s = foldl (\<lambda>n c. 10 * n + chr_digit c) 0 s"

definition all_digits :: "string \<Rightarrow> bool" where
  "all_digits s \<longleftrightarrow> s \<noteq> [] \<and> list_all isDigit s"

definition in_int64 :: "int \<Rightarrow> bool" where
  "in_int64 i \<longleftrightarrow> - (2 ^ 63) \<le> i \<and> i < 2 ^ 63"

text \<open>strconv.Atoi on a 64-bit platform: an optional sign, digits, and the range of int.\<close>

definition Atoi :: "string \<Rightarrow> int option" where
  "Atoi s =
     (let (neg, ds) = (case s of [] \<Rightarrow> (False, [])
                       | c # cs \<Rightarrow> if c = CHR ''-'' then (True, cs)
                                  else if c = CHR ''+'' then (False, cs) else (False, s));
          v = (if neg then - int (read_nat ds) else int (read_nat ds))
      in if all_digits ds \<and> in_int64 v then Some v else None)"

section \<open>Maps\<close>

type_synonym 'v gomap = "(string \<times> 'v) list"

text \<open>
  \<open>m[k]\<close> is \<^const>\<open>map_of\<close>, \<open>m[k] = v\<close> is \<^const>\<open>AList.update\<close>, \<open>delete(m, k)\<close> is
  \<^const>\<open>AList.delete\<close>, \<open>len(m)\<close> is \<^const>\<open>length\<close>.
\<close>

definition wf_map :: "'v gomap \<Rightarrow> bool" where
  "wf_map m \<longleftrightarrow> distinct (map fst m)"

text \<open>
  The order a range statement visits the map in: a choice of the runtime, given as a
  reordering of the keys; one that is not a permutation of the entries is ignored.
\<close>

definition go_range :: "(string list \<Rightarrow> string list) \<Rightarrow> 'v gomap \<Rightarrow> 'v gomap" where
  "go_range pick m =
     (let ks = pick (map fst m);
          es = map (\<lambda>k. (k, the (map_of m k))) ks
      in if distinct ks \<and> set ks = set (map fst m) then es else m)"

section \<open>Hoare triples and invariants of the state monad\<close>

definition hoare :: "('s \<Rightarrow> bool) \<Rightarrow> ('s, 'a) state \<Rightarrow> ('a \<Rightarrow> 's \<Rightarrow> bool) \<Rightarrow> bool" where
  "hoare P m Q \<longleftrightarrow> (\<forall>s a s'. P s \<longrightarrow> run_state m s = (a, s') \<longrightarrow> Q a s')"

definition keeps :: "('s \<Rightarrow> bool) \<Rightarrow> ('s, 'a) state \<Rightarrow> bool" where
  "keeps P m \<longleftrightarrow> hoare P m (\<lambda>_. P)"

definition gets :: "('s \<Rightarrow> 'a) \<Rightarrow> ('s, 'a) state" where
  "gets f = State (\<lambda>s. (f s, s))"

definition modify :: "('s \<Rightarrow> 's) \<Rightarrow> ('s, unit) state" where
  "modify f = State (\<lambda>s. ((), f s))"

abbreviation ret :: "'a \<Rightarrow> ('s, 'a) state" where
  "ret \<equiv> State_Monad.return"

text \<open>An if statement without else.\<close>

definition if_do :: "bool \<Rightarrow> ('s, unit) state \<Rightarrow> ('s, unit) state" where
  "if_do b m = (if b then m else ret ())"

text \<open>An action on a part of the state, and on the second half of a pair (the environment).\<close>

definition zoom :: "('t \<Rightarrow> 's) \<Rightarrow> ('s \<Rightarrow> 't \<Rightarrow> 't) \<Rightarrow> ('s \<times> 'w, 'a) state \<Rightarrow> ('t \<times> 'w, 'a) state" where
  "zoom g p m = State (\<lambda>(t, w). case run_state m (g t, w) of (a, (s', w')) \<Rightarrow> (a, (p s' t, w')))"

definition in_env :: "('w, 'a) state \<Rightarrow> ('s \<times> 'w, 'a) state" where
  "in_env m = State (\<lambda>(s, w). case run_state m w of (a, w') \<Rightarrow> (a, (s, w')))"

section \<open>Lemmas on strings\<close>

lemma HasPrefix_iff: "HasPrefix s p \<longleftrightarrow> (\<exists>r. s = p @ r)"
  by (metis HasPrefix_def append_eq_conv_conj append_take_drop_id)

lemma HasPrefix_append [simp]: "HasPrefix (p @ r) p"
  by (simp add: HasPrefix_def)

lemma TrimPrefix_append [simp]: "TrimPrefix (p @ r) p = r"
  by (simp add: TrimPrefix_def)

lemma HasSuffix_iff: "HasSuffix s p \<longleftrightarrow> (\<exists>r. s = r @ p)"
proof
  assume "HasSuffix s p"
  then show "\<exists>r. s = r @ p"
    by (metis HasSuffix_def append_take_drop_id)
qed (auto simp: HasSuffix_def)

lemma Index_None_iff: "Index s sub = None \<longleftrightarrow> (\<forall>a b. s \<noteq> a @ sub @ b)"
proof (induction s)
  case Nil
  then show ?case by auto
next
  case (Cons c s)
  show ?case
  proof (cases "HasPrefix (c # s) sub")
    case True
    then obtain b where "c # s = [] @ sub @ b" by (auto simp: HasPrefix_iff)
    with True show ?thesis by (metis Index.simps(2) option.distinct(1))
  next
    case False
    then have "(\<exists>a b. c # s = a @ sub @ b) \<longleftrightarrow> (\<exists>a b. s = a @ sub @ b)"
      by (metis HasPrefix_iff append_Cons append_Nil append_eq_Cons_conv)
    with False Cons.IH show ?thesis by auto
  qed
qed

lemma Contains_iff: "Contains s sub \<longleftrightarrow> (\<exists>a b. s = a @ sub @ b)"
  using Index_None_iff [of s sub] by (auto simp: Contains_def)

lemma Contains_sublist: "Contains s sub \<longleftrightarrow> sublist sub s"
  by (simp add: Contains_iff sublist_def)

lemma cut_chr_None_iff [simp]: "cut_chr c s = None \<longleftrightarrow> c \<notin> set s"
  by (induction s) auto

lemma cut_chr_Some_iff: "cut_chr c s = Some (a, b) \<longleftrightarrow> s = a @ c # b \<and> c \<notin> set a"
proof (induction s arbitrary: a b)
  case Nil
  then show ?case by auto
next
  case (Cons x s)
  then show ?case by (cases a) auto
qed

lemma cut_chr_append [simp]: "c \<notin> set a \<Longrightarrow> cut_chr c (a @ c # b) = Some (a, b)"
  by (simp add: cut_chr_Some_iff)

lemma Split_not_Nil [simp]: "Split s c \<noteq> []"
  by (cases s) (auto split: list.splits)

lemma Join_Split: "Join (Split s c) [c] = s"
proof (induction s)
  case Nil
  then show ?case by simp
next
  case (Cons x s)
  obtain p ps where "Split s c = p # ps" by (cases "Split s c") auto
  with Cons show ?case by (cases ps) auto
qed

lemma Split_no_sep: "p \<in> set (Split s c) \<Longrightarrow> c \<notin> set p"
proof (induction s arbitrary: p)
  case (Cons x s)
  then show ?case
    by (auto split: if_splits list.splits)
qed simp

lemma Split_Join:
  "xs \<noteq> [] \<Longrightarrow> \<forall>x\<in>set xs. c \<notin> set x \<Longrightarrow> Split (Join xs [c]) c = xs"
proof (induction xs rule: induct_list012)
  case (2 x)
  then have "c \<notin> set x" by simp
  then show ?case by (induction x) auto
next
  case (3 x y zs)
  then have rest: "Split (Join (y # zs) [c]) c = y # zs" and x: "c \<notin> set x" by auto
  from x have "Split (x @ c # Join (y # zs) [c]) c = x # Split (Join (y # zs) [c]) c"
    by (induction x) auto
  with rest show ?case by simp
qed simp

lemma ReplaceAll_single: "ReplaceAll s [c] [] = filter (\<lambda>x. x \<noteq> c) s"
proof (induction s)
  case Nil
  then show ?case by (simp add: ReplaceAll.simps)
next
  case (Cons x s)
  then show ?case by (subst ReplaceAll.simps) (simp add: HasPrefix_def)
qed

lemma not_isUpper_lower_chr [simp]: "\<not> isUpper (lower_chr c)"
  by (simp add: lower_chr_def isUpper_def)

lemma lower_chr_idem [simp]: "lower_chr (lower_chr c) = lower_chr c"
  by (subst lower_chr_def) simp

lemma ToLower_idem [simp]: "ToLower (ToLower s) = ToLower s"
  by (simp add: ToLower_def)

lemma TrimSpace_Nil [simp]: "TrimSpace [] = []"
  by (simp add: TrimSpace_def TrimRightFunc_def TrimLeftFunc_def)

lemma TrimRight_suffix: "\<exists>k. s = TrimRight s c @ replicate k c"
proof -
  have "takeWhile (\<lambda>x. x = c) (rev s) = replicate (length (takeWhile (\<lambda>x. x = c) (rev s))) c"
    by (intro replicate_eqI) (auto dest: set_takeWhileD)
  moreover have "s = rev (dropWhile (\<lambda>x. x = c) (rev s)) @ rev (takeWhile (\<lambda>x. x = c) (rev s))"
    by (metis rev_append rev_rev_ident takeWhile_dropWhile_id)
  ultimately show ?thesis
    unfolding TrimRight_def TrimRightFunc_def by (metis rev_replicate)
qed

lemma TrimRight_end: "TrimRight s c = [] \<or> last (TrimRight s c) \<noteq> c"
proof (cases "dropWhile (\<lambda>x. x = c) (rev s)")
  case Nil
  then show ?thesis by (simp add: TrimRight_def TrimRightFunc_def)
next
  case (Cons x xs)
  then have "x \<noteq> c" using hd_dropWhile [of "\<lambda>x. x = c" "rev s"] by simp
  with Cons show ?thesis by (simp add: TrimRight_def TrimRightFunc_def)
qed

section \<open>Lemmas on decimal numbers\<close>

lemma digit_chr_of [simp]: "d < 10 \<Longrightarrow> chr_digit (digit_chr d) = d"
  by (simp add: chr_digit_def digit_chr_def)

lemma isDigit_digit_chr [simp]: "d < 10 \<Longrightarrow> isDigit (digit_chr d)"
  by (simp add: isDigit_def digit_chr_def)

lemma show_nat_not_Nil [simp]: "show_nat n \<noteq> []"
  by (subst show_nat.simps) simp

lemma show_nat_digits: "list_all isDigit (show_nat n)"
proof (induction n rule: show_nat.induct)
  case (1 n)
  then show ?case by (subst show_nat.simps) auto
qed

lemma all_digits_show_nat [simp]: "all_digits (show_nat n)"
  by (simp add: all_digits_def show_nat_digits)

lemma read_nat_snoc [simp]: "read_nat (s @ [c]) = 10 * read_nat s + chr_digit c"
  by (simp add: read_nat_def)

lemma read_show_nat [simp]: "read_nat (show_nat n) = n"
proof (induction n rule: show_nat.induct)
  case (1 n)
  then show ?case
    by (subst show_nat.simps) (auto simp: read_nat_def)
qed

lemma isDigit_not_minus: "isDigit c \<Longrightarrow> c \<noteq> CHR ''-'' \<and> c \<noteq> CHR ''+''"
  by (auto simp: isDigit_def)

lemma show_nat_Cons: "\<exists>c cs. show_nat n = c # cs \<and> isDigit c"
  using show_nat_digits [of n] show_nat_not_Nil [of n] by (cases "show_nat n") auto

theorem Atoi_Itoa: "in_int64 i \<Longrightarrow> Atoi (Itoa i) = Some i"
proof -
  assume i: "in_int64 i"
  obtain c cs where c: "show_nat (nat i) = c # cs" "isDigit c"
    using show_nat_Cons by blast
  then have *: "c \<noteq> CHR ''-''" "c \<noteq> CHR ''+''" using isDigit_not_minus by auto
  have r: "read_nat (c # cs) = nat i" and d: "all_digits (c # cs)"
    using c(1) by (metis read_show_nat, metis all_digits_show_nat)
  show ?thesis
    using i c(1) * r d by (auto simp: Atoi_def Itoa_def)
qed

section \<open>Lemmas on maps\<close>

lemma wf_map_Nil [simp]: "wf_map []"
  by (simp add: wf_map_def)

lemma wf_map_update [simp, intro]: "wf_map m \<Longrightarrow> wf_map (AList.update k v m)"
  by (simp add: wf_map_def distinct_update)

lemma wf_map_delete [simp, intro]: "wf_map m \<Longrightarrow> wf_map (AList.delete k m)"
  by (simp add: wf_map_def distinct_delete)

lemma wf_map_filter [simp, intro]: "wf_map m \<Longrightarrow> wf_map (filter p m)"
  by (simp add: wf_map_def distinct_map_filter)

lemma map_of_filter_wf:
  "wf_map m \<Longrightarrow> map_of (filter (\<lambda>(k, v). p k v) m) k =
     (case map_of m k of None \<Rightarrow> None | Some v \<Rightarrow> if p k v then Some v else None)"
proof (induction m)
  case (Cons e m)
  obtain k' v where e: "e = (k', v)" by (cases e)
  with Cons.prems have "wf_map m" and "map_of m k' = None"
    by (auto simp: wf_map_def map_of_eq_None_iff)
  with Cons.IH e show ?case by (auto split: option.splits)
qed simp

lemma length_update:
  "length (AList.update k v m) = (if k \<in> fst ` set m then length m else Suc (length m))"
  by (induction m) auto

lemma map_of_update [simp]: "map_of (AList.update k v m) = (map_of m)(k \<mapsto> v)"
  by (rule update_conv')

lemma map_of_delete [simp]: "map_of (AList.delete k m) = (map_of m)(k := None)"
  by (rule delete_conv')

lemma go_range_perm:
  assumes "wf_map m"
  shows "wf_map (go_range pick m) \<and> set (go_range pick m) = set m
    \<and> map_of (go_range pick m) = map_of m"
proof (cases "distinct (pick (map fst m)) \<and> set (pick (map fst m)) = set (map fst m)")
  case True
  let ?es = "map (\<lambda>k. (k, the (map_of m k))) (pick (map fst m))"
  have "set ?es = set m"
  proof
    show "set ?es \<subseteq> set m"
      using True by (auto dest!: map_of_SomeD simp: image_iff)
        (metis assms map_of_eq_Some_iff option.sel wf_map_def)
    show "set m \<subseteq> set ?es"
      using True assms by (auto simp: image_iff wf_map_def) force
  qed
  moreover have "wf_map ?es" using True by (simp add: wf_map_def comp_def)
  moreover from calculation have "map_of ?es = map_of m"
    using assms unfolding wf_map_def by (metis map_of_inject_set)
  ultimately show ?thesis using True by (simp add: go_range_def Let_def)
next
  case False
  then show ?thesis using assms by (auto simp: go_range_def Let_def)
qed

section \<open>Rules for triples\<close>

lemma hoareI: "(\<And>s a s'. P s \<Longrightarrow> run_state m s = (a, s') \<Longrightarrow> Q a s') \<Longrightarrow> hoare P m Q"
  by (auto simp: hoare_def)

lemma hoareD: "hoare P m Q \<Longrightarrow> P s \<Longrightarrow> run_state m s = (a, s') \<Longrightarrow> Q a s'"
  by (auto simp: hoare_def)

lemma hoare_weaken: "hoare P' m Q' \<Longrightarrow> (\<And>s. P s \<Longrightarrow> P' s) \<Longrightarrow> (\<And>a s. Q' a s \<Longrightarrow> Q a s) \<Longrightarrow> hoare P m Q"
  unfolding hoare_def by blast

lemma hoare_bind [wp]:
  "hoare P m R \<Longrightarrow> (\<And>a. hoare (R a) (f a) Q) \<Longrightarrow> hoare P (State_Monad.bind m f) Q"
  by (fastforce simp: hoare_def split: prod.splits)

lemma run_gets [simp]: "run_state (gets f) s = (f s, s)"
  by (simp add: gets_def)

lemma run_modify [simp]: "run_state (modify f) s = ((), f s)"
  by (simp add: modify_def)

lemma run_if_do [simp]: "run_state (if_do b m) s = (if b then run_state m s else ((), s))"
  by (simp add: if_do_def)

lemma run_zoom [simp]:
  "run_state (zoom g p m) (t, w) = (case run_state m (g t, w) of (a, (s', w')) \<Rightarrow> (a, (p s' t, w')))"
  by (simp add: zoom_def)

lemma run_in_env [simp]:
  "run_state (in_env m) (s, w) = (case run_state m w of (a, w') \<Rightarrow> (a, (s, w')))"
  by (simp add: in_env_def)

lemma keepsI: "(\<And>s a s'. P s \<Longrightarrow> run_state m s = (a, s') \<Longrightarrow> P s') \<Longrightarrow> keeps P m"
  by (auto simp: keeps_def hoare_def)

lemma keepsD: "keeps P m \<Longrightarrow> P s \<Longrightarrow> run_state m s = (a, s') \<Longrightarrow> P s'"
  by (auto simp: keeps_def hoare_def)

lemma keeps_ret [inv_intros, simp]: "keeps P (ret a)"
  by (auto intro: keepsI)

lemma keeps_gets [inv_intros, simp]: "keeps P (gets f)"
  by (auto intro: keepsI)

lemma keeps_bind [inv_intros]: "keeps P m \<Longrightarrow> (\<And>a. keeps P (f a)) \<Longrightarrow> keeps P (State_Monad.bind m f)"
  by (rule keepsI) (auto dest: keepsD split: prod.splits)

lemma keeps_modify [inv_intros]: "(\<And>s. P s \<Longrightarrow> P (f s)) \<Longrightarrow> keeps P (modify f)"
  by (rule keepsI) auto

lemma keeps_if [inv_intros]: "(b \<Longrightarrow> keeps P m) \<Longrightarrow> (\<not> b \<Longrightarrow> keeps P n) \<Longrightarrow> keeps P (if b then m else n)"
  by auto

lemma keeps_if_do [inv_intros]: "(b \<Longrightarrow> keeps P m) \<Longrightarrow> keeps P (if_do b m)"
  by (auto simp: if_do_def)

lemma keeps_option [inv_intros]:
  "(x = None \<Longrightarrow> keeps P m) \<Longrightarrow> (\<And>a. x = Some a \<Longrightarrow> keeps P (f a))
    \<Longrightarrow> keeps P (case x of None \<Rightarrow> m | Some a \<Rightarrow> f a)"
  by (cases x) auto

lemma keeps_sum [inv_intros]:
  "(\<And>e. x = Inl e \<Longrightarrow> keeps P (f e)) \<Longrightarrow> (\<And>a. x = Inr a \<Longrightarrow> keeps P (g a))
    \<Longrightarrow> keeps P (case x of Inl e \<Rightarrow> f e | Inr a \<Rightarrow> g a)"
  by (cases x) auto

lemma keeps_prod [inv_intros]:
  "(\<And>a b. x = (a, b) \<Longrightarrow> keeps P (f a b)) \<Longrightarrow> keeps P (case x of (a, b) \<Rightarrow> f a b)"
  by (cases x) auto

lemma keeps_Let [inv_intros]: "(\<And>x. x = t \<Longrightarrow> keeps P (f x)) \<Longrightarrow> keeps P (let x = t in f x)"
  by simp

lemma keeps_conj: "keeps P m \<Longrightarrow> keeps Q m \<Longrightarrow> keeps (\<lambda>s. P s \<and> Q s) m"
  by (auto simp: keeps_def hoare_def)

lemma keeps_in_env:
  "(\<And>s. keeps (\<lambda>w. P (s, w)) m) \<Longrightarrow> keeps P (in_env m)"
  by (rule keepsI) (fastforce split: prod.splits dest: keepsD)

lemma keeps_zoom:
  "(\<And>t. keeps (\<lambda>(s, w). P (p s t, w)) m) \<Longrightarrow> (\<And>t. p (g t) t = t) \<Longrightarrow> keeps P (zoom g p m)"
proof (rule keepsI)
  fix x a x'
  assume k: "\<And>t. keeps (\<lambda>(s, w). P (p s t, w)) m" and g: "\<And>t. p (g t) t = t"
    and P: "P x" and r: "run_state (zoom g p m) x = (a, x')"
  obtain t w where x: "x = (t, w)" by (cases x)
  with r obtain s' w' where m: "run_state m (g t, w) = (a, (s', w'))" and x': "x' = (p s' t, w')"
    by (auto split: prod.splits)
  from keepsD [OF k [of t] _ m] P x g have "P (p s' t, w')" by simp
  with x' show "P x'" by simp
qed

end
