(* ===== verification/Go_Encoding.thy ===== *)
theory Go_Encoding
  imports Go_Prelude
begin

text \<open>
  The encodings of Go's packages encoding/hex and encoding/base64 (RawURLEncoding) that
  tokens, codes and identifiers are written in, and their round trips.
\<close>

section \<open>Hexadecimal\<close>

definition hex_chr :: "nat \<Rightarrow> char" where
  "hex_chr d = (if d < 10 then char_of (48 + d) else char_of (87 + d))"

definition hex_byte :: "char \<Rightarrow> string" where
  "hex_byte c = [hex_chr (of_char c div 16), hex_chr (of_char c mod 16)]"

definition hex_EncodeToString :: "string \<Rightarrow> string" where
  "hex_EncodeToString b = concat (map hex_byte b)"

definition hex_val :: "char \<Rightarrow> nat option" where
  "hex_val c =
     (if isDigit c then Some (of_char c - 48)
      else if 97 \<le> (of_char c :: nat) \<and> of_char c \<le> (102 :: nat) then Some (of_char c - 87)
      else if 65 \<le> (of_char c :: nat) \<and> of_char c \<le> (70 :: nat) then Some (of_char c - 55)
      else None)"

fun hex_DecodeString :: "string \<Rightarrow> string option" where
  "hex_DecodeString [] = Some []"
| "hex_DecodeString [c] = None"
| "hex_DecodeString (c # d # s) =
     (case (hex_val c, hex_val d, hex_DecodeString s) of
        (Some x, Some y, Some r) \<Rightarrow> Some (char_of (16 * x + y) # r)
      | _ \<Rightarrow> None)"

section \<open>Base64, URL alphabet, without padding\<close>

text \<open>The alphabet: A-Z, a-z, 0-9, minus and underscore, in this order.\<close>

definition b64_chr :: "nat \<Rightarrow> char" where
  "b64_chr n =
     (if n < 26 then char_of (65 + n)
      else if n < 52 then char_of (71 + n)
      else if n < 62 then char_of (n - 4)
      else if n = 62 then CHR ''-'' else CHR ''_'')"

definition b64_val :: "char \<Rightarrow> nat option" where
  "b64_val c =
     (if isUpper c then Some (of_char c - 65)
      else if isLower c then Some (of_char c - 71)
      else if isDigit c then Some (of_char c + 4)
      else if c = CHR ''-'' then Some 62
      else if c = CHR ''_'' then Some 63
      else None)"

fun b64_Encode :: "string \<Rightarrow> string" where
  "b64_Encode [] = []"
| "b64_Encode [a] = [b64_chr (of_char a div 4), b64_chr (of_char a mod 4 * 16)]"
| "b64_Encode [a, b] =
     [b64_chr (of_char a div 4), b64_chr (of_char a mod 4 * 16 + of_char b div 16),
      b64_chr (of_char b mod 16 * 4)]"
| "b64_Encode (a # b # c # s) =
     b64_chr (of_char a div 4) # b64_chr (of_char a mod 4 * 16 + of_char b div 16)
     # b64_chr (of_char b mod 16 * 4 + of_char c div 64) # b64_chr (of_char c mod 64)
     # b64_Encode s"

text \<open>Decoding skips carriage returns and line feeds and does not look at unused low bits.\<close>

fun b64_quanta :: "nat list \<Rightarrow> string option" where
  "b64_quanta [] = Some []"
| "b64_quanta [x] = None"
| "b64_quanta [x, y] = Some [char_of (x * 4 + y div 16)]"
| "b64_quanta [x, y, z] = Some [char_of (x * 4 + y div 16), char_of (y mod 16 * 16 + z div 4)]"
| "b64_quanta (x # y # z # w # r) =
     map_option (\<lambda>t. char_of (x * 4 + y div 16) # char_of (y mod 16 * 16 + z div 4)
                     # char_of (z mod 4 * 64 + w) # t) (b64_quanta r)"

definition b64_Decode :: "string \<Rightarrow> string option" where
  "b64_Decode s =
     (case those (map b64_val (filter (\<lambda>c. c \<noteq> CHR 0x0A \<and> c \<noteq> CHR 0x0D) s)) of
        None \<Rightarrow> None
      | Some vs \<Rightarrow> b64_quanta vs)"

section \<open>Hexadecimal: round trip\<close>

lemma of_char_less [simp]: "(of_char c :: nat) < 256"
  by (metis of_char_mod_256 mod_less_divisor zero_less_numeral)

lemma of_char_div16 [simp]: "(of_char c :: nat) div 16 < 16"
  by (simp add: less_mult_imp_div_less)

lemma hex_val_chr [simp]: "d < 16 \<Longrightarrow> hex_val (hex_chr d) = Some d"
  by (auto simp: hex_val_def hex_chr_def isDigit_def)

lemma hex_EncodeToString_simps [simp]:
  "hex_EncodeToString [] = []"
  "hex_EncodeToString (c # s) = hex_byte c @ hex_EncodeToString s"
  by (simp_all add: hex_EncodeToString_def)

lemma hex_Decode_Encode [simp]: "hex_DecodeString (hex_EncodeToString b) = Some b"
  by (induction b) (simp_all add: hex_byte_def)

lemma length_hex [simp]: "length (hex_EncodeToString b) = 2 * length b"
  by (induction b) (simp_all add: hex_byte_def)

lemma hex_inj: "hex_EncodeToString a = hex_EncodeToString b \<longleftrightarrow> a = b"
  by (metis hex_Decode_Encode option.inject)

definition isHex :: "char \<Rightarrow> bool" where
  "isHex c \<longleftrightarrow> isDigit c \<or> (97 \<le> (of_char c :: nat) \<and> of_char c \<le> (102 :: nat))"

lemma isHex_hex_chr [simp]: "d < 16 \<Longrightarrow> isHex (hex_chr d)"
  by (auto simp: isHex_def hex_chr_def isDigit_def)

lemma hex_alphabet: "list_all isHex (hex_EncodeToString b)"
  by (induction b) (simp_all add: hex_byte_def)

section \<open>Base64: round trip\<close>

lemma b64_val_chr [simp]: "n < 64 \<Longrightarrow> b64_val (b64_chr n) = Some n"
  by (auto simp: b64_val_def b64_chr_def isUpper_def isLower_def isDigit_def)

lemma b64_digit_bounds [simp]:
  "(of_char a :: nat) div 4 < 64" "(of_char a :: nat) mod 4 * 16 < 64"
  "(of_char a :: nat) mod 4 * 16 + of_char b div 16 < 64"
  "(of_char a :: nat) mod 16 * 4 < 64" "(of_char a :: nat) mod 16 * 4 + of_char b div 64 < 64"
  using of_char_less [of a] of_char_less [of b] by linarith+

fun b64_sextets :: "string \<Rightarrow> nat list" where
  "b64_sextets [] = []"
| "b64_sextets [a] = [of_char a div 4, of_char a mod 4 * 16]"
| "b64_sextets [a, b] =
     [of_char a div 4, of_char a mod 4 * 16 + of_char b div 16, of_char b mod 16 * 4]"
| "b64_sextets (a # b # c # s) =
     of_char a div 4 # (of_char a mod 4 * 16 + of_char b div 16)
     # (of_char b mod 16 * 4 + of_char c div 64) # of_char c mod 64 # b64_sextets s"

lemma b64_Encode_sextets: "b64_Encode s = map b64_chr (b64_sextets s)"
  by (induction s rule: b64_Encode.induct) simp_all

lemma b64_sextets_less: "\<forall>n\<in>set (b64_sextets s). n < 64"
  by (induction s rule: b64_sextets.induct) auto

lemma b64_Encode_valid: "c \<in> set (b64_Encode s) \<Longrightarrow> b64_val c \<noteq> None"
  using b64_sextets_less [of s] by (auto simp: b64_Encode_sextets)

lemma b64_dot_free [simp]: "CHR ''.'' \<notin> set (b64_Encode s)"
proof
  assume "CHR ''.'' \<in> set (b64_Encode s)"
  then have "b64_val (CHR ''.'') \<noteq> None" by (rule b64_Encode_valid)
  then show False by (simp add: b64_val_def isUpper_def isLower_def isDigit_def)
qed

lemma b64_newline_free: "filter (\<lambda>c. c \<noteq> CHR 0x0A \<and> c \<noteq> CHR 0x0D) (b64_Encode s) = b64_Encode s"
proof (rule filter_True, rule ballI)
  fix c assume "c \<in> set (b64_Encode s)"
  then have "b64_val c \<noteq> None" by (rule b64_Encode_valid)
  then show "c \<noteq> CHR 0x0A \<and> c \<noteq> CHR 0x0D"
    by (auto simp: b64_val_def isUpper_def isLower_def isDigit_def)
qed

lemma those_map_val: "\<forall>n\<in>set ns. n < 64 \<Longrightarrow> those (map b64_val (map b64_chr ns)) = Some ns"
  by (induction ns) auto

lemma b64_low_bits [simp]: "(of_char c :: nat) div 64 div 4 = 0"
  using of_char_less [of c] by linarith

lemma b64_low_sextet [simp]: "(of_char c :: nat) div 64 mod 4 * 64 + of_char c mod 64 = of_char c"
proof -
  have "(of_char c :: nat) div 64 < 4" using of_char_less [of c] by linarith
  then show ?thesis by (simp add: div_mult_mod_eq)
qed

lemma b64_high_bits [simp]: "(of_char b :: nat) div 16 div 16 = 0"
  using of_char_less [of b] by linarith

lemma b64_quanta_sextets: "b64_quanta (b64_sextets s) = Some s"
  by (induction s rule: b64_sextets.induct) simp_all

theorem b64_Decode_Encode [simp]: "b64_Decode (b64_Encode s) = Some s"
  unfolding b64_Decode_def b64_newline_free
  by (simp add: b64_Encode_sextets those_map_val [OF b64_sextets_less, simplified]
      b64_quanta_sextets)

lemma b64_inj: "b64_Encode a = b64_Encode b \<longleftrightarrow> a = b"
  by (metis b64_Decode_Encode option.inject)

lemma b64_Encode_Nil_iff [simp]: "b64_Encode s = [] \<longleftrightarrow> s = []"
  by (cases s rule: b64_Encode.cases) auto

lemma b64_length: "length (b64_Encode s) = (4 * length s + 2) div 3"
  by (induction s rule: b64_Encode.induct) simp_all

end
