(* ===== verification/Go_URL.thy ===== *)
theory Go_URL
  imports Go_Encoding "HOL-Library.List_Lexorder" "HOL-Library.Char_ord"
begin

text \<open>
  What the portal uses of Go's package net/url: percent encoding in its several modes,
  \<open>url.Parse\<close> and \<open>URL.String\<close>, and query strings (\<open>url.ParseQuery\<close>, \<open>Values.Get\<close>,
  \<open>Values.Set\<close>, \<open>Values.Encode\<close>). The lemmas show that percent encoding and query encoding
  read back.
\<close>

section \<open>Percent encoding\<close>

datatype encoding = EncPath | EncPathSegment | EncHost | EncZone | EncUserPassword
  | EncQueryComponent | EncFragment

definition isAlnum :: "char \<Rightarrow> bool" where
  "isAlnum c \<longleftrightarrow> isUpper c \<or> isLower c \<or> isDigit c"

definition shouldEscape :: "encoding \<Rightarrow> char \<Rightarrow> bool" where
  "shouldEscape mode c =
     (if isAlnum c then False
      else if (mode = EncHost \<or> mode = EncZone)
              \<and> c \<in> set (CHR 0x27 # CHR 0x22 # ''!$&()*+,;=:[]<>'') then False
      else if c \<in> set ''-_.~'' then False
      else if c \<in> set ''$&+,/:;=?@'' then
        (case mode of
           EncPath \<Rightarrow> c = CHR ''?''
         | EncPathSegment \<Rightarrow> c \<in> set ''/;,?''
         | EncUserPassword \<Rightarrow> c \<in> set ''@/?:''
         | EncQueryComponent \<Rightarrow> True
         | EncFragment \<Rightarrow> False
         | _ \<Rightarrow> True)
      else if mode = EncFragment \<and> c \<in> set ''!()*'' then False
      else True)"

definition upper_hex :: "nat \<Rightarrow> char" where
  "upper_hex n = (if n < 10 then char_of (48 + n) else char_of (55 + n))"

definition escape_chr :: "encoding \<Rightarrow> char \<Rightarrow> string" where
  "escape_chr mode c =
     (if c = CHR '' '' \<and> mode = EncQueryComponent then ''+''
      else if shouldEscape mode c
        then [CHR ''%'', upper_hex (of_char c div 16), upper_hex (of_char c mod 16)]
      else [c])"

definition escape :: "encoding \<Rightarrow> string \<Rightarrow> string" where
  "escape mode s = concat (map (escape_chr mode) s)"

definition unhex :: "char \<Rightarrow> nat option" where
  "unhex c =
     (let n = of_char c :: nat
      in if 48 \<le> n \<and> n \<le> 57 then Some (n - 48)
         else if 97 \<le> n \<and> n \<le> 102 then Some (n - 87)
         else if 65 \<le> n \<and> n \<le> 70 then Some (n - 55)
         else None)"

text \<open>A percent triple is refused in a host unless it hides a non-ASCII byte or a percent sign.\<close>

definition triple_ok :: "encoding \<Rightarrow> char \<Rightarrow> char \<Rightarrow> nat \<Rightarrow> nat \<Rightarrow> bool" where
  "triple_ok mode c1 c2 h l =
     (let pct = (c1 = CHR ''2'' \<and> c2 = CHR ''5'')
      in \<not> (mode = EncHost \<and> h < 8 \<and> \<not> pct)
       \<and> \<not> (mode = EncZone \<and> \<not> pct \<and> 16 * h + l \<noteq> 32 \<and> shouldEscape EncHost (char_of (16 * h + l))))"

fun unescape :: "encoding \<Rightarrow> string \<Rightarrow> string option" where
  "unescape mode [] = Some []"
| "unescape mode (c # s) =
     (if c = CHR ''%'' then
        (case s of
           c1 # c2 # r \<Rightarrow>
             (case (unhex c1, unhex c2) of
                (Some h, Some l) \<Rightarrow>
                  if triple_ok mode c1 c2 h l
                  then map_option (Cons (char_of (16 * h + l))) (unescape mode r) else None
              | _ \<Rightarrow> None)
         | _ \<Rightarrow> None)
      else if (mode = EncHost \<or> mode = EncZone) \<and> of_char c < (128::nat) \<and> shouldEscape mode c then None
      else map_option (Cons (if c = CHR ''+'' \<and> mode = EncQueryComponent then CHR '' '' else c))
             (unescape mode s))"

abbreviation QueryEscape :: "string \<Rightarrow> string" where
  "QueryEscape \<equiv> escape EncQueryComponent"

abbreviation QueryUnescape :: "string \<Rightarrow> string option" where
  "QueryUnescape \<equiv> unescape EncQueryComponent"

abbreviation PathEscape :: "string \<Rightarrow> string" where
  "PathEscape \<equiv> escape EncPathSegment"

section \<open>URLs\<close>

record url =
  u_scheme :: string
  u_opaque :: string
  u_user :: "(string \<times> string option) option"
  u_host :: string
  u_path :: string
  u_rawpath :: string
  u_omithost :: bool
  u_forcequery :: bool
  u_rawquery :: string
  u_fragment :: string
  u_rawfragment :: string

definition empty_url :: url where
  "empty_url = \<lparr>u_scheme = [], u_opaque = [], u_user = None, u_host = [], u_path = [], u_rawpath = [],
     u_omithost = False, u_forcequery = False, u_rawquery = [], u_fragment = [], u_rawfragment = []\<rparr>"

text \<open>strings.Cut at a byte, and strings.LastIndex as a cut from the right.\<close>

definition Cut :: "string \<Rightarrow> char \<Rightarrow> string \<times> string" where
  "Cut s c = (case cut_chr c s of None \<Rightarrow> (s, []) | Some (a, b) \<Rightarrow> (a, b))"

definition cut_last :: "char \<Rightarrow> string \<Rightarrow> (string \<times> string) option" where
  "cut_last c s = map_option (\<lambda>(a, b). (rev b, rev a)) (cut_chr c (rev s))"

definition stringContainsCTLByte :: "string \<Rightarrow> bool" where
  "stringContainsCTLByte s = list_ex (\<lambda>c. of_char c < (32::nat) \<or> of_char c = (127::nat)) s"

text \<open>\<open>getScheme\<close>: the scheme and the rest, or None for a leading colon.\<close>

fun scan_scheme :: "string \<Rightarrow> string \<Rightarrow> (string \<times> string) option option" where
  "scan_scheme acc [] = Some None"
| "scan_scheme acc (c # s) =
     (if isUpper c \<or> isLower c then scan_scheme (acc @ [c]) s
      else if isDigit c \<or> c \<in> set ''+-.'' then (if acc = [] then Some None else scan_scheme (acc @ [c]) s)
      else if c = CHR '':'' then (if acc = [] then None else Some (Some (acc, s)))
      else Some None)"

definition getScheme :: "string \<Rightarrow> (string \<times> string) option" where
  "getScheme s = map_option (\<lambda>r. case r of None \<Rightarrow> ([], s) | Some p \<Rightarrow> p) (scan_scheme [] s)"

definition validOptionalPort :: "string \<Rightarrow> bool" where
  "validOptionalPort p = (case p of [] \<Rightarrow> True | c # ds \<Rightarrow> c = CHR '':'' \<and> list_all isDigit ds)"

definition parseHost :: "string \<Rightarrow> string option" where
  "parseHost host =
     (if HasPrefix host ''['' then
        (case cut_last (CHR '']'') host of
           None \<Rightarrow> None
         | Some (a, colonPort) \<Rightarrow>
             if \<not> validOptionalPort colonPort then None
             else (case Index a ''%25'' of
                 Some z \<Rightarrow> do { h1 \<leftarrow> unescape EncHost (take z a);
                                h2 \<leftarrow> unescape EncZone (drop z a);
                                h3 \<leftarrow> unescape EncHost (CHR '']'' # colonPort);
                                Some (h1 @ h2 @ h3) }
               | None \<Rightarrow> unescape EncHost host))
      else (case cut_last (CHR '':'') host of
          Some (_, port) \<Rightarrow> if validOptionalPort (CHR '':'' # port) then unescape EncHost host else None
        | None \<Rightarrow> unescape EncHost host))"

definition validUserinfo :: "string \<Rightarrow> bool" where
  "validUserinfo s = list_all (\<lambda>c. isAlnum c \<or> c \<in> set (CHR 0x27 # ''-._:~!$&()*+,;=%@'')) s"

definition parseAuthority :: "string \<Rightarrow> ((string \<times> string option) option \<times> string) option" where
  "parseAuthority a =
     (case cut_last (CHR ''@'') a of
        None \<Rightarrow> map_option (Pair None) (parseHost a)
      | Some (ui, h) \<Rightarrow>
          do { host \<leftarrow> parseHost h;
               if \<not> validUserinfo ui then None
               else if CHR '':'' \<notin> set ui
                 then do { u \<leftarrow> unescape EncUserPassword ui; Some (Some (u, None), host) }
               else (let (n, p) = Cut ui (CHR '':'')
                     in do { u \<leftarrow> unescape EncUserPassword n; pw \<leftarrow> unescape EncUserPassword p;
                             Some (Some (u, Some pw), host) }) })"

definition setPath :: "url \<Rightarrow> string \<Rightarrow> url option" where
  "setPath u p =
     do { path \<leftarrow> unescape EncPath p;
          Some (u\<lparr>u_path := path, u_rawpath := (if p = escape EncPath path then [] else p)\<rparr>) }"

definition setFragment :: "url \<Rightarrow> string \<Rightarrow> url option" where
  "setFragment u f =
     do { frag \<leftarrow> unescape EncFragment f;
          Some (u\<lparr>u_fragment := frag, u_rawfragment := (if f = escape EncFragment frag then [] else f)\<rparr>) }"

definition cut_query :: "url \<Rightarrow> string \<Rightarrow> url \<times> string" where
  "cut_query u rest =
     (if HasSuffix rest ''?'' \<and> count_list rest (CHR ''?'') = 1
      then (u\<lparr>u_forcequery := True\<rparr>, butlast rest)
      else (let (r, q) = Cut rest (CHR ''?'') in (u\<lparr>u_rawquery := q\<rparr>, r)))"

definition parse_rest :: "url \<Rightarrow> string \<Rightarrow> url option" where
  "parse_rest u rest =
     (if \<not> HasPrefix rest ''/'' \<and> u_scheme u \<noteq> [] then Some (u\<lparr>u_opaque := rest\<rparr>)
      else if \<not> HasPrefix rest ''/'' \<and> CHR '':'' \<in> set (fst (Cut rest (CHR ''/''))) then None
      else if (u_scheme u \<noteq> [] \<or> \<not> HasPrefix rest ''///'') \<and> HasPrefix rest ''//'' then
        (let a = drop 2 rest; auth = takeWhile (\<lambda>c. c \<noteq> CHR ''/'') a
         in do { (usr, host) \<leftarrow> parseAuthority auth;
                 setPath (u\<lparr>u_user := usr, u_host := host\<rparr>) (drop (length auth) a) })
      else if u_scheme u \<noteq> [] \<and> HasPrefix rest ''/'' then setPath (u\<lparr>u_omithost := True\<rparr>) rest
      else setPath u rest)"

definition parse_no_fragment :: "string \<Rightarrow> url option" where
  "parse_no_fragment raw =
     (if stringContainsCTLByte raw then None
      else if raw = ''*'' then Some (empty_url\<lparr>u_path := ''*''\<rparr>)
      else do { (sch, rest) \<leftarrow> getScheme raw;
                (let (u, r) = cut_query (empty_url\<lparr>u_scheme := ToLower sch\<rparr>) rest in parse_rest u r) })"

text \<open>\<open>url.Parse\<close>; the error value is only tested by the portal, never shown in full.\<close>

definition url_Parse :: "string \<Rightarrow> url option" where
  "url_Parse raw =
     (let (u, frag) = Cut raw (CHR ''#'')
      in do { p \<leftarrow> parse_no_fragment u; if frag = [] then Some p else setFragment p frag })"

definition validEncoded :: "encoding \<Rightarrow> string \<Rightarrow> bool" where
  "validEncoded mode s =
     list_all (\<lambda>c. c \<in> set (CHR 0x27 # ''!$&()*+,;=:@[]%'') \<or> \<not> shouldEscape mode c) s"

definition EscapedPath :: "url \<Rightarrow> string" where
  "EscapedPath u =
     (if u_rawpath u \<noteq> [] \<and> validEncoded EncPath (u_rawpath u)
         \<and> unescape EncPath (u_rawpath u) = Some (u_path u) then u_rawpath u
      else if u_path u = ''*'' then ''*''
      else escape EncPath (u_path u))"

definition EscapedFragment :: "url \<Rightarrow> string" where
  "EscapedFragment u =
     (if u_rawfragment u \<noteq> [] \<and> validEncoded EncFragment (u_rawfragment u)
         \<and> unescape EncFragment (u_rawfragment u) = Some (u_fragment u) then u_rawfragment u
      else escape EncFragment (u_fragment u))"

definition Userinfo_String :: "string \<times> string option \<Rightarrow> string" where
  "Userinfo_String ui =
     escape EncUserPassword (fst ui)
       @ (case snd ui of None \<Rightarrow> [] | Some p \<Rightarrow> CHR '':'' # escape EncUserPassword p)"

definition authority_String :: "url \<Rightarrow> string" where
  "authority_String u =
     (if (u_scheme u \<noteq> [] \<or> u_host u \<noteq> [] \<or> u_user u \<noteq> None)
         \<and> \<not> (u_omithost u \<and> u_host u = [] \<and> u_user u = None)
      then (if u_host u \<noteq> [] \<or> u_path u \<noteq> [] \<or> u_user u \<noteq> None then ''//'' else [])
           @ (case u_user u of None \<Rightarrow> [] | Some ui \<Rightarrow> Userinfo_String ui @ ''@'')
           @ escape EncHost (u_host u)
      else [])"

definition url_String :: "url \<Rightarrow> string" where
  "url_String u =
     (let sch = (if u_scheme u \<noteq> [] then u_scheme u @ '':'' else []);
          path = EscapedPath u;
          front = sch @ authority_String u
                    @ (if path \<noteq> [] \<and> hd path \<noteq> CHR ''/'' \<and> u_host u \<noteq> [] then ''/'' else []);
          dot = (if front = [] \<and> CHR '':'' \<in> set (fst (Cut path (CHR ''/''))) then ''./'' else [])
      in (if u_opaque u \<noteq> [] then sch @ u_opaque u else front @ dot @ path)
         @ (if u_forcequery u \<or> u_rawquery u \<noteq> [] then CHR ''?'' # u_rawquery u else [])
         @ (if u_fragment u \<noteq> [] then CHR ''#'' # EscapedFragment u else []))"

section \<open>Query strings\<close>

type_synonym url_values = "string list gomap"

definition Values_Get :: "url_values \<Rightarrow> string \<Rightarrow> string" where
  "Values_Get v k = (case map_of v k of Some (x # _) \<Rightarrow> x | _ \<Rightarrow> [])"

definition Values_Set :: "url_values \<Rightarrow> string \<Rightarrow> string \<Rightarrow> url_values" where
  "Values_Set v k x = AList.update k [x] v"

definition Values_Add :: "url_values \<Rightarrow> string \<Rightarrow> string \<Rightarrow> url_values" where
  "Values_Add v k x = AList.update k ((case map_of v k of None \<Rightarrow> [] | Some xs \<Rightarrow> xs) @ [x]) v"

text \<open>One setting of a query: skipped (None) when empty, with a semicolon or badly escaped.\<close>

definition read_pair :: "string \<Rightarrow> (string \<times> string) option" where
  "read_pair p =
     (if CHR '';'' \<in> set p \<or> p = [] then None
      else (let (k, v) = Cut p (CHR ''='')
            in do { k' \<leftarrow> QueryUnescape k; v' \<leftarrow> QueryUnescape v; Some (k', v') }))"

definition bad_pair :: "string \<Rightarrow> bool" where
  "bad_pair p \<longleftrightarrow> p \<noteq> [] \<and> read_pair p = None"

fun add_pairs :: "url_values \<Rightarrow> string list \<Rightarrow> url_values" where
  "add_pairs m [] = m"
| "add_pairs m (p # ps) =
     (case read_pair p of None \<Rightarrow> add_pairs m ps | Some (k, v) \<Rightarrow> add_pairs (Values_Add m k v) ps)"

text \<open>\<open>url.ParseQuery\<close>: the values and whether an error was met; parsing goes on after an error.\<close>

definition ParseQuery :: "string \<Rightarrow> url_values \<times> bool" where
  "ParseQuery q = (let ps = Split q (CHR ''&'') in (add_pairs [] ps, list_ex bad_pair ps))"

definition url_Query :: "url \<Rightarrow> url_values" where
  "url_Query u = fst (ParseQuery (u_rawquery u))"

definition encode_pair :: "string \<Rightarrow> string \<Rightarrow> string" where
  "encode_pair k v = QueryEscape k @ ''='' @ QueryEscape v"

definition Values_pairs :: "url_values \<Rightarrow> string list" where
  "Values_pairs v =
     concat (map (\<lambda>k. map (encode_pair k) (the (map_of v k))) (sort (map fst v)))"

definition Values_Encode :: "url_values \<Rightarrow> string" where
  "Values_Encode v = Join (Values_pairs v) ''&''"

section \<open>Escaping reads back\<close>

lemma unhex_upper [simp]: "n < 16 \<Longrightarrow> unhex (upper_hex n) = Some n"
  by (simp add: unhex_def upper_hex_def Let_def of_char_of)

lemma char_split [simp]: "char_of (16 * (of_char c div 16) + of_char c mod 16 :: nat) = (c::char)"
  by simp

lemma unescape_escape_chr:
  assumes "mode \<noteq> EncHost" "mode \<noteq> EncZone"
  shows "unescape mode (escape_chr mode c @ s) = map_option (Cons c) (unescape mode s)"
proof -
  have d: "of_char c div 16 < (16::nat)"
    using of_char_less [of c] by simp
  have t: "triple_ok mode x y h l" for x y h l using assms by (simp add: triple_ok_def Let_def)
  have p: "shouldEscape mode (CHR ''%'')" and q: "mode = EncQueryComponent \<Longrightarrow> shouldEscape mode (CHR ''+'')"
    by (auto simp: shouldEscape_def isAlnum_def isUpper_def isLower_def isDigit_def)
  show ?thesis
  proof (cases "shouldEscape mode c")
    case True
    then show ?thesis using d t assms by (auto simp: escape_chr_def)
  next
    case False
    then have "c \<noteq> CHR ''%''" and "\<not> (c = CHR ''+'' \<and> mode = EncQueryComponent)" using p q by auto
    with False assms show ?thesis by (auto simp: escape_chr_def)
  qed
qed

lemma unescape_escape:
  "mode \<noteq> EncHost \<Longrightarrow> mode \<noteq> EncZone \<Longrightarrow> unescape mode (escape mode s) = Some s"
  by (induction s) (simp_all add: escape_def unescape_escape_chr)

lemma QueryUnescape_Escape [simp]: "QueryUnescape (QueryEscape s) = Some s"
  by (simp add: unescape_escape)

lemma upper_hex_alnum: "n < 16 \<Longrightarrow> isAlnum (upper_hex n)"
  by (auto simp: upper_hex_def isAlnum_def isUpper_def isLower_def isDigit_def of_char_of)

lemma escape_alphabet:
  assumes "x \<in> set (escape mode s)"
  shows "x = CHR ''%'' \<or> x = CHR ''+'' \<or> isAlnum x \<or> \<not> shouldEscape mode x"
proof -
  from assms obtain c where "x \<in> set (escape_chr mode c)" by (auto simp: escape_def)
  moreover have "of_char c div 16 < (16::nat)" using of_char_less [of c] by simp
  ultimately show ?thesis
    by (auto simp: escape_chr_def upper_hex_alnum split: if_splits)
qed

lemma QueryEscape_free:
  assumes "c \<in> {CHR ''&'', CHR ''='', CHR '';'', CHR ''?'', CHR ''#'', CHR ''/'', CHR '' ''}"
  shows "c \<notin> set (QueryEscape s)"
proof
  assume "c \<in> set (QueryEscape s)"
  from escape_alphabet [OF this] assms show False
    by (auto simp: isAlnum_def isUpper_def isLower_def isDigit_def shouldEscape_def)
qed

lemma read_encode_pair [simp]: "read_pair (encode_pair k v) = Some (k, v)"
  by (simp add: read_pair_def encode_pair_def Cut_def QueryEscape_free)

lemma encode_pair_amp: "CHR ''&'' \<notin> set (encode_pair k v)"
  by (simp add: encode_pair_def QueryEscape_free)

lemma Values_pairs_amp: "p \<in> set (Values_pairs v) \<Longrightarrow> CHR ''&'' \<notin> set p"
  by (auto simp: Values_pairs_def encode_pair_amp)

section \<open>Query encoding reads back\<close>

definition Values_all :: "url_values \<Rightarrow> string \<Rightarrow> string list" where
  "Values_all v k = (case map_of v k of None \<Rightarrow> [] | Some xs \<Rightarrow> xs)"

definition pick_pair :: "string \<Rightarrow> string \<Rightarrow> string list" where
  "pick_pair k p = (case read_pair p of Some (k', v) \<Rightarrow> if k' = k then [v] else [] | None \<Rightarrow> [])"

lemma Values_Get_all: "Values_Get v k = (case Values_all v k of [] \<Rightarrow> [] | x # _ \<Rightarrow> x)"
  by (simp add: Values_Get_def Values_all_def split: option.splits list.splits)

lemma Values_Get_Set [simp]: "Values_Get (Values_Set v k x) k' = (if k' = k then x else Values_Get v k')"
  by (simp add: Values_Get_def Values_Set_def)

lemma wf_Values_Set [simp]: "wf_map v \<Longrightarrow> wf_map (Values_Set v k x)"
  by (simp add: Values_Set_def)

lemma wf_Values_Add [simp]: "wf_map v \<Longrightarrow> wf_map (Values_Add v k x)"
  by (simp add: Values_Add_def)

lemma wf_add_pairs: "wf_map m \<Longrightarrow> wf_map (add_pairs m ps)"
  by (induction ps arbitrary: m) (auto split: option.splits)

lemma wf_ParseQuery [simp]: "wf_map (fst (ParseQuery q))"
  by (simp add: ParseQuery_def Let_def wf_add_pairs)

lemma wf_url_Query [simp]: "wf_map (url_Query u)"
  by (simp add: url_Query_def)

lemma Values_all_Add: "Values_all (Values_Add m k x) k' = Values_all m k' @ (if k' = k then [x] else [])"
  by (simp add: Values_Add_def Values_all_def split: option.splits)

lemma add_pairs_all: "Values_all (add_pairs m ps) k = Values_all m k @ concat (map (pick_pair k) ps)"
  by (induction ps arbitrary: m) (auto simp: Values_all_Add pick_pair_def split: option.splits)

lemma pick_pairs_key:
  "concat (map (pick_pair k) (map (encode_pair k') xs)) = (if k' = k then xs else [])"
  by (induction xs) (auto simp: pick_pair_def)

lemma pick_pairs_keys:
  "distinct ks \<Longrightarrow>
     concat (map (pick_pair k) (concat (map (\<lambda>k'. map (encode_pair k') (f k')) ks)))
       = (if k \<in> set ks then f k else [])"
proof (induction ks)
  case (Cons k' ks)
  have "concat (map (pick_pair k) (concat (map (\<lambda>k'. map (encode_pair k') (f k')) (k' # ks))))
      = concat (map (pick_pair k) (map (encode_pair k') (f k')))
        @ concat (map (pick_pair k) (concat (map (\<lambda>k'. map (encode_pair k') (f k')) ks)))"
    by simp
  with Cons show ?case by (auto simp: pick_pairs_key simp del: map_map)
qed simp

lemma pick_Values_pairs:
  assumes "wf_map v"
  shows "concat (map (pick_pair k) (Values_pairs v)) = Values_all v k"
proof -
  have "distinct (sort (map fst v))" using assms by (simp add: wf_map_def)
  then have "concat (map (pick_pair k) (Values_pairs v))
      = (if k \<in> set (sort (map fst v)) then the (map_of v k) else [])"
    unfolding Values_pairs_def by (rule pick_pairs_keys)
  also have "\<dots> = Values_all v k"
  proof (cases "map_of v k")
    case None
    then have "k \<notin> set (map fst v)" by (simp add: map_of_eq_None_iff)
    with None show ?thesis by (simp add: Values_all_def)
  next
    case (Some xs)
    then have "k \<in> set (map fst v)" by (force dest: map_of_SomeD)
    with Some show ?thesis by (simp add: Values_all_def)
  qed
  finally show ?thesis .
qed

lemma Split_Values_Encode:
  "Split (Values_Encode v) (CHR ''&'') = (if Values_pairs v = [] then [[]] else Values_pairs v)"
  by (simp add: Values_Encode_def Split_Join Values_pairs_amp)

lemma ParseQuery_Encode_all:
  assumes "wf_map v"
  shows "Values_all (fst (ParseQuery (Values_Encode v))) k = Values_all v k"
proof -
  have "pick_pair k [] = []" by (simp add: pick_pair_def read_pair_def)
  then show ?thesis
    using pick_Values_pairs [OF assms, of k]
    by (auto simp: ParseQuery_def Let_def Split_Values_Encode add_pairs_all Values_all_def [of "[]"] read_pair_def)
qed

lemma ParseQuery_Encode [simp]:
  "wf_map v \<Longrightarrow> Values_Get (fst (ParseQuery (Values_Encode v))) k = Values_Get v k"
  by (simp add: Values_Get_all ParseQuery_Encode_all)

lemma Values_Encode_no_error: "wf_map v \<Longrightarrow> \<not> snd (ParseQuery (Values_Encode v))"
  by (auto simp: ParseQuery_def Let_def Split_Values_Encode bad_pair_def list_ex_iff Values_pairs_def)

end
