(* ===== verification/Go_JSON.thy ===== *)
theory Go_JSON
  imports Go_Encoding
begin

text \<open>
  Go's encoding/json as the portal uses it: values, the compact encoder with its HTML
  escapes, the decoder, and the rules by which Unmarshal fills the fields of a struct.
  Strings are taken to be valid UTF-8 without the line separators U+2028 and U+2029, which
  the encoder alone treats specially; the decoder's nesting limit of 10000 is not modelled.
\<close>

datatype json =
    JNull
  | JBool bool
  | JNum string
  | JStr string
  | JArr "json list"
  | JObj "(string \<times> json) list"

abbreviation jint :: "int \<Rightarrow> json" where
  "jint i \<equiv> JNum (Itoa i)"

abbreviation chr_quote :: char where
  "chr_quote \<equiv> CHR 0x22"

abbreviation chr_backslash :: char where
  "chr_backslash \<equiv> CHR 0x5C"

section \<open>Encoder\<close>

definition json_chr :: "char \<Rightarrow> string" where
  "json_chr c =
     (if c = chr_quote then [chr_backslash, chr_quote]
      else if c = chr_backslash then [chr_backslash, chr_backslash]
      else if c = CHR 0x08 then [chr_backslash, CHR ''b'']
      else if c = CHR 0x0C then [chr_backslash, CHR ''f'']
      else if c = CHR 0x0A then [chr_backslash, CHR ''n'']
      else if c = CHR 0x0D then [chr_backslash, CHR ''r'']
      else if c = CHR 0x09 then [chr_backslash, CHR ''t'']
      else if of_char c < (32 :: nat) \<or> c = CHR ''<'' \<or> c = CHR ''>'' \<or> c = CHR ''&''
        then [chr_backslash, CHR ''u'', CHR ''0'', CHR ''0''] @ hex_byte c
      else [c])"

definition json_string :: "string \<Rightarrow> string" where
  "json_string s = [chr_quote] @ concat (map json_chr s) @ [chr_quote]"

fun json_encode :: "json \<Rightarrow> string" where
  "json_encode JNull = ''null''"
| "json_encode (JBool b) = (if b then ''true'' else ''false'')"
| "json_encode (JNum n) = n"
| "json_encode (JStr s) = json_string s"
| "json_encode (JArr vs) = ''['' @ Join (map json_encode vs) '','' @ '']''"
| "json_encode (JObj kvs) =
     ''{'' @ Join (map (\<lambda>(k, v). json_string k @ '':'' @ json_encode v) kvs) '','' @ ''}''"

section \<open>Decoder\<close>

definition json_space :: "char \<Rightarrow> bool" where
  "json_space c \<longleftrightarrow> c = CHR 0x20 \<or> c = CHR 0x09 \<or> c = CHR 0x0A \<or> c = CHR 0x0D"

definition skip_ws :: "string \<Rightarrow> string" where
  "skip_ws s = dropWhile json_space s"

definition utf8 :: "nat \<Rightarrow> string" where
  "utf8 n =
     (if n < 0x80 then [char_of n]
      else if n < 0x800 then [char_of (0xC0 + n div 64), char_of (0x80 + n mod 64)]
      else if n < 0x10000 then
        [char_of (0xE0 + n div 4096), char_of (0x80 + n div 64 mod 64), char_of (0x80 + n mod 64)]
      else
        [char_of (0xF0 + n div 262144), char_of (0x80 + n div 4096 mod 64),
         char_of (0x80 + n div 64 mod 64), char_of (0x80 + n mod 64)])"

fun hex4 :: "string \<Rightarrow> (nat \<times> string) option" where
  "hex4 (a # b # c # d # s) =
     (case (hex_val a, hex_val b, hex_val c, hex_val d) of
        (Some w, Some x, Some y, Some z) \<Rightarrow> Some (4096 * w + 256 * x + 16 * y + z, s)
      | _ \<Rightarrow> None)"
| "hex4 _ = None"

definition unescape_chr :: "char \<Rightarrow> char option" where
  "unescape_chr e =
     (if e = chr_quote \<or> e = chr_backslash \<or> e = CHR ''/'' then Some e
      else if e = CHR ''b'' then Some (CHR 0x08)
      else if e = CHR ''f'' then Some (CHR 0x0C)
      else if e = CHR ''n'' then Some (CHR 0x0A)
      else if e = CHR ''r'' then Some (CHR 0x0D)
      else if e = CHR ''t'' then Some (CHR 0x09)
      else None)"

text \<open>A surrogate pair gives one code point; a lone surrogate gives U+FFFD.\<close>

definition surrogate_pair :: "nat \<Rightarrow> string \<Rightarrow> (nat \<times> string) option" where
  "surrogate_pair hi s =
     (case s of
        b # u # r \<Rightarrow>
          if b = chr_backslash \<and> u = CHR ''u'' then
            (case hex4 r of
               Some (lo, r') \<Rightarrow>
                 if 0xD800 \<le> hi \<and> hi < 0xDC00 \<and> 0xDC00 \<le> lo \<and> lo < 0xE000
                 then Some (0x10000 + (hi - 0xD800) * 1024 + (lo - 0xDC00), r') else None
             | None \<Rightarrow> None)
          else None
      | _ \<Rightarrow> None)"

definition code_point :: "nat \<Rightarrow> string \<Rightarrow> nat \<times> string" where
  "code_point n s =
     (if 0xD800 \<le> n \<and> n < 0xE000 then
        (case surrogate_pair n s of Some p \<Rightarrow> p | None \<Rightarrow> (0xFFFD, s))
      else (n, s))"

lemma hex4_shorter: "hex4 s = Some (n, r) \<Longrightarrow> length r < length s"
  by (cases s rule: hex4.cases) (auto split: option.splits prod.splits)

lemma code_point_shorter: "code_point n s = (m, r) \<Longrightarrow> length r \<le> length s"
  by (auto simp: code_point_def surrogate_pair_def dest!: hex4_shorter
      split: if_splits option.splits list.splits)

text \<open>The body of a string literal, after its opening quote, with the input that follows.\<close>

function parse_str :: "string \<Rightarrow> (string \<times> string) option" where
  "parse_str [] = None"
| "parse_str (c # s) =
     (if c = chr_quote then Some ([], s)
      else if c = chr_backslash then
        (case s of
           [] \<Rightarrow> None
         | e # s' \<Rightarrow>
             if e = CHR ''u'' then
               (case hex4 s' of
                  None \<Rightarrow> None
                | Some (n, r) \<Rightarrow>
                    (case code_point n r of
                       (m, r') \<Rightarrow> map_option (\<lambda>(t, q). (utf8 m @ t, q)) (parse_str r')))
             else
               (case unescape_chr e of
                  None \<Rightarrow> None
                | Some x \<Rightarrow> map_option (\<lambda>(t, q). (x # t, q)) (parse_str s')))
      else if of_char c < (32 :: nat) then None
      else map_option (\<lambda>(t, q). (c # t, q)) (parse_str s))"
  by pat_completeness auto
termination
  by (relation "measure length") (auto dest!: hex4_shorter dest: code_point_shorter [OF sym])

definition scan_int :: "string \<Rightarrow> (string \<times> string) option" where
  "scan_int s =
     (case s of
        [] \<Rightarrow> None
      | c # r \<Rightarrow>
          if c = CHR ''0'' then Some ([c], r)
          else if isDigit c then Some (takeWhile isDigit s, dropWhile isDigit s)
          else None)"

definition scan_frac :: "string \<Rightarrow> (string \<times> string) option" where
  "scan_frac s =
     (case s of
        [] \<Rightarrow> Some ([], [])
      | c # r \<Rightarrow>
          if c = CHR ''.'' then
            (if takeWhile isDigit r = [] then None
             else Some (c # takeWhile isDigit r, dropWhile isDigit r))
          else Some ([], s))"

definition scan_exp :: "string \<Rightarrow> (string \<times> string) option" where
  "scan_exp s =
     (case s of
        [] \<Rightarrow> Some ([], [])
      | c # r \<Rightarrow>
          if c = CHR ''e'' \<or> c = CHR ''E'' then
            (let (sg, r') = (case r of [] \<Rightarrow> ([], [])
                             | d # t \<Rightarrow> if d = CHR ''+'' \<or> d = CHR ''-'' then ([d], t) else ([], r))
             in if takeWhile isDigit r' = [] then None
                else Some (c # sg @ takeWhile isDigit r', dropWhile isDigit r'))
          else Some ([], s))"

definition scan_num :: "string \<Rightarrow> (string \<times> string) option" where
  "scan_num s =
     (let (sg, s1) = (case s of [] \<Rightarrow> ([], []) | c # r \<Rightarrow> if c = CHR ''-'' then ([c], r) else ([], s))
      in case scan_int s1 of
           None \<Rightarrow> None
         | Some (ip, s2) \<Rightarrow>
             (case scan_frac s2 of
                None \<Rightarrow> None
              | Some (fp, s3) \<Rightarrow>
                  (case scan_exp s3 of
                     None \<Rightarrow> None
                   | Some (ep, s4) \<Rightarrow> Some (sg @ ip @ fp @ ep, s4))))"

fun parse_value :: "nat \<Rightarrow> string \<Rightarrow> (json \<times> string) option"
  and parse_elems :: "nat \<Rightarrow> string \<Rightarrow> (json list \<times> string) option"
  and parse_members :: "nat \<Rightarrow> string \<Rightarrow> ((string \<times> json) list \<times> string) option" where
  "parse_value 0 s = None"
| "parse_value (Suc f) s =
     (case skip_ws s of
        [] \<Rightarrow> None
      | c # r \<Rightarrow>
          if c = chr_quote then map_option (\<lambda>(t, q). (JStr t, q)) (parse_str r)
          else if c = CHR ''{'' then
            (if HasPrefix (skip_ws r) ''}'' then Some (JObj [], tl (skip_ws r))
             else map_option (\<lambda>(kvs, q). (JObj kvs, q)) (parse_members f r))
          else if c = CHR ''['' then
            (if HasPrefix (skip_ws r) '']'' then Some (JArr [], tl (skip_ws r))
             else map_option (\<lambda>(vs, q). (JArr vs, q)) (parse_elems f r))
          else if HasPrefix (c # r) ''null'' then Some (JNull, drop 4 (c # r))
          else if HasPrefix (c # r) ''true'' then Some (JBool True, drop 4 (c # r))
          else if HasPrefix (c # r) ''false'' then Some (JBool False, drop 5 (c # r))
          else map_option (\<lambda>(n, q). (JNum n, q)) (scan_num (c # r)))"
| "parse_elems 0 s = None"
| "parse_elems (Suc f) s =
     (case parse_value f s of
        None \<Rightarrow> None
      | Some (v, r) \<Rightarrow>
          (case skip_ws r of
             [] \<Rightarrow> None
           | c # q \<Rightarrow>
               if c = CHR '','' then map_option (\<lambda>(vs, p). (v # vs, p)) (parse_elems f q)
               else if c = CHR '']'' then Some ([v], q)
               else None))"
| "parse_members 0 s = None"
| "parse_members (Suc f) s =
     (case skip_ws s of
        [] \<Rightarrow> None
      | c # r \<Rightarrow>
          if c \<noteq> chr_quote then None
          else (case parse_str r of
            None \<Rightarrow> None
          | Some (k, r1) \<Rightarrow>
              if \<not> HasPrefix (skip_ws r1) '':'' then None
              else (case parse_value f (tl (skip_ws r1)) of
                None \<Rightarrow> None
              | Some (v, r2) \<Rightarrow>
                  (case skip_ws r2 of
                     [] \<Rightarrow> None
                   | d # q \<Rightarrow>
                       if d = CHR '','' then
                         map_option (\<lambda>(kvs, p). ((k, v) # kvs, p)) (parse_members f q)
                       else if d = CHR ''}'' then Some ([(k, v)], q)
                       else None))))"

text \<open>
  json.Unmarshal takes one value and nothing but space after it; a Decoder takes the first
  value of the input. Every nested call consumes a character, so the length of the input
  plus one is fuel enough.
\<close>

definition json_Unmarshal :: "string \<Rightarrow> json option" where
  "json_Unmarshal s =
     (case parse_value (Suc (length s)) s of
        Some (v, r) \<Rightarrow> if skip_ws r = [] then Some v else None
      | None \<Rightarrow> None)"

definition json_Decode :: "string \<Rightarrow> json option" where
  "json_Decode s = map_option fst (parse_value (Suc (length s)) s)"

section \<open>Filling a struct\<close>

text \<open>
  A key sets the field with exactly its name, otherwise the first whose name folds to it.
  A null leaves the field as it is, a value of another type is an error, and the last value wins.
\<close>

definition json_target :: "string list \<Rightarrow> string \<Rightarrow> string option" where
  "json_target fields k = (if k \<in> set fields then Some k else find (\<lambda>f. EqualFold f k) fields)"

definition field_values :: "string list \<Rightarrow> string \<Rightarrow> (string \<times> json) list \<Rightarrow> json list" where
  "field_values fields f kvs =
     filter (\<lambda>v. v \<noteq> JNull) (map snd (filter (\<lambda>(k, v). json_target fields k = Some f) kvs))"

fun json_as_string :: "json \<Rightarrow> string option" where
  "json_as_string (JStr s) = Some s"
| "json_as_string _ = None"

fun json_as_int64 :: "json \<Rightarrow> int option" where
  "json_as_int64 (JNum n) = Atoi n"
| "json_as_int64 _ = None"

fun json_as_bool :: "json \<Rightarrow> bool option" where
  "json_as_bool (JBool b) = Some b"
| "json_as_bool _ = None"

text \<open>An element of a string slice: null leaves the zero value.\<close>

fun json_elem_string :: "json \<Rightarrow> string option" where
  "json_elem_string (JStr s) = Some s"
| "json_elem_string JNull = Some []"
| "json_elem_string _ = None"

fun json_as_strings :: "json \<Rightarrow> string list option" where
  "json_as_strings (JArr vs) = those (map json_elem_string vs)"
| "json_as_strings _ = None"

text \<open>A slice whose elements are decoded one by one.\<close>

fun json_as_list :: "(json \<Rightarrow> 'a option) \<Rightarrow> json \<Rightarrow> 'a list option" where
  "json_as_list conv (JArr vs) = those (map conv vs)"
| "json_as_list conv _ = None"

text \<open>The value of a field after decoding, \<open>z\<close> if no key set it; \<open>None\<close> for a type error.\<close>

definition json_field ::
  "(json \<Rightarrow> 'a option) \<Rightarrow> 'a \<Rightarrow> string list \<Rightarrow> string \<Rightarrow> (string \<times> json) list \<Rightarrow> 'a option" where
  "json_field conv z fields f kvs =
     (case those (map conv (field_values fields f kvs)) of
        None \<Rightarrow> None
      | Some xs \<Rightarrow> Some (if xs = [] then z else last xs))"

text \<open>The members a struct is filled from: null is the empty object, other values are errors.\<close>

fun json_members :: "json \<Rightarrow> (string \<times> json) list option" where
  "json_members (JObj kvs) = Some kvs"
| "json_members JNull = Some []"
| "json_members _ = None"

text \<open>A field that is a struct itself: every value of it fills the same struct.\<close>

definition json_nested :: "string list \<Rightarrow> string \<Rightarrow> (string \<times> json) list \<Rightarrow> (string \<times> json) list option" where
  "json_nested fields f kvs = map_option concat (those (map json_members (field_values fields f kvs)))"

text \<open>A map of strings: null values stay empty, the last value of a key wins.\<close>

definition string_map_of_json :: "json \<Rightarrow> string gomap option" where
  "string_map_of_json v =
     do { kvs \<leftarrow> json_members v;
          vs \<leftarrow> those (map (\<lambda>(k, v). map_option (Pair k) (json_elem_string v)) kvs);
          Some (fold (\<lambda>(k, v) m. AList.update k v m) vs []) }"

definition map_index :: "string gomap \<Rightarrow> string \<Rightarrow> string" where
  "map_index m k = (case map_of m k of None \<Rightarrow> [] | Some v \<Rightarrow> v)"

section \<open>Round trip\<close>

lemma hex_byte_shape: "hex_byte c = [hex_chr (of_char c div 16), hex_chr (of_char c mod 16)]"
  by (simp add: hex_byte_def)

lemma hex4_hex_byte: "hex4 (CHR ''0'' # CHR ''0'' # hex_byte c @ s) = Some (of_char c, s)"
proof -
  have "hex_val (CHR ''0'') = Some 0" by (simp add: hex_val_def isDigit_def)
  then show ?thesis by (simp add: hex_byte_def)
qed

lemma utf8_ascii: "of_char c < (0x80 :: nat) \<Longrightarrow> utf8 (of_char c) = [c]"
  by (simp add: utf8_def)

lemma code_point_ascii: "n < 0x80 \<Longrightarrow> code_point n s = (n, s)"
  by (simp add: code_point_def)

lemma parse_str_escaped:
  assumes "of_char c < (32 :: nat) \<or> c = CHR ''<'' \<or> c = CHR ''>'' \<or> c = CHR ''&''"
  shows "parse_str ([chr_backslash, CHR ''u'', CHR ''0'', CHR ''0''] @ hex_byte c @ s)
    = map_option (\<lambda>(t, q). (c # t, q)) (parse_str s)"
proof -
  have "of_char c < (0x80 :: nat)" using assms by auto
  then show ?thesis by (simp add: hex4_hex_byte utf8_ascii code_point_ascii)
qed

lemma parse_str_json_chr:
  "parse_str (json_chr c @ s) = map_option (\<lambda>(t, q). (c # t, q)) (parse_str s)"
proof (cases "c \<in> {chr_quote, chr_backslash, CHR 0x08, CHR 0x0C, CHR 0x0A, CHR 0x0D, CHR 0x09}")
  case True
  then show ?thesis by (auto simp: json_chr_def unescape_chr_def)
next
  case False
  show ?thesis
  proof (cases "of_char c < (32 :: nat) \<or> c = CHR ''<'' \<or> c = CHR ''>'' \<or> c = CHR ''&''")
    case True
    with False have "json_chr c = [chr_backslash, CHR ''u'', CHR ''0'', CHR ''0''] @ hex_byte c"
      unfolding json_chr_def by (simp only: insert_iff empty_iff if_False if_True de_Morgan_disj)
    then show ?thesis using parse_str_escaped [OF True, of s] by simp
  next
    case plain: False
    with False have "json_chr c = [c]" by (simp add: json_chr_def)
    with False plain show ?thesis by simp
  qed
qed

lemma parse_str_concat: "parse_str (concat (map json_chr t) @ chr_quote # s) = Some (t, s)"
  by (induction t) (simp_all add: parse_str_json_chr del: parse_str.simps(2), simp)

lemma parse_str_json_string: "json_string t @ s = chr_quote # (concat (map json_chr t) @ chr_quote # s)"
  by (simp add: json_string_def)

text \<open>What may follow a number without being taken for a part of it.\<close>

definition num_end :: "string \<Rightarrow> bool" where
  "num_end r \<longleftrightarrow> r = [] \<or> hd r \<in> {CHR '','', CHR '']'', CHR ''}'', CHR 0x20, CHR 0x0A}"

definition num_ok :: "string \<Rightarrow> bool" where
  "num_ok n \<longleftrightarrow> n \<noteq> [] \<and> (hd n = CHR ''-'' \<or> isDigit (hd n)) \<and> (\<forall>r. num_end r \<longrightarrow> scan_num (n @ r) = Some (n, r))"

fun json_ok :: "json \<Rightarrow> bool" where
  "json_ok (JNum n) = num_ok n"
| "json_ok (JArr vs) = (\<forall>v\<in>set vs. json_ok v)"
| "json_ok (JObj kvs) = (\<forall>kv\<in>set kvs. json_ok (snd kv))"
| "json_ok _ = True"

lemma takeWhile_digits: "list_all isDigit d \<Longrightarrow> r = [] \<or> \<not> isDigit (hd r) \<Longrightarrow>
   takeWhile isDigit (d @ r) = d \<and> dropWhile isDigit (d @ r) = r"
  by (induction d) (cases r; auto)+

lemma num_end_props:
  assumes "num_end r"
  shows "r = [] \<or> \<not> isDigit (hd r)" "scan_frac r = Some ([], r)" "scan_exp r = Some ([], r)"
  using assms by (cases r; auto simp: num_end_def isDigit_def scan_frac_def scan_exp_def)+

lemma show_nat_zero: "show_nat n = CHR ''0'' # cs \<Longrightarrow> n = 0 \<and> cs = []"
proof (induction n arbitrary: cs rule: show_nat.induct)
  case (1 n)
  show ?case
  proof (cases "n < 10")
    case True
    with "1.prems" have d: "digit_chr n = CHR ''0''" and cs: "cs = []"
      by (auto simp: show_nat.simps [of n])
    from digit_chr_of [OF True] d have "n = 0" by (simp add: chr_digit_def)
    with cs show ?thesis by simp
  next
    case False
    with "1.prems" have "show_nat (n div 10) @ [digit_chr (n mod 10)] = CHR ''0'' # cs"
      by (simp add: show_nat.simps [of n])
    then obtain ds where "show_nat (n div 10) = CHR ''0'' # ds"
      by (metis append_eq_Cons_conv show_nat_not_Nil)
    with "1.IH" False have "n div 10 = 0" by blast
    with False show ?thesis by simp
  qed
qed

lemma scan_int_show_nat:
  assumes "r = [] \<or> \<not> isDigit (hd r)"
  shows "scan_int (show_nat n @ r) = Some (show_nat n, r)"
proof -
  obtain c cs where c: "show_nat n = c # cs" "isDigit c" using show_nat_Cons by blast
  have d: "takeWhile isDigit (show_nat n @ r) = show_nat n" "dropWhile isDigit (show_nat n @ r) = r"
    using takeWhile_digits [OF show_nat_digits assms] by simp_all
  show ?thesis
  proof (cases "c = CHR ''0''")
    case True
    with c(1) show_nat_zero [of n cs] show ?thesis by (simp add: scan_int_def)
  next
    case False
    with c d show ?thesis by (simp add: scan_int_def)
  qed
qed

lemma num_ok_Itoa: "num_ok (Itoa i)"
proof -
  obtain c cs where c: "show_nat (nat i) = c # cs" "isDigit c" using show_nat_Cons by blast
  then have m: "c \<noteq> CHR ''-''" using isDigit_not_minus by blast
  have s: "scan_int (c # cs @ r) = Some (c # cs, r)" if "r = [] \<or> \<not> isDigit (hd r)" for r
    using scan_int_show_nat [OF that, of "nat i"] c by simp
  have n: "scan_num (Itoa i @ r) = Some (Itoa i, r)" if "num_end r" for r
    using num_end_props [OF that] m c s [of r] scan_int_show_nat [of r "nat (- i)"]
    by (auto simp: scan_num_def Itoa_def)
  show ?thesis
    using c n by (auto simp: num_ok_def Itoa_def)
qed

definition reads_back :: "json \<Rightarrow> bool" where
  "reads_back v \<longleftrightarrow>
     (\<forall>f r. length (json_encode v) < f \<longrightarrow> num_end r \<longrightarrow> parse_value f (json_encode v @ r) = Some (v, r))"

lemma reads_backD:
  "reads_back v \<Longrightarrow> length (json_encode v) < f \<Longrightarrow> num_end r
    \<Longrightarrow> parse_value f (json_encode v @ r) = Some (v, r)"
  by (simp add: reads_back_def)

lemma reads_backI:
  assumes "\<And>g r. length (json_encode v) \<le> g \<Longrightarrow> num_end r \<Longrightarrow> parse_value (Suc g) (json_encode v @ r) = Some (v, r)"
  shows "reads_back v"
proof (unfold reads_back_def, intro allI impI)
  fix f r assume "length (json_encode v) < f" "num_end r"
  then obtain g where "f = Suc g" "length (json_encode v) \<le> g" by (cases f) auto
  with assms \<open>num_end r\<close> show "parse_value f (json_encode v @ r) = Some (v, r)" by simp
qed

lemma num_end_delims [simp]:
  "num_end []" "num_end (CHR '','' # r)" "num_end (CHR '']'' # r)" "num_end (CHR ''}'' # r)"
  "num_end (CHR 0x0A # r)"
  by (simp_all add: num_end_def)

lemma skip_ws_Cons [simp]: "\<not> json_space c \<Longrightarrow> skip_ws (c # s) = c # s"
  by (simp add: skip_ws_def)

lemma isDigit_not_space: "isDigit c \<Longrightarrow> \<not> json_space c"
  by (auto simp: isDigit_def json_space_def)

lemma json_encode_head:
  assumes "json_ok v"
  shows "\<exists>c cs. json_encode v = c # cs \<and> \<not> json_space c \<and> c \<noteq> CHR '']'' \<and> c \<noteq> CHR ''}''"
proof (cases v)
  case (JNum n)
  with assms have "n \<noteq> []" "hd n = CHR ''-'' \<or> isDigit (hd n)" by (auto simp: num_ok_def)
  then show ?thesis using JNum isDigit_not_space [of "hd n"]
    by (cases n) (auto simp: json_space_def isDigit_def)
qed (auto simp: json_string_def json_space_def)

lemma json_space_delims [simp]:
  "\<not> json_space (CHR '','')" "\<not> json_space (CHR '']'')" "\<not> json_space (CHR ''}'')"
  "\<not> json_space (CHR '':'')" "\<not> json_space chr_quote" "\<not> json_space (CHR ''['')"
  "\<not> json_space (CHR ''{'')"
  by (simp_all add: json_space_def)

lemma parse_elems_Join:
  assumes "vs \<noteq> []" "\<forall>v\<in>set vs. json_ok v \<and> reads_back v"
    and "Suc (length (Join (map json_encode vs) '','')) < f"
  shows "parse_elems f (Join (map json_encode vs) '','' @ CHR '']'' # r) = Some (vs, r)"
  using assms
proof (induction vs arbitrary: f rule: induct_list012)
  case (2 v)
  then obtain g where f: "f = Suc g" "length (json_encode v) < g" by (cases f) auto
  with 2 show ?case by (simp add: reads_backD)
next
  case (3 v w vs)
  then obtain g where f: "f = Suc g" by (cases f) auto
  with 3 have "parse_elems g (Join (map json_encode (w # vs)) '','' @ CHR '']'' # r) = Some (w # vs, r)"
    by (intro "3.IH"(2)) auto
  moreover have "parse_value g (json_encode v @ CHR '','' # Join (map json_encode (w # vs)) '','' @ CHR '']'' # r)
      = Some (v, CHR '','' # Join (map json_encode (w # vs)) '','' @ CHR '']'' # r)"
    using 3 f by (intro reads_backD) auto
  ultimately show ?case using f by simp
qed simp

definition json_member :: "string \<times> json \<Rightarrow> string" where
  "json_member kv = json_string (fst kv) @ '':'' @ json_encode (snd kv)"

lemma json_encode_JObj: "json_encode (JObj kvs) = ''{'' @ Join (map json_member kvs) '','' @ ''}''"
  by (simp add: json_member_def case_prod_beta cong: map_cong)

lemma json_member_Cons:
  "json_member (k, v) @ s = chr_quote # (concat (map json_chr k) @ chr_quote # CHR '':'' # (json_encode v @ s))"
  by (simp add: json_member_def json_string_def)

lemma parse_member_step:
  assumes "json_ok v" "reads_back v" "length (json_member (k, v)) < Suc g" "num_end s"
  shows "parse_members (Suc g) (json_member (k, v) @ s) =
    (case skip_ws s of
       [] \<Rightarrow> None
     | d # q \<Rightarrow>
         if d = CHR '','' then map_option (\<lambda>(kvs, p). ((k, v) # kvs, p)) (parse_members g q)
         else if d = CHR ''}'' then Some ([(k, v)], q)
         else None)"
proof -
  have "length (json_encode v) < g"
    using assms(3) by (simp add: json_member_def json_string_def)
  then have "parse_value g (json_encode v @ s) = Some (v, s)"
    using assms by (intro reads_backD) auto
  then show ?thesis
    by (simp add: json_member_Cons parse_str_concat HasPrefix_def)
qed

lemma parse_members_Join:
  assumes "kvs \<noteq> []" "\<forall>kv\<in>set kvs. json_ok (snd kv) \<and> reads_back (snd kv)"
    and "Suc (length (Join (map json_member kvs) '','')) < f"
  shows "parse_members f (Join (map json_member kvs) '','' @ CHR ''}'' # r) = Some (kvs, r)"
  using assms
proof (induction kvs arbitrary: f rule: induct_list012)
  case (2 kv)
  then obtain g k v where f: "f = Suc g" and kv: "kv = (k, v)" by (cases f; cases kv) auto
  with 2 show ?case by (simp del: parse_members.simps add: parse_member_step)
next
  case (3 kv kw kvs)
  then obtain g k v where f: "f = Suc g" and kv: "kv = (k, v)" by (cases f; cases kv) auto
  with 3 have "parse_members g (Join (map json_member (kw # kvs)) '','' @ CHR ''}'' # r) = Some (kw # kvs, r)"
    by (intro "3.IH"(2)) auto
  with 3 f kv show ?case by (simp del: parse_members.simps add: parse_member_step)
qed simp

lemma json_member_head: "\<exists>cs. json_member kv = chr_quote # cs"
  by (simp add: json_member_def json_string_def)

lemma Join_head:
  "xs \<noteq> [] \<Longrightarrow> hd xs = c # cs \<Longrightarrow> \<exists>ds. Join xs sep = c # ds"
  by (cases xs; cases "tl xs") auto

lemma JNum_reads_back:
  assumes "num_ok n"
  shows "reads_back (JNum n)"
proof (rule reads_backI)
  fix g r assume r: "num_end r"
  from assms obtain c cs where n: "n = c # cs" "c = CHR ''-'' \<or> isDigit c"
    by (cases n) (auto simp: num_ok_def)
  have s: "scan_num (n @ r) = Some (n, r)" using assms r by (simp add: num_ok_def)
  have "\<not> json_space c" using n(2) isDigit_not_space [of c] by (auto simp: json_space_def)
  moreover have "c \<noteq> chr_quote" "c \<noteq> CHR ''{''" "c \<noteq> CHR ''[''" "c \<noteq> CHR ''n''" "c \<noteq> CHR ''t''" "c \<noteq> CHR ''f''"
    using n(2) by (auto simp: isDigit_def)
  ultimately show "parse_value (Suc g) (json_encode (JNum n) @ r) = Some (JNum n, r)"
    using s n(1) by (simp add: HasPrefix_def)
qed

lemma JArr_reads_back:
  assumes ok: "\<forall>v\<in>set vs. json_ok v \<and> reads_back v"
  shows "reads_back (JArr vs)"
proof (rule reads_backI)
  fix g r assume "length (json_encode (JArr vs)) \<le> g" "num_end r"
  then have g: "Suc (length (Join (map json_encode vs) '','')) < g" by simp
  show "parse_value (Suc g) (json_encode (JArr vs) @ r) = Some (JArr vs, r)"
  proof (cases vs)
    case Nil
    then show ?thesis by (simp add: HasPrefix_def)
  next
    case (Cons v ws)
    with ok obtain c cs where c: "json_encode v = c # cs" "\<not> json_space c" "c \<noteq> CHR '']''"
      using json_encode_head [of v] by auto
    obtain ds where d: "Join (map json_encode vs) '','' = c # ds"
      using Join_head [of "map json_encode vs" c cs "'',''"] c(1) Cons by auto
    have "vs \<noteq> []" using Cons by simp
    from parse_elems_Join [OF this ok g, of r] d c show ?thesis by (simp add: HasPrefix_def)
  qed
qed

lemma JObj_reads_back:
  assumes ok: "\<forall>kv\<in>set kvs. json_ok (snd kv) \<and> reads_back (snd kv)"
  shows "reads_back (JObj kvs)"
proof (rule reads_backI)
  fix g r assume "length (json_encode (JObj kvs)) \<le> g" "num_end r"
  then have g: "Suc (length (Join (map json_member kvs) '','')) < g"
    by (simp add: json_encode_JObj del: json_encode.simps)
  show "parse_value (Suc g) (json_encode (JObj kvs) @ r) = Some (JObj kvs, r)"
  proof (cases kvs)
    case Nil
    then show ?thesis by (simp add: HasPrefix_def)
  next
    case (Cons kv ws)
    obtain cs where "json_member kv = chr_quote # cs" using json_member_head by blast
    then obtain ds where d: "Join (map json_member kvs) '','' = chr_quote # ds"
      using Join_head [of "map json_member kvs" chr_quote cs "'',''"] Cons by auto
    have "kvs \<noteq> []" using Cons by simp
    from parse_members_Join [OF this ok g, of r] d show ?thesis
      by (simp add: HasPrefix_def json_encode_JObj del: json_encode.simps)
  qed
qed

lemma json_reads_back: "json_ok v \<Longrightarrow> reads_back v"
proof (induction v)
  case JNull
  show ?case by (rule reads_backI) (simp add: HasPrefix_def json_space_def)
next
  case (JBool b)
  show ?case by (rule reads_backI) (simp add: HasPrefix_def json_space_def)
next
  case (JNum n)
  then show ?case by (simp add: JNum_reads_back)
next
  case (JStr s)
  show ?case by (rule reads_backI) (simp add: parse_str_json_string parse_str_concat)
next
  case (JArr vs)
  then show ?case by (intro JArr_reads_back) auto
next
  case (JObj kvs)
  then show ?case by (intro JObj_reads_back) (auto intro: snds.intros)
qed

theorem json_Unmarshal_encode: "json_ok v \<Longrightarrow> json_Unmarshal (json_encode v) = Some v"
  using reads_backD [OF json_reads_back, of v "Suc (length (json_encode v))" "[]"]
  by (simp add: json_Unmarshal_def skip_ws_def)

theorem json_Decode_encode: "json_ok v \<Longrightarrow> json_Decode (json_encode v) = Some v"
  using reads_backD [OF json_reads_back, of v "Suc (length (json_encode v))" "[]"]
  by (simp add: json_Decode_def)

end
