(* ===== verification/Go_Time.thy ===== *)
theory Go_Time
  imports Go_Prelude
begin

text \<open>
  Instants and durations of Go's package time, and the RFC 3339 text in which encoding/json
  writes an instant. A \<open>time.Time\<close> is an instant: the nanoseconds since 1970-01-01 UTC as an
  \<^typ>\<open>int\<close> (the monotonic reading and the location do not take part in the comparisons the portal
  makes). A \<open>time.Duration\<close> is a number of nanoseconds. Text is written in UTC.
\<close>

type_synonym time = int
type_synonym duration = int

definition Nanosecond :: duration where "Nanosecond = 1"
definition Millisecond :: duration where "Millisecond = 1000000"
definition Second :: duration where "Second = 1000000000"
definition Minute :: duration where "Minute = 60 * Second"
definition Hour :: duration where "Hour = 60 * Minute"

lemmas duration_defs = Nanosecond_def Millisecond_def Second_def Minute_def Hour_def

definition After :: "time \<Rightarrow> time \<Rightarrow> bool" where
  "After t u \<longleftrightarrow> t > u"

definition time_Add :: "time \<Rightarrow> duration \<Rightarrow> time" where
  "time_Add t d = t + d"

definition Unix :: "time \<Rightarrow> int" where
  "Unix t = t div Second"

lemmas time_defs = After_def time_Add_def

section \<open>Civil dates\<close>

text \<open>Day numbers count from 0001-01-01, the zero of Go's calendar; 1970-01-01 is day 719162.\<close>

definition leap :: "nat \<Rightarrow> bool" where
  "leap y \<longleftrightarrow> y mod 4 = 0 \<and> (y mod 100 \<noteq> 0 \<or> y mod 400 = 0)"

definition year_len :: "nat \<Rightarrow> nat" where
  "year_len y = (if leap y then 366 else 365)"

definition month_lens :: "nat \<Rightarrow> nat list" where
  "month_lens y = [31, if leap y then 29 else 28, 31, 30, 31, 30, 31, 31, 30, 31, 30, 31]"

function split_year :: "nat \<Rightarrow> nat \<Rightarrow> nat \<times> nat" where
  "split_year y d = (if d < year_len y then (y, d) else split_year (Suc y) (d - year_len y))"
  by pat_completeness auto
termination
  by (relation "measure snd") (auto simp: year_len_def split: if_splits)

declare split_year.simps [simp del]

fun split_month :: "nat \<Rightarrow> nat list \<Rightarrow> nat \<Rightarrow> nat \<times> nat" where
  "split_month m [] d = (m, d)"
| "split_month m (l # ls) d = (if d < l then (m, d) else split_month (Suc m) ls (d - l))"

text \<open>Year, month (from 1) and day of the month (from 1) of a day number.\<close>

definition civil_of_day :: "nat \<Rightarrow> nat \<times> nat \<times> nat" where
  "civil_of_day n =
     (let (y, yd) = split_year 1 n;
          (m, md) = split_month 1 (month_lens y) yd
      in (y, m, md + 1))"

definition day_of_civil :: "nat \<Rightarrow> nat \<Rightarrow> nat \<Rightarrow> nat" where
  "day_of_civil y m d =
     sum_list (map year_len [1..<y]) + sum_list (take (m - 1) (month_lens y)) + (d - 1)"

section \<open>RFC 3339\<close>

definition pad :: "nat \<Rightarrow> nat \<Rightarrow> string" where
  "pad w n = replicate (w - length (show_nat n)) (CHR ''0'') @ show_nat n"

text \<open>Nanoseconds with trailing zeros dropped, none at all when the fraction is zero.\<close>

definition frac_text :: "nat \<Rightarrow> string" where
  "frac_text ns = (if ns = 0 then [] else CHR ''.'' # TrimRight (pad 9 ns) (CHR ''0''))"

definition MarshalTime :: "time \<Rightarrow> string option" where
  "MarshalTime t =
     (let secs = t div Second;
          ns = nat (t mod Second);
          day = secs div 86400 + 719162;
          sod = nat (secs mod 86400);
          (y, m, d) = civil_of_day (nat day)
      in if day < 0 \<or> y > 9999 then None
         else Some (pad 4 y @ ''-'' @ pad 2 m @ ''-'' @ pad 2 d @ ''T''
           @ pad 2 (sod div 3600) @ '':'' @ pad 2 (sod div 60 mod 60) @ '':'' @ pad 2 (sod mod 60)
           @ frac_text ns @ ''Z''))"

definition read_width :: "nat \<Rightarrow> string \<Rightarrow> (nat \<times> string) option" where
  "read_width w s =
     (if length (take w s) = w \<and> list_all isDigit (take w s)
      then Some (read_nat (take w s), drop w s) else None)"

definition expect :: "char \<Rightarrow> string \<Rightarrow> string option" where
  "expect c s = (case s of [] \<Rightarrow> None | x # r \<Rightarrow> if x = c then Some r else None)"

text \<open>The fraction: digits after a dot, those past the ninth are dropped.\<close>

definition read_frac :: "string \<Rightarrow> (nat \<times> string) option" where
  "read_frac s =
     (case expect (CHR ''.'') s of
        None \<Rightarrow> Some (0, s)
      | Some r \<Rightarrow>
          (let ds = takeWhile isDigit r
           in if ds = [] then None
              else Some (read_nat (take 9 (ds @ replicate 9 (CHR ''0''))), dropWhile isDigit r)))"

definition read_zone :: "string \<Rightarrow> int option" where
  "read_zone s =
     (case s of
        [] \<Rightarrow> None
      | c # r \<Rightarrow>
          if c = CHR ''Z'' then (if r = [] then Some 0 else None)
          else if c = CHR ''+'' \<or> c = CHR ''-'' then
            do { (h, r1) \<leftarrow> read_width 2 r; r2 \<leftarrow> expect (CHR '':'') r1; (m, r3) \<leftarrow> read_width 2 r2;
                 if r3 = [] \<and> h < 24 \<and> m < 60
                 then Some ((if c = CHR ''-'' then -1 else 1) * int (h * 3600 + m * 60)) else None }
          else None)"

definition UnmarshalTime :: "string \<Rightarrow> time option" where
  "UnmarshalTime s =
     do { (y, s1) \<leftarrow> read_width 4 s; s2 \<leftarrow> expect (CHR ''-'') s1;
          (m, s3) \<leftarrow> read_width 2 s2; s4 \<leftarrow> expect (CHR ''-'') s3;
          (d, s5) \<leftarrow> read_width 2 s4; s6 \<leftarrow> expect (CHR ''T'') s5;
          (hh, s7) \<leftarrow> read_width 2 s6; s8 \<leftarrow> expect (CHR '':'') s7;
          (mm, s9) \<leftarrow> read_width 2 s8; s10 \<leftarrow> expect (CHR '':'') s9;
          (ss, s11) \<leftarrow> read_width 2 s10;
          (ns, s12) \<leftarrow> read_frac s11;
          off \<leftarrow> read_zone s12;
          if 1 \<le> y \<and> 1 \<le> m \<and> m \<le> 12 \<and> 1 \<le> d \<and> d \<le> month_lens y ! (m - 1)
             \<and> hh < 24 \<and> mm < 60 \<and> ss < 60
          then Some (((int (day_of_civil y m d) - 719162) * 86400
                       + int (hh * 3600 + mm * 60 + ss) - off) * Second + int ns)
          else None }"

section \<open>Lemmas on dates\<close>

lemma year_len_pos [simp]: "0 < year_len y"
  by (simp add: year_len_def)

lemma split_year_spec:
  "split_year y d = (y', d') \<Longrightarrow>
     y \<le> y' \<and> d = sum_list (map year_len [y..<y']) + d' \<and> d' < year_len y'"
proof (induction y d arbitrary: y' d' rule: split_year.induct)
  case (1 y d)
  show ?case
  proof (cases "d < year_len y")
    case True
    with "1.prems" show ?thesis by (simp add: split_year.simps [of y d])
  next
    case False
    with "1.prems" have "split_year (Suc y) (d - year_len y) = (y', d')"
      by (simp add: split_year.simps [of y d])
    from "1.IH" [OF False this]
    have *: "Suc y \<le> y'" "d - year_len y = sum_list (map year_len [Suc y..<y']) + d'"
      "d' < year_len y'" by auto
    then have "[y..<y'] = y # [Suc y..<y']" by (simp add: upt_conv_Cons)
    with * False show ?thesis by simp
  qed
qed

lemma sum_month_lens: "sum_list (month_lens y) = year_len y"
  by (simp add: month_lens_def year_len_def)

lemma split_month_spec:
  "d < sum_list ls \<Longrightarrow> split_month m ls d = (m', d') \<Longrightarrow>
     m \<le> m' \<and> m' - m < length ls \<and> d = sum_list (take (m' - m) ls) + d' \<and> d' < ls ! (m' - m)"
proof (induction ls arbitrary: m d)
  case (Cons l ls)
  show ?case
  proof (cases "d < l")
    case True
    with Cons.prems show ?thesis by simp
  next
    case False
    with Cons.prems Cons.IH [of "d - l" "Suc m"]
    have *: "Suc m \<le> m'" "m' - Suc m < length ls"
      "d - l = sum_list (take (m' - Suc m) ls) + d'" "d' < ls ! (m' - Suc m)" by auto
    then have "m' - m = Suc (m' - Suc m)" by simp
    with * False show ?thesis by simp
  qed
qed simp

lemma civil_of_day_spec:
  assumes "civil_of_day n = (y, m, d)"
  shows "day_of_civil y m d = n" "1 \<le> y" "1 \<le> m" "m \<le> 12" "1 \<le> d" "d \<le> month_lens y ! (m - 1)"
proof -
  obtain yd md where y: "split_year 1 n = (y, yd)" and m: "split_month 1 (month_lens y) yd = (m, md)"
    and d: "d = md + 1"
    using assms by (auto simp: civil_of_day_def split: prod.splits)
  from split_year_spec [OF y]
  have ys: "1 \<le> y" "n = sum_list (map year_len [1..<y]) + yd" "yd < year_len y" by auto
  then have "yd < sum_list (month_lens y)" by (simp add: sum_month_lens)
  from split_month_spec [OF this m]
  have ms: "1 \<le> m" "m - 1 < length (month_lens y)"
    "yd = sum_list (take (m - 1) (month_lens y)) + md" "md < month_lens y ! (m - 1)" by auto
  have "length (month_lens y) = 12" by (simp add: month_lens_def)
  with ys ms d show "day_of_civil y m d = n" "1 \<le> y" "1 \<le> m" "m \<le> 12" "1 \<le> d"
    "d \<le> month_lens y ! (m - 1)"
    by (simp_all add: day_of_civil_def)
qed

section \<open>The text of an instant reads back\<close>

lemma length_show_nat: "0 < w \<Longrightarrow> n < 10 ^ w \<Longrightarrow> length (show_nat n) \<le> w"
proof (induction w arbitrary: n)
  case (Suc w)
  show ?case
  proof (cases "n < 10")
    case True
    then show ?thesis by (subst show_nat.simps) simp
  next
    case False
    with Suc.prems have "w \<noteq> 0" by (cases w) auto
    moreover have "n div 10 < 10 ^ w" using Suc.prems by (simp add: less_mult_imp_div_less mult.commute)
    ultimately show ?thesis using Suc.IH [of "n div 10"] False by (subst show_nat.simps) simp
  qed
qed simp

lemma foldl_zeros:
  "foldl (\<lambda>n c. 10 * n + chr_digit c) 0 (replicate k (CHR ''0'') @ s)
     = foldl (\<lambda>n c. 10 * n + chr_digit c) 0 s"
  by (induction k) (simp_all add: chr_digit_def)

lemma pad_props:
  assumes "0 < w" "n < 10 ^ w"
  shows length_pad: "length (pad w n) = w" and pad_digits: "list_all isDigit (pad w n)"
    and read_pad: "read_nat (pad w n) = n"
proof -
  show "length (pad w n) = w" using length_show_nat [OF assms] by (simp add: pad_def)
  show "list_all isDigit (pad w n)"
    using show_nat_digits [of n] by (auto simp: pad_def list_all_iff) (simp add: isDigit_def)
  show "read_nat (pad w n) = n"
    using read_show_nat [of n] foldl_zeros by (simp add: pad_def read_nat_def del: foldl_append)
qed

lemma read_width_pad: "0 < w \<Longrightarrow> n < 10 ^ w \<Longrightarrow> read_width w (pad w n @ s) = Some (n, s)"
  by (simp add: read_width_def length_pad pad_digits read_pad)

lemma expect_Cons [simp]: "expect c (c # s) = Some s"
  by (simp add: expect_def)

lemma read_frac_text:
  assumes "ns < 10 ^ 9"
  shows "read_frac (frac_text ns @ ''Z'') = Some (ns, ''Z'')"
proof (cases "ns = 0")
  case True
  then show ?thesis by (simp add: frac_text_def read_frac_def expect_def)
next
  case False
  let ?p = "pad 9 ns" and ?t = "TrimRight (pad 9 ns) (CHR ''0'')"
  obtain k where k: "?p = ?t @ replicate k (CHR ''0'')" using TrimRight_suffix by blast
  have p: "length ?p = 9" "list_all isDigit ?p" "read_nat ?p = ns"
    using assms by (simp_all add: length_pad pad_digits read_pad)
  have d: "list_all isDigit ?t" using p(2) k by (metis list_all_append)
  have z: "\<not> isDigit (CHR ''Z'')" by (simp add: isDigit_def)
  have ne: "?t \<noteq> []"
  proof
    assume "?t = []"
    with k have "?p = replicate k (CHR ''0'')" by simp
    then have "read_nat ?p = 0" using foldl_zeros [of k "[]"] by (simp add: read_nat_def)
    with p False show False by simp
  qed
  have tw: "takeWhile isDigit (?t @ ''Z'') = ?t" "dropWhile isDigit (?t @ ''Z'') = ''Z''"
    using d z by (simp_all add: takeWhile_append2 dropWhile_append2 list_all_iff)
  have "length ?t + k = 9" using p(1) k by (metis length_append length_replicate)
  then have "take 9 (?t @ replicate 9 (CHR ''0'')) = ?p"
    by (subst (2) k) (auto simp: min_def)
  with False ne tw p show ?thesis by (simp add: frac_text_def read_frac_def)
qed

lemma day_parts:
  fixes t :: int
  defines "secs \<equiv> t div Second"
  shows "(secs div 86400) * 86400 + secs mod 86400 = secs"
    "secs * Second + t mod Second = t"
    "0 \<le> secs mod 86400" "secs mod 86400 < 86400" "0 \<le> t mod Second" "t mod Second < 10 ^ 9"
  by (simp_all add: secs_def Second_def)

lemma sod_parts:
  fixes s :: nat
  assumes "s < 86400"
  shows "s div 3600 < 24" "s div 60 mod 60 < 60" "s mod 60 < 60"
    "s div 3600 * 3600 + s div 60 mod 60 * 60 + s mod 60 = s"
proof -
  have "s div 3600 = s div 60 div 60" by (simp add: div_mult2_eq [symmetric])
  then show "s div 3600 * 3600 + s div 60 mod 60 * 60 + s mod 60 = s"
    using div_mult_mod_eq [of s 60] div_mult_mod_eq [of "s div 60" 60] by linarith
qed (use assms in simp_all)

lemma Unmarshal_fields:
  assumes "1 \<le> y" "y \<le> 9999" "1 \<le> m" "m \<le> 12" "1 \<le> d" "d \<le> month_lens y ! (m - 1)"
    "hh < 24" "mm < 60" "ss < 60" "ns < 10 ^ 9"
  shows "UnmarshalTime (pad 4 y @ ''-'' @ pad 2 m @ ''-'' @ pad 2 d @ ''T''
      @ pad 2 hh @ '':'' @ pad 2 mm @ '':'' @ pad 2 ss @ frac_text ns @ ''Z'')
    = Some (((int (day_of_civil y m d) - 719162) * 86400
                       + int (hh * 3600 + mm * 60 + ss)) * Second + int ns)"
proof -
  have "\<forall>l\<in>set (month_lens y). l \<le> 31" by (simp add: month_lens_def)
  moreover have "month_lens y ! (m - 1) \<in> set (month_lens y)"
    using assms by (intro nth_mem) (simp add: month_lens_def)
  ultimately have "d \<le> 31" using assms by (meson le_trans)
  moreover have "read_zone ''Z'' = Some 0" by (simp add: read_zone_def)
  ultimately show ?thesis
    using assms by (simp add: UnmarshalTime_def read_width_pad read_frac_text)
qed

lemma UnmarshalTime_MarshalTime:
  assumes "MarshalTime t = Some s"
  shows "UnmarshalTime s = Some t"
proof -
  define secs where "secs = t div Second"
  define sod where "sod = nat (secs mod 86400)"
  obtain y m d where c: "civil_of_day (nat (secs div 86400 + 719162)) = (y, m, d)" by (metis prod_cases3)
  from assms c have y: "0 \<le> secs div 86400 + 719162" "y \<le> 9999" and
    s: "s = pad 4 y @ ''-'' @ pad 2 m @ ''-'' @ pad 2 d @ ''T'' @ pad 2 (sod div 3600) @ '':''
       @ pad 2 (sod div 60 mod 60) @ '':'' @ pad 2 (sod mod 60) @ frac_text (nat (t mod Second)) @ ''Z''"
    by (auto simp: MarshalTime_def Let_def secs_def sod_def split: if_splits)
  note p = day_parts [of t, folded secs_def]
  have sod: "sod < 86400" "int sod = secs mod 86400" using p(3,4) by (simp_all add: sod_def)
  have ns: "nat (t mod Second) < 10 ^ 9" using p(5,6) by (simp add: nat_less_iff)
  note cs = civil_of_day_spec [OF c] and sp = sod_parts [OF sod(1)]
  have "int (day_of_civil y m d) - 719162 = secs div 86400" using cs(1) y(1) by simp
  then have "((int (day_of_civil y m d) - 719162) * 86400 + int sod) * Second + int (nat (t mod Second)) = t"
    using p sod(2) by simp
  then show ?thesis
    unfolding s using Unmarshal_fields [OF cs(2) y(2) cs(3-6) sp(1-3) ns] sp(4) by simp
qed

end
