(* ===== verification/Go_Crypto.thy ===== *)
theory Go_Crypto
  imports Go_Encoding
begin

unbundle bit_operations_syntax

text \<open>
  Go's crypto/sha256, crypto/hmac and crypto/subtle as the portal uses them: SHA-256 on
  32-bit words, HMAC over it, and the constant-time comparison, which computes equality.
\<close>

type_synonym w32 = "32 word"

section \<open>SHA-256\<close>

definition rotr :: "nat \<Rightarrow> w32 \<Rightarrow> w32" where
  "rotr n x = drop_bit n x OR push_bit (32 - n) x"

definition sha_Ch :: "w32 \<Rightarrow> w32 \<Rightarrow> w32 \<Rightarrow> w32" where
  "sha_Ch x y z = (x AND y) XOR (NOT x AND z)"

definition sha_Maj :: "w32 \<Rightarrow> w32 \<Rightarrow> w32 \<Rightarrow> w32" where
  "sha_Maj x y z = (x AND y) XOR (x AND z) XOR (y AND z)"

definition sha_S0 :: "w32 \<Rightarrow> w32" where
  "sha_S0 x = rotr 2 x XOR rotr 13 x XOR rotr 22 x"

definition sha_S1 :: "w32 \<Rightarrow> w32" where
  "sha_S1 x = rotr 6 x XOR rotr 11 x XOR rotr 25 x"

definition sha_s0 :: "w32 \<Rightarrow> w32" where
  "sha_s0 x = rotr 7 x XOR rotr 18 x XOR drop_bit 3 x"

definition sha_s1 :: "w32 \<Rightarrow> w32" where
  "sha_s1 x = rotr 17 x XOR rotr 19 x XOR drop_bit 10 x"

text \<open>
  The constants, by their derivation: the first 32 bits of the fractional parts of the cube roots of
  the first 64 primes (round constants) and of the square roots of the first 8 (initial state). The
  integer root of \<open>n\<close> is found bit by bit.
\<close>

fun int_root :: "nat \<Rightarrow> nat \<Rightarrow> nat \<Rightarrow> nat \<Rightarrow> nat" where
  "int_root k n 0 acc = acc"
| "int_root k n (Suc b) acc = int_root k n b (if (acc + 2 ^ b) ^ k \<le> n then acc + 2 ^ b else acc)"

definition root_frac :: "nat \<Rightarrow> nat \<Rightarrow> w32" where
  "root_frac k p = word_of_nat (int_root k (p * 2 ^ (32 * k)) 36 0)"

definition sha_primes :: "nat list" where
  "sha_primes =
    [2, 3, 5, 7, 11, 13, 17, 19, 23, 29, 31, 37, 41, 43, 47, 53,
     59, 61, 67, 71, 73, 79, 83, 89, 97, 101, 103, 107, 109, 113, 127, 131,
     137, 139, 149, 151, 157, 163, 167, 173, 179, 181, 191, 193, 197, 199, 211, 223,
     227, 229, 233, 239, 241, 251, 257, 263, 269, 271, 277, 281, 283, 293, 307, 311]"

definition sha_K :: "w32 list" where
  "sha_K = map (root_frac 3) sha_primes"

datatype sha_state = SHA w32 w32 w32 w32 w32 w32 w32 w32

definition sha_H0 :: sha_state where
  "sha_H0 = SHA (root_frac 2 2) (root_frac 2 3) (root_frac 2 5) (root_frac 2 7)
     (root_frac 2 11) (root_frac 2 13) (root_frac 2 17) (root_frac 2 19)"

fun sha_round :: "w32 \<times> w32 \<Rightarrow> sha_state \<Rightarrow> sha_state" where
  "sha_round (k, w) (SHA a b c d e f g h) =
     (let t1 = h + sha_S1 e + sha_Ch e f g + k + w;
          t2 = sha_S0 a + sha_Maj a b c
      in SHA (t1 + t2) a b c (d + t1) e f g)"

text \<open>The message schedule, kept with the newest word first.\<close>

definition sha_next :: "w32 list \<Rightarrow> w32" where
  "sha_next ws = sha_s1 (ws ! 1) + ws ! 6 + sha_s0 (ws ! 14) + ws ! 15"

primrec sha_extend :: "nat \<Rightarrow> w32 list \<Rightarrow> w32 list" where
  "sha_extend 0 ws = ws"
| "sha_extend (Suc n) ws = sha_extend n (sha_next ws # ws)"

fun sha_add :: "sha_state \<Rightarrow> sha_state \<Rightarrow> sha_state" where
  "sha_add (SHA a b c d e f g h) (SHA a' b' c' d' e' f' g' h') =
     SHA (a + a') (b + b') (c + c') (d + d') (e + e') (f + f') (g + g') (h + h')"

definition byte_word :: "char \<Rightarrow> w32" where
  "byte_word c = word_of_nat (of_char c)"

fun be_words :: "string \<Rightarrow> w32 list" where
  "be_words (a # b # c # d # s) =
     (push_bit 24 (byte_word a) OR push_bit 16 (byte_word b) OR push_bit 8 (byte_word c) OR byte_word d)
     # be_words s"
| "be_words _ = []"

definition word_bytes :: "w32 \<Rightarrow> string" where
  "word_bytes w = map (\<lambda>n. char_of (unat (drop_bit n w AND 0xff))) [24, 16, 8, 0]"

definition sha_block :: "sha_state \<Rightarrow> string \<Rightarrow> sha_state" where
  "sha_block st b =
     (let ws = rev (sha_extend 48 (rev (be_words b)))
      in sha_add st (fold sha_round (zip sha_K ws) st))"

definition sha_pad :: "string \<Rightarrow> string" where
  "sha_pad m =
     (let l = length m;
          z = (119 - l mod 64) mod 64;
          bits = 8 * (word_of_nat l :: 64 word)
      in m @ [char_of (128 :: nat)] @ replicate z (char_of (0 :: nat))
         @ map (\<lambda>i. char_of (unat (drop_bit i bits AND 0xff))) [56, 48, 40, 32, 24, 16, 8, 0])"

function chunks :: "nat \<Rightarrow> 'a list \<Rightarrow> 'a list list" where
  "chunks n xs = (if n = 0 \<or> xs = [] then [] else take n xs # chunks n (drop n xs))"
  by pat_completeness auto
termination
  by (relation "measure (\<lambda>(n, xs). length xs)") auto

declare chunks.simps [simp del]

fun sha_bytes :: "sha_state \<Rightarrow> string" where
  "sha_bytes (SHA a b c d e f g h) = concat (map word_bytes [a, b, c, d, e, f, g, h])"

definition Sum256 :: "string \<Rightarrow> string" where
  "Sum256 m = sha_bytes (foldl sha_block sha_H0 (chunks 64 (sha_pad m)))"

section \<open>HMAC and comparison\<close>

definition xor_byte :: "nat \<Rightarrow> char \<Rightarrow> char" where
  "xor_byte k c = char_of (of_char c XOR k)"

definition hmac_key :: "string \<Rightarrow> string" where
  "hmac_key key =
     (let k = (if length key > 64 then Sum256 key else key)
      in k @ replicate (64 - length k) (char_of (0 :: nat)))"

definition hmac_sha256 :: "string \<Rightarrow> string \<Rightarrow> string" where
  "hmac_sha256 key msg =
     (let k = hmac_key key
      in Sum256 (map (xor_byte 0x5c) k @ Sum256 (map (xor_byte 0x36) k @ msg)))"

text \<open>
  subtle.ConstantTimeCompare gives 1 exactly when the slices have the same length and the
  same bytes, in a running time that does not depend on the bytes. hmac.Equal is
  \<open>ConstantTimeCompare a b = 1\<close>.
\<close>

definition ct_or :: "string \<Rightarrow> string \<Rightarrow> nat" where
  "ct_or a b = foldl (\<lambda>v (x, y). v OR ((of_char x :: nat) XOR of_char y)) 0 (zip a b)"

definition ConstantTimeCompare :: "string \<Rightarrow> string \<Rightarrow> int" where
  "ConstantTimeCompare a b =
     (if length a \<noteq> length b then 0 else if ct_or a b = 0 then 1 else 0)"

definition hmac_Equal :: "string \<Rightarrow> string \<Rightarrow> bool" where
  "hmac_Equal a b \<longleftrightarrow> ConstantTimeCompare a b = 1"

section \<open>Lemmas\<close>

lemma length_Sum256 [simp]: "length (Sum256 m) = 32"
  by (cases "foldl sha_block sha_H0 (chunks 64 (sha_pad m))")
    (simp add: Sum256_def word_bytes_def)

lemma Sum256_not_Nil [simp]: "Sum256 m \<noteq> []"
  using length_Sum256 [of m] by (metis list.size(3) zero_neq_numeral)

lemma length_hmac [simp]: "length (hmac_sha256 k m) = 32"
  by (simp add: hmac_sha256_def Let_def)

lemma length_hmac_key [simp]: "length (hmac_key key) = 64"
  by (simp add: hmac_key_def Let_def)

lemma nat_or_eq_0: "((a :: nat) OR b) = 0 \<longleftrightarrow> a = 0 \<and> b = 0"
  by (metis or.left_neutral or.right_idem or_eq_0_iff)

lemma nat_xor_eq_0: "((a :: nat) XOR b) = 0 \<longleftrightarrow> a = b"
  by (metis xor.assoc xor.left_neutral xor.right_neutral xor_self_eq)

lemma ct_or_foldl:
  "foldl (\<lambda>v (x, y). v OR ((of_char x :: nat) XOR of_char y)) v xs = 0
    \<longleftrightarrow> v = 0 \<and> (\<forall>(x, y)\<in>set xs. x = y)"
proof (induction xs arbitrary: v)
  case (Cons p xs)
  then show ?case by (cases p) (auto simp: nat_or_eq_0 nat_xor_eq_0)
qed simp

lemma zip_eq_iff: "length a = length b \<Longrightarrow> (\<forall>(x, y)\<in>set (zip a b). x = y) \<longleftrightarrow> a = b"
  by (induction a b rule: list_induct2) auto

theorem ConstantTimeCompare_iff: "ConstantTimeCompare a b = 1 \<longleftrightarrow> a = b"
proof (cases "length a = length b")
  case True
  then show ?thesis
    by (auto simp: ConstantTimeCompare_def ct_or_def ct_or_foldl zip_eq_iff)
next
  case False
  then show ?thesis by (auto simp: ConstantTimeCompare_def)
qed

lemma hmac_Equal_iff [simp]: "hmac_Equal a b \<longleftrightarrow> a = b"
  by (simp add: hmac_Equal_def ConstantTimeCompare_iff)

end
