(* ===== verification/Go_HTTP.thy ===== *)
theory Go_HTTP
  imports Go_URL Go_JSON Go_Time Go_Crypto
begin

text \<open>
  The environment of the portal and what it uses of net/http. The environment is a record: the
  readings of the clock, the bytes of crypto/rand, the answers of the services the portal calls
  over HTTP with the requests it has sent, the order in which a range visits a map, and the
  texts of the errors the standard library makes. A handler takes a \<open>ResponseWriter\<close> and a
  request; the writer is a value, threaded through the calls that write to it.
\<close>

section \<open>The environment\<close>

record http_request =
  ro_method :: string
  ro_url :: string
  ro_header :: "(string \<times> string) list"
  ro_body :: string

text \<open>The result of \<open>client.Do\<close>; the flag tells that reading the body fails.\<close>

datatype http_result = NetErr error
  | HttpResp (hr_status: nat) (hr_header: "(string \<times> string) list") (hr_body: string) (hr_broken: bool)

record world =
  clock :: "nat \<Rightarrow> time"
  ticks :: nat
  entropy :: "nat \<Rightarrow> nat \<Rightarrow> char"
  entropy_ok :: "nat \<Rightarrow> bool"
  draws :: nat
  peer :: "nat \<Rightarrow> http_request \<Rightarrow> http_result"
  sent :: "http_request list"
  order :: "nat \<Rightarrow> string list \<Rightarrow> string list"
  ranges :: nat
  err_text :: "string \<Rightarrow> error"

type_synonym ('s, 'a) io = "('s \<times> world, 'a) state"

definition time_Now :: "('s, time) io" where
  "time_Now = in_env (State (\<lambda>w. (clock w (ticks w), w\<lparr>ticks := Suc (ticks w)\<rparr>)))"

definition draw_bytes :: "world \<Rightarrow> nat \<Rightarrow> string" where
  "draw_bytes w n = map (entropy w (draws w)) [0..<n]"

definition rand_Read :: "nat \<Rightarrow> ('s, error + string) io" where
  "rand_Read n = in_env (State (\<lambda>w.
     (if entropy_ok w (draws w) then Inr (draw_bytes w n) else Inl (err_text w ''rand''),
      w\<lparr>draws := Suc (draws w)\<rparr>)))"

definition client_Do :: "http_request \<Rightarrow> ('s, http_result) io" where
  "client_Do rq = in_env (State (\<lambda>w. (peer w (length (sent w)) rq, w\<lparr>sent := sent w @ [rq]\<rparr>)))"

definition range_map :: "'v gomap \<Rightarrow> ('s, 'v gomap) io" where
  "range_map m = in_env (State (\<lambda>w. (go_range (order w (ranges w)) m, w\<lparr>ranges := Suc (ranges w)\<rparr>)))"

definition error_for :: "string \<Rightarrow> ('s, error) io" where
  "error_for what = in_env (gets (\<lambda>w. err_text w what))"

text \<open>The state of a component, the first half of the pair.\<close>

definition get_st :: "('s \<Rightarrow> 'a) \<Rightarrow> ('s, 'a) io" where
  "get_st f = gets (\<lambda>(s, w). f s)"

definition mod_st :: "('s \<Rightarrow> 's) \<Rightarrow> ('s, unit) io" where
  "mod_st f = modify (\<lambda>(s, w). (f s, w))"

text \<open>http.NewRequest with a method that is a token: it fails only on a URL that does not parse.\<close>

definition NewRequest :: "string \<Rightarrow> string \<Rightarrow> string \<Rightarrow> ('s, error + http_request) io" where
  "NewRequest method u body =
     (case url_Parse u of
        None \<Rightarrow> do { e \<leftarrow> error_for u; ret (Inl e) }
      | Some _ \<Rightarrow> ret (Inr \<lparr>ro_method = method, ro_url = u, ro_header = [], ro_body = body\<rparr>))"

text \<open>Header.Set, Header.Add, Header.Get and Header.Del on canonical keys.\<close>

definition hdr_Set :: "(string \<times> string) list \<Rightarrow> string \<Rightarrow> string \<Rightarrow> (string \<times> string) list" where
  "hdr_Set h k v = filter (\<lambda>(k', _). k' \<noteq> k) h @ [(k, v)]"

definition hdr_Add :: "(string \<times> string) list \<Rightarrow> string \<Rightarrow> string \<Rightarrow> (string \<times> string) list" where
  "hdr_Add h k v = h @ [(k, v)]"

definition hdr_Get :: "(string \<times> string) list \<Rightarrow> string \<Rightarrow> string" where
  "hdr_Get h k = (case map_of h k of None \<Rightarrow> [] | Some v \<Rightarrow> v)"

definition hdr_Del :: "(string \<times> string) list \<Rightarrow> string \<Rightarrow> (string \<times> string) list" where
  "hdr_Del h k = filter (\<lambda>(k', _). k' \<noteq> k) h"

definition req_Set :: "http_request \<Rightarrow> string \<Rightarrow> string \<Rightarrow> http_request" where
  "req_Set rq k v = rq\<lparr>ro_header := hdr_Set (ro_header rq) k v\<rparr>"

text \<open>\<open>client.Post\<close> and \<open>client.Get\<close>: building the request can fail like sending it.\<close>

definition http_Post :: "string \<Rightarrow> string \<Rightarrow> string \<Rightarrow> ('s, http_result) io" where
  "http_Post u ctype body =
     do { rq \<leftarrow> NewRequest ''POST'' u body;
          case rq of Inl e \<Rightarrow> ret (NetErr e) | Inr rq \<Rightarrow> client_Do (req_Set rq ''Content-Type'' ctype) }"

definition http_Get :: "string \<Rightarrow> ('s, http_result) io" where
  "http_Get u =
     do { rq \<leftarrow> NewRequest ''GET'' u []; case rq of Inl e \<Rightarrow> ret (NetErr e) | Inr rq \<Rightarrow> client_Do rq }"

section \<open>Requests\<close>

text \<open>
  \<open>rq_media\<close> is the result of mime.ParseMediaType on the Content-Type (the type and whether an
  error came with it); \<open>rq_limit\<close> the limit of an http.MaxBytesReader around the body, if any;
  \<open>rq_user\<close> the user id of the UserContext value in the request's context; \<open>rq_escaped\<close> the path
  as it was sent, before percent-decoding (\<open>URL.EscapedPath\<close>); \<open>rq_form\<close> the \<open>Form\<close> field
  once something has parsed it; \<open>rq_multipart\<close> the values mime/multipart reads from a body of type
  multipart/form-data.
\<close>

record request =
  rq_method :: string
  rq_path :: string
  rq_rawquery :: string
  rq_header :: "(string \<times> string) list"
  rq_cookies :: "(string \<times> string) list"
  rq_body :: string
  rq_broken :: bool
  rq_limit :: "nat option"
  rq_media :: "string \<times> bool"
  rq_host :: string
  rq_tls :: bool
  rq_remote :: string
  rq_user :: "string option"
  rq_escaped :: string
  rq_form :: "url_values option"
  rq_multipart :: url_values

definition req_Query :: "request \<Rightarrow> url_values" where
  "req_Query r = fst (ParseQuery (rq_rawquery r))"

text \<open>\<open>URL.RequestURI\<close>: the path as sent with its query.\<close>

definition RequestURI :: "request \<Rightarrow> string" where
  "RequestURI r = (if rq_escaped r = [] then ''/'' else rq_escaped r)
     @ (if rq_rawquery r = [] then [] else ''?'' @ rq_rawquery r)"

definition req_Get :: "request \<Rightarrow> string \<Rightarrow> string" where
  "req_Get r k = hdr_Get (rq_header r) k"

definition req_Cookie :: "request \<Rightarrow> string \<Rightarrow> string option" where
  "req_Cookie r name = (if name = [] then None else map_of (rq_cookies r) name)"

text \<open>What a reader of the body gets, and whether it then meets an error instead of the end.\<close>

definition read_body :: "request \<Rightarrow> string \<times> bool" where
  "read_body r =
     (case rq_limit r of
        Some n \<Rightarrow> if length (rq_body r) > n then (take n (rq_body r), True) else (rq_body r, rq_broken r)
      | None \<Rightarrow> (rq_body r, rq_broken r))"

definition ReadAll :: "request \<Rightarrow> string option" where
  "ReadAll r = (case read_body r of (b, bad) \<Rightarrow> if bad then None else Some b)"

definition maxFormSize :: nat where
  "maxFormSize = 10 * 1024 * 1024"

definition parsePostForm :: "request \<Rightarrow> url_values \<times> bool" where
  "parsePostForm r =
     (if fst (rq_media r) \<noteq> ''application/x-www-form-urlencoded'' then ([], snd (rq_media r))
      else (case ReadAll r of
          None \<Rightarrow> ([], True)
        | Some b \<Rightarrow>
            if rq_limit r = None \<and> length b > maxFormSize then ([], True)
            else (case ParseQuery b of (vs, bad) \<Rightarrow> (vs, snd (rq_media r) \<or> bad))))"

definition copyValues :: "url_values \<Rightarrow> url_values \<Rightarrow> url_values" where
  "copyValues dst src = fold (\<lambda>(k, vs) m. fold (\<lambda>v m. Values_Add m k v) vs m) src dst"

text \<open>\<open>Request.ParseForm\<close>: the form (body values before query values) and whether it failed.\<close>

definition ParseForm :: "request \<Rightarrow> url_values \<times> bool" where
  "ParseForm r =
     (case rq_form r of
        Some f \<Rightarrow> (f, False)
      | None \<Rightarrow>
          let (post, e1) = (if rq_method r \<in> set [''POST'', ''PUT'', ''PATCH'']
                            then parsePostForm r else ([], False));
              (q, e2) = ParseQuery (rq_rawquery r)
          in (copyValues post q, e1 \<or> e2))"

text \<open>\<open>Request.FormValue\<close> after \<open>ParseForm\<close>.\<close>

definition FormValue :: "request \<Rightarrow> string \<Rightarrow> string" where
  "FormValue r k = Values_Get (fst (ParseForm r)) k"

text \<open>
  \<open>Request.FormValue\<close> on a request nothing has parsed yet goes through \<open>ParseMultipartForm\<close>:
  the request it leaves behind has its form set and its body read.
\<close>

definition parse_multipart :: "request \<Rightarrow> request" where
  "parse_multipart r =
     (case rq_form r of
        Some _ \<Rightarrow> r
      | None \<Rightarrow>
          let form = fst (ParseForm r);
              multi = (fst (rq_media r) = ''multipart/form-data'');
              reads = (multi \<or> fst (rq_media r) = ''application/x-www-form-urlencoded''
                               \<and> rq_method r \<in> set [''POST'', ''PUT'', ''PATCH''])
          in r\<lparr>rq_form := Some (if multi then copyValues form (rq_multipart r) else form),
               rq_body := (if reads then [] else rq_body r)\<rparr>)"

section \<open>Responses\<close>

datatype samesite = SameSiteDefault | SameSiteLax | SameSiteStrict

record cookie =
  ck_name :: string
  ck_value :: string
  ck_path :: string
  ck_maxage :: int
  ck_httponly :: bool
  ck_secure :: bool
  ck_samesite :: samesite

record response =
  rs_code :: "nat option"
  rs_header :: "(string \<times> string) list"
  rs_cookies :: "cookie list"
  rs_body :: string

definition new_response :: response where
  "new_response = \<lparr>rs_code = None, rs_header = [], rs_cookies = [], rs_body = []\<rparr>"

text \<open>The status the client sees: 200 when nothing wrote one. Headers freeze once it is written.\<close>

definition status_of :: "response \<Rightarrow> nat" where
  "status_of w = (case rs_code w of None \<Rightarrow> 200 | Some c \<Rightarrow> c)"

definition WriteHeader :: "nat \<Rightarrow> response \<Rightarrow> response" where
  "WriteHeader c w = (if rs_code w = None then w\<lparr>rs_code := Some c\<rparr> else w)"

definition Header_Set :: "string \<Rightarrow> string \<Rightarrow> response \<Rightarrow> response" where
  "Header_Set k v w = (if rs_code w = None then w\<lparr>rs_header := hdr_Set (rs_header w) k v\<rparr> else w)"

definition Header_Add :: "string \<Rightarrow> string \<Rightarrow> response \<Rightarrow> response" where
  "Header_Add k v w = (if rs_code w = None then w\<lparr>rs_header := hdr_Add (rs_header w) k v\<rparr> else w)"

definition Header_Del :: "string \<Rightarrow> response \<Rightarrow> response" where
  "Header_Del k w = (if rs_code w = None then w\<lparr>rs_header := hdr_Del (rs_header w) k\<rparr> else w)"

definition SetCookie :: "cookie \<Rightarrow> response \<Rightarrow> response" where
  "SetCookie c w = (if rs_code w = None then w\<lparr>rs_cookies := rs_cookies w @ [c]\<rparr> else w)"

definition Write :: "string \<Rightarrow> response \<Rightarrow> response" where
  "Write b w = (let w = WriteHeader 200 w in w\<lparr>rs_body := rs_body w @ b\<rparr>)"

definition http_Error :: "string \<Rightarrow> nat \<Rightarrow> response \<Rightarrow> response" where
  "http_Error msg code w =
     Write (msg @ [CHR 0x0A])
       (WriteHeader code
         (Header_Set ''X-Content-Type-Options'' ''nosniff''
           (Header_Set ''Content-Type'' ''text/plain; charset=utf-8'' (Header_Del ''Content-Length'' w))))"

text \<open>Adding each of a list of headers.\<close>

definition add_headers :: "(string \<times> string) list \<Rightarrow> response \<Rightarrow> response" where
  "add_headers hs w = fold (\<lambda>(k, v) w. Header_Add k v w) hs w"

text \<open>io.ReadAll(io.LimitReader(body, n)), None when the connection breaks before the limit.\<close>

definition LimitRead :: "nat \<Rightarrow> string \<Rightarrow> bool \<Rightarrow> string option" where
  "LimitRead n body broken =
     (if n \<le> length body then Some (take n body) else if broken then None else Some body)"

text \<open>json.NewEncoder(w).Encode: the text of the value and a line feed.\<close>

definition Encode_json :: "json \<Rightarrow> response \<Rightarrow> response" where
  "Encode_json v w = Write (json_encode v @ [CHR 0x0A]) w"

text \<open>path.Clean: segments with empty, dot and dot-dot ones resolved.\<close>

fun clean_segs :: "bool \<Rightarrow> string list \<Rightarrow> string list \<Rightarrow> string list" where
  "clean_segs rooted out [] = rev out"
| "clean_segs rooted out (s # ss) =
     (if s = [] \<or> s = ''.'' then clean_segs rooted out ss
      else if s = ''..'' then
        (case out of
           [] \<Rightarrow> clean_segs rooted (if rooted then [] else [s]) ss
         | o1 # os \<Rightarrow> if o1 = ''..'' then clean_segs rooted (s # out) ss else clean_segs rooted os ss)
      else clean_segs rooted (s # out) ss)"

definition path_Clean :: "string \<Rightarrow> string" where
  "path_Clean p =
     (if p = [] then ''.''
      else let rooted = HasPrefix p ''/'';
               out = Join (clean_segs rooted [] (Split p (CHR ''/''))) ''/''
           in if rooted then CHR ''/'' # out else if out = [] then ''.'' else out)"

text \<open>The absolute form http.Redirect gives a target without scheme and host.\<close>

definition redirect_target :: "string \<Rightarrow> string \<Rightarrow> string" where
  "redirect_target oldpath u =
     (case url_Parse u of
        None \<Rightarrow> u
      | Some p \<Rightarrow>
          if u_scheme p \<noteq> [] \<or> u_host p \<noteq> [] then u
          else let op = (if oldpath = [] then ''/'' else oldpath);
                   dir = rev (dropWhile (\<lambda>c. c \<noteq> CHR ''/'') (rev op));
                   full = (if HasPrefix u ''/'' then u else dir @ u);
                   path = takeWhile (\<lambda>c. c \<noteq> CHR ''?'') full;
                   query = drop (length path) full;
                   cl = path_Clean path
               in (if HasSuffix path ''/'' \<and> \<not> HasSuffix cl ''/'' then cl @ ''/'' else cl) @ query)"

definition hexEscapeNonASCII :: "string \<Rightarrow> string" where
  "hexEscapeNonASCII s =
     concat (map (\<lambda>c. if of_char c < (128::nat) then [c]
                      else [CHR ''%'', upper_hex (of_char c div 16), upper_hex (of_char c mod 16)]) s)"

definition html_escape_chr :: "char \<Rightarrow> string" where
  "html_escape_chr c =
     (if c = CHR ''&'' then ''&amp;'' else if c = CHR ''<'' then ''&lt;''
      else if c = CHR ''>'' then ''&gt;'' else if c = CHR 0x22 then ''&#34;''
      else if c = CHR 0x27 then ''&#39;'' else [c])"

definition StatusText :: "nat \<Rightarrow> string" where
  "StatusText c = (case map_of [(200, ''OK''), (201, ''Created''), (204, ''No Content''),
     (301, ''Moved Permanently''), (302, ''Found''), (303, ''See Other''), (307, ''Temporary Redirect''),
     (400, ''Bad Request''), (401, ''Unauthorized''), (403, ''Forbidden''), (404, ''Not Found''),
     (405, ''Method Not Allowed''), (500, ''Internal Server Error''), (502, ''Bad Gateway''),
     (503, ''Service Unavailable''), (504, ''Gateway Timeout'')] c of None \<Rightarrow> [] | Some t \<Rightarrow> t)"

definition http_Redirect :: "request \<Rightarrow> string \<Rightarrow> nat \<Rightarrow> response \<Rightarrow> response" where
  "http_Redirect r u code w =
     (let target = redirect_target (rq_path r) u;
          hadCT = (map_of (rs_header w) ''Content-Type'' \<noteq> None);
          w1 = Header_Set ''Location'' (hexEscapeNonASCII target) w;
          w2 = (if \<not> hadCT \<and> rq_method r \<in> {''GET'', ''HEAD''}
                then Header_Set ''Content-Type'' ''text/html; charset=utf-8'' w1 else w1);
          w3 = WriteHeader code w2
      in if \<not> hadCT \<and> rq_method r = ''GET''
         then Write (''<a href='' @ [CHR 0x22] @ concat (map html_escape_chr target) @ [CHR 0x22] @ ''>''
                      @ StatusText code @ ''</a>.'' @ [CHR 0x0A, CHR 0x0A]) w3
         else w3)"

definition location_of :: "response \<Rightarrow> string" where
  "location_of w = hdr_Get (rs_header w) ''Location''"

text \<open>A concrete request for examples.\<close>

definition sample_request :: request where
  "sample_request = \<lparr>rq_method = ''GET'', rq_path = ''/'', rq_rawquery = [], rq_header = [], rq_cookies = [],
     rq_body = [], rq_broken = False, rq_limit = None, rq_media = ([], False), rq_host = ''localhost'',
     rq_tls = False, rq_remote = [], rq_user = None, rq_escaped = ''/'', rq_form = None, rq_multipart = []\<rparr>"

text \<open>
  A concrete environment for examples: a clock that advances a second per reading, distinct bytes
  per draw, a peer that answers every request with 404 and an empty body.
\<close>

definition sample_world :: world where
  "sample_world = \<lparr>clock = (\<lambda>n. int n * Second), ticks = 0, entropy = (\<lambda>d i. char_of (16 * d + i)),
     entropy_ok = (\<lambda>_. True), draws = 0, peer = (\<lambda>_ _. HttpResp 404 [] [] False), sent = [],
     order = (\<lambda>_ ks. ks), ranges = 0, err_text = (\<lambda>_. ''error'')\<rparr>"

section \<open>Lemmas\<close>

lemma run_time_Now [simp]:
  "run_state time_Now (s, w) = (clock w (ticks w), (s, w\<lparr>ticks := Suc (ticks w)\<rparr>))"
  by (simp add: time_Now_def)

lemma run_rand_Read [simp]:
  "run_state (rand_Read n) (s, w) =
     (if entropy_ok w (draws w) then Inr (draw_bytes w n) else Inl (err_text w ''rand''),
      (s, w\<lparr>draws := Suc (draws w)\<rparr>))"
  by (simp add: rand_Read_def)

lemma run_client_Do [simp]:
  "run_state (client_Do rq) (s, w) = (peer w (length (sent w)) rq, (s, w\<lparr>sent := sent w @ [rq]\<rparr>))"
  by (simp add: client_Do_def)

lemma run_range_map [simp]:
  "run_state (range_map m) (s, w) = (go_range (order w (ranges w)) m, (s, w\<lparr>ranges := Suc (ranges w)\<rparr>))"
  by (simp add: range_map_def)

lemma run_error_for [simp]: "run_state (error_for e) (s, w) = (err_text w e, (s, w))"
  by (simp add: error_for_def)

lemma run_get_st [simp]: "run_state (get_st f) (s, w) = (f s, (s, w))"
  by (simp add: get_st_def)

lemma run_mod_st [simp]: "run_state (mod_st f) (s, w) = ((), (f s, w))"
  by (simp add: mod_st_def)

text \<open>Names the parts of a run, for applying a rule to a concrete one.\<close>

lemma run_eta: "run_state m x = (fst (run_state m x), (fst (snd (run_state m x)), snd (snd (run_state m x))))"
  by simp

lemma length_draw_bytes [simp]: "length (draw_bytes w n) = n"
  by (simp add: draw_bytes_def)

lemma hdr_Get_Set [simp]: "hdr_Get (hdr_Set h k v) k' = (if k' = k then v else hdr_Get h k')"
proof -
  have "map_of (filter (\<lambda>(k', _). k' \<noteq> k) h) k' = (if k' = k then None else map_of h k')"
    by (induction h) auto
  then show ?thesis by (simp add: hdr_Get_def hdr_Set_def map_add_def split: option.splits)
qed

lemma status_Write [simp]: "status_of (Write b w) = status_of w"
  by (simp add: status_of_def Write_def WriteHeader_def Let_def split: option.splits)

section \<open>Status of the written responses\<close>

lemma rs_code_header [simp]:
  "rs_code (Header_Set k v w) = rs_code w" "rs_code (Header_Add k v w) = rs_code w"
  "rs_code (Header_Del k w) = rs_code w" "rs_code (SetCookie c w) = rs_code w"
  by (simp_all add: Header_Set_def Header_Add_def Header_Del_def SetCookie_def)

lemma status_header [simp]:
  "status_of (Header_Set k v w) = status_of w" "status_of (SetCookie c w) = status_of w"
  by (simp_all add: status_of_def)

lemma status_WriteHeader: "rs_code w = None \<Longrightarrow> status_of (WriteHeader c w) = c"
  by (simp add: status_of_def WriteHeader_def)

lemma status_unwritten: "rs_code w = None \<Longrightarrow> status_of w = 200"
  by (simp add: status_of_def)

lemma status_Redirect: "rs_code w = None \<Longrightarrow> status_of (http_Redirect r u c w) = c"
  by (simp add: http_Redirect_def Let_def status_WriteHeader)

lemma status_Error: "rs_code w = None \<Longrightarrow> status_of (http_Error m c w) = c"
  by (simp add: http_Error_def status_WriteHeader)

section \<open>Invariants of actions\<close>

text \<open>
  An invariant of the component's state alone, and the way the environment evolves: its oracles
  stay, its counters and the log of sent requests only grow.
\<close>

definition st_inv :: "('s \<Rightarrow> bool) \<Rightarrow> 's \<times> world \<Rightarrow> bool" where
  "st_inv I sw = I (fst sw)"

definition evolves :: "world \<Rightarrow> world \<Rightarrow> bool" where
  "evolves w w' \<longleftrightarrow>
     clock w' = clock w \<and> entropy w' = entropy w \<and> entropy_ok w' = entropy_ok w
     \<and> peer w' = peer w \<and> order w' = order w \<and> err_text w' = err_text w
     \<and> ticks w \<le> ticks w' \<and> draws w \<le> draws w' \<and> prefix (sent w) (sent w')"

definition env_inv :: "world \<Rightarrow> 's \<times> world \<Rightarrow> bool" where
  "env_inv w0 sw = evolves w0 (snd sw)"

lemma st_inv_simp [simp]: "st_inv I (s, w) = I s"
  by (simp add: st_inv_def)

lemma env_inv_simp [simp]: "env_inv w0 (s, w) = evolves w0 w"
  by (simp add: env_inv_def)

lemma evolves_refl [simp, intro]: "evolves w w"
  by (simp add: evolves_def)

lemma evolves_trans [trans]: "evolves a b \<Longrightarrow> evolves b c \<Longrightarrow> evolves a c"
  by (auto simp: evolves_def intro: prefix_order.trans)

lemma evolves_steps [simp]:
  "evolves w v \<Longrightarrow> evolves w (v\<lparr>ticks := Suc (ticks v)\<rparr>)"
  "evolves w v \<Longrightarrow> evolves w (v\<lparr>draws := Suc (draws v)\<rparr>)"
  "evolves w v \<Longrightarrow> evolves w (v\<lparr>ranges := Suc (ranges v)\<rparr>)"
  "evolves w v \<Longrightarrow> evolves w (v\<lparr>sent := sent v @ [q]\<rparr>)"
  by (auto simp: evolves_def intro: prefix_order.trans)

lemma keeps_pairI: "(\<And>s w a s' w'. P (s, w) \<Longrightarrow> run_state m (s, w) = (a, (s', w')) \<Longrightarrow> P (s', w')) \<Longrightarrow> keeps P m"
  by (rule keepsI, rename_tac x a y, case_tac x, case_tac y) simp

lemma keeps_env_ops [inv_intros]:
  "keeps (st_inv I) time_Now" "keeps (st_inv I) (rand_Read n)" "keeps (st_inv I) (client_Do rq)"
  "keeps (st_inv I) (range_map m)" "keeps (st_inv I) (error_for e)" "keeps P (get_st f)"
  "keeps (env_inv w0) time_Now" "keeps (env_inv w0) (rand_Read n)" "keeps (env_inv w0) (client_Do rq)"
  "keeps (env_inv w0) (range_map m)" "keeps (env_inv w0) (error_for e)" "keeps (env_inv w0) (mod_st g)"
  by (rule keeps_pairI, auto)+

lemma keeps_mod_st [inv_intros]: "(\<And>s. I s \<Longrightarrow> I (f s)) \<Longrightarrow> keeps (st_inv I) (mod_st f)"
  by (rule keeps_pairI) auto

lemma keeps_NewRequest [inv_intros]:
  "keeps (st_inv I) (NewRequest m u b)" "keeps (env_inv w0) (NewRequest m u b)"
  by (rule keeps_pairI, auto simp: NewRequest_def split: option.splits)+

lemma keeps_st_invD: "keeps (st_inv J) m \<Longrightarrow> J s \<Longrightarrow> run_state m (s, w) = (a, (s', w')) \<Longrightarrow> J s'"
  using keepsD [of "st_inv J" m "(s, w)"] by simp

lemma keeps_env_invD:
  "keeps (env_inv w0) m \<Longrightarrow> evolves w0 w \<Longrightarrow> run_state m (s, w) = (a, (s', w')) \<Longrightarrow> evolves w0 w'"
  using keepsD [of "env_inv w0" m "(s, w)"] by simp

lemma keeps_zoom_st [inv_intros]:
  "keeps (st_inv J) m \<Longrightarrow> (\<And>t. I t \<Longrightarrow> J (g t)) \<Longrightarrow> (\<And>s t. I t \<Longrightarrow> J s \<Longrightarrow> I (p s t))
    \<Longrightarrow> keeps (st_inv I) (zoom g p m)"
  by (rule keeps_pairI) (auto split: prod.splits dest: keeps_st_invD)

lemma keeps_zoom_env [inv_intros]: "keeps (env_inv w0) m \<Longrightarrow> keeps (env_inv w0) (zoom g p m)"
  by (rule keeps_pairI) (auto split: prod.splits dest: keeps_env_invD)

lemma keeps_http_result [inv_intros]:
  "(\<And>e. x = NetErr e \<Longrightarrow> keeps P (f e)) \<Longrightarrow> (\<And>st h b br. x = HttpResp st h b br \<Longrightarrow> keeps P (g st h b br))
    \<Longrightarrow> keeps P (case x of NetErr e \<Rightarrow> f e | HttpResp st h b br \<Rightarrow> g st h b br)"
  by (cases x) auto

lemma keeps_evolves: "(\<And>w0. keeps (env_inv w0) m) \<Longrightarrow> run_state m (s, w) = (a, (s', w')) \<Longrightarrow> evolves w w'"
  using keeps_env_invD [of w m w s a s' w'] by simp

lemma st_unchanged:
  assumes "\<And>I. keeps (st_inv I) m" "run_state m (s, w) = (a, (s', w'))"
  shows "s' = s"
  using keeps_st_invD [OF assms(1) [of "\<lambda>x. x = s"] _ assms(2)] by simp

section \<open>Histories\<close>

text \<open>Calls one after the other, each with its answer.\<close>

fun history :: "('x \<Rightarrow> ('s, 'r) io) \<Rightarrow> 'x list \<Rightarrow> ('s, ('x \<times> 'r) list) io" where
  "history step [] = ret []"
| "history step (x # xs) = do { r \<leftarrow> step x; rs \<leftarrow> history step xs; ret ((x, r) # rs) }"

lemma run_split: obtains a s' w' where "run_state m (s, w) = (a, (s', w'))"
  by (metis surj_pair)

lemma history_Cons:
  assumes "run_state (history step (x # xs)) (s, w) = (log, (s', w'))"
  obtains r s1 w1 rs where "run_state (step x) (s, w) = (r, (s1, w1))" "run_state (history step xs) (s1, w1) = (rs, (s', w'))"
    "log = (x, r) # rs"
proof -
  obtain r s1 w1 where 1: "run_state (step x) (s, w) = (r, (s1, w1))" by (rule run_split)
  obtain rs s2 w2 where 2: "run_state (history step xs) (s1, w1) = (rs, (s2, w2))" by (rule run_split)
  show thesis using assms 1 2 that by simp
qed

lemma keeps_history [inv_intros]:
  assumes "\<And>x. keeps P (step x)"
  shows "keeps P (history step xs)"
  by (induction xs) (simp_all only: history.simps, (intro inv_intros assms; assumption)+)

text \<open>
  Something that can be used once: a call that hits it finds it unused and leaves it used, and it
  stays used while the environment is fresh (does not draw its name again) and the calls are
  permitted.
\<close>

locale single_use =
  fixes step :: "'x \<Rightarrow> ('s, 'r) io" and hit :: "'x \<times> 'r \<Rightarrow> bool" and permitted :: "'x \<Rightarrow> bool"
    and used :: "'s \<Rightarrow> bool" and fresh :: "world \<Rightarrow> bool"
  assumes fresh_stays: "run_state (step x) (s, w) = (r, (s', w')) \<Longrightarrow> fresh w \<Longrightarrow> fresh w'"
    and used_stays: "permitted x \<Longrightarrow> run_state (step x) (s, w) = (r, (s', w')) \<Longrightarrow> used s \<Longrightarrow> fresh w \<Longrightarrow> used s'"
    and hit_marks: "run_state (step x) (s, w) = (r, (s', w')) \<Longrightarrow> hit (x, r) \<Longrightarrow> \<not> used s \<and> used s'"
begin

lemma no_hit:
  "run_state (history step xs) (s, w) = (log, (s', w')) \<Longrightarrow> list_all permitted xs \<Longrightarrow> used s \<Longrightarrow> fresh w \<Longrightarrow> filter hit log = []"
proof (induction xs arbitrary: s w log)
  case (Cons x xs)
  show ?case
  proof (rule history_Cons [OF Cons.prems(1)])
    fix r s1 w1 rs
    assume 1: "run_state (step x) (s, w) = (r, (s1, w1))" and 2: "run_state (history step xs) (s1, w1) = (rs, (s', w'))"
      and log: "log = (x, r) # rs"
    have "used s1" "fresh w1" using used_stays [OF _ 1] fresh_stays [OF 1] Cons.prems by auto
    then show "filter hit log = []" using Cons.IH [OF 2] hit_marks [OF 1] Cons.prems by (auto simp: log)
  qed
qed simp

lemma one_hit:
  "run_state (history step xs) (s, w) = (log, (s', w')) \<Longrightarrow> list_all permitted xs \<Longrightarrow> fresh w \<Longrightarrow> length (filter hit log) \<le> 1"
proof (induction xs arbitrary: s w log)
  case (Cons x xs)
  show ?case
  proof (rule history_Cons [OF Cons.prems(1)])
    fix r s1 w1 rs
    assume 1: "run_state (step x) (s, w) = (r, (s1, w1))" and 2: "run_state (history step xs) (s1, w1) = (rs, (s', w'))"
      and log: "log = (x, r) # rs"
    have f: "fresh w1" using fresh_stays [OF 1] Cons.prems by auto
    show "length (filter hit log) \<le> 1"
      using Cons.IH [OF 2 _ f] no_hit [OF 2 _ _ f] hit_marks [OF 1] Cons.prems(2) by (auto simp: log)
  qed
qed simp

end

text \<open>Actions that send nothing.\<close>

definition quiet :: "http_request list \<Rightarrow> 's \<times> world \<Rightarrow> bool" where
  "quiet x sw \<longleftrightarrow> sent (snd sw) = x"

lemma quiet_simp [simp]: "quiet x (s, w) \<longleftrightarrow> sent w = x"
  by (simp add: quiet_def)

lemma keeps_quiet [inv_intros]:
  "keeps (quiet x) time_Now" "keeps (quiet x) (rand_Read n)" "keeps (quiet x) (range_map m)"
  "keeps (quiet x) (error_for e)" "keeps (quiet x) (mod_st f)"
  by (rule keeps_pairI, auto)+

lemma quietD: "keeps (quiet x) m \<Longrightarrow> run_state m (s, w) = (a, (s', w')) \<Longrightarrow> sent w = x \<Longrightarrow> sent w' = x"
  using keepsD [of "quiet x" m "(s, w)"] by simp

lemma keeps_quiet_zoom [inv_intros]: "keeps (quiet x) m \<Longrightarrow> keeps (quiet x) (zoom g p m)"
  by (rule keeps_pairI) (auto split: prod.splits dest: quietD)

lemma keeps_quiet_NewRequest [inv_intros]: "keeps (quiet x) (NewRequest m u b)"
  by (rule keeps_pairI) (auto simp: NewRequest_def split: option.splits)

lemma keeps_quietD: "keeps (quiet (sent w)) m \<Longrightarrow> run_state m (s, w) = (a, (s', w')) \<Longrightarrow> sent w' = sent w"
  by (rule quietD) simp_all

lemma keeps_client_calls [inv_intros]:
  "keeps (st_inv I) (http_Post u c b)" "keeps (env_inv w0) (http_Post u c b)"
  "keeps (st_inv I) (http_Get u)" "keeps (env_inv w0) (http_Get u)"
  unfolding http_Post_def http_Get_def by (intro inv_intros)+

text \<open>Every request sent after the first n satisfies P.\<close>

definition sends :: "(http_request \<Rightarrow> bool) \<Rightarrow> nat \<Rightarrow> 's \<times> world \<Rightarrow> bool" where
  "sends P n sw \<longleftrightarrow> list_all P (drop n (sent (snd sw))) \<and> n \<le> length (sent (snd sw))"

lemma sends_simp: "sends P n (s, w) \<longleftrightarrow> list_all P (drop n (sent w)) \<and> n \<le> length (sent w)"
  by (simp add: sends_def)

lemma keeps_sends [inv_intros]:
  "keeps (sends P n) time_Now" "keeps (sends P n) (error_for e)" "keeps (sends P n) (NewRequest m u b)"
  "keeps (sends P n) (range_map x)" "P rq \<Longrightarrow> keeps (sends P n) (client_Do rq)"
  by (rule keeps_pairI, auto simp: sends_simp NewRequest_def split: option.splits)+

lemma NewRequest_url: "run_state (NewRequest m u b) \<sigma> = (Inr rq, \<sigma>') \<Longrightarrow> ro_url rq = u"
  by (cases \<sigma>) (auto simp: NewRequest_def split: option.splits)

lemma keeps_bind_res:
  assumes "keeps P m" "\<And>\<sigma> a \<sigma>'. run_state m \<sigma> = (a, \<sigma>') \<Longrightarrow> keeps P (f a)"
  shows "keeps P (State_Monad.bind m f)"
proof (rule keepsI)
  fix s b s'
  assume P: "P s" and run: "run_state (State_Monad.bind m f) s = (b, s')"
  obtain a t where m: "run_state m s = (a, t)" by fastforce
  show "P s'" using keepsD [OF assms(2) [OF m] keepsD [OF assms(1) P m]] run m by simp
qed

lemma sendsD:
  assumes "keeps (sends P (length (sent w))) m" "run_state m (s, w) = (a, (s', w'))"
  shows "list_all P (drop (length (sent w)) (sent w'))"
  using keepsD [OF assms(1) _ assms(2)] by (simp add: sends_simp)

lemma keeps_sends_Get [inv_intros]:
  "(\<And>rq. ro_url rq = u \<Longrightarrow> P rq) \<Longrightarrow> keeps (sends P n) (http_Get u)"
  unfolding http_Get_def
  by (rule keeps_bind_res, intro inv_intros) (auto intro!: inv_intros dest: NewRequest_url split: sum.splits)

end
