(* ===== verification/Response_Cache.thy ===== *)
theory Response_Cache
  imports Go_HTTP "HOL-Library.Multiset"
begin

text \<open>
  The response cache of the API proxy (src/internal/cache/cache.go): a map from keys
  \<open>user:method:path\<close> to entries with an expiry and an insertion index. The lemmas show that the
  cache never holds more than its capacity, that it behaves as a queue in which storing a new key
  into a full cache drops the entry stored longest ago, and that keys of different users differ.
\<close>

section \<open>Data\<close>

record CachedResponse =
  cr_status :: nat
  cr_headers :: "(string \<times> string) list"
  cr_body :: string

record cache_entry =
  en_resp :: CachedResponse
  en_expiry :: time
  en_idx :: int

record ResponseCache =
  items :: "cache_entry gomap"
  cache_ttl :: duration
  maxEntries :: int
  nextIdx :: int

definition cache_New :: "duration \<Rightarrow> int \<Rightarrow> ResponseCache" where
  "cache_New ttl n = \<lparr>items = [], cache_ttl = ttl, maxEntries = n, nextIdx = 0\<rparr>"

definition MakeKey :: "string \<Rightarrow> string \<Rightarrow> string \<Rightarrow> string" where
  "MakeKey userID method path = userID @ '':'' @ method @ '':'' @ path"

section \<open>Operations\<close>

text \<open>A hit, or a miss; an expired entry is removed if it is still expired under the write lock.\<close>

definition cache_Get :: "string \<Rightarrow> (ResponseCache, CachedResponse option) io" where
  "cache_Get key =
     do { e \<leftarrow> get_st (\<lambda>c. map_of (items c) key);
          case e of
            None \<Rightarrow> ret None
          | Some e \<Rightarrow>
              do { now \<leftarrow> time_Now;
                   if After now (en_expiry e) then
                     do { e2 \<leftarrow> get_st (\<lambda>c. map_of (items c) key);
                          case e2 of
                            None \<Rightarrow> ret None
                          | Some e2 \<Rightarrow>
                              do { now2 \<leftarrow> time_Now;
                                   if_do (After now2 (en_expiry e2))
                                     (mod_st (\<lambda>c. c\<lparr>items := AList.delete key (items c)\<rparr>));
                                   ret None } }
                   else ret (Some (en_resp e)) } }"

text \<open>The loop of \<open>evictOldest\<close>: the oldest key and index so far, the index -1 for none.\<close>

fun oldest :: "string \<times> int \<Rightarrow> cache_entry gomap \<Rightarrow> string \<times> int" where
  "oldest best [] = best"
| "oldest best ((key, e) # es) =
     oldest (if snd best = -1 \<or> en_idx e < snd best then (key, en_idx e) else best) es"

definition evictOldest :: "(ResponseCache, unit) io" where
  "evictOldest =
     do { m \<leftarrow> get_st items;
          es \<leftarrow> range_map m;
          let oldestKey = fst (oldest ([], -1) es);
          if_do (oldestKey \<noteq> []) (mod_st (\<lambda>c. c\<lparr>items := AList.delete oldestKey (items c)\<rparr>)) }"

definition cache_Set :: "string \<Rightarrow> CachedResponse \<Rightarrow> (ResponseCache, unit) io" where
  "cache_Set key resp =
     do { now \<leftarrow> time_Now;
          c \<leftarrow> get_st id;
          let e = \<lparr>en_resp = resp, en_expiry = time_Add now (cache_ttl c), en_idx = nextIdx c\<rparr>;
          mod_st (\<lambda>c. c\<lparr>nextIdx := nextIdx c + 1\<rparr>);
          if map_of (items c) key \<noteq> None then mod_st (\<lambda>c. c\<lparr>items := AList.update key e (items c)\<rparr>)
          else do { if_do (int (length (items c)) \<ge> maxEntries c) evictOldest;
                    mod_st (\<lambda>c. c\<lparr>items := AList.update key e (items c)\<rparr>) } }"

definition InvalidatePrefix :: "string \<Rightarrow> (ResponseCache, unit) io" where
  "InvalidatePrefix pre =
     do { m \<leftarrow> get_st items;
          es \<leftarrow> range_map m;
          mod_st (\<lambda>c. c\<lparr>items := fold (\<lambda>(key, _) m. if Contains key pre then AList.delete key m else m)
                                       es (items c)\<rparr>) }"

text \<open>The calls other components make, in any order.\<close>

datatype cache_op = OpGet string | OpSet string CachedResponse | OpInvalidate string

fun cache_step :: "cache_op \<Rightarrow> (ResponseCache, unit) io" where
  "cache_step (OpGet key) = do { cache_Get key; ret () }"
| "cache_step (OpSet key resp) = cache_Set key resp"
| "cache_step (OpInvalidate pre) = InvalidatePrefix pre"

fun cache_steps :: "cache_op list \<Rightarrow> (ResponseCache, unit) io" where
  "cache_steps [] = ret ()"
| "cache_steps (x # xs) = do { cache_step x; cache_steps xs }"

fun op_key_ok :: "cache_op \<Rightarrow> bool" where
  "op_key_ok (OpSet key _) = (key \<noteq> [])"
| "op_key_ok _ = True"

section \<open>The invariant\<close>

text \<open>Distinct keys, distinct indices below the next one, and no more entries than allowed.\<close>

definition cache_inv :: "ResponseCache \<Rightarrow> bool" where
  "cache_inv c \<longleftrightarrow>
     wf_map (items c) \<and> inj_on (\<lambda>(k, e). en_idx e) (set (items c))
     \<and> (\<forall>(k, e) \<in> set (items c). k \<noteq> [] \<and> 0 \<le> en_idx e \<and> en_idx e < nextIdx c)
     \<and> 0 \<le> nextIdx c \<and> int (length (items c)) \<le> maxEntries c"

section \<open>The queue a cache stands for\<close>

text \<open>
  The abstract view: keys with their responses and expiries, the one stored longest ago first.
  Storing a key moves it to the end; when it is new and the queue is full the head goes.
\<close>

type_synonym fifo = "(string \<times> CachedResponse \<times> time) list"

definition cache_abs :: "ResponseCache \<Rightarrow> fifo" where
  "cache_abs c = map (\<lambda>(k, e). (k, en_resp e, en_expiry e)) (sort_key (\<lambda>(k, e). en_idx e) (items c))"

definition fifo_drop :: "string \<Rightarrow> fifo \<Rightarrow> fifo" where
  "fifo_drop key q = filter (\<lambda>(k, _). k \<noteq> key) q"

definition fifo_Set :: "nat \<Rightarrow> string \<Rightarrow> CachedResponse \<Rightarrow> time \<Rightarrow> fifo \<Rightarrow> fifo" where
  "fifo_Set cap key resp expiry q =
     (if key \<in> fst ` set q then fifo_drop key q
      else if length q \<ge> cap then tl q else q) @ [(key, resp, expiry)]"

definition fifo_Get :: "string \<Rightarrow> time \<Rightarrow> fifo \<Rightarrow> CachedResponse option" where
  "fifo_Get key now q =
     (case map_of q key of None \<Rightarrow> None | Some (resp, expiry) \<Rightarrow> if now > expiry then None else Some resp)"

section \<open>Evicting the oldest entry\<close>

abbreviation idx_of :: "string \<times> cache_entry \<Rightarrow> int" where
  "idx_of \<equiv> \<lambda>(k, e). en_idx e"

lemma oldest_le:
  "\<forall>(k, e)\<in>set es. 0 \<le> en_idx e \<Longrightarrow> 0 \<le> snd b \<Longrightarrow>
     (oldest b es = b \<or> (\<exists>(k, e)\<in>set es. oldest b es = (k, en_idx e)))
     \<and> snd (oldest b es) \<le> snd b \<and> (\<forall>(k, e)\<in>set es. snd (oldest b es) \<le> en_idx e)"
proof (induction es arbitrary: b)
  case (Cons x es)
  obtain k e where x: "x = (k, e)" by (cases x)
  let ?b = "if snd b = -1 \<or> en_idx e < snd b then (k, en_idx e) else b"
  from Cons.prems x have "0 \<le> snd ?b" and "\<forall>(k, e)\<in>set es. 0 \<le> en_idx e" by auto
  from Cons.IH [OF this(2,1)] Cons.prems x show ?case by (auto split: if_splits)
qed simp

lemma oldest_min:
  assumes "es \<noteq> []" "\<forall>(k, e)\<in>set es. 0 \<le> en_idx e"
  obtains k e where "(k, e) \<in> set es" "oldest ([], -1) es = (k, en_idx e)"
    "\<forall>(k', e')\<in>set es. en_idx e \<le> en_idx e'"
proof -
  obtain k e es' where es: "es = (k, e) # es'" using assms by (cases es) auto
  have o: "oldest ([], -1) es = oldest (k, en_idx e) es'" by (simp add: es)
  moreover from oldest_le [of es' "(k, en_idx e)"] assms es
  have "oldest (k, en_idx e) es' = (k, en_idx e) \<or> (\<exists>(k', e')\<in>set es'. oldest (k, en_idx e) es' = (k', en_idx e'))"
    and le: "snd (oldest (k, en_idx e) es') \<le> en_idx e"
      "\<forall>(k', e')\<in>set es'. snd (oldest (k, en_idx e) es') \<le> en_idx e'" by auto
  ultimately obtain k1 e1 where 1: "(k1, e1) \<in> set es" "oldest ([], -1) es = (k1, en_idx e1)"
    using es by auto
  have "\<forall>(k', e')\<in>set es. en_idx e1 \<le> en_idx e'"
    using le 1(2) o es by auto
  with 1 that show thesis by blast
qed

text \<open>With injective indices a sorted rearrangement is the sorted list; the oldest is its head.\<close>

lemma delete_filter: "AList.delete k m = filter (\<lambda>(k', _). k' \<noteq> k) m"
  by (induction m) auto

lemma sort_delete_min:
  assumes "wf_map m" "inj_on idx_of (set m)" "(k, e) \<in> set m"
    "\<forall>(k', e')\<in>set m. en_idx e \<le> en_idx e'"
  shows "sort_key idx_of (AList.delete k m) = tl (sort_key idx_of m)"
proof -
  obtain x xs where s: "sort_key idx_of m = x # xs"
    using assms(3) by (metis list.exhaust list.set(1) empty_iff set_sort)
  have mem: "set m = set (x # xs)" using set_sort [of idx_of m] s by simp
  have "sorted (map idx_of (x # xs))" using s by (metis sorted_sort_key)
  then have "idx_of x \<le> en_idx e" using assms(3) mem by auto
  moreover have "en_idx e \<le> idx_of x" using assms(4) mem by (auto simp: case_prod_beta)
  ultimately have "x = (k, e)" using assms(2,3) mem by (metis (no_types, lifting) antisym case_prod_conv inj_onD list.set_intros(1))
  moreover have "distinct (map fst (x # xs))"
    using assms(1) s unfolding wf_map_def
    by (metis distinct_map distinct_sort mset_map mset_sort mset_eq_imp_distinct_iff)
  ultimately have "filter (\<lambda>(k', _). k' \<noteq> k) (x # xs) = xs"
    by (auto simp: filter_id_conv image_iff)
  then show ?thesis by (simp add: delete_filter filter_sort [symmetric] s del: filter.simps)
qed

lemma sort_append_max:
  assumes "inj_on idx_of (set (m @ [x]))" "\<forall>y\<in>set m. idx_of y \<le> idx_of x"
  shows "sort_key idx_of (m @ [x]) = sort_key idx_of m @ [x]"
  by (rule sort_key_inj_key_eq) (use assms in \<open>auto simp: sorted_append\<close>)

lemma update_mset:
  assumes "wf_map m"
  shows "mset (AList.update k v m) = mset (AList.delete k m @ [(k, v)])"
proof (cases "k \<in> fst ` set m")
  case False
  then show ?thesis by (induction m) (auto simp: delete_idem)
next
  case True
  from assms True show ?thesis
  proof (induction m)
    case (Cons y m)
    obtain k' v' where y: "y = (k', v')" by (cases y)
    show ?case
    proof (cases "k' = k")
      case True
      with Cons.prems y have "k \<notin> fst ` set m" by (auto simp: wf_map_def)
      with True y show ?thesis by (simp add: delete_idem)
    next
      case False
      with Cons.prems y have "wf_map m" "k \<in> fst ` set m" by (auto simp: wf_map_def)
      with Cons.IH False y show ?thesis by simp
    qed
  qed simp
qed

section \<open>Every operation refines the queue\<close>

lemma cache_invD:
  assumes "cache_inv c"
  shows "wf_map (items c)" "inj_on idx_of (set (items c))"
    "\<forall>(k, e)\<in>set (items c). k \<noteq> [] \<and> 0 \<le> en_idx e \<and> en_idx e < nextIdx c"
    "0 \<le> nextIdx c" "int (length (items c)) \<le> maxEntries c"
  using assms by (simp_all add: cache_inv_def)

lemma keys_cache_abs: "fst ` set (cache_abs c) = fst ` set (items c)"
  by (force simp: cache_abs_def)

lemma length_cache_abs: "length (cache_abs c) = length (items c)"
  by (simp add: cache_abs_def)

lemma map_of_cache_abs:
  assumes "wf_map (items c)"
  shows "map_of (cache_abs c) k = map_option (\<lambda>e. (en_resp e, en_expiry e)) (map_of (items c) k)"
proof -
  let ?s = "sort_key idx_of (items c)"
  have "distinct (map fst ?s)"
    using assms unfolding wf_map_def by (metis mset_map mset_sort mset_eq_imp_distinct_iff)
  then have "map_of ?s = map_of (items c)"
    using assms unfolding wf_map_def by (metis map_of_inject_set set_sort)
  then show ?thesis
    using map_of_map [of "\<lambda>e. (en_resp e, en_expiry e)" ?s] by (simp add: cache_abs_def case_prod_beta)
qed

lemma filter_cache_abs:
  "cache_abs (c\<lparr>items := filter (\<lambda>(k, _). P k) (items c)\<rparr>) = filter (\<lambda>(k, _). P k) (cache_abs c)"
  by (simp add: cache_abs_def filter_sort [symmetric] filter_map comp_def) (simp add: case_prod_unfold)

lemma cache_abs_delete: "cache_abs (c\<lparr>items := AList.delete k (items c)\<rparr>) = fifo_drop k (cache_abs c)"
  by (simp add: delete_filter filter_cache_abs fifo_drop_def)

lemma cache_inv_filter:
  "cache_inv c \<Longrightarrow> cache_inv (c\<lparr>items := filter P (items c)\<rparr>)"
  by (auto simp: cache_inv_def intro: inj_on_subset order_trans [OF _ of_nat_mono [OF length_filter_le]])
     (meson le_less_trans length_filter_le not_le of_nat_le_iff order_trans)

lemma evict_run:
  assumes "cache_inv c" "items c \<noteq> []"
  obtains k e where "(k, e) \<in> set (items c)" "\<forall>(k', e')\<in>set (items c). en_idx e \<le> en_idx e'"
    "run_state evictOldest (c, w) =
       ((), (c\<lparr>items := AList.delete k (items c)\<rparr>, w\<lparr>ranges := Suc (ranges w)\<rparr>))"
proof -
  let ?es = "go_range (order w (ranges w)) (items c)"
  note inv = cache_invD [OF assms(1)]
  have es: "set ?es = set (items c)" using go_range_perm inv(1) by blast
  then have "?es \<noteq> []" "\<forall>(k, e)\<in>set ?es. 0 \<le> en_idx e" using assms(2) inv(3) by auto
  then obtain k e where k: "(k, e) \<in> set (items c)" "oldest ([], -1) ?es = (k, en_idx e)"
    "\<forall>(k', e')\<in>set (items c). en_idx e \<le> en_idx e'" using oldest_min [of ?es] es by metis
  then have "k \<noteq> []" using inv(3) by auto
  with k that show thesis by (simp add: evictOldest_def Let_def)
qed

text \<open>Storing an entry with an index above all others, once there is room or the key is present.\<close>

lemma cache_store:
  assumes "cache_inv c" "key \<noteq> []" "\<forall>(k, e')\<in>set (items c). en_idx e' < en_idx e"
    "0 \<le> en_idx e" "en_idx e < nextIdx c"
    and room: "key \<in> fst ` set (items c) \<or> int (length (items c)) < maxEntries c"
  defines "c' \<equiv> c\<lparr>items := AList.update key e (items c)\<rparr>"
  shows "cache_inv c'" "cache_abs c' = fifo_drop key (cache_abs c) @ [(key, en_resp e, en_expiry e)]"
proof -
  note inv = cache_invD [OF assms(1)]
  let ?d = "AList.delete key (items c)"
  have ms: "mset (AList.update key e (items c)) = mset (?d @ [(key, e)])"
    using inv(1) by (rule update_mset)
  then have st: "set (AList.update key e (items c)) = set (?d @ [(key, e)])"
    by (metis set_mset_mset)
  have sub: "set ?d \<subseteq> set (items c)" by (auto simp: delete_filter)
  have lt: "idx_of y < en_idx e" if "y \<in> set ?d" for y using that sub assms(3) by auto
  have "inj_on idx_of (set ?d)" using inv(2) sub by (rule inj_on_subset)
  moreover have "idx_of (key, e) \<notin> idx_of ` set ?d" using lt by fastforce
  ultimately have inj: "inj_on idx_of (set (?d @ [(key, e)]))" by auto
  have len: "int (length (AList.update key e (items c))) \<le> maxEntries c"
    using room inv(5) by (auto simp: length_update)
  have each: "\<forall>(k, e)\<in>set (?d @ [(key, e)]). k \<noteq> [] \<and> 0 \<le> en_idx e \<and> en_idx e < nextIdx c"
    using inv(3) assms(2,4,5) sub by auto
  show "cache_inv c'"
    unfolding cache_inv_def c'_def using inv(1,4) len inj st each by simp
  have "sort_key idx_of (AList.update key e (items c)) = sort_key idx_of ?d @ [(key, e)]"
  proof (rule sort_key_inj_key_eq)
    show "mset (AList.update key e (items c)) = mset (sort_key idx_of ?d @ [(key, e)])" using ms by simp
    show "inj_on idx_of (set (AList.update key e (items c)))" using inj st by simp
    show "sorted (map idx_of (sort_key idx_of ?d @ [(key, e)]))"
      using lt by (auto simp: sorted_append intro: less_imp_le)
  qed
  then have "cache_abs c' = cache_abs (c\<lparr>items := ?d\<rparr>) @ [(key, en_resp e, en_expiry e)]"
    by (simp add: c'_def cache_abs_def)
  then show "cache_abs c' = fifo_drop key (cache_abs c) @ [(key, en_resp e, en_expiry e)]"
    by (simp add: cache_abs_delete)
qed

lemma fifo_drop_absent: "k \<notin> fst ` set q \<Longrightarrow> fifo_drop k q = q"
  by (force simp: fifo_drop_def filter_id_conv)

lemma cache_evict:
  assumes "cache_inv c" "items c \<noteq> []"
  obtains m w' where "run_state evictOldest (c, w) = ((), (c\<lparr>items := m\<rparr>, w'))" "cache_inv (c\<lparr>items := m\<rparr>)"
    "cache_abs (c\<lparr>items := m\<rparr>) = tl (cache_abs c)" "set m \<subseteq> set (items c)" "length m < length (items c)"
proof -
  note inv = cache_invD [OF assms(1)]
  obtain k e where k: "(k, e) \<in> set (items c)" "\<forall>(k', e')\<in>set (items c). en_idx e \<le> en_idx e'"
    and r: "run_state evictOldest (c, w) =
       ((), (c\<lparr>items := AList.delete k (items c)\<rparr>, w\<lparr>ranges := Suc (ranges w)\<rparr>))"
    using evict_run [OF assms] .
  let ?m = "AList.delete k (items c)"
  have "cache_inv (c\<lparr>items := ?m\<rparr>)" using cache_inv_filter [OF assms(1)] by (simp add: delete_filter)
  moreover have "cache_abs (c\<lparr>items := ?m\<rparr>) = tl (cache_abs c)"
    using sort_delete_min [OF inv(1,2) k] by (simp add: cache_abs_def map_tl)
  moreover have "length ?m < length (items c)"
    unfolding delete_filter by (rule length_filter_less [OF k(1)]) simp
  moreover have "set ?m \<subseteq> set (items c)" by (simp add: delete_filter)
  ultimately show thesis using r by (intro that)
qed

lemma cache_Set_run:
  assumes inv: "cache_inv c" and key: "key \<noteq> []" and cap: "1 \<le> maxEntries c"
    and run: "run_state (cache_Set key resp) (c, w) = (u, (c', w'))"
  shows "cache_inv c' \<and> maxEntries c' = maxEntries c \<and> cache_ttl c' = cache_ttl c
    \<and> cache_abs c' = fifo_Set (nat (maxEntries c)) key resp (clock w (ticks w) + cache_ttl c) (cache_abs c)"
proof -
  let ?e = "\<lparr>en_resp = resp, en_expiry = clock w (ticks w) + cache_ttl c, en_idx = nextIdx c\<rparr>"
  let ?n = "c\<lparr>nextIdx := nextIdx c + 1\<rparr>"
  have n: "cache_inv ?n" "cache_abs ?n = cache_abs c" "\<forall>(k, e')\<in>set (items ?n). en_idx e' < en_idx ?e"
    using inv by (auto simp: cache_inv_def cache_abs_def)
  have mem: "key \<in> fst ` set (items c) \<longleftrightarrow> map_of (items c) key \<noteq> None"
    by (simp add: map_of_eq_None_iff)
  show ?thesis
  proof (cases "map_of (items c) key \<noteq> None \<or> int (length (items c)) < maxEntries c")
    case True
    then have c': "c' = ?n\<lparr>items := AList.update key ?e (items ?n)\<rparr>"
      using run by (auto simp: cache_Set_def Let_def time_Add_def split: if_splits)
    have "0 \<le> en_idx ?e" "en_idx ?e < nextIdx ?n"
      "key \<in> fst ` set (items ?n) \<or> int (length (items ?n)) < maxEntries ?n"
      using True mem inv by (auto simp: cache_inv_def)
    from cache_store [OF n(1) key n(3) this] True mem show ?thesis unfolding c'
      by (auto simp: fifo_Set_def length_cache_abs fifo_drop_absent keys_cache_abs n(2))
  next
    case False
    with cap have "items ?n \<noteq> []" by auto
    then obtain m w1 where ev: "run_state evictOldest (?n, w\<lparr>ticks := Suc (ticks w)\<rparr>) = ((), (?n\<lparr>items := m\<rparr>, w1))"
      and d: "cache_inv (?n\<lparr>items := m\<rparr>)" "cache_abs (?n\<lparr>items := m\<rparr>) = tl (cache_abs ?n)"
        "set m \<subseteq> set (items ?n)" "length m < length (items ?n)"
      by (rule cache_evict [OF n(1)])
    from False ev run have c': "c' = ?n\<lparr>items := m\<rparr>\<lparr>items := AList.update key ?e (items (?n\<lparr>items := m\<rparr>))\<rparr>"
      by (auto simp: cache_Set_def Let_def time_Add_def)
    have e: "\<forall>(k, e')\<in>set (items (?n\<lparr>items := m\<rparr>)). en_idx e' < en_idx ?e" "0 \<le> en_idx ?e"
      "en_idx ?e < nextIdx (?n\<lparr>items := m\<rparr>)"
      "key \<in> fst ` set (items (?n\<lparr>items := m\<rparr>)) \<or> int (length (items (?n\<lparr>items := m\<rparr>))) < maxEntries (?n\<lparr>items := m\<rparr>)"
      using d(3,4) n(3) inv by (auto simp: cache_inv_def)
    have "key \<notin> fst ` set (cache_abs (?n\<lparr>items := m\<rparr>))"
      using False mem d(3) by (auto simp: keys_cache_abs)
    with cache_store [OF d(1) key e] False mem d(2) show ?thesis unfolding c'
      by (auto simp: fifo_Set_def length_cache_abs fifo_drop_absent keys_cache_abs n(2))
  qed
qed

lemma cache_Get_run:
  assumes inv: "cache_inv c" and run: "run_state (cache_Get key) (c, w) = (r, (c', w'))"
  shows "cache_inv c' \<and> maxEntries c' = maxEntries c \<and> cache_ttl c' = cache_ttl c
    \<and> r = fifo_Get key (clock w (ticks w)) (cache_abs c)
    \<and> (cache_abs c' = cache_abs c \<or> r = None \<and> cache_abs c' = fifo_drop key (cache_abs c))"
proof -
  have d: "cache_inv (c\<lparr>items := AList.delete key (items c)\<rparr>)"
    using cache_inv_filter [OF inv] by (simp add: delete_filter)
  show ?thesis
    using run inv d
    by (auto simp: cache_Get_def fifo_Get_def map_of_cache_abs [OF cache_invD(1) [OF inv]] After_def
        cache_abs_delete split: option.splits if_splits)
qed

lemma fold_delete_filter:
  "fold (\<lambda>(k, _) m. if P k then AList.delete k m else m) es m
     = filter (\<lambda>(k, _). \<not> (P k \<and> k \<in> fst ` set es)) m"
proof (induction es arbitrary: m)
  case (Cons x es)
  obtain k v where x: "x = (k, v)" by (cases x)
  have "filter (\<lambda>(k', _). \<not> (P k' \<and> k' \<in> fst ` set es)) (if P k then AList.delete k m else m)
      = filter (\<lambda>(k', _). \<not> (P k' \<and> k' \<in> fst ` set (x # es))) m"
    by (auto simp: x delete_filter filter_filter intro: filter_cong simp del: filter_id_conv)
  with Cons.IH x show ?case by simp
qed simp

lemma InvalidatePrefix_run:
  assumes inv: "cache_inv c" and run: "run_state (InvalidatePrefix pre) (c, w) = (u, (c', w'))"
  shows "cache_inv c' \<and> maxEntries c' = maxEntries c \<and> cache_ttl c' = cache_ttl c
    \<and> cache_abs c' = filter (\<lambda>(k, _). \<not> Contains k pre) (cache_abs c)"
proof -
  let ?es = "go_range (order w (ranges w)) (items c)"
  have es: "set ?es = set (items c)" using go_range_perm cache_invD(1) [OF inv] by blast
  have "c' = c\<lparr>items := fold (\<lambda>(k, _) m. if Contains k pre then AList.delete k m else m) ?es (items c)\<rparr>"
    using run by (auto simp: InvalidatePrefix_def)
  also have "fold (\<lambda>(k, _) m. if Contains k pre then AList.delete k m else m) ?es (items c)
      = filter (\<lambda>(k, _). \<not> Contains k pre) (items c)"
    unfolding fold_delete_filter es by (rule filter_cong) force+
  finally have c': "c' = c\<lparr>items := filter (\<lambda>(k, _). \<not> Contains k pre) (items c)\<rparr>" .
  then show ?thesis using cache_inv_filter [OF inv] filter_cache_abs by simp
qed

lemma map_of_snoc: "k \<notin> fst ` set q \<Longrightarrow> map_of (q @ [(k, v)]) k = Some v"
  by (simp add: map_add_def map_of_eq_None_iff [THEN iffD2])

section \<open>The contract of a bounded cache\<close>

text \<open>
  What the API proxy relies on. A view as a queue of keys with distinct keys, a capacity, a time to
  live; storing and looking up act on the view as the queue operations say.
\<close>

locale bounded_cache =
  fixes inv :: "'s \<Rightarrow> bool" and view :: "'s \<Rightarrow> fifo" and cap :: "'s \<Rightarrow> nat" and ttl :: "'s \<Rightarrow> duration"
    and get :: "string \<Rightarrow> ('s, CachedResponse option) io"
    and put :: "string \<Rightarrow> CachedResponse \<Rightarrow> ('s, unit) io"
    and inval :: "string \<Rightarrow> ('s, unit) io"
  assumes bounded: "inv s \<Longrightarrow> length (view s) \<le> cap s \<and> distinct (map fst (view s))"
    and put_law: "inv s \<Longrightarrow> key \<noteq> [] \<Longrightarrow> 1 \<le> cap s \<Longrightarrow> run_state (put key r) (s, w) = (u, (s', w')) \<Longrightarrow>
      inv s' \<and> cap s' = cap s \<and> ttl s' = ttl s
      \<and> view s' = fifo_Set (cap s) key r (clock w (ticks w) + ttl s) (view s)"
    and get_law: "inv s \<Longrightarrow> run_state (get key) (s, w) = (r', (s', w')) \<Longrightarrow>
      inv s' \<and> cap s' = cap s \<and> ttl s' = ttl s \<and> r' = fifo_Get key (clock w (ticks w)) (view s)
      \<and> (view s' = view s \<or> r' = None \<and> view s' = fifo_drop key (view s))"
    and inval_law: "inv s \<Longrightarrow> run_state (inval pre) (s, w) = (u, (s', w')) \<Longrightarrow>
      inv s' \<and> cap s' = cap s \<and> ttl s' = ttl s
      \<and> view s' = filter (\<lambda>(k, _). \<not> Contains k pre) (view s)"
begin

lemma map_of_put:
  assumes "inv s" "key \<noteq> []" "1 \<le> cap s" "run_state (put key r) (s, w) = (u, (s', w'))"
  shows "map_of (view s') key = Some (r, clock w (ticks w) + ttl s)"
proof -
  have "view s' = fifo_Set (cap s) key r (clock w (ticks w) + ttl s) (view s)"
    using put_law [OF assms] by simp
  moreover have "key \<notin> fst ` set (fifo_drop key q)" for q by (auto simp: fifo_drop_def)
  moreover have "key \<notin> fst ` set q \<Longrightarrow> key \<notin> fst ` set (tl q)" for q :: fifo
    by (cases q) auto
  ultimately show ?thesis by (simp add: fifo_Set_def map_of_snoc del: map_of_append)
qed

lemma put_get:
  assumes "inv s" "key \<noteq> []" "1 \<le> cap s" "run_state (put key r) (s, w) = (u, (s', w'))"
    and "run_state (get key) (s', v) = (r', (s'', v'))"
  shows "r' = (if clock v (ticks v) > clock w (ticks w) + ttl s then None else Some r)"
  using map_of_put [OF assms(1-4)] get_law [OF _ assms(5)] put_law [OF assms(1-4)]
  by (simp add: fifo_Get_def)

lemma get_sound:
  assumes "inv s" "run_state (get key) (s, w) = (Some r, (s', w'))"
  obtains expiry where "(key, r, expiry) \<in> set (view s)" "clock w (ticks w) \<le> expiry"
  using get_law [OF assms] that by (auto simp: fifo_Get_def dest: map_of_SomeD split: option.splits if_splits)

lemma inval_get:
  assumes "inv s" "Contains key pre" "run_state (inval pre) (s, w) = (u, (s', w'))"
    and "run_state (get key) (s', v) = (r', (s'', v'))"
  shows "r' = None"
proof -
  have "view s' = filter (\<lambda>(k, _). \<not> Contains k pre) (view s)" and i: "inv s'"
    using inval_law [OF assms(1,3)] by auto
  then have "key \<notin> fst ` set (view s')" using assms(2) by auto
  then show ?thesis using get_law [OF i assms(4)] by (simp add: fifo_Get_def map_of_eq_None_iff [symmetric])
qed

end

lemma cache_bounded:
  assumes inv: "cache_inv c"
  shows "length (cache_abs c) \<le> nat (maxEntries c) \<and> distinct (map fst (cache_abs c))"
proof -
  have "distinct (map fst (sort_key idx_of (items c)))"
    using cache_invD(1) [OF inv] unfolding wf_map_def by (metis mset_map mset_sort mset_eq_imp_distinct_iff)
  moreover have "map fst (cache_abs c) = map fst (sort_key idx_of (items c))"
    by (simp add: cache_abs_def comp_def case_prod_unfold)
  ultimately show ?thesis using cache_invD(5) [OF inv] by (simp add: length_cache_abs)
qed

interpretation rcache: bounded_cache cache_inv cache_abs "\<lambda>c. nat (maxEntries c)" cache_ttl
  cache_Get cache_Set InvalidatePrefix
proof (unfold_locales, goal_cases)
  case (1 c)
  then show ?case by (rule cache_bounded)
next
  case (2 c key r w u c' w')
  then show ?case using cache_Set_run [OF 2(1,2) _ 2(4)] by simp
next
  case (3 c key w r c' w')
  from cache_Get_run [OF 3] show ?case by auto
next
  case (4 c pre w u c' w')
  then show ?case using InvalidatePrefix_run [OF 4] by simp
qed

lemma MakeKey_inj:
  assumes "CHR '':'' \<notin> set u1" "CHR '':'' \<notin> set u2" "CHR '':'' \<notin> set m1" "CHR '':'' \<notin> set m2"
    and "MakeKey u1 m1 p1 = MakeKey u2 m2 p2"
  shows "u1 = u2 \<and> m1 = m2 \<and> p1 = p2"
proof -
  have cut: "cut_chr (CHR '':'') (a @ '':'' @ b) = Some (a, b)" if "CHR '':'' \<notin> set a" for a b
    using that by simp
  from cut [OF assms(1)] cut [OF assms(2)] have u: "u1 = u2" and m: "m1 @ '':'' @ p1 = m2 @ '':'' @ p2"
    by (metis MakeKey_def assms(5) option.inject prod.inject)+
  from cut [OF assms(3), of p1] cut [OF assms(4), of p2] have "(m1, p1) = (m2, p2)"
    unfolding m by (metis option.inject)
  with u show ?thesis by simp
qed

section \<open>Properties\<close>

lemma cache_step_inv:
  assumes "cache_inv c" "1 \<le> maxEntries c" "op_key_ok x" "run_state (cache_step x) (c, w) = (u, (c', w'))"
  shows "cache_inv c' \<and> maxEntries c' = maxEntries c"
proof (cases x)
  case (OpGet key)
  then show ?thesis using assms cache_Get_run by (fastforce split: prod.splits)
next
  case (OpSet key resp)
  with assms show ?thesis using cache_Set_run [of c key] by simp
next
  case (OpInvalidate pre)
  with assms show ?thesis using InvalidatePrefix_run [of c pre] by simp
qed

lemma cache_steps_inv:
  "cache_inv c \<Longrightarrow> 1 \<le> maxEntries c \<Longrightarrow> list_all op_key_ok xs \<Longrightarrow>
     run_state (cache_steps xs) (c, w) = (u, (c', w')) \<Longrightarrow> cache_inv c' \<and> maxEntries c' = maxEntries c"
proof (induction xs arbitrary: c w)
  case (Cons x xs)
  obtain v c1 w1 where 1: "run_state (cache_step x) (c, w) = (v, (c1, w1))" by (metis surj_pair)
  with Cons.prems have 2: "run_state (cache_steps xs) (c1, w1) = (u, (c', w'))" by simp
  from cache_step_inv [OF Cons.prems(1,2) _ 1] Cons.prems(3)
  have "cache_inv c1" "maxEntries c1 = maxEntries c" by auto
  with Cons.IH [OF _ _ _ 2] Cons.prems show ?case by simp
qed simp

lemma cache_inv_New: "0 \<le> n \<Longrightarrow> cache_inv (cache_New ttl n)"
  by (simp add: cache_inv_def cache_New_def)

text \<open>
  Starting empty with a capacity of at least one, no sequence of lookups, stores and
  invalidations leaves more entries in the cache than its capacity.
\<close>
lemma cache_never_overfull:
  assumes "1 \<le> n" "list_all op_key_ok ops"
    and "run_state (cache_steps ops) (cache_New ttl n, w) = (u, (c, w'))"
  shows "int (length (items c)) \<le> n"
proof -
  have "cache_inv (cache_New ttl n)" "maxEntries (cache_New ttl n) = n"
    using assms(1) by (simp_all add: cache_inv_New) (simp add: cache_New_def)
  with cache_steps_inv [OF _ _ assms(2,3)] assms(1) have "cache_inv c" "maxEntries c = n" by simp_all
  then show ?thesis using cache_invD(5) by metis
qed

text \<open>
  C18: Storing a response under a key is the operation of a bounded queue: an old entry of the key
  is replaced, a new key in a full cache pushes out exactly the entry stored longest ago, and the
  entry goes to the end with an expiry one time-to-live after the clock reading.
\<close>
theorem cache_Set_refines_fifo:
  assumes "cache_inv c" "key \<noteq> []" "1 \<le> maxEntries c"
    and "run_state (cache_Set key resp) (c, w) = (u, (c', w'))"
  shows "cache_abs c' = fifo_Set (nat (maxEntries c)) key resp (clock w (ticks w) + cache_ttl c) (cache_abs c)
    \<and> cache_inv c'"
  using cache_Set_run [OF assms] by simp

theorem cache_Set_refines_fifo_witness:
  "cache_abs (fst (snd (run_state (cache_Set ''k'' \<lparr>cr_status = 200, cr_headers = [], cr_body = ''x''\<rparr>)
       (cache_New Second 2, sample_world))))
     = [(''k'', \<lparr>cr_status = 200, cr_headers = [], cr_body = ''x''\<rparr>, Second)]"
proof -
  have "cache_inv (cache_New Second 2)" "1 \<le> maxEntries (cache_New Second 2)"
    by (simp_all add: cache_inv_New) (simp add: cache_New_def)
  from cache_Set_refines_fifo [OF this(1) _ this(2) run_eta, of "''k''"
      "\<lparr>cr_status = 200, cr_headers = [], cr_body = ''x''\<rparr>" sample_world]
  show ?thesis by (simp add: fifo_Set_def cache_abs_def cache_New_def sample_world_def)
qed

text \<open>
  A response just stored is found again until its time to live has passed and never after:
  the lookup hits exactly while the clock does not read more than the time of storing plus the
  time to live.
\<close>
lemma cache_hit_until_expiry:
  assumes "cache_inv c" "key \<noteq> []" "1 \<le> maxEntries c"
    and "run_state (cache_Set key resp) (c, w) = (u, (c', w'))"
    and "run_state (cache_Get key) (c', v) = (r, (c'', v'))"
  shows "r = (if clock v (ticks v) > clock w (ticks w) + cache_ttl c then None else Some resp)"
  using assms(3) rcache.put_get [OF assms(1,2) _ assms(4,5)] by simp

text \<open>
  After a prefix has been invalidated, no key that contains it is found, whatever the order in
  which the map was visited.
\<close>
lemma cache_invalidated_misses:
  assumes "cache_inv c" "Contains key pre"
    and "run_state (InvalidatePrefix pre) (c, w) = (u, (c', w'))"
    and "run_state (cache_Get key) (c', v) = (r, (c'', v'))"
  shows "r = None"
  by (rule rcache.inval_get [OF assms])

text \<open>
  Cache keys separate users: when user ids and methods have no colon, two equal keys come from
  the same user, the same method and the same path.
\<close>
lemma MakeKey_injective:
  assumes "CHR '':'' \<notin> set u1" "CHR '':'' \<notin> set u2" "CHR '':'' \<notin> set m1" "CHR '':'' \<notin> set m2"
    and "MakeKey u1 m1 p1 = MakeKey u2 m2 p2"
  shows "u1 = u2 \<and> m1 = m2 \<and> p1 = p2"
  by (rule MakeKey_inj [OF assms])

end
