(* ===== verification/JWT_Auth.thy ===== *)
theory JWT_Auth
  imports Go_HTTP
begin

text \<open>
  The JSON Web Tokens of the portal: minting (\<open>mintAccessToken\<close> of src/internal/auth/server.go,
  \<open>mintLoopbackJWT\<close> of src/internal/mcp/get_page.go) and the five readers (\<open>ValidateJWT\<close> and
  \<open>extractJWTSubFromToken\<close> of src/internal/handlers/auth.go, \<open>validateJWT\<close> and \<open>extractJWTSub\<close> of
  src/internal/mcp/handler.go, \<open>extractSessionUserID\<close> of src/internal/auth/authorize.go). The
  lemmas show that what is minted is accepted until it expires, and that with a secret nothing is
  accepted whose signature is not the HMAC of its first two parts.
\<close>

section \<open>Signing\<close>

text \<open>The header is the text of the literal in the source, here written through the encoder.\<close>

definition jwt_header :: string where
  "jwt_header = b64_Encode (json_encode (JObj [(''alg'', JStr ''HS256''), (''typ'', JStr ''JWT'')]))"

definition jwt_sign :: "string \<Rightarrow> json \<Rightarrow> string" where
  "jwt_sign secret claims =
     (let payload = b64_Encode (json_encode claims);
          sigInput = jwt_header @ ''.'' @ payload;
          sig = b64_Encode (hmac_sha256 secret sigInput)
      in sigInput @ ''.'' @ sig)"

text \<open>The claims are a map, which json.Marshal writes in the order of the keys.\<close>

definition access_claims :: "string \<Rightarrow> string \<Rightarrow> string \<Rightarrow> string \<Rightarrow> time \<Rightarrow> json" where
  "access_claims userID scope clientID issuer now = JObj
     [(''client_id'', JStr clientID), (''exp'', jint (Unix (time_Add now (1 * Hour)))), (''iat'', jint (Unix now)),
      (''iss'', JStr issuer), (''scope'', JStr scope), (''sub'', JStr userID)]"

definition mintAccessToken :: "string \<Rightarrow> string \<Rightarrow> string \<Rightarrow> string \<Rightarrow> string \<Rightarrow> ('s, error + string) io" where
  "mintAccessToken jwtSecret userID scope clientID issuer =
     do { now \<leftarrow> time_Now; ret (Inr (jwt_sign jwtSecret (access_claims userID scope clientID issuer now))) }"

definition loopbackJWTTTL :: duration where
  "loopbackJWTTTL = 30 * Second"

definition mintLoopbackJWT :: "string \<Rightarrow> string \<Rightarrow> ('s, error + string) io" where
  "mintLoopbackJWT userID secret =
     do { t \<leftarrow> time_Now;
          let now = Unix t;
          ret (Inr (jwt_sign secret (JObj
            [(''sub'', JStr userID), (''iss'', JStr ''vire-portal-loopback''), (''iat'', jint now),
             (''exp'', jint (now + loopbackJWTTTL div Second))]))) }"

section \<open>Reading\<close>

record JWTClaims =
  jc_sub :: string
  jc_email :: string
  jc_name :: string
  jc_provider :: string
  jc_iss :: string
  jc_iat :: int
  jc_exp :: int

record jwtClaims =
  mc_sub :: string
  mc_exp :: int
  mc_iss :: string
  mc_client :: string
  mc_scope :: string

definition JWTClaims_fields :: "string list" where
  "JWTClaims_fields = [''sub'', ''email'', ''name'', ''provider'', ''iss'', ''iat'', ''exp'']"

definition JWTClaims_of :: "json \<Rightarrow> JWTClaims option" where
  "JWTClaims_of v =
     do { kvs \<leftarrow> json_members v;
          let fs = JWTClaims_fields;
          s \<leftarrow> json_field json_as_string [] fs ''sub'' kvs;
          e \<leftarrow> json_field json_as_string [] fs ''email'' kvs;
          n \<leftarrow> json_field json_as_string [] fs ''name'' kvs;
          p \<leftarrow> json_field json_as_string [] fs ''provider'' kvs;
          i \<leftarrow> json_field json_as_string [] fs ''iss'' kvs;
          a \<leftarrow> json_field json_as_int64 0 fs ''iat'' kvs;
          x \<leftarrow> json_field json_as_int64 0 fs ''exp'' kvs;
          Some \<lparr>jc_sub = s, jc_email = e, jc_name = n, jc_provider = p, jc_iss = i, jc_iat = a, jc_exp = x\<rparr> }"

definition jwtClaims_fields :: "string list" where
  "jwtClaims_fields = [''sub'', ''exp'', ''iss'', ''client_id'', ''scope'']"

definition jwtClaims_of :: "json \<Rightarrow> jwtClaims option" where
  "jwtClaims_of v =
     do { kvs \<leftarrow> json_members v;
          let fs = jwtClaims_fields;
          s \<leftarrow> json_field json_as_string [] fs ''sub'' kvs;
          x \<leftarrow> json_field json_as_int64 0 fs ''exp'' kvs;
          i \<leftarrow> json_field json_as_string [] fs ''iss'' kvs;
          c \<leftarrow> json_field json_as_string [] fs ''client_id'' kvs;
          sc \<leftarrow> json_field json_as_string [] fs ''scope'' kvs;
          Some \<lparr>mc_sub = s, mc_exp = x, mc_iss = i, mc_client = c, mc_scope = sc\<rparr> }"

text \<open>The struct with a sub only, and the one with sub and exp.\<close>

definition sub_of :: "json \<Rightarrow> string option" where
  "sub_of v = do { kvs \<leftarrow> json_members v; json_field json_as_string [] [''sub''] ''sub'' kvs }"

definition sub_exp_of :: "json \<Rightarrow> (string \<times> int) option" where
  "sub_exp_of v =
     do { kvs \<leftarrow> json_members v;
          s \<leftarrow> json_field json_as_string [] [''sub'', ''exp''] ''sub'' kvs;
          x \<leftarrow> json_field json_as_int64 0 [''sub'', ''exp''] ''exp'' kvs;
          Some (s, x) }"

text \<open>The signature check the validators share: skipped when the secret is empty.\<close>

datatype sig_result = SigOK | SigEncoding | SigWrong

definition check_sig :: "string \<Rightarrow> string list \<Rightarrow> sig_result" where
  "check_sig secret parts =
     (if secret = [] then SigOK
      else (case b64_Decode (parts ! 2) of
          None \<Rightarrow> SigEncoding
        | Some actual \<Rightarrow>
            if hmac_Equal (hmac_sha256 secret (parts ! 0 @ ''.'' @ parts ! 1)) actual then SigOK else SigWrong))"

definition ValidateJWT :: "string \<Rightarrow> string \<Rightarrow> ('s, error + JWTClaims) io" where
  "ValidateJWT token secret =
     (let parts = SplitN token (CHR ''.'') 4
      in if length parts \<noteq> 3
         then ret (Inl (''invalid JWT format: expected 3 parts, got '' @ Itoa (int (length parts))))
         else (case check_sig secret parts of
             SigEncoding \<Rightarrow> do { e \<leftarrow> error_for (parts ! 2); ret (Inl (''invalid JWT signature encoding: '' @ e)) }
           | SigWrong \<Rightarrow> ret (Inl ''invalid JWT signature'')
           | SigOK \<Rightarrow>
               (case b64_Decode (parts ! 1) of
                  None \<Rightarrow> do { e \<leftarrow> error_for (parts ! 1); ret (Inl (''invalid JWT payload encoding: '' @ e)) }
                | Some payload \<Rightarrow>
                    (case Option.bind (json_Unmarshal payload) JWTClaims_of of
                       None \<Rightarrow> do { e \<leftarrow> error_for payload; ret (Inl (''invalid JWT payload JSON: '' @ e)) }
                     | Some claims \<Rightarrow>
                         if jc_exp claims = 0 then ret (Inl ''JWT missing exp claim'')
                         else do { now \<leftarrow> time_Now;
                                   ret (if jc_exp claims < Unix now then Inl ''JWT expired'' else Inr claims) }))))"

definition validateJWT_mcp :: "string \<Rightarrow> string \<Rightarrow> ('s, error + jwtClaims) io" where
  "validateJWT_mcp token secret =
     (let parts = SplitN token (CHR ''.'') 4
      in if length parts \<noteq> 3
         then ret (Inl (''invalid JWT: expected 3 parts, got '' @ Itoa (int (length parts))))
         else (case check_sig secret parts of
             SigEncoding \<Rightarrow> do { e \<leftarrow> error_for (parts ! 2); ret (Inl (''invalid JWT signature encoding: '' @ e)) }
           | SigWrong \<Rightarrow> ret (Inl ''invalid JWT signature'')
           | SigOK \<Rightarrow>
               (case b64_Decode (parts ! 1) of
                  None \<Rightarrow> do { e \<leftarrow> error_for (parts ! 1); ret (Inl (''invalid JWT payload: '' @ e)) }
                | Some payload \<Rightarrow>
                    (case Option.bind (json_Unmarshal payload) jwtClaims_of of
                       None \<Rightarrow> do { e \<leftarrow> error_for payload; ret (Inl (''invalid JWT JSON: '' @ e)) }
                     | Some claims \<Rightarrow>
                         if mc_exp claims > 0
                         then do { now \<leftarrow> time_Now;
                                   ret (if mc_exp claims < Unix now then Inl ''JWT expired'' else Inr claims) }
                         else ret (Inr claims)))))"

text \<open>\<open>extractJWTSub\<close> and \<open>extractJWTSubFromToken\<close>: no signature, no expiry.\<close>

definition extractJWTSub :: "string \<Rightarrow> string" where
  "extractJWTSub token =
     (let parts = SplitN token (CHR ''.'') 3
      in if length parts < 2 then []
         else (case Option.bind (Option.bind (b64_Decode (parts ! 1)) json_Unmarshal) sub_of of
             None \<Rightarrow> [] | Some s \<Rightarrow> s))"

definition extractJWTSubFromToken :: "string \<Rightarrow> string" where
  "extractJWTSubFromToken token =
     (let parts = SplitN token (CHR ''.'') 3
      in if length parts < 2 then []
         else (case Option.bind (Option.bind (b64_Decode (parts ! 1)) json_Unmarshal) sub_of of
             None \<Rightarrow> [] | Some s \<Rightarrow> s))"

definition extractSessionUserID :: "string \<Rightarrow> request \<Rightarrow> ('s, string) io" where
  "extractSessionUserID jwtSecret r =
     (case req_Cookie r ''vire_session'' of
        None \<Rightarrow> ret []
      | Some v \<Rightarrow>
          if v = [] then ret []
          else (let parts = SplitN v (CHR ''.'') 4
                in if length parts \<noteq> 3 then ret []
                   else if check_sig jwtSecret parts \<noteq> SigOK then ret []
                   else (case Option.bind (Option.bind (b64_Decode (parts ! 1)) json_Unmarshal) sub_exp_of of
                       None \<Rightarrow> ret []
                     | Some (sub, ex) \<Rightarrow>
                         if ex > 0 then do { now \<leftarrow> time_Now; ret (if ex < Unix now then [] else sub) }
                         else ret sub)))"

definition IsLoggedIn :: "request \<Rightarrow> string \<Rightarrow> ('s, JWTClaims option) io" where
  "IsLoggedIn r secret =
     do { t \<leftarrow> (if req_Get r ''X-Test-Session'' \<noteq> []
                 then ValidateJWT (req_Get r ''X-Test-Session'') secret else ret (Inl []));
          case t of
            Inr claims \<Rightarrow> ret (Some claims)
          | Inl _ \<Rightarrow>
              (case req_Cookie r ''vire_session'' of
                 None \<Rightarrow> ret None
               | Some v \<Rightarrow>
                   if v = [] then ret None
                   else do { c \<leftarrow> ValidateJWT v secret;
                             ret (case c of Inl _ \<Rightarrow> None | Inr claims \<Rightarrow> Some claims) }) }"

section \<open>Splitting a token\<close>

lemma SplitN_4:
  "SplitN s c 4 = (case cut_chr c s of None \<Rightarrow> [s] | Some (a, b) \<Rightarrow> a #
     (case cut_chr c b of None \<Rightarrow> [b] | Some (a', b') \<Rightarrow> a' #
       (case cut_chr c b' of None \<Rightarrow> [b'] | Some (a'', b'') \<Rightarrow> [a'', b''])))"
  by (simp add: eval_nat_numeral cong: option.case_cong prod.case_cong)

lemma cut_chr_absent [simp]: "c \<notin> set s \<Longrightarrow> cut_chr c s = None"
  by simp

lemma SplitN_3_parts:
  assumes "c \<notin> set a" "c \<notin> set b" "c \<notin> set d"
  shows "SplitN (a @ c # b @ c # d) c 4 = [a, b, d]"
  using assms by (simp add: SplitN_4)

lemma SplitN_4_length_3:
  assumes "length (SplitN s c 4) = 3"
  obtains a b d where "SplitN s c 4 = [a, b, d]" "s = a @ c # b @ c # d" "c \<notin> set a" "c \<notin> set b" "c \<notin> set d"
proof -
  from assms obtain a r b d where "cut_chr c s = Some (a, r)" "cut_chr c r = Some (b, d)" "cut_chr c d = None"
    by (auto simp: SplitN_4 split: option.splits prod.splits)
  then have "s = a @ c # r" "c \<notin> set a" "r = b @ c # d" "c \<notin> set b" "c \<notin> set d"
    by (simp_all add: cut_chr_Some_iff)
  then show thesis using that [of a b d] by (simp add: SplitN_3_parts)
qed

lemma jwt_sign_parts:
  "SplitN (jwt_sign secret claims) (CHR ''.'') 4
     = [jwt_header, b64_Encode (json_encode claims),
        b64_Encode (hmac_sha256 secret (jwt_header @ ''.'' @ b64_Encode (json_encode claims)))]"
proof -
  have "CHR ''.'' \<notin> set jwt_header" by (simp add: jwt_header_def)
  then show ?thesis using SplitN_3_parts [of "CHR ''.''" jwt_header] by (simp add: jwt_sign_def Let_def)
qed

lemma check_sig_sign [simp]: "check_sig secret (SplitN (jwt_sign secret claims) (CHR ''.'') 4) = SigOK"
  by (simp add: check_sig_def jwt_sign_parts)

lemma check_sig_OK:
  "check_sig secret [h, p, g] = SigOK \<longleftrightarrow> secret = [] \<or> b64_Decode g = Some (hmac_sha256 secret (h @ ''.'' @ p))"
  by (auto simp: check_sig_def split: option.splits)

section \<open>Minted tokens are read back\<close>

lemma JWTClaims_target [simp]:
  "json_target JWTClaims_fields ''sub'' = Some ''sub''" "json_target JWTClaims_fields ''iss'' = Some ''iss''"
  "json_target JWTClaims_fields ''iat'' = Some ''iat''" "json_target JWTClaims_fields ''exp'' = Some ''exp''"
  "json_target JWTClaims_fields ''client_id'' = None" "json_target JWTClaims_fields ''scope'' = None"
  by (simp_all add: json_target_def JWTClaims_fields_def EqualFold_def ToLower_def lower_chr_def isUpper_def)

lemma jwtClaims_target [simp]:
  "json_target jwtClaims_fields ''sub'' = Some ''sub''" "json_target jwtClaims_fields ''iss'' = Some ''iss''"
  "json_target jwtClaims_fields ''exp'' = Some ''exp''" "json_target jwtClaims_fields ''client_id'' = Some ''client_id''"
  "json_target jwtClaims_fields ''scope'' = Some ''scope''" "json_target jwtClaims_fields ''iat'' = None"
  by (simp_all add: json_target_def jwtClaims_fields_def EqualFold_def ToLower_def lower_chr_def isUpper_def)

lemma field_values_step [simp]:
  "field_values fs f [] = []"
  "field_values fs f ((k, v) # r)
     = (if json_target fs k = Some f \<and> v \<noteq> JNull then v # field_values fs f r else field_values fs f r)"
  by (simp_all add: field_values_def)

definition time_ok :: "time \<Rightarrow> bool" where
  "time_ok t \<longleftrightarrow> in_int64 (Unix t) \<and> in_int64 (Unix (t + Hour))"

lemma access_claims_read:
  assumes "time_ok now"
  shows "jwtClaims_of (access_claims u sc c i now)
      = Some \<lparr>mc_sub = u, mc_exp = Unix (now + Hour), mc_iss = i, mc_client = c, mc_scope = sc\<rparr>"
    "JWTClaims_of (access_claims u sc c i now)
      = Some \<lparr>jc_sub = u, jc_email = [], jc_name = [], jc_provider = [], jc_iss = i, jc_iat = Unix now,
              jc_exp = Unix (now + Hour)\<rparr>"
  using assms
  by (simp_all add: access_claims_def jwtClaims_of_def JWTClaims_of_def json_field_def time_ok_def time_Add_def Atoi_Itoa)

lemma access_claims_ok: "json_ok (access_claims u sc c i now)"
  by (simp add: access_claims_def num_ok_Itoa)

lemma read_minted_mcp:
  assumes "time_ok t" "0 < Unix (t + Hour)"
  shows "fst (run_state (validateJWT_mcp (jwt_sign secret (access_claims u sc c i t)) secret) (s, w))
    = (if Unix (t + Hour) < Unix (clock w (ticks w)) then Inl ''JWT expired''
       else Inr \<lparr>mc_sub = u, mc_exp = Unix (t + Hour), mc_iss = i, mc_client = c, mc_scope = sc\<rparr>)"
proof -
  let ?t = "jwt_sign secret (access_claims u sc c i t)"
  have "check_sig secret (SplitN ?t (CHR ''.'') 4) = SigOK" by simp
  then show ?thesis
    using assms access_claims_read(1) [OF assms(1)]
    by (simp add: validateJWT_mcp_def jwt_sign_parts json_Unmarshal_encode access_claims_ok)
qed

lemma read_minted_browser:
  assumes "time_ok t" "0 < Unix (t + Hour)"
  shows "fst (run_state (ValidateJWT (jwt_sign secret (access_claims u sc c i t)) secret) (s, w))
    = (if Unix (t + Hour) < Unix (clock w (ticks w)) then Inl ''JWT expired''
       else Inr \<lparr>jc_sub = u, jc_email = [], jc_name = [], jc_provider = [], jc_iss = i, jc_iat = Unix t,
                 jc_exp = Unix (t + Hour)\<rparr>)"
proof -
  let ?t = "jwt_sign secret (access_claims u sc c i t)"
  have "check_sig secret (SplitN ?t (CHR ''.'') 4) = SigOK" by simp
  then show ?thesis
    using assms access_claims_read(2) [OF assms(1)]
    by (simp add: ValidateJWT_def jwt_sign_parts json_Unmarshal_encode access_claims_ok)
qed

section \<open>Accepted tokens are signed\<close>

text \<open>A token of three parts whose third decodes to the HMAC of the first two.\<close>

definition signed_by :: "string \<Rightarrow> string \<Rightarrow> bool" where
  "signed_by secret token \<longleftrightarrow>
     (\<exists>h p g. token = h @ ''.'' @ p @ ''.'' @ g \<and> CHR ''.'' \<notin> set h \<and> CHR ''.'' \<notin> set p
        \<and> b64_Decode g = Some (hmac_sha256 secret (h @ ''.'' @ p)))"

lemma signed_byI:
  assumes "length (SplitN token (CHR ''.'') 4) = 3" "check_sig secret (SplitN token (CHR ''.'') 4) = SigOK" "secret \<noteq> []"
  shows "signed_by secret token"
proof -
  obtain a b d where s: "SplitN token (CHR ''.'') 4 = [a, b, d]"
    and t: "token = a @ CHR ''.'' # b @ CHR ''.'' # d" "CHR ''.'' \<notin> set a" "CHR ''.'' \<notin> set b"
    using SplitN_4_length_3 [OF assms(1)] by metis
  from assms(2,3) have "b64_Decode d = Some (hmac_sha256 secret (a @ ''.'' @ b))"
    unfolding s check_sig_OK by simp
  with t show ?thesis unfolding signed_by_def by (intro exI [of _ a] exI [of _ b] exI [of _ d]) simp
qed

lemma ValidateJWT_sound:
  assumes "run_state (ValidateJWT token secret) (s, w) = (Inr claims, (s', w'))"
  shows "(secret \<noteq> [] \<longrightarrow> signed_by secret token) \<and> jc_exp claims \<noteq> 0 \<and> Unix (clock w (ticks w)) \<le> jc_exp claims"
proof -
  let ?ps = "SplitN token (CHR ''.'') 4"
  have "length ?ps = 3" "check_sig secret ?ps = SigOK" "jc_exp claims \<noteq> 0 \<and> Unix (clock w (ticks w)) \<le> jc_exp claims"
    using assms by (auto simp: ValidateJWT_def Let_def split: if_splits sig_result.splits option.splits)
  then show ?thesis using signed_byI by blast
qed

lemma validateJWT_mcp_sound:
  assumes "run_state (validateJWT_mcp token secret) (s, w) = (Inr claims, (s', w'))"
  shows "(secret \<noteq> [] \<longrightarrow> signed_by secret token)
    \<and> (mc_exp claims \<le> 0 \<or> Unix (clock w (ticks w)) \<le> mc_exp claims)"
proof -
  let ?ps = "SplitN token (CHR ''.'') 4"
  have "length ?ps = 3" "check_sig secret ?ps = SigOK" "mc_exp claims \<le> 0 \<or> Unix (clock w (ticks w)) \<le> mc_exp claims"
    using assms by (auto simp: validateJWT_mcp_def Let_def split: if_splits sig_result.splits option.splits)
  then show ?thesis using signed_byI by blast
qed

lemma keeps_jwt [inv_intros]:
  "keeps (st_inv I) (ValidateJWT t sec)" "keeps (env_inv w0) (ValidateJWT t sec)"
  "keeps (st_inv I) (validateJWT_mcp t sec)" "keeps (env_inv w0) (validateJWT_mcp t sec)"
  "keeps (st_inv I) (extractSessionUserID sec r)" "keeps (env_inv w0) (extractSessionUserID sec r)"
  "keeps (st_inv I) (mintAccessToken sec u sc c i)" "keeps (env_inv w0) (mintAccessToken sec u sc c i)"
  unfolding ValidateJWT_def validateJWT_mcp_def extractSessionUserID_def mintAccessToken_def Let_def
  by (auto intro!: inv_intros split: sig_result.splits option.splits if_splits)

lemma keeps_ValidateJWT_quiet [inv_intros]: "keeps (quiet x) (ValidateJWT t sec)"
  unfolding ValidateJWT_def Let_def by (auto intro!: inv_intros split: sig_result.splits option.splits if_splits)

lemma keeps_login [inv_intros]:
  "keeps (st_inv I) (IsLoggedIn r sec)" "keeps (env_inv w0) (IsLoggedIn r sec)" "keeps (quiet x) (IsLoggedIn r sec)"
  unfolding IsLoggedIn_def by (intro inv_intros)+

section \<open>Properties\<close>



text \<open>
  With a secret configured, a browser session is accepted only if its token is three dot-free
  parts with a signature that is the HMAC-SHA256 of the first two under the secret, it has an expiry,
  and the clock has not passed it.
\<close>
lemma ValidateJWT_requires_signature:
  assumes "secret \<noteq> []" "run_state (ValidateJWT token secret) (s, w) = (Inr claims, (s', w'))"
  shows "signed_by secret token \<and> jc_exp claims \<noteq> 0 \<and> Unix (clock w (ticks w)) \<le> jc_exp claims"
  using ValidateJWT_sound [OF assms(2)] assms(1) by simp


end
