(* ===== verification/Middleware.thy ===== *)
theory Middleware
  imports Go_HTTP
begin

text \<open>
  The middleware chain around the router (src/internal/server/middleware.go) and the routing
  helpers (src/internal/server/route_helpers.go). A handler may panic: it then hands back what it
  had written. The access log is not modelled, so \<open>loggingMiddleware\<close> is left out of the chain:
  it passes the request and the response through. \<open>uuid\<close> stands for the text of a new
  google/uuid, a function of the environment.
\<close>

section \<open>Handlers\<close>

datatype outcome = Returned (written: response) | Panicked (written: response)

type_synonym 's handler = "response \<Rightarrow> request \<Rightarrow> ('s, outcome) io"

section \<open>The middleware\<close>

definition correlationIDMiddleware :: "(world \<Rightarrow> string) \<Rightarrow> 's handler \<Rightarrow> 's handler" where
  "correlationIDMiddleware uuid next w r =
     do { fresh \<leftarrow> in_env (gets uuid);
          let c1 = req_Get r ''X-Request-Id'';
          let c2 = (if c1 = [] then req_Get r ''X-Correlation-Id'' else c1);
          let correlationID = (if c2 = [] then fresh else c2);
          next (Header_Set ''X-Correlation-Id'' correlationID w) r }"

definition corsMiddleware :: "'s handler \<Rightarrow> 's handler" where
  "corsMiddleware next w r =
     (let w1 = Header_Set ''Access-Control-Allow-Headers'' ''Content-Type, Authorization''
                (Header_Set ''Access-Control-Allow-Methods'' ''GET, POST, PUT, DELETE, OPTIONS''
                  (Header_Set ''Access-Control-Allow-Origin'' ''*'' w))
      in if rq_method r = ''OPTIONS'' then ret (Returned (WriteHeader 200 w1)) else next w1 r)"

definition recoveryMiddleware :: "'s handler \<Rightarrow> 's handler" where
  "recoveryMiddleware next w r =
     do { out \<leftarrow> next w r;
          ret (case out of
                 Returned w' \<Rightarrow> Returned w'
               | Panicked w' \<Rightarrow> Returned (http_Error ''Internal server error'' 500 w')) }"

definition contentSecurityPolicy :: string where
  "contentSecurityPolicy =
     ''default-src 'self'; style-src 'self' 'unsafe-inline' https://fonts.googleapis.com; ''
     @ ''font-src 'self' https://fonts.gstatic.com; ''
     @ ''script-src 'self' 'unsafe-inline' 'unsafe-eval' https://cdn.jsdelivr.net; ''
     @ ''connect-src 'self' https://cdn.jsdelivr.net''"

definition securityHeadersMiddleware :: "'s handler \<Rightarrow> 's handler" where
  "securityHeadersMiddleware next w r =
     next (Header_Set ''Content-Security-Policy'' contentSecurityPolicy
            (Header_Set ''Referrer-Policy'' ''strict-origin-when-cross-origin''
              (Header_Set ''X-Xss-Protection'' ''1; mode=block''
                (Header_Set ''X-Frame-Options'' ''DENY''
                  (Header_Set ''X-Content-Type-Options'' ''nosniff'' w))))) r"

definition body_limit :: "nat \<Rightarrow> request \<Rightarrow> nat" where
  "body_limit maxBytes r = (if rq_path r = ''/mcp'' then 10 * 2 ^ 20 else maxBytes)"

definition maxBodySizeMiddleware :: "nat \<Rightarrow> 's handler \<Rightarrow> 's handler" where
  "maxBodySizeMiddleware maxBytes next w r = next w (r\<lparr>rq_limit := Some (body_limit maxBytes r)\<rparr>)"

definition generateCSRFToken :: "(world \<Rightarrow> string) \<Rightarrow> ('s, string) io" where
  "generateCSRFToken uuid =
     do { b \<leftarrow> rand_Read 32;
          case b of Inl _ \<Rightarrow> in_env (gets uuid) | Inr b \<Rightarrow> ret (hex_EncodeToString b) }"

definition csrf_cookie :: "request \<Rightarrow> string" where
  "csrf_cookie r = (case req_Cookie r ''_csrf'' of None \<Rightarrow> [] | Some c \<Rightarrow> c)"

definition csrf_exempt :: "string \<Rightarrow> bool" where
  "csrf_exempt p \<longleftrightarrow> HasPrefix p ''/api/'' \<or> HasPrefix p ''/mcp'' \<or> p = ''/authorize'' \<or> p = ''/register'' \<or> p = ''/token''"

definition csrfMiddleware :: "(world \<Rightarrow> string) \<Rightarrow> 's handler \<Rightarrow> 's handler" where
  "csrfMiddleware uuid next w r =
     (if rq_method r \<in> set [''GET'', ''HEAD'', ''OPTIONS''] then
        (if rq_method r = ''GET'' \<and> csrf_cookie r = [] then
           do { token \<leftarrow> generateCSRFToken uuid;
                next (SetCookie \<lparr>ck_name = ''_csrf'', ck_value = token, ck_path = ''/'', ck_maxage = 0,
                                 ck_httponly = False, ck_secure = False, ck_samesite = SameSiteStrict\<rparr> w) r }
         else next w r)
      else if csrf_exempt (rq_path r) then next w r
      else if csrf_cookie r = [] then ret (Returned (http_Error ''Forbidden: missing CSRF token'' 403 w))
      else let header = req_Get r ''X-Csrf-Token'';
               r' = (if header = [] then parse_multipart r else r);
               token = (if header = [] then FormValue r' ''_csrf'' else header)
           in if token = [] \<or> token \<noteq> csrf_cookie r
              then ret (Returned (http_Error ''Forbidden: invalid CSRF token'' 403 w))
              else next w r')"

text \<open>The chain: the middleware applied last runs first.\<close>

definition withMiddleware :: "(world \<Rightarrow> string) \<Rightarrow> 's handler \<Rightarrow> 's handler" where
  "withMiddleware uuid next =
     correlationIDMiddleware uuid (securityHeadersMiddleware (corsMiddleware (csrfMiddleware uuid
       (maxBodySizeMiddleware (2 ^ 20) (recoveryMiddleware next)))))"

section \<open>Routing helpers\<close>

definition RouteByMethod :: "response \<Rightarrow> request \<Rightarrow> (string \<rightharpoonup> 's handler) \<Rightarrow> ('s, outcome) io" where
  "RouteByMethod w r routes =
     (case routes (rq_method r) of
        None \<Rightarrow> ret (Returned (http_Error ''Method not allowed'' 405 w))
      | Some handler \<Rightarrow> handler w r)"

definition set_route :: "string \<Rightarrow> 's handler option \<Rightarrow> (string \<rightharpoonup> 's handler) \<Rightarrow> (string \<rightharpoonup> 's handler)" where
  "set_route meth h routes = (case h of None \<Rightarrow> routes | Some f \<Rightarrow> routes(meth \<mapsto> f))"

definition RouteResourceCollection ::
  "response \<Rightarrow> request \<Rightarrow> 's handler option \<Rightarrow> 's handler option \<Rightarrow> ('s, outcome) io" where
  "RouteResourceCollection w r list create =
     RouteByMethod w r (set_route ''POST'' create (set_route ''GET'' list Map.empty))"

definition RouteResourceItem ::
  "response \<Rightarrow> request \<Rightarrow> 's handler option \<Rightarrow> 's handler option \<Rightarrow> 's handler option \<Rightarrow> ('s, outcome) io" where
  "RouteResourceItem w r get update del =
     RouteByMethod w r (set_route ''DELETE'' del (set_route ''PUT'' update (set_route ''GET'' get Map.empty)))"

section \<open>The contract of a middleware\<close>

text \<open>
  Every middleware but the innermost either answers by itself without touching the state of the
  application, or hands over to the next handler, once and as its last step.
\<close>

definition passed :: "'s handler \<Rightarrow> 's \<Rightarrow> world \<Rightarrow> outcome \<times> 's \<times> world \<Rightarrow> bool" where
  "passed h s v res \<longleftrightarrow> (\<exists>w1 r1 v1. evolves v v1 \<and> res = run_state (h w1 r1) (s, v1))
     \<or> (\<exists>w1 v1. evolves v v1 \<and> res = (Returned w1, (s, v1)))"

lemma passed_next: "evolves v v1 \<Longrightarrow> passed h s v (run_state (h w1 r1) (s, v1))"
  by (auto simp: passed_def)

lemma passed_own: "passed h s v (Returned w1, (s, v))"
  by (auto simp: passed_def)

lemma passed_if: "(b \<Longrightarrow> passed h s v x) \<Longrightarrow> (\<not> b \<Longrightarrow> passed h s v y) \<Longrightarrow> passed h s v (if b then x else y)"
  by simp

locale wrapper =
  fixes mw :: "'s handler \<Rightarrow> 's handler"
  assumes passes: "passed h s v (run_state (mw h w r) (s, v))"
begin

lemma contains_panics:
  assumes "\<And>w r s v. \<exists>x y. run_state (h w r) (s, v) = (Returned x, y)"
  shows "\<exists>x y. run_state (mw h w r) (s, v) = (Returned x, y)"
  using passes [of h s v w r] assms unfolding passed_def by metis

lemma state_by_next:
  assumes "run_state (mw h w r) (s, v) = (out, (s', v'))" "s' \<noteq> s"
  obtains w1 r1 v1 where "evolves v v1" "run_state (h w1 r1) (s, v1) = (out, (s', v'))"
  using passes [of h s v w r] assms by (auto simp: passed_def)

lemma keeps_by_next:
  assumes "\<And>w r. keeps P (h w r)" "\<And>s v v'. P (s, v) \<Longrightarrow> evolves v v' \<Longrightarrow> P (s, v')"
  shows "keeps P (mw h w r)"
proof (rule keeps_pairI)
  fix s v a s' v'
  assume p: "P (s, v)" and run: "run_state (mw h w r) (s, v) = (a, (s', v'))"
  from passes [of h s v w r] show "P (s', v')" unfolding run passed_def
  proof (elim disjE exE conjE)
    fix w1 r1 v1
    assume "evolves v v1" "(a, (s', v')) = run_state (h w1 r1) (s, v1)"
    then show ?thesis by (intro keepsD [OF assms(1) assms(2) [OF p]]) (auto intro: sym)
  qed (use assms(2) p in simp)
qed

end

lemma wrapper_comp:
  assumes "wrapper f" "wrapper g"
  shows "wrapper (\<lambda>k. f (g k))"
proof
  fix v w r s and h :: "'a handler"
  show "passed h s v (run_state (f (g h) w r) (s, v))"
    using wrapper.passes [OF assms(1), of "g h" s v w r] unfolding passed_def [of "g h"]
  proof (elim disjE exE conjE)
    fix w1 r1 v1
    assume e: "evolves v v1" and f: "run_state (f (g h) w r) (s, v) = run_state (g h w1 r1) (s, v1)"
    from wrapper.passes [OF assms(2), of h s v1 w1 r1] show ?thesis
      unfolding f passed_def using evolves_trans [OF e] by blast
  qed (auto simp: passed_def)
qed

interpretation correlation: wrapper "correlationIDMiddleware uuid" for uuid
  by standard (simp add: correlationIDMiddleware_def Let_def passed_next)

interpretation cors: wrapper corsMiddleware
  by standard (simp add: corsMiddleware_def Let_def passed_next passed_own)

interpretation security: wrapper securityHeadersMiddleware
  by standard (simp add: securityHeadersMiddleware_def passed_next)

interpretation body_size: wrapper "maxBodySizeMiddleware n" for n
  by standard (simp add: maxBodySizeMiddleware_def passed_next)

text \<open>What the check compares: the token the request presents, and the request after looking for it.\<close>

definition csrf_read :: "request \<Rightarrow> request" where
  "csrf_read r = (if req_Get r ''X-Csrf-Token'' = [] then parse_multipart r else r)"

definition csrf_token :: "request \<Rightarrow> string" where
  "csrf_token r = (if req_Get r ''X-Csrf-Token'' = [] then FormValue (csrf_read r) ''_csrf'' else req_Get r ''X-Csrf-Token'')"

definition csrf_ok :: "request \<Rightarrow> bool" where
  "csrf_ok r \<longleftrightarrow> csrf_cookie r \<noteq> [] \<and> csrf_token r = csrf_cookie r"

lemma run_generateCSRFToken:
  "run_state (generateCSRFToken uuid) (s, v)
     = (if entropy_ok v (draws v) then hex_EncodeToString (draw_bytes v 32) else uuid (v\<lparr>draws := Suc (draws v)\<rparr>),
        (s, v\<lparr>draws := Suc (draws v)\<rparr>))"
  by (simp add: generateCSRFToken_def)

lemma csrf_cases:
  "run_state (csrfMiddleware uuid h w r) (s, v) =
     (if rq_method r \<in> set [''GET'', ''HEAD'', ''OPTIONS''] then
        (if rq_method r = ''GET'' \<and> csrf_cookie r = [] then
           run_state (h (SetCookie \<lparr>ck_name = ''_csrf'', ck_value = fst (run_state (generateCSRFToken uuid) (s, v)), ck_path = ''/'',
               ck_maxage = 0, ck_httponly = False, ck_secure = False, ck_samesite = SameSiteStrict\<rparr> w) r)
             (s, v\<lparr>draws := Suc (draws v)\<rparr>)
         else run_state (h w r) (s, v))
      else if csrf_exempt (rq_path r) then run_state (h w r) (s, v)
      else if csrf_ok r then run_state (h w (csrf_read r)) (s, v)
      else (Returned (http_Error (if csrf_cookie r = [] then ''Forbidden: missing CSRF token'' else ''Forbidden: invalid CSRF token'') 403 w),
            (s, v)))"
  unfolding csrfMiddleware_def Let_def csrf_ok_def csrf_read_def csrf_token_def by (simp add: run_generateCSRFToken)

interpretation csrf: wrapper "csrfMiddleware uuid" for uuid
  by standard (unfold csrf_cases, intro passed_if passed_next passed_own evolves_steps evolves_refl)

interpretation chain: wrapper "\<lambda>k. correlationIDMiddleware uuid (securityHeadersMiddleware (corsMiddleware
    (csrfMiddleware uuid (maxBodySizeMiddleware n k))))" for uuid n
  by (rule wrapper_comp [OF correlation.wrapper_axioms wrapper_comp [OF security.wrapper_axioms wrapper_comp
      [OF cors.wrapper_axioms wrapper_comp [OF csrf.wrapper_axioms body_size.wrapper_axioms]]]])

section \<open>Headers every answer carries\<close>

definition security_headers :: "(string \<times> string) list" where
  "security_headers = [(''X-Content-Type-Options'', ''nosniff''), (''X-Frame-Options'', ''DENY''),
     (''X-Xss-Protection'', ''1; mode=block''), (''Referrer-Policy'', ''strict-origin-when-cross-origin''),
     (''Content-Security-Policy'', contentSecurityPolicy)]"

definition hardened :: "response \<Rightarrow> bool" where
  "hardened w \<longleftrightarrow> list_all (\<lambda>(k, v). hdr_Get (rs_header w) k = v) security_headers"

lemma hdr_Get_Del [simp]: "hdr_Get (hdr_Del h k) k' = (if k' = k then [] else hdr_Get h k')"
proof -
  have "map_of (filter (\<lambda>(k', _). k' \<noteq> k) h) k' = (if k' = k then None else map_of h k')" by (induction h) auto
  then show ?thesis by (simp add: hdr_Get_def hdr_Del_def)
qed

lemma hdr_Header_Set [simp]:
  "rs_code w = None \<Longrightarrow> hdr_Get (rs_header (Header_Set k v w)) k' = (if k' = k then v else hdr_Get (rs_header w) k')"
  by (simp add: Header_Set_def)

lemma header_writers [simp]:
  "rs_header (WriteHeader c w) = rs_header w" "rs_header (Write b w) = rs_header w" "rs_header (SetCookie ck w) = rs_header w"
  by (simp_all add: WriteHeader_def Write_def SetCookie_def Let_def)

lemma hardened_Error: "hardened w \<Longrightarrow> hardened (http_Error m c w)"
  by (cases "rs_code w")
     (auto simp: hardened_def security_headers_def http_Error_def Header_Del_def Header_Set_def)

lemma hardened_other:
  "hardened w \<Longrightarrow> hardened (WriteHeader c w)" "hardened w \<Longrightarrow> hardened (SetCookie ck w)"
  by (simp_all add: hardened_def)

text \<open>The writer the inner middleware gets.\<close>

definition outer_writer :: "(world \<Rightarrow> string) \<Rightarrow> world \<Rightarrow> response \<Rightarrow> request \<Rightarrow> response" where
  "outer_writer uuid v w r =
     (let c = (if req_Get r ''X-Request-Id'' \<noteq> [] then req_Get r ''X-Request-Id''
               else if req_Get r ''X-Correlation-Id'' \<noteq> [] then req_Get r ''X-Correlation-Id'' else uuid v);
          h1 = hdr_Set (rs_header w) ''X-Correlation-Id'' c;
          h2 = fold (\<lambda>(k, v) h. hdr_Set h k v) security_headers h1
      in w\<lparr>rs_header := fold (\<lambda>(k, v) h. hdr_Set h k v)
         [(''Access-Control-Allow-Origin'', ''*''), (''Access-Control-Allow-Methods'', ''GET, POST, PUT, DELETE, OPTIONS''),
          (''Access-Control-Allow-Headers'', ''Content-Type, Authorization'')] h2\<rparr>)"

lemma outer_writer_props:
  "rs_code w = None \<Longrightarrow> rs_code (outer_writer uuid v w r) = None" "hardened (outer_writer uuid v w r)"
  by (simp_all add: outer_writer_def Let_def hardened_def security_headers_def)

lemma withMiddleware_run:
  assumes "rs_code w = None" "rq_method r \<noteq> ''OPTIONS''"
  shows "run_state (withMiddleware uuid h w r) (s, v) =
    run_state (csrfMiddleware uuid (maxBodySizeMiddleware (2 ^ 20) (recoveryMiddleware h)) (outer_writer uuid v w r) r) (s, v)"
  using assms
  by (simp add: withMiddleware_def correlationIDMiddleware_def securityHeadersMiddleware_def corsMiddleware_def Let_def
      outer_writer_def security_headers_def Header_Set_def)

lemma recovery_hardened:
  assumes "\<And>w r s v. hardened w \<Longrightarrow> hardened (written (fst (run_state (h w r) (s, v))))" "hardened w"
  shows "hardened (written (fst (run_state (recoveryMiddleware h w r) (s, v))))"
  using assms hardened_Error
  by (auto simp: recoveryMiddleware_def split: prod.split outcome.splits) (metis fst_conv outcome.sel)+

lemma recovery_returns: "\<exists>x y. run_state (recoveryMiddleware h w r) (s, v) = (Returned x, y)"
  by (auto simp: recoveryMiddleware_def split: prod.split outcome.split)

lemma withMiddleware_chain:
  "withMiddleware uuid h = correlationIDMiddleware uuid (securityHeadersMiddleware (corsMiddleware
     (csrfMiddleware uuid (maxBodySizeMiddleware (2 ^ 20) (recoveryMiddleware h)))))"
  by (simp add: withMiddleware_def)

definition always_panics :: "'s handler \<Rightarrow> bool" where
  "always_panics h \<longleftrightarrow> (\<forall>w r s v. rs_code w = None \<longrightarrow> (\<exists>w' y. run_state (h w r) (s, v) = (Panicked w', y) \<and> rs_code w' = None))"

lemma panic_status:
  assumes "always_panics h" "rs_code w = None"
  shows "status_of (written (fst (run_state (recoveryMiddleware h w r) (s, v)))) = 500"
proof -
  obtain w' y where "run_state (h w r) (s, v) = (Panicked w', y)" "rs_code w' = None"
    using assms unfolding always_panics_def by blast
  then show ?thesis by (simp add: recoveryMiddleware_def status_Error)
qed

section \<open>Properties\<close>

text \<open>
  C14: A request that changes state on a page route reaches its handler only with a nonempty
  \<open>_csrf\<close> cookie that the header or the form repeats; the handler then runs on a body limited to
  one megabyte (ten for MCP) with the security headers set. Otherwise the answer is 403 with those
  headers, and neither the application's state nor the outside world has been touched.
\<close>
theorem csrf_guards_handler:
  assumes "rq_method r \<notin> {''GET'', ''HEAD'', ''OPTIONS''}" "\<not> csrf_exempt (rq_path r)"
    and "run_state (withMiddleware uuid h new_response r) (s, v) = (out, (s', v'))"
  shows "if csrf_ok r
    then \<exists>w1 r1. hardened w1 \<and> rq_limit r1 = Some (body_limit (2 ^ 20) (csrf_read r))
           \<and> run_state (recoveryMiddleware h w1 r1) (s, v) = (out, (s', v'))
    else status_of (written out) = 403 \<and> hardened (written out) \<and> s' = s \<and> v' = v"
proof -
  let ?w = "outer_writer uuid v new_response r"
  have n: "rs_code new_response = None" by (simp add: new_response_def)
  note w = outer_writer_props(1) [OF n, of uuid v r] outer_writer_props(2) [of uuid v new_response r]
  have "run_state (csrfMiddleware uuid (maxBodySizeMiddleware (2 ^ 20) (recoveryMiddleware h)) ?w r) (s, v) = (out, (s', v'))"
    using assms(1,3) withMiddleware_run [OF n, of r uuid h s v] by simp
  then have "if csrf_ok r
    then run_state (recoveryMiddleware h ?w ((csrf_read r)\<lparr>rq_limit := Some (body_limit (2 ^ 20) (csrf_read r))\<rparr>)) (s, v) = (out, (s', v'))
    else status_of (written out) = 403 \<and> hardened (written out) \<and> s' = s \<and> v' = v"
    using assms(1,2) w hardened_Error [OF w(2)]
    by (auto simp: csrf_cases maxBodySizeMiddleware_def status_Error)
  with w(2) show ?thesis
    by (auto intro!: exI [of _ ?w] exI [of _ "(csrf_read r)\<lparr>rq_limit := Some (body_limit (2 ^ 20) (csrf_read r))\<rparr>"] split: if_splits)
qed

theorem csrf_guards_handler_witness:
  "status_of (written (fst (run_state (withMiddleware (\<lambda>_. ''u'') (\<lambda>w r. ret (Returned (WriteHeader 200 w))) new_response
     (sample_request\<lparr>rq_method := ''POST'', rq_path := ''/profile'', rq_cookies := [(''_csrf'', ''a'')],
        rq_header := [(''X-Csrf-Token'', ''b'')]\<rparr>)) ((), sample_world)))) = 403"
proof -
  let ?r = "sample_request\<lparr>rq_method := ''POST'', rq_path := ''/profile'', rq_cookies := [(''_csrf'', ''a'')],
    rq_header := [(''X-Csrf-Token'', ''b'')]\<rparr>"
  have "rq_method ?r \<notin> {''GET'', ''HEAD'', ''OPTIONS''}" "\<not> csrf_exempt (rq_path ?r)"
    by (simp_all add: csrf_exempt_def HasPrefix_def)
  moreover have "\<not> csrf_ok ?r"
    by (simp add: csrf_ok_def csrf_token_def csrf_cookie_def req_Cookie_def req_Get_def hdr_Get_def)
  ultimately show ?thesis
    using csrf_guards_handler [of ?r "\<lambda>_. ''u''" "\<lambda>w r. ret (Returned (WriteHeader 200 w))" "()" sample_world, OF _ _ run_eta]
    by simp
qed



end
