(* ===== verification/Portal_Routes.thy ===== *)
theory Portal_Routes
  imports Middleware
begin

text \<open>
  The routing table (src/internal/server/routes.go, \<open>setupRoutes\<close>) and what it relies on of
  http.ServeMux: the patterns used are an optional method and a path of literal segments, ending or
  not in a wildcard for the rest (a trailing slash or \<open>{name...}\<close>). The endpoints are names of the
  handler methods; the theories of the components model what they do.
\<close>

section \<open>Patterns\<close>

datatype pseg = Lit string | Multi

type_synonym pattern = "string \<times> pseg list"

definition parse_seg :: "string \<Rightarrow> pseg" where
  "parse_seg s = (if s = [] \<or> HasPrefix s ''{'' \<and> HasSuffix s ''...}'' then Multi else Lit s)"

text \<open>A pattern without a method has the empty one.\<close>

definition parse_pattern :: "string \<Rightarrow> pattern" where
  "parse_pattern p =
     (let (meth, path) = (case cut_chr (CHR '' '') p of None \<Rightarrow> ([], p) | Some (m, q) \<Rightarrow> (m, q))
      in (meth, map parse_seg (Split (drop 1 path) (CHR ''/''))))"

fun seg_match :: "pseg list \<Rightarrow> string list \<Rightarrow> bool" where
  "seg_match [] [] = True"
| "seg_match [Multi] (x # xs) = True"
| "seg_match (Lit s # ps) (x # xs) = (s = x \<and> seg_match ps xs)"
| "seg_match _ _ = False"

definition path_segs :: "string \<Rightarrow> string list" where
  "path_segs p = map (\<lambda>s. case unescape EncPathSegment s of None \<Rightarrow> s | Some t \<Rightarrow> t) (Split (drop 1 p) (CHR ''/''))"

fun lits :: "pseg list \<Rightarrow> nat" where
  "lits [] = 0"
| "lits (Lit s # ps) = Suc (lits ps)"
| "lits (Multi # ps) = lits ps"

section \<open>The multiplexer\<close>

text \<open>The tree prefers a literal child to the wildcard: the match with the most literals.\<close>

fun best :: "(pattern \<times> 'e) list \<Rightarrow> (pattern \<times> 'e) option" where
  "best [] = None"
| "best (x # xs) =
     (case best xs of
        None \<Rightarrow> Some x
      | Some y \<Rightarrow> if lits (snd (fst y)) > lits (snd (fst x)) then Some y else Some x)"

definition match_method :: "(pattern \<times> 'e) list \<Rightarrow> string \<Rightarrow> string list \<Rightarrow> (pattern \<times> 'e) option" where
  "match_method table meth segs = best (filter (\<lambda>((m, ps), e). m = meth \<and> seg_match ps segs) table)"

text \<open>The patterns with the request's method, for HEAD then those with GET, then those without method.\<close>

definition mux_match :: "(pattern \<times> 'e) list \<Rightarrow> string \<Rightarrow> string \<Rightarrow> (pattern \<times> 'e) option" where
  "mux_match table meth path =
     (let segs = path_segs path
      in case match_method table meth segs of
           Some x \<Rightarrow> Some x
         | None \<Rightarrow>
             (case (if meth = ''HEAD'' then match_method table ''GET'' segs else None) of
                Some x \<Rightarrow> Some x
              | None \<Rightarrow> match_method table [] segs))"

text \<open>An exact match does not use the wildcard, or uses it for nothing after a slash.\<close>

definition exact_match :: "(pattern \<times> 'e) option \<Rightarrow> string \<Rightarrow> bool" where
  "exact_match n path =
     (case n of
        None \<Rightarrow> False
      | Some ((_, ps), _) \<Rightarrow>
          if ps = [] \<or> last ps \<noteq> Multi then True
          else HasSuffix path ''/'' \<and> length ps = length (filter (\<lambda>c. c = CHR ''/'') path))"

definition clean_path :: "string \<Rightarrow> string" where
  "clean_path p =
     (if p = [] then ''/''
      else let p = (if hd p = CHR ''/'' then p else CHR ''/'' # p);
               np = path_Clean p
           in if last p = CHR ''/'' \<and> np \<noteq> ''/'' then np @ ''/'' else np)"

datatype 'e dispatch = ToHandler 'e | MovedPermanently string | MuxNotFound

text \<open>
  \<open>ServeMux.findHandler\<close> on the escaped path: a redirect to the path with a slash when only that is
  registered, a redirect to the clean path, or the handler. Without a match the multiplexer answers
  404 or 405.
\<close>

definition find_handler :: "(pattern \<times> 'e) list \<Rightarrow> string \<Rightarrow> string \<Rightarrow> 'e dispatch" where
  "find_handler table meth escaped =
     (let path = clean_path escaped;
          n = mux_match table meth path
      in if \<not> exact_match n path \<and> \<not> HasSuffix path ''/'' \<and> exact_match (mux_match table meth (path @ ''/'')) (path @ ''/'')
         then MovedPermanently (path @ ''/'')
         else if path \<noteq> escaped then MovedPermanently path
         else (case n of None \<Rightarrow> MuxNotFound | Some (_, e) \<Rightarrow> ToHandler e))"

section \<open>The routes\<close>

datatype endpoint =
    HandleAuthorizationServer_ep | HandleProtectedResource_ep | WellKnownNotFound_ep
  | HandleRegister_ep | HandleAuthorize_ep | HandleAuthorizeResume_ep | HandleToken_ep
  | Dashboard_ep | MobileDashboard_ep | Strategy_ep | Cash_ep | MCPPage_ep
  | HelpPage_ep | ChangelogPage_ep | GlossaryPage_ep | DocsPage_ep | ErrorPage_ep | LandingPage_ep
  | StaticFile_ep | MCP_ep | MCPDev_ep | HandleProfile_ep | HandleSaveProfile_ep | AdminUsers_ep
  | HandleLogin_ep | HandleTestLogin_ep | HandleLogout_ep | HandleGoogleLogin_ep | HandleGitHubLogin_ep
  | HandleOAuthCallback_ep | HandleGoogleCallback_ep | HandleGitHubCallback_ep
  | Health_ep | ServerHealth_ep | Version_ep | Shutdown_ep | APIProxy_ep

text \<open>The MCP handlers are registered when the application has them.\<close>

definition setupRoutes :: "bool \<Rightarrow> bool \<Rightarrow> (pattern \<times> endpoint) list" where
  "setupRoutes hasMCP hasMCPDev = map (\<lambda>(p, e). (parse_pattern p, e))
    ([(''GET /.well-known/oauth-authorization-server'', HandleAuthorizationServer_ep),
      (''GET /.well-known/oauth-authorization-server/mcp'', HandleAuthorizationServer_ep),
      (''GET /.well-known/oauth-protected-resource'', HandleProtectedResource_ep),
      (''GET /.well-known/oauth-protected-resource/mcp'', HandleProtectedResource_ep),
      (''/.well-known/'', WellKnownNotFound_ep),
      (''POST /register'', HandleRegister_ep),
      (''GET /authorize'', HandleAuthorize_ep),
      (''POST /authorize'', HandleAuthorize_ep),
      (''GET /authorize/resume'', HandleAuthorizeResume_ep),
      (''POST /token'', HandleToken_ep),
      (''GET /dashboard'', Dashboard_ep),
      (''GET /dashboard/{portfolio...}'', Dashboard_ep),
      (''GET /m'', MobileDashboard_ep),
      (''GET /m/{portfolio...}'', MobileDashboard_ep),
      (''GET /strategy'', Strategy_ep),
      (''GET /cash'', Cash_ep),
      (''GET /mcp-info'', MCPPage_ep),
      (''GET /help'', HelpPage_ep),
      (''GET /changelog'', ChangelogPage_ep),
      (''GET /glossary'', GlossaryPage_ep),
      (''GET /docs'', DocsPage_ep),
      (''GET /error'', ErrorPage_ep),
      (''/'', LandingPage_ep),
      (''/static/'', StaticFile_ep)]
     @ (if hasMCP then [(''/mcp'', MCP_ep)] else [])
     @ (if hasMCPDev then [(''/mcp/'', MCPDev_ep)] else [])
     @ [(''GET /profile'', HandleProfile_ep),
      (''POST /profile'', HandleSaveProfile_ep),
      (''GET /admin/users'', AdminUsers_ep),
      (''POST /api/auth/login'', HandleLogin_ep),
      (''POST /api/auth/test-login'', HandleTestLogin_ep),
      (''POST /api/auth/logout'', HandleLogout_ep),
      (''GET /api/auth/login/google'', HandleGoogleLogin_ep),
      (''GET /api/auth/login/github'', HandleGitHubLogin_ep),
      (''GET /auth/callback'', HandleOAuthCallback_ep),
      (''GET /api/auth/callback/google'', HandleGoogleCallback_ep),
      (''GET /api/auth/callback/github'', HandleGitHubCallback_ep),
      (''/api/health'', Health_ep),
      (''/api/server-health'', ServerHealth_ep),
      (''/api/version'', Version_ep),
      (''POST /api/shutdown'', Shutdown_ep),
      (''/api/'', APIProxy_ep)])"

section \<open>Lemmas\<close>

lemma best_None [simp]: "best xs = None \<longleftrightarrow> xs = []"
  by (cases xs) (auto split: option.splits)

lemma best_max: "best xs = Some x \<Longrightarrow> x \<in> set xs \<and> (\<forall>y \<in> set xs. lits (snd (fst y)) \<le> lits (snd (fst x)))"
  by (induction xs arbitrary: x) (force split: option.splits if_splits)+

lemma match_method_props:
  assumes "match_method table meth segs = Some ((m, ps), e)"
  shows "((m, ps), e) \<in> set table" "m = meth" "seg_match ps segs"
    "((meth, qs), f) \<in> set table \<Longrightarrow> seg_match qs segs \<Longrightarrow> lits qs \<le> lits ps"
  using best_max [OF assms [unfolded match_method_def]] by force+

lemma match_method_None: "match_method table meth segs = None \<Longrightarrow> ((meth, qs), f) \<in> set table \<Longrightarrow> \<not> seg_match qs segs"
  by (auto simp: match_method_def filter_empty_conv)

lemma seg_match_lits_eq: "seg_match ps xs \<Longrightarrow> seg_match qs xs \<Longrightarrow> lits ps = lits qs \<Longrightarrow> ps = qs"
proof (induction ps xs arbitrary: qs rule: seg_match.induct)
  case (3 s ps x xs)
  then show ?case by (cases qs rule: lits.cases) (auto elim: seg_match.elims)
qed (auto elim: seg_match.elims)

text \<open>The table, its patterns parsed.\<close>

lemma routes_mono: "x \<in> set (setupRoutes a b) \<Longrightarrow> x \<in> set (setupRoutes True True)"
  by (auto simp: setupRoutes_def split: if_splits)

text \<open>Only the catch-all begins with the wildcard; it and the proxy are always there.\<close>

lemma routes_table:
  assumes "((m, ps), e) \<in> set (setupRoutes a b)"
  shows "ps \<noteq> [] \<and> (hd ps = Multi \<longrightarrow> e = LandingPage_ep \<and> ps = [Multi] \<and> m = [])"
proof -
  have "list_all (\<lambda>((m, ps), e). ps \<noteq> [] \<and> (hd ps = Multi \<longrightarrow> e = LandingPage_ep \<and> ps = [Multi] \<and> m = [])) (setupRoutes True True)"
    by code_simp
  with routes_mono [OF assms] show ?thesis by (force simp: list_all_iff)
qed

lemma routes_fallbacks:
  "(([], [Multi]), LandingPage_ep) \<in> set (setupRoutes a b)" "(([], [Lit ''api'', Multi]), APIProxy_ep) \<in> set (setupRoutes a b)"
proof -
  have "parse_pattern ''/'' = ([], [Multi])" "parse_pattern ''/api/'' = ([], [Lit ''api'', Multi])" by code_simp+
  then show "(([], [Multi]), LandingPage_ep) \<in> set (setupRoutes a b)"
    "(([], [Lit ''api'', Multi]), APIProxy_ep) \<in> set (setupRoutes a b)"
    unfolding setupRoutes_def by force+
qed

lemma path_segs_not_Nil [simp]: "path_segs p \<noteq> []"
  by (simp add: path_segs_def)

lemma mux_match_entry:
  assumes "mux_match table meth path = Some ((m, ps), e)"
  shows "((m, ps), e) \<in> set table" "seg_match ps (path_segs path)" "m \<in> {meth, [], ''GET''}" "m = ''GET'' \<Longrightarrow> meth \<in> {''GET'', ''HEAD''}"
  using assms match_method_props [of table _ "path_segs path" m ps e]
  by (auto simp: mux_match_def Let_def split: option.splits if_splits)

section \<open>Properties\<close>

text \<open>
  C17: Every request is dispatched to a handler or redirected, never refused by the router, and an
  API request goes to a handler registered under /api/: to the page handlers never.
\<close>
theorem every_request_routed:
  "find_handler (setupRoutes a b) meth escaped \<noteq> MuxNotFound
   \<and> (path_segs path = ''api'' # x # xs \<longrightarrow>
       (\<exists>m ps e. mux_match (setupRoutes a b) meth path = Some ((m, Lit ''api'' # ps), e)
          \<and> ((m, Lit ''api'' # ps), e) \<in> set (setupRoutes a b) \<and> e \<noteq> LandingPage_ep))"
proof
  have some: "\<exists>m ps e. mux_match (setupRoutes a b) meth p = Some ((m, ps), e)" for p
  proof -
    obtain y ys where "path_segs p = y # ys" using path_segs_not_Nil by (metis list.exhaust)
    then have "seg_match [Multi] (path_segs p)" by simp
    with match_method_None [OF _ routes_fallbacks(1)] have "match_method (setupRoutes a b) [] (path_segs p) \<noteq> None" by blast
    then show ?thesis by (auto simp: mux_match_def Let_def split: option.splits if_splits)
  qed
  show "find_handler (setupRoutes a b) meth escaped \<noteq> MuxNotFound"
    using some [of "clean_path escaped"] by (auto simp: find_handler_def Let_def)
  show "path_segs path = ''api'' # x # xs \<longrightarrow> (\<exists>m ps e. mux_match (setupRoutes a b) meth path = Some ((m, Lit ''api'' # ps), e)
      \<and> ((m, Lit ''api'' # ps), e) \<in> set (setupRoutes a b) \<and> e \<noteq> LandingPage_ep)"
  proof
    assume p: "path_segs path = ''api'' # x # xs"
    obtain m ps e where e: "mux_match (setupRoutes a b) meth path = Some ((m, ps), e)" using some by blast
    note q = mux_match_entry [OF e] and t = routes_table [OF mux_match_entry(1) [OF e]]
    have "hd ps \<noteq> Multi"
    proof
      assume "hd ps = Multi"
      with t have "ps = [Multi]" "m = []" by auto
      moreover have "match_method (setupRoutes a b) [] (path_segs path) = Some ((m, ps), e)"
        using e \<open>m = []\<close> match_method_props(2) [of "setupRoutes a b" _ "path_segs path" m ps e]
        by (auto simp: mux_match_def Let_def split: option.splits if_splits)
      ultimately show False
        using match_method_props(4) [OF _ routes_fallbacks(2)] p by fastforce
    qed
    with t q(2) p obtain qs where "ps = Lit ''api'' # qs" by (cases ps; cases "hd ps") auto
    moreover have "list_all (\<lambda>((m, ps), e). hd ps = Lit ''api'' \<longrightarrow> e \<noteq> LandingPage_ep) (setupRoutes True True)" by code_simp
    ultimately show "\<exists>m ps e. mux_match (setupRoutes a b) meth path = Some ((m, Lit ''api'' # ps), e)
      \<and> ((m, Lit ''api'' # ps), e) \<in> set (setupRoutes a b) \<and> e \<noteq> LandingPage_ep"
      using e q(1) routes_mono [OF q(1)] by (fastforce simp: list_all_iff)
  qed
qed

theorem every_request_routed_witness:
  "\<exists>m ps e. mux_match (setupRoutes True False) ''GET'' ''/api/portfolios/x'' = Some ((m, Lit ''api'' # ps), e) \<and> e \<noteq> LandingPage_ep"
proof -
  have "path_segs ''/api/portfolios/x'' = [''api'', ''portfolios'', ''x'']" by code_simp
  with every_request_routed [of True False "''GET''" "[]" "''/api/portfolios/x''"] show ?thesis by blast
qed

end
