(* ===== verification/API_Proxy.thy ===== *)
theory API_Proxy
  imports Response_Cache JWT_Auth Portal_Routes
begin

text \<open>
  The proxy of the API routes to vire-server and the shutdown endpoint
  (src/internal/server/routes.go, \<open>handleAPIProxy\<close>, \<open>handleShutdown\<close>,
  \<open>handleWellKnownNotFound\<close>; src/internal/server/server.go, \<open>Server\<close> and \<open>New\<close>). The server
  holds the response cache; the request goes out with the user of the session in a header.
\<close>

section \<open>State\<close>

text \<open>\<open>sv_shutdown\<close> counts the goroutines that signal the shutdown channel, if there is one.\<close>

record Server =
  sv_apiURL :: string
  sv_jwtSecret :: string
  sv_devMode :: bool
  sv_cache :: ResponseCache
  sv_chan :: bool
  sv_shutdown :: nat

definition server_New :: "string \<Rightarrow> string \<Rightarrow> bool \<Rightarrow> Server" where
  "server_New apiURL jwtSecret devMode =
     \<lparr>sv_apiURL = apiURL, sv_jwtSecret = jwtSecret, sv_devMode = devMode,
      sv_cache = cache_New (30 * Second) 1000, sv_chan = False, sv_shutdown = 0\<rparr>"

definition SetShutdownChannel :: "(Server, unit) io" where
  "SetShutdownChannel = mod_st (\<lambda>s. s\<lparr>sv_chan := True\<rparr>)"

definition on_cache :: "(ResponseCache, 'a) io \<Rightarrow> (Server, 'a) io" where
  "on_cache m = zoom sv_cache (\<lambda>c s. s\<lparr>sv_cache := c\<rparr>) m"

section \<open>Endpoints\<close>

definition handleShutdown :: "response \<Rightarrow> request \<Rightarrow> (Server, response) io" where
  \<open>handleShutdown w r =
     do { dev \<leftarrow> get_st sv_devMode;
          if \<not> dev
          then ret (Write ''{"error":"Shutdown endpoint disabled in production"}''
                 (WriteHeader 403 (Header_Set ''Content-Type'' ''application/json'' w)))
          else do { mod_st (\<lambda>s. if sv_chan s then s\<lparr>sv_shutdown := Suc (sv_shutdown s)\<rparr> else s);
                    ret (Write (''Shutting down gracefully...'' @ [CHR 0x0A]) (WriteHeader 200 w)) } }\<close>

definition handleWellKnownNotFound :: "response \<Rightarrow> request \<Rightarrow> response" where
  \<open>handleWellKnownNotFound w r =
     Write ''{"error":"Not Found"}'' (WriteHeader 404 (Header_Set ''Content-Type'' ''application/json'' w))\<close>

definition maxCacheableBody :: nat where
  "maxCacheableBody = 5 * 1024 * 1024"

definition target_url :: "string \<Rightarrow> request \<Rightarrow> string" where
  "target_url apiURL r = apiURL @ rq_path r @ (if rq_rawquery r = [] then [] else ''?'' @ rq_rawquery r)"

text \<open>The request that goes out: the headers of the incoming one, and the user when there is one.\<close>

definition proxy_headers :: "string \<Rightarrow> request \<Rightarrow> http_request \<Rightarrow> http_request" where
  "proxy_headers userID r rq =
     (let rq = rq\<lparr>ro_header := fold (\<lambda>(k, v) h. hdr_Add h k v) (rq_header r) (ro_header rq)\<rparr>
      in if userID \<noteq> [] then req_Set rq ''X-Vire-User-Id'' userID else rq)"

text \<open>
  \<open>client.Do\<close> fails when the body of the incoming request cannot be read to its end, for instance
  because it is over the limit.
\<close>

definition forward :: "request \<Rightarrow> http_request \<Rightarrow> ('s, http_result) io" where
  "forward r rq =
     (case ReadAll r of
        None \<Rightarrow> do { e \<leftarrow> error_for ''body''; ret (NetErr e) }
      | Some b \<Rightarrow> client_Do (rq\<lparr>ro_body := b\<rparr>))"

definition handle_upstream :: "string \<Rightarrow> response \<Rightarrow> request \<Rightarrow> http_result \<Rightarrow> (Server, response) io" where
  \<open>handle_upstream userID w r res =
     (case res of
        NetErr _ \<Rightarrow> ret (http_Error ''{"error":"API server unavailable"}'' 503 w)
      | HttpResp status hdr raw broken \<Rightarrow>
          (case LimitRead (maxCacheableBody + 1) raw broken of
             None \<Rightarrow> ret (http_Error ''{"error":"Failed to read API response"}'' 502 w)
           | Some body \<Rightarrow>
               do { if_do (rq_method r = ''GET'' \<and> userID \<noteq> [] \<and> status \<ge> 200 \<and> status < 300 \<and> length body \<le> maxCacheableBody)
                      (on_cache (cache_Set (MakeKey userID (rq_method r) (RequestURI r))
                         \<lparr>cr_status = status, cr_headers = hdr, cr_body = body\<rparr>));
                    if_do (Values_Get (req_Query r) ''force_refresh'' = ''true'' \<and> userID \<noteq> [])
                      (on_cache (InvalidatePrefix (rq_path r)));
                    if_do (rq_method r \<noteq> ''GET'' \<and> userID \<noteq> []) (on_cache (InvalidatePrefix (rq_path r)));
                    ret (Write body (WriteHeader status (add_headers hdr w))) }))\<close>

definition handleAPIProxy :: "response \<Rightarrow> request \<Rightarrow> (Server, response) io" where
  \<open>handleAPIProxy w r =
     do { apiURL \<leftarrow> get_st sv_apiURL;
          jwtSecret \<leftarrow> get_st sv_jwtSecret;
          if apiURL = [] then ret (http_Error ''{"error":"API server not configured"}'' 503 w)
          else if HasPrefix (rq_path r) ''/api/internal/'' then ret (http_Error ''{"error":"Not Found"}'' 404 w)
          else
            do { claims \<leftarrow> IsLoggedIn r jwtSecret;
                 let userID = (case claims of None \<Rightarrow> [] | Some c \<Rightarrow> jc_sub c);
                 cached \<leftarrow> (if rq_method r = ''GET'' \<and> userID \<noteq> []
                            then on_cache (cache_Get (MakeKey userID (rq_method r) (RequestURI r))) else ret None);
                 case cached of
                   Some c \<Rightarrow> ret (Write (cr_body c) (WriteHeader (cr_status c) (add_headers (cr_headers c) w)))
                 | None \<Rightarrow>
                     do { rq \<leftarrow> NewRequest (rq_method r) (target_url apiURL r) [];
                          case rq of
                            Inl _ \<Rightarrow> ret (http_Error ''{"error":"Failed to create proxy request"}'' 500 w)
                          | Inr rq \<Rightarrow>
                              do { res \<leftarrow> forward r (proxy_headers userID r rq);
                                   handle_upstream userID w r res } } } }\<close>

section \<open>Running the proxy\<close>

lemma keeps_cache_quiet [inv_intros]:
  "keeps (quiet x) (cache_Get k)" "keeps (quiet x) (cache_Set k r)" "keeps (quiet x) (InvalidatePrefix p)"
  unfolding cache_Get_def cache_Set_def InvalidatePrefix_def evictOldest_def Let_def by (intro inv_intros)+

lemma keeps_cache_env [inv_intros]:
  "keeps (env_inv w0) (cache_Get k)" "keeps (env_inv w0) (cache_Set k r)" "keeps (env_inv w0) (InvalidatePrefix p)"
  unfolding cache_Get_def cache_Set_def InvalidatePrefix_def evictOldest_def Let_def by (intro inv_intros)+

lemma keeps_upstream_quiet [inv_intros]: "keeps (quiet x) (handle_upstream u w r res)"
  unfolding handle_upstream_def on_cache_def by (intro inv_intros)

lemma run_on_cache:
  "run_state (on_cache m) (s, w) = (case run_state m (sv_cache s, w) of (a, (c, w')) \<Rightarrow> (a, (s\<lparr>sv_cache := c\<rparr>, w')))"
  by (simp add: on_cache_def)

definition session_user :: "JWTClaims option \<Rightarrow> string" where
  "session_user claims = (case claims of None \<Rightarrow> [] | Some c \<Rightarrow> jc_sub c)"

definition replay :: "CachedResponse \<Rightarrow> response \<Rightarrow> response" where
  "replay c w = Write (cr_body c) (WriteHeader (cr_status c) (add_headers (cr_headers c) w))"

definition proxied :: "Server \<Rightarrow> request \<Rightarrow> bool" where
  "proxied s r \<longleftrightarrow> sv_apiURL s \<noteq> [] \<and> \<not> HasPrefix (rq_path r) ''/api/internal/''"

text \<open>The three stages of the proxy: who asks, the cache, the request to vire-server.\<close>

definition ask_cache :: "string \<Rightarrow> request \<Rightarrow> (Server, CachedResponse option) io" where
  "ask_cache u r = (if rq_method r = ''GET'' \<and> u \<noteq> [] then on_cache (cache_Get (MakeKey u (rq_method r) (RequestURI r))) else ret None)"

definition ask_upstream :: "string \<Rightarrow> string \<Rightarrow> response \<Rightarrow> request \<Rightarrow> (Server, response) io" where
  \<open>ask_upstream url u w r =
     do { rq \<leftarrow> NewRequest (rq_method r) (target_url url r) [];
          case rq of
            Inl _ \<Rightarrow> ret (http_Error ''{"error":"Failed to create proxy request"}'' 500 w)
          | Inr rq \<Rightarrow> do { res \<leftarrow> forward r (proxy_headers u r rq); handle_upstream u w r res } }\<close>

lemma proxy_stages:
  assumes "proxied s r" "run_state (IsLoggedIn r (sv_jwtSecret s)) (s, w) = (claims, (s1, w1))"
  shows "run_state (handleAPIProxy wr r) (s, w) =
    run_state (do { c \<leftarrow> ask_cache (session_user claims) r;
                    case c of Some c \<Rightarrow> ret (replay c wr) | None \<Rightarrow> ask_upstream (sv_apiURL s) (session_user claims) wr r }) (s, w1)"
proof -
  have "s1 = s" using st_unchanged [OF keeps_login(1) assms(2)] .
  with assms show ?thesis
    by (simp add: proxied_def handleAPIProxy_def session_user_def replay_def ask_cache_def ask_upstream_def Let_def
        cong: option.case_cong)
qed

lemma ask_cache_quiet: "run_state (ask_cache u r) (s, w) = (c, (s', w')) \<Longrightarrow> sent w' = sent w"
  by (rule keeps_quietD) (auto simp: ask_cache_def on_cache_def intro!: inv_intros)

lemma run_forward:
  "run_state (forward r rq) (s, w) = (case ReadAll r of
     None \<Rightarrow> (NetErr (err_text w ''body''), (s, w))
   | Some b \<Rightarrow> (peer w (length (sent w)) (rq\<lparr>ro_body := b\<rparr>), (s, w\<lparr>sent := sent w @ [rq\<lparr>ro_body := b\<rparr>]\<rparr>)))"
  by (simp add: forward_def client_Do_def error_for_def split: option.split)

text \<open>What goes out: nothing, or one request to the target with the proxy's headers.\<close>

lemma ask_upstream_sent:
  assumes "run_state (ask_upstream url u wr r) (s, w) = (resp, (s', w'))"
  shows "sent w' = sent w \<or> (\<exists>b. ReadAll r = Some b \<and> url_Parse (target_url url r) \<noteq> None \<and>
    sent w' = sent w @ [(proxy_headers u r \<lparr>ro_method = rq_method r, ro_url = target_url url r, ro_header = [], ro_body = []\<rparr>)\<lparr>ro_body := b\<rparr>])"
  using assms
  by (auto simp: ask_upstream_def NewRequest_def run_forward dest!: keeps_quietD [OF keeps_upstream_quiet]
      split: option.splits)

lemma fold_hdr_Add: "fold (\<lambda>(k, v) h. hdr_Add h k v) hs h = h @ hs"
  by (induction hs arbitrary: h) (auto simp: hdr_Add_def)

lemma ask_upstream_goes:
  assumes "url_Parse (target_url url r) \<noteq> None" "ReadAll r = Some b"
    and "run_state (ask_upstream url u wr r) (s, w) = (resp, (s', w'))"
  shows "sent w' = sent w @ [(proxy_headers u r \<lparr>ro_method = rq_method r, ro_url = target_url url r, ro_header = [], ro_body = []\<rparr>)\<lparr>ro_body := b\<rparr>]"
  using assms
  by (auto simp: ask_upstream_def NewRequest_def run_forward dest!: keeps_quietD [OF keeps_upstream_quiet])

lemma anonymous_sent:
  assumes "proxied s r" "run_state (IsLoggedIn r (sv_jwtSecret s)) (s, w) = (None, (s, w))"
    and "url_Parse (target_url (sv_apiURL s) r) \<noteq> None" "ReadAll r = Some b"
  shows "sent (snd (snd (run_state (handleAPIProxy wr r) (s, w)))) = sent w @ [\<lparr>ro_method = rq_method r,
    ro_url = target_url (sv_apiURL s) r, ro_header = rq_header r, ro_body = b\<rparr>]"
proof -
  obtain resp s' w' where p: "run_state (ask_upstream (sv_apiURL s) [] wr r) (s, w) = (resp, (s', w'))" by (metis surj_pair)
  then have "run_state (handleAPIProxy wr r) (s, w) = (resp, (s', w'))"
    by (simp add: proxy_stages [OF assms(1,2)] session_user_def ask_cache_def)
  with ask_upstream_goes [OF assms(3,4) p] show ?thesis by (simp add: proxy_headers_def fold_hdr_Add)
qed

lemma proxy_sent:
  assumes "proxied s r" "run_state (IsLoggedIn r (sv_jwtSecret s)) (s, w) = (claims, (s1, w1))"
    and "run_state (handleAPIProxy wr r) (s, w) = (resp, (s', w'))"
  shows "sent w' = sent w \<or> (\<exists>b. sent w' = sent w @ [(proxy_headers (session_user claims) r
    \<lparr>ro_method = rq_method r, ro_url = target_url (sv_apiURL s) r, ro_header = [], ro_body = []\<rparr>)\<lparr>ro_body := b\<rparr>])"
proof -
  have 1: "sent w1 = sent w" using keeps_quietD [OF keeps_login(3) assms(2)] .
  obtain c s2 w2 where c: "run_state (ask_cache (session_user claims) r) (s, w1) = (c, (s2, w2))" by (metis surj_pair)
  have 2: "sent w2 = sent w" using ask_cache_quiet [OF c] 1 by simp
  show ?thesis
  proof (cases c)
    case None
    then have "run_state (ask_upstream (sv_apiURL s) (session_user claims) wr r) (s2, w2) = (resp, (s', w'))"
      using assms(3) c unfolding proxy_stages [OF assms(1,2)] by simp
    from ask_upstream_sent [OF this] 2 show ?thesis by auto
  next
    case (Some x)
    then show ?thesis using assms(3) c 2 unfolding proxy_stages [OF assms(1,2)] by simp
  qed
qed

lemma proxy_headers_user:
  "u \<noteq> [] \<Longrightarrow> filter (\<lambda>(k, _). k = ''X-Vire-User-Id'') (ro_header (proxy_headers u r rq)) = [(''X-Vire-User-Id'', u)]"
  by (simp add: proxy_headers_def Let_def req_Set_def hdr_Set_def filter_empty_conv split: prod.splits)

lemma proxy_headers_url: "ro_url (proxy_headers u r rq) = ro_url rq"
  by (simp add: proxy_headers_def req_Set_def Let_def)

text \<open>A request that vire-server answers with success is answered from the cache the next time.\<close>

lemma ask_upstream_caches:
  assumes "rq_method r = ''GET''" "u \<noteq> []" "Values_Get (req_Query r) ''force_refresh'' \<noteq> ''true''"
    and "url_Parse (target_url url r) \<noteq> None" "ReadAll r = Some b"
    and "peer w (length (sent w)) ((proxy_headers u r \<lparr>ro_method = rq_method r, ro_url = target_url url r, ro_header = [], ro_body = []\<rparr>)\<lparr>ro_body := b\<rparr>)
           = HttpResp st hdr body False" "200 \<le> st" "st < 300" "length body \<le> maxCacheableBody"
    and "run_state (ask_upstream url u wr r) (s, w) = (resp, (s', w'))"
  obtains w1 x where "clock w1 = clock w" "ticks w1 = ticks w"
    "run_state (cache_Set (MakeKey u (rq_method r) (RequestURI r)) \<lparr>cr_status = st, cr_headers = hdr, cr_body = body\<rparr>)
       (sv_cache s, w1) = (x, (sv_cache s', w'))"
    "resp = replay \<lparr>cr_status = st, cr_headers = hdr, cr_body = body\<rparr> wr" "s' = s\<lparr>sv_cache := sv_cache s'\<rparr>"
proof -
  let ?rq = "(proxy_headers u r \<lparr>ro_method = rq_method r, ro_url = target_url url r, ro_header = [], ro_body = []\<rparr>)\<lparr>ro_body := b\<rparr>"
  let ?w1 = "w\<lparr>sent := sent w @ [?rq]\<rparr>"
  let ?c = "\<lparr>cr_status = st, cr_headers = hdr, cr_body = body\<rparr>"
  obtain x c2 w2 where c: "run_state (cache_Set (MakeKey u (rq_method r) (RequestURI r)) ?c) (sv_cache s, ?w1) = (x, (c2, w2))"
    by (metis surj_pair)
  have l: "LimitRead (maxCacheableBody + 1) body False = Some body" using assms(9) by (simp add: LimitRead_def)
  have "resp = replay ?c wr \<and> s' = s\<lparr>sv_cache := c2\<rparr> \<and> w' = w2"
    using assms c l
    by (auto simp: ask_upstream_def NewRequest_def run_forward handle_upstream_def run_on_cache replay_def)
  with that [of ?w1 x] c show thesis by simp
qed

text \<open>A plain GET: no refresh asked for, a target that parses, a body that can be read.\<close>

definition plain_get :: "Server \<Rightarrow> request \<Rightarrow> bool" where
  "plain_get s r \<longleftrightarrow> proxied s r \<and> rq_method r = ''GET'' \<and> Values_Get (req_Query r) ''force_refresh'' \<noteq> ''true''
     \<and> url_Parse (target_url (sv_apiURL s) r) \<noteq> None \<and> ReadAll r \<noteq> None"

definition user_at :: "Server \<Rightarrow> request \<Rightarrow> string \<Rightarrow> world \<Rightarrow> world \<Rightarrow> bool" where
  "user_at s r u w w1 \<longleftrightarrow> u \<noteq> [] \<and> (\<exists>c. run_state (IsLoggedIn r (sv_jwtSecret s)) (s, w) = (Some c, (s, w1)) \<and> jc_sub c = u)"

lemma first_get_stored:
  assumes "plain_get s r" "user_at s r u w w1" "map_of (items (sv_cache s)) (MakeKey u ''GET'' (RequestURI r)) = None"
    and "peer w = (\<lambda>_ _. HttpResp st hdr body False)" "200 \<le> st" "st < 300" "length body \<le> maxCacheableBody"
    and "run_state (handleAPIProxy wr r) (s, w) = (resp, (s', w'))"
  obtains w2 x where "clock w2 = clock w1" "ticks w2 = ticks w1"
    "run_state (cache_Set (MakeKey u ''GET'' (RequestURI r)) \<lparr>cr_status = st, cr_headers = hdr, cr_body = body\<rparr>)
       (sv_cache s, w2) = (x, (sv_cache s', w'))"
    "resp = replay \<lparr>cr_status = st, cr_headers = hdr, cr_body = body\<rparr> wr" "s' = s\<lparr>sv_cache := sv_cache s'\<rparr>"
proof -
  note p = assms(1) [unfolded plain_get_def]
  obtain c where l: "run_state (IsLoggedIn r (sv_jwtSecret s)) (s, w) = (Some c, (s, w1))" and u: "jc_sub c = u" "u \<noteq> []"
    using assms(2) by (auto simp: user_at_def)
  obtain b where b: "ReadAll r = Some b" using p by auto
  have "peer w1 = peer w" using keeps_evolves [OF keeps_login(2) l] by (simp add: evolves_def)
  then have pe: "peer w1 n q = HttpResp st hdr body False" for n q using assms(4) by simp
  have "run_state (ask_cache u r) (s, w1) = (None, (s, w1))"
    using assms(3) p by (simp add: ask_cache_def run_on_cache cache_Get_def)
  then have "run_state (ask_upstream (sv_apiURL s) u wr r) (s, w1) = (resp, (s', w'))"
    using assms(8) proxy_stages [OF conjunct1 [OF p] l] u(1) by (simp add: session_user_def)
  from ask_upstream_caches [OF _ u(2) _ _ b pe assms(5,6,7) this] p that show thesis by metis
qed

lemma hit_replayed:
  assumes "plain_get s r" "user_at s r u v v1"
    and "run_state (cache_Get (MakeKey u ''GET'' (RequestURI r))) (sv_cache s, v1) = (Some c, (k, v2))"
    and "run_state (handleAPIProxy wr r) (s, v) = (resp, (s', v'))"
  shows "resp = replay c wr \<and> sent v' = sent v"
proof -
  note p = assms(1) [unfolded plain_get_def]
  obtain cl where l: "run_state (IsLoggedIn r (sv_jwtSecret s)) (s, v) = (Some cl, (s, v1))" and u: "jc_sub cl = u" "u \<noteq> []"
    using assms(2) by (auto simp: user_at_def)
  have "sent v1 = sent v" using keeps_quietD [OF keeps_login(3) l] .
  moreover have "sent v2 = sent v1" using keeps_quietD [OF keeps_cache_quiet(1) assms(3)] .
  ultimately show ?thesis
    using assms(3,4) p u proxy_stages [OF conjunct1 [OF p] l, of wr]
    by (auto simp: session_user_def ask_cache_def run_on_cache)
qed

text \<open>A write that vire-server answers ends with an invalidation of its path.\<close>

lemma write_ends_invalidating:
  assumes "cache_inv (sv_cache s)" "proxied s r" "rq_method r \<noteq> ''GET''" "user_at s r u w w1"
    and "url_Parse (target_url (sv_apiURL s) r) \<noteq> None" "ReadAll r \<noteq> None" "peer w = (\<lambda>_ _. HttpResp st hdr body False)"
    and "run_state (handleAPIProxy wr r) (s, w) = (resp, (s', w'))"
  obtains c w2 x where "cache_inv c" "run_state (InvalidatePrefix (rq_path r)) (c, w2) = (x, (sv_cache s', w'))"
proof -
  obtain cl where l: "run_state (IsLoggedIn r (sv_jwtSecret s)) (s, w) = (Some cl, (s, w1))" and u: "jc_sub cl = u" "u \<noteq> []"
    using assms(4) by (auto simp: user_at_def)
  obtain b where b: "ReadAll r = Some b" using assms(6) by auto
  let ?rq = "(proxy_headers u r \<lparr>ro_method = rq_method r, ro_url = target_url (sv_apiURL s) r, ro_header = [], ro_body = []\<rparr>)\<lparr>ro_body := b\<rparr>"
  let ?w2 = "w1\<lparr>sent := sent w1 @ [?rq]\<rparr>"
  have "peer w1 = peer w" using keeps_evolves [OF keeps_login(2) l] by (simp add: evolves_def)
  then have pe: "peer w1 n q = HttpResp st hdr body False" for n q using assms(7) by simp
  obtain lb where lb: "LimitRead (maxCacheableBody + 1) body False = Some lb"
    by (cases "maxCacheableBody + 1 \<le> length body") (auto simp: LimitRead_def)
  obtain x1 c1 v1 where i1: "run_state (InvalidatePrefix (rq_path r)) (sv_cache s, ?w2) = (x1, (c1, v1))" by (metis surj_pair)
  obtain x2 c2 v2 where i2: "run_state (InvalidatePrefix (rq_path r)) (c1, v1) = (x2, (c2, v2))" by (metis surj_pair)
  have c1: "cache_inv c1" using rcache.inval_law [OF assms(1) i1] by simp
  have "run_state (ask_upstream (sv_apiURL s) u wr r) (s, w1) = (resp, (s', w'))"
    using assms(3,8) proxy_stages [OF assms(2) l] u(1) by (simp add: session_user_def ask_cache_def)
  then have "if Values_Get (req_Query r) ''force_refresh'' = ''true'' then sv_cache s' = c2 \<and> w' = v2 else sv_cache s' = c1 \<and> w' = v1"
    using assms(3,5) u(2) b pe lb i1 i2
    by (auto simp: ask_upstream_def NewRequest_def run_forward handle_upstream_def run_on_cache)
  then show thesis using that [OF assms(1)] that [OF c1] i1 i2 by (auto split: if_splits)
qed

section \<open>Properties\<close>

text \<open>
  C3: A request of a signed-in user leaves the portal with exactly one user header, the subject of
  the session's token, whatever headers the browser sent; and at most one request leaves.
\<close>
theorem proxied_user_authentic:
  assumes "proxied s r" "user_at s r u w w1" "run_state (handleAPIProxy wr r) (s, w) = (resp, (s', w'))"
  shows "sent w' = sent w \<or> (\<exists>rq. sent w' = sent w @ [rq] \<and> ro_url rq = target_url (sv_apiURL s) r
    \<and> filter (\<lambda>(k, _). k = ''X-Vire-User-Id'') (ro_header rq) = [(''X-Vire-User-Id'', u)])"
proof -
  obtain c where l: "run_state (IsLoggedIn r (sv_jwtSecret s)) (s, w) = (Some c, (s, w1))" and u: "jc_sub c = u" "u \<noteq> []"
    using assms(2) by (auto simp: user_at_def)
  from proxy_sent [OF assms(1) l assms(3)] u show ?thesis
    by (auto simp: session_user_def proxy_headers_user proxy_headers_url)
qed


definition session_token :: string where
  "session_token = jwt_sign ''k'' (access_claims ''alice'' ''openid'' ''app'' ''http://p'' 0)"

definition sample_get :: request where
  "sample_get = sample_request\<lparr>rq_path := ''/api/p'', rq_escaped := ''/api/p'', rq_cookies := [(''vire_session'', session_token)],
     rq_header := [(''X-Vire-User-Id'', ''mallory'')]\<rparr>"

definition sample_portal :: Server where
  "sample_portal = server_New ''http://h'' ''k'' False"

definition ok_world :: world where
  "ok_world = sample_world\<lparr>peer := (\<lambda>_ _. HttpResp 200 [] ''{}'' False)\<rparr>"

lemma session_token_valid:
  assumes "clock w (ticks w) \<le> Hour"
  shows "\<exists>c. run_state (ValidateJWT session_token ''k'') (s, w) = (Inr c, (s, w\<lparr>ticks := Suc (ticks w)\<rparr>)) \<and> jc_sub c = ''alice''"
proof -
  have t: "time_ok 0" "0 < Unix (0 + Hour)" by (simp_all add: time_ok_def in_int64_def Unix_def duration_defs)
  have "\<not> Unix (0 + Hour) < Unix (clock w (ticks w))" using assms zdiv_mono1 [of "clock w (ticks w)" Hour Second]
    by (simp add: Unix_def duration_defs)
  moreover have "check_sig ''k'' (SplitN session_token (CHR ''.'') 4) = SigOK" by (simp add: session_token_def)
  ultimately show ?thesis
    using t access_claims_read(2) [OF t(1)]
    by (simp add: session_token_def ValidateJWT_def jwt_sign_parts json_Unmarshal_encode access_claims_ok)
qed

lemma session_token_not_Nil: "session_token \<noteq> []"
  by (simp add: session_token_def jwt_sign_def Let_def)

lemma sample_user:
  assumes "clock w (ticks w) \<le> Hour" "sv_jwtSecret s = ''k''"
  shows "user_at s sample_get ''alice'' w (w\<lparr>ticks := Suc (ticks w)\<rparr>)"
    "user_at s (sample_get\<lparr>rq_method := m\<rparr>) ''alice'' w (w\<lparr>ticks := Suc (ticks w)\<rparr>)"
  using session_token_valid [OF assms(1), of s] assms(2) session_token_not_Nil
  by (auto simp: user_at_def IsLoggedIn_def sample_get_def req_Get_def hdr_Get_def req_Cookie_def sample_request_def)

lemma sample_plain: "plain_get sample_portal sample_get"
proof -
  have "url_Parse ''http://h/api/p'' \<noteq> None" "Values_Get (fst (ParseQuery [])) ''force_refresh'' \<noteq> ''true''" by code_simp+
  then show ?thesis
    by (simp add: plain_get_def proxied_def sample_portal_def server_New_def sample_get_def sample_request_def target_url_def
        HasPrefix_def req_Query_def ReadAll_def read_body_def)
qed

lemma ignore_method: "target_url u (r\<lparr>rq_method := m\<rparr>) = target_url u r" "ReadAll (r\<lparr>rq_method := m\<rparr>) = ReadAll r"
  by (simp_all add: target_url_def ReadAll_def read_body_def split: option.split)

theorem proxied_user_authentic_witness:
  "sent (snd (snd (run_state (handleAPIProxy new_response sample_get) (sample_portal, ok_world)))) = sent ok_world
   \<or> (\<exists>rq. sent (snd (snd (run_state (handleAPIProxy new_response sample_get) (sample_portal, ok_world)))) = sent ok_world @ [rq]
        \<and> filter (\<lambda>(k, _). k = ''X-Vire-User-Id'') (ro_header rq) = [(''X-Vire-User-Id'', ''alice'')])"
proof -
  have u: "user_at sample_portal sample_get ''alice'' ok_world (ok_world\<lparr>ticks := Suc (ticks ok_world)\<rparr>)"
    by (rule sample_user(1)) (simp_all add: ok_world_def sample_world_def duration_defs sample_portal_def server_New_def)
  show ?thesis
    using proxied_user_authentic [OF _ u run_eta, of new_response] sample_plain unfolding plain_get_def by blast
qed





text \<open>
  C36: A user header the browser sends is passed on when nobody is signed in: the request reaches
  vire-server with the identity the caller chose.
\<close>
theorem anonymous_user_header_forwarded:
  "sent (snd (snd (run_state (handleAPIProxy new_response
       (sample_request\<lparr>rq_path := ''/api/p'', rq_escaped := ''/api/p'', rq_header := [(''X-Vire-User-Id'', user)]\<rparr>))
       (sample_portal, w))))
   = sent w @ [\<lparr>ro_method = ''GET'', ro_url = ''http://h/api/p'', ro_header = [(''X-Vire-User-Id'', user)], ro_body = []\<rparr>]"
proof -
  let ?r = "sample_request\<lparr>rq_path := ''/api/p'', rq_escaped := ''/api/p'', rq_header := [(''X-Vire-User-Id'', user)]\<rparr>"
  have l: "run_state (IsLoggedIn ?r (sv_jwtSecret sample_portal)) (sample_portal, w) = (None, (sample_portal, w))"
    by (simp add: IsLoggedIn_def sample_request_def req_Get_def hdr_Get_def req_Cookie_def)
  have p: "proxied sample_portal ?r" by (simp add: proxied_def sample_portal_def server_New_def HasPrefix_def)
  have t: "target_url (sv_apiURL sample_portal) ?r = ''http://h/api/p''"
    by (simp add: target_url_def sample_portal_def server_New_def sample_request_def)
  have u: "url_Parse ''http://h/api/p'' \<noteq> None" by code_simp
  have b: "ReadAll ?r = Some []" by (simp add: ReadAll_def read_body_def sample_request_def)
  show ?thesis using anonymous_sent [OF p l _ b] u unfolding t by (simp add: sample_request_def)
qed

end
