(* ===== verification/OAuth_Backend.thy ===== *)
theory OAuth_Backend
  imports Go_HTTP
begin

text \<open>
  The data of the OAuth authorization server (src/internal/auth/store.go, session.go) with its JSON
  form, and the HTTP client that persists it in vire-server (src/internal/auth/backend.go). The
  lemmas show that what the portal posts is what it reads back when the service returns it.
\<close>

section \<open>Data\<close>

record OAuthClient =
  cl_id :: string
  cl_secret :: string
  cl_name :: string
  cl_redirects :: "string list"
  cl_grants :: "string list"
  cl_responses :: "string list"
  cl_method :: string
  cl_created :: int

record AuthCode =
  ac_code :: string
  ac_client :: string
  ac_user :: string
  ac_redirect :: string
  ac_challenge :: string
  ac_scope :: string
  ac_expires :: time
  ac_used :: bool

record RefreshToken =
  rt_token :: string
  rt_user :: string
  rt_client :: string
  rt_scope :: string
  rt_expires :: time

record AuthSession =
  ss_id :: string
  ss_client :: string
  ss_redirect :: string
  ss_state :: string
  ss_challenge :: string
  ss_method :: string
  ss_scope :: string
  ss_created :: time
  ss_user :: string

section \<open>JSON\<close>

text \<open>
  json.Marshal of the structs, with the field order and the omitempty tags of the source; None when a
  time has a year outside the range of RFC 3339. A nil slice is written as null.
\<close>

definition json_strings :: "string list \<Rightarrow> json" where
  "json_strings xs = (if xs = [] then JNull else JArr (map JStr xs))"

definition client_json :: "OAuthClient \<Rightarrow> json" where
  "client_json c = JObj
     ([(''client_id'', JStr (cl_id c))]
      @ (if cl_secret c \<noteq> [] then [(''client_secret'', JStr (cl_secret c))] else [])
      @ [(''client_name'', JStr (cl_name c)), (''redirect_uris'', json_strings (cl_redirects c)),
         (''grant_types'', json_strings (cl_grants c)), (''response_types'', json_strings (cl_responses c)),
         (''token_endpoint_auth_method'', JStr (cl_method c))]
      @ (if cl_created c \<noteq> 0 then [(''client_id_issued_at'', jint (cl_created c))] else []))"

definition code_json :: "AuthCode \<Rightarrow> json option" where
  "code_json c = map_option (\<lambda>t. JObj
     [(''code'', JStr (ac_code c)), (''client_id'', JStr (ac_client c)), (''user_id'', JStr (ac_user c)),
      (''redirect_uri'', JStr (ac_redirect c)), (''code_challenge'', JStr (ac_challenge c)),
      (''scope'', JStr (ac_scope c)), (''expires_at'', JStr t), (''used'', JBool (ac_used c))])
     (MarshalTime (ac_expires c))"

definition token_json :: "RefreshToken \<Rightarrow> json option" where
  "token_json r = map_option (\<lambda>t. JObj
     [(''token'', JStr (rt_token r)), (''user_id'', JStr (rt_user r)), (''client_id'', JStr (rt_client r)),
      (''scope'', JStr (rt_scope r)), (''expires_at'', JStr t)])
     (MarshalTime (rt_expires r))"

definition session_json :: "AuthSession \<Rightarrow> json option" where
  "session_json s = map_option (\<lambda>t. JObj
     ([(''session_id'', JStr (ss_id s)), (''client_id'', JStr (ss_client s)),
       (''redirect_uri'', JStr (ss_redirect s)), (''state'', JStr (ss_state s)),
       (''code_challenge'', JStr (ss_challenge s)), (''code_method'', JStr (ss_method s)),
       (''scope'', JStr (ss_scope s)), (''created_at'', JStr t)]
      @ (if ss_user s \<noteq> [] then [(''user_id'', JStr (ss_user s))] else [])))
     (MarshalTime (ss_created s))"

text \<open>Decoding into the structs; the zero time is the start of the year 1.\<close>

definition zero_time :: time where
  "zero_time = - 62135596800 * Second"

fun json_as_time :: "json \<Rightarrow> time option" where
  "json_as_time (JStr s) = UnmarshalTime s"
| "json_as_time _ = None"

definition client_fields :: "string list" where
  "client_fields = [''client_id'', ''client_secret'', ''client_name'', ''redirect_uris'', ''grant_types'',
     ''response_types'', ''token_endpoint_auth_method'', ''client_id_issued_at'']"

definition client_of_json :: "json \<Rightarrow> OAuthClient option" where
  "client_of_json v =
     do { kvs \<leftarrow> json_members v;
          let fs = client_fields;
          i \<leftarrow> json_field json_as_string [] fs ''client_id'' kvs;
          sec \<leftarrow> json_field json_as_string [] fs ''client_secret'' kvs;
          n \<leftarrow> json_field json_as_string [] fs ''client_name'' kvs;
          rs \<leftarrow> json_field json_as_strings [] fs ''redirect_uris'' kvs;
          gs \<leftarrow> json_field json_as_strings [] fs ''grant_types'' kvs;
          ts \<leftarrow> json_field json_as_strings [] fs ''response_types'' kvs;
          am \<leftarrow> json_field json_as_string [] fs ''token_endpoint_auth_method'' kvs;
          at \<leftarrow> json_field json_as_int64 0 fs ''client_id_issued_at'' kvs;
          Some \<lparr>cl_id = i, cl_secret = sec, cl_name = n, cl_redirects = rs, cl_grants = gs,
                cl_responses = ts, cl_method = am, cl_created = at\<rparr> }"

definition code_fields :: "string list" where
  "code_fields = [''code'', ''client_id'', ''user_id'', ''redirect_uri'', ''code_challenge'',
     ''scope'', ''expires_at'', ''used'']"

definition code_of_json :: "json \<Rightarrow> AuthCode option" where
  "code_of_json v =
     do { kvs \<leftarrow> json_members v;
          let fs = code_fields;
          c \<leftarrow> json_field json_as_string [] fs ''code'' kvs;
          cl \<leftarrow> json_field json_as_string [] fs ''client_id'' kvs;
          u \<leftarrow> json_field json_as_string [] fs ''user_id'' kvs;
          r \<leftarrow> json_field json_as_string [] fs ''redirect_uri'' kvs;
          ch \<leftarrow> json_field json_as_string [] fs ''code_challenge'' kvs;
          sc \<leftarrow> json_field json_as_string [] fs ''scope'' kvs;
          ex \<leftarrow> json_field json_as_time zero_time fs ''expires_at'' kvs;
          us \<leftarrow> json_field json_as_bool False fs ''used'' kvs;
          Some \<lparr>ac_code = c, ac_client = cl, ac_user = u, ac_redirect = r, ac_challenge = ch,
                ac_scope = sc, ac_expires = ex, ac_used = us\<rparr> }"

definition token_fields :: "string list" where
  "token_fields = [''token'', ''user_id'', ''client_id'',
     ''scope'', ''expires_at'']"

definition token_of_json :: "json \<Rightarrow> RefreshToken option" where
  "token_of_json v =
     do { kvs \<leftarrow> json_members v;
          let fs = token_fields;
          t \<leftarrow> json_field json_as_string [] fs ''token'' kvs;
          u \<leftarrow> json_field json_as_string [] fs ''user_id'' kvs;
          cl \<leftarrow> json_field json_as_string [] fs ''client_id'' kvs;
          sc \<leftarrow> json_field json_as_string [] fs ''scope'' kvs;
          ex \<leftarrow> json_field json_as_time zero_time fs ''expires_at'' kvs;
          Some \<lparr>rt_token = t, rt_user = u, rt_client = cl, rt_scope = sc, rt_expires = ex\<rparr> }"

definition session_fields :: "string list" where
  "session_fields = [''session_id'', ''client_id'', ''redirect_uri'', ''state'', ''code_challenge'',
     ''code_method'', ''scope'', ''created_at'', ''user_id'']"

definition session_of_json :: "json \<Rightarrow> AuthSession option" where
  "session_of_json v =
     do { kvs \<leftarrow> json_members v;
          let fs = session_fields;
          i \<leftarrow> json_field json_as_string [] fs ''session_id'' kvs;
          cl \<leftarrow> json_field json_as_string [] fs ''client_id'' kvs;
          r \<leftarrow> json_field json_as_string [] fs ''redirect_uri'' kvs;
          st \<leftarrow> json_field json_as_string [] fs ''state'' kvs;
          ch \<leftarrow> json_field json_as_string [] fs ''code_challenge'' kvs;
          me \<leftarrow> json_field json_as_string [] fs ''code_method'' kvs;
          sc \<leftarrow> json_field json_as_string [] fs ''scope'' kvs;
          cr \<leftarrow> json_field json_as_time zero_time fs ''created_at'' kvs;
          u \<leftarrow> json_field json_as_string [] fs ''user_id'' kvs;
          Some \<lparr>ss_id = i, ss_client = cl, ss_redirect = r, ss_state = st, ss_challenge = ch,
                ss_method = me, ss_scope = sc, ss_created = cr, ss_user = u\<rparr> }"

section \<open>The HTTP client\<close>

text \<open>A result of type \<open>error\<close> alone is \<^typ>\<open>error + unit\<close>: \<open>Inr ()\<close> stands for nil.\<close>

record OAuthBackend =
  be_url :: string

definition NewOAuthBackend :: "string \<Rightarrow> OAuthBackend" where
  "NewOAuthBackend apiURL = \<lparr>be_url = apiURL\<rparr>"

definition doRequest :: "OAuthBackend \<Rightarrow> string \<Rightarrow> string \<Rightarrow> string option \<Rightarrow> ('s, error + unit) io" where
  "doRequest b method path body =
     do { rq \<leftarrow> NewRequest method (be_url b @ path) (case body of None \<Rightarrow> [] | Some d \<Rightarrow> d);
          case rq of
            Inl e \<Rightarrow> ret (Inl (''create request: '' @ e))
          | Inr rq \<Rightarrow>
              do { resp \<leftarrow> client_Do (if body = None then rq else req_Set rq ''Content-Type'' ''application/json'');
                   case resp of
                     NetErr e \<Rightarrow> ret (Inl (''backend request: '' @ e))
                   | HttpResp st _ _ _ \<Rightarrow>
                       if st \<ge> 400 then ret (Inl (''backend returned '' @ Itoa (int st))) else ret (Inr ()) } }"

text \<open>The body is the marshalled value, None when json.Marshal fails.\<close>

definition postJSON :: "OAuthBackend \<Rightarrow> string \<Rightarrow> json option \<Rightarrow> ('s, error + unit) io" where
  "postJSON b path body =
     (case body of
        None \<Rightarrow> do { e \<leftarrow> error_for ''marshal''; ret (Inl (''marshal body: '' @ e)) }
      | Some v \<Rightarrow> doRequest b ''POST'' path (Some (json_encode v)))"

definition patchJSON :: "OAuthBackend \<Rightarrow> string \<Rightarrow> json option \<Rightarrow> ('s, error + unit) io" where
  "patchJSON b path body = doRequest b ''PATCH'' path (map_option json_encode body)"

text \<open>\<open>Inr None\<close> stands for the result (false, nil), \<open>Inr (Some v)\<close> for a decoded target.\<close>

definition getJSON :: "OAuthBackend \<Rightarrow> string \<Rightarrow> (json \<Rightarrow> 'a option) \<Rightarrow> ('s, error + 'a option) io" where
  "getJSON b path dec =
     do { rq \<leftarrow> NewRequest ''GET'' (be_url b @ path) [];
          case rq of
            Inl e \<Rightarrow> ret (Inl (''create request: '' @ e))
          | Inr rq \<Rightarrow>
              do { resp \<leftarrow> client_Do rq;
                   case resp of
                     NetErr e \<Rightarrow> ret (Inl (''backend request: '' @ e))
                   | HttpResp st _ body _ \<Rightarrow>
                       if st = 404 then ret (Inr None)
                       else if st \<noteq> 200 then ret (Inl (''backend returned '' @ Itoa (int st)))
                       else (case Option.bind (json_Decode body) dec of
                           None \<Rightarrow> do { e \<leftarrow> error_for body; ret (Inl (''decode response: '' @ e)) }
                         | Some v \<Rightarrow> ret (Inr (Some v))) } }"

definition SaveSession :: "OAuthBackend \<Rightarrow> AuthSession \<Rightarrow> ('s, error + unit) io" where
  "SaveSession b sess = postJSON b ''/api/internal/oauth/sessions'' (session_json sess)"

definition GetSession :: "OAuthBackend \<Rightarrow> string \<Rightarrow> ('s, error + AuthSession option) io" where
  "GetSession b sessionID = getJSON b (''/api/internal/oauth/sessions/'' @ sessionID) session_of_json"

definition GetSessionByClientID :: "OAuthBackend \<Rightarrow> string \<Rightarrow> ('s, error + AuthSession option) io" where
  "GetSessionByClientID b clientID =
     getJSON b (''/api/internal/oauth/sessions?client_id='' @ clientID) session_of_json"

definition UpdateSessionUserID :: "OAuthBackend \<Rightarrow> string \<Rightarrow> string \<Rightarrow> ('s, error + unit) io" where
  "UpdateSessionUserID b sessionID userID =
     patchJSON b (''/api/internal/oauth/sessions/'' @ sessionID) (Some (JObj [(''user_id'', JStr userID)]))"

definition DeleteSession :: "OAuthBackend \<Rightarrow> string \<Rightarrow> ('s, error + unit) io" where
  "DeleteSession b sessionID = doRequest b ''DELETE'' (''/api/internal/oauth/sessions/'' @ sessionID) None"

definition SaveClient :: "OAuthBackend \<Rightarrow> OAuthClient \<Rightarrow> ('s, error + unit) io" where
  "SaveClient b client = postJSON b ''/api/internal/oauth/clients'' (Some (client_json client))"

definition GetClient :: "OAuthBackend \<Rightarrow> string \<Rightarrow> ('s, error + OAuthClient option) io" where
  "GetClient b clientID = getJSON b (''/api/internal/oauth/clients/'' @ clientID) client_of_json"

definition SaveCode :: "OAuthBackend \<Rightarrow> AuthCode \<Rightarrow> ('s, error + unit) io" where
  "SaveCode b code = postJSON b ''/api/internal/oauth/codes'' (code_json code)"

definition GetCode :: "OAuthBackend \<Rightarrow> string \<Rightarrow> ('s, error + AuthCode option) io" where
  "GetCode b code = getJSON b (''/api/internal/oauth/codes/'' @ code) code_of_json"

definition MarkCodeUsed :: "OAuthBackend \<Rightarrow> string \<Rightarrow> ('s, error + unit) io" where
  "MarkCodeUsed b code = patchJSON b (''/api/internal/oauth/codes/'' @ code @ ''/used'') None"

definition SaveToken :: "OAuthBackend \<Rightarrow> RefreshToken \<Rightarrow> ('s, error + unit) io" where
  "SaveToken b token = postJSON b ''/api/internal/oauth/tokens'' (token_json token)"

definition LookupToken :: "OAuthBackend \<Rightarrow> string \<Rightarrow> ('s, error + RefreshToken option) io" where
  "LookupToken b plaintext =
     do { rq \<leftarrow> NewRequest ''POST'' (be_url b @ ''/api/internal/oauth/tokens/lookup'')
                 (json_encode (JObj [(''token'', JStr plaintext)]));
          case rq of
            Inl e \<Rightarrow> ret (Inl (''create request: '' @ e))
          | Inr rq \<Rightarrow>
              do { resp \<leftarrow> client_Do (req_Set rq ''Content-Type'' ''application/json'');
                   case resp of
                     NetErr e \<Rightarrow> ret (Inl (''backend request: '' @ e))
                   | HttpResp st _ body _ \<Rightarrow>
                       if st = 404 then ret (Inr None)
                       else if st \<noteq> 200 then ret (Inl (''backend returned '' @ Itoa (int st)))
                       else (case Option.bind (json_Decode body) token_of_json of
                           None \<Rightarrow> do { e \<leftarrow> error_for body; ret (Inl (''decode response: '' @ e)) }
                         | Some v \<Rightarrow> ret (Inr (Some v))) } }"

definition RevokeToken :: "OAuthBackend \<Rightarrow> string \<Rightarrow> ('s, error + unit) io" where
  "RevokeToken b plaintext =
     postJSON b ''/api/internal/oauth/tokens/revoke'' (Some (JObj [(''token'', JStr plaintext)]))"

section \<open>Lemmas\<close>

lemma those_Some [simp]: "those (map Some xs) = Some xs"
  by (induction xs) auto

lemma json_as_strings_strings: "xs \<noteq> [] \<Longrightarrow> json_as_strings (json_strings xs) = Some xs"
  by (simp add: json_strings_def comp_def)

lemma field_values_simps [simp]:
  "field_values fs f [] = []"
  "field_values fs f ((k, v) # r)
     = (if json_target fs k = Some f \<and> v \<noteq> JNull then v # field_values fs f r else field_values fs f r)"
  by (simp_all add: field_values_def)

lemma json_target_mem: "k \<in> set fs \<Longrightarrow> json_target fs k = Some k"
  by (simp add: json_target_def)

lemma code_target [simp]:
  "json_target code_fields ''code'' = Some ''code''"
  "json_target code_fields ''client_id'' = Some ''client_id''"
  "json_target code_fields ''user_id'' = Some ''user_id''"
  "json_target code_fields ''redirect_uri'' = Some ''redirect_uri''"
  "json_target code_fields ''code_challenge'' = Some ''code_challenge''"
  "json_target code_fields ''scope'' = Some ''scope''"
  "json_target code_fields ''expires_at'' = Some ''expires_at''"
  "json_target code_fields ''used'' = Some ''used''"
  by (rule json_target_mem, simp add: code_fields_def)+

lemma token_target [simp]:
  "json_target token_fields ''token'' = Some ''token''"
  "json_target token_fields ''user_id'' = Some ''user_id''"
  "json_target token_fields ''client_id'' = Some ''client_id''"
  "json_target token_fields ''scope'' = Some ''scope''"
  "json_target token_fields ''expires_at'' = Some ''expires_at''"
  by (rule json_target_mem, simp add: token_fields_def)+

lemma session_target [simp]:
  "json_target session_fields ''session_id'' = Some ''session_id''"
  "json_target session_fields ''client_id'' = Some ''client_id''"
  "json_target session_fields ''redirect_uri'' = Some ''redirect_uri''"
  "json_target session_fields ''state'' = Some ''state''"
  "json_target session_fields ''code_challenge'' = Some ''code_challenge''"
  "json_target session_fields ''code_method'' = Some ''code_method''"
  "json_target session_fields ''scope'' = Some ''scope''"
  "json_target session_fields ''created_at'' = Some ''created_at''"
  "json_target session_fields ''user_id'' = Some ''user_id''"
  by (rule json_target_mem, simp add: session_fields_def)+

lemma code_of_json_code:
  assumes "code_json c = Some j"
  shows "code_of_json j = Some c"
proof -
  obtain t where t: "MarshalTime (ac_expires c) = Some t" and j: "j = JObj
     [(''code'', JStr (ac_code c)), (''client_id'', JStr (ac_client c)), (''user_id'', JStr (ac_user c)),
      (''redirect_uri'', JStr (ac_redirect c)), (''code_challenge'', JStr (ac_challenge c)),
      (''scope'', JStr (ac_scope c)), (''expires_at'', JStr t), (''used'', JBool (ac_used c))]"
    using assms by (auto simp: code_json_def)
  show ?thesis
    using UnmarshalTime_MarshalTime [OF t] by (simp add: j code_of_json_def json_field_def)
qed

lemma token_of_json_token:
  assumes "token_json r = Some j"
  shows "token_of_json j = Some r"
proof -
  obtain t where t: "MarshalTime (rt_expires r) = Some t" and j: "j = JObj
     [(''token'', JStr (rt_token r)), (''user_id'', JStr (rt_user r)), (''client_id'', JStr (rt_client r)),
      (''scope'', JStr (rt_scope r)), (''expires_at'', JStr t)]"
    using assms by (auto simp: token_json_def)
  show ?thesis
    using UnmarshalTime_MarshalTime [OF t] by (simp add: j token_of_json_def json_field_def)
qed

lemma session_of_json_session:
  assumes "session_json x = Some j"
  shows "session_of_json j = Some x"
proof -
  obtain t where t: "MarshalTime (ss_created x) = Some t" and j: "j = JObj
     ([(''session_id'', JStr (ss_id x)), (''client_id'', JStr (ss_client x)),
       (''redirect_uri'', JStr (ss_redirect x)), (''state'', JStr (ss_state x)),
       (''code_challenge'', JStr (ss_challenge x)), (''code_method'', JStr (ss_method x)),
       (''scope'', JStr (ss_scope x)), (''created_at'', JStr t)]
      @ (if ss_user x \<noteq> [] then [(''user_id'', JStr (ss_user x))] else []))"
    using assms by (auto simp: session_json_def)
  show ?thesis
    using UnmarshalTime_MarshalTime [OF t]
    by (cases "ss_user x = []") (simp_all add: j session_of_json_def json_field_def)
qed

lemma client_target [simp]:
  "json_target client_fields ''client_id'' = Some ''client_id''"
  "json_target client_fields ''client_secret'' = Some ''client_secret''"
  "json_target client_fields ''client_name'' = Some ''client_name''"
  "json_target client_fields ''redirect_uris'' = Some ''redirect_uris''"
  "json_target client_fields ''grant_types'' = Some ''grant_types''"
  "json_target client_fields ''response_types'' = Some ''response_types''"
  "json_target client_fields ''token_endpoint_auth_method'' = Some ''token_endpoint_auth_method''"
  "json_target client_fields ''client_id_issued_at'' = Some ''client_id_issued_at''"
  by (rule json_target_mem, simp add: client_fields_def)+

lemma json_strings_null [simp]: "json_strings xs = JNull \<longleftrightarrow> xs = []"
  by (simp add: json_strings_def)

lemma client_of_json_client:
  assumes "in_int64 (cl_created c)"
  shows "client_of_json (client_json c) = Some c"
  using assms
  by (cases "cl_secret c = []"; cases "cl_created c = 0")
     (simp_all add: client_json_def client_of_json_def json_field_def Atoi_Itoa json_as_strings_strings)

lemma json_ok_records:
  "code_json c = Some j \<Longrightarrow> json_ok j" "token_json r = Some j \<Longrightarrow> json_ok j"
  "session_json x = Some j \<Longrightarrow> json_ok j" "json_ok (client_json cl)"
  by (auto simp: code_json_def token_json_def session_json_def client_json_def json_strings_def num_ok_Itoa
      list_all_iff)

lemma getJSON_found:
  assumes "url_Parse (be_url b @ path) \<noteq> None" "dec j = Some v" "json_ok j"
    and "peer w (length (sent w)) \<lparr>ro_method = ''GET'', ro_url = be_url b @ path, ro_header = [], ro_body = []\<rparr>
      = HttpResp 200 h (json_encode j) broken"
  shows "fst (run_state (getJSON b path dec) (s, w)) = Inr (Some v)"
  using assms by (auto simp: getJSON_def NewRequest_def json_Decode_encode split: option.splits)

lemma keeps_backend_basic [inv_intros]:
  "keeps (st_inv I) (doRequest b method path body)" "keeps (env_inv w0) (doRequest b method path body)"
  "keeps (st_inv I) (getJSON b path dec)" "keeps (env_inv w0) (getJSON b path dec)"
  unfolding doRequest_def getJSON_def by (intro inv_intros)+

lemmas backend_defs = SaveSession_def GetSession_def GetSessionByClientID_def UpdateSessionUserID_def
  DeleteSession_def SaveClient_def GetClient_def SaveCode_def GetCode_def MarkCodeUsed_def SaveToken_def
  RevokeToken_def postJSON_def patchJSON_def

lemma keeps_backend [inv_intros]:
  "keeps (st_inv I) (SaveSession b x)" "keeps (st_inv I) (GetSession b k)"
  "keeps (st_inv I) (GetSessionByClientID b k)" "keeps (st_inv I) (DeleteSession b k)"
  "keeps (st_inv I) (SaveClient b cl)" "keeps (st_inv I) (GetClient b k)"
  "keeps (st_inv I) (SaveCode b c)" "keeps (st_inv I) (GetCode b k)" "keeps (st_inv I) (MarkCodeUsed b k)"
  "keeps (st_inv I) (SaveToken b r)" "keeps (st_inv I) (LookupToken b k)" "keeps (st_inv I) (RevokeToken b k)"
  unfolding backend_defs LookupToken_def by (intro inv_intros)+

lemma keeps_backend_env [inv_intros]:
  "keeps (env_inv w0) (SaveSession b x)" "keeps (env_inv w0) (GetSession b k)"
  "keeps (env_inv w0) (GetSessionByClientID b k)" "keeps (env_inv w0) (DeleteSession b k)"
  "keeps (env_inv w0) (SaveClient b cl)" "keeps (env_inv w0) (GetClient b k)"
  "keeps (env_inv w0) (SaveCode b c)" "keeps (env_inv w0) (GetCode b k)" "keeps (env_inv w0) (MarkCodeUsed b k)"
  "keeps (env_inv w0) (SaveToken b r)" "keeps (env_inv w0) (LookupToken b k)" "keeps (env_inv w0) (RevokeToken b k)"
  unfolding backend_defs LookupToken_def by (intro inv_intros)+

text \<open>A call that leaves the component's state as it is.\<close>

lemma doRequest_ok:
  assumes "run_state (doRequest b method path (Some d)) (s, w) = (Inr (), (s', w'))"
  shows "s' = s \<and> w' = w\<lparr>sent := sent w @ [\<lparr>ro_method = method, ro_url = be_url b @ path,
           ro_header = [(''Content-Type'', ''application/json'')], ro_body = d\<rparr>]\<rparr>"
  using assms
  by (auto simp: doRequest_def NewRequest_def req_Set_def hdr_Set_def split: option.splits http_result.splits if_splits)

section \<open>Properties\<close>


definition sample_code :: AuthCode where
  "sample_code = \<lparr>ac_code = ''c1'', ac_client = ''app'', ac_user = ''alice'', ac_redirect = ''http://a/cb'',
     ac_challenge = ''x'', ac_scope = ''openid'', ac_expires = zero_time, ac_used = False\<rparr>"

lemma sample_code_json: "code_json sample_code \<noteq> None"
  by (simp add: code_json_def sample_code_def MarshalTime_def zero_time_def Second_def civil_of_day_def
      split_year.simps year_len_def leap_def month_lens_def)


end
