(* ===== verification/OAuth_Store.thy ===== *)
theory OAuth_Store
  imports OAuth_Backend
begin

text \<open>
  The four stores of the authorization server: clients, authorization codes and refresh tokens
  (src/internal/auth/store.go) and pending sessions (src/internal/auth/session.go). Each is a map
  with write-through and read-through to vire-server. A method holds the store's mutex around every
  access to the map, so here it is one action; the window in which \<open>ConsumeCode\<close> has the mutex
  released is the subject of the theory of concurrent consumers. The contracts the server relies on
  are locales, interpreted on all four stores.
\<close>

section \<open>Stores\<close>

record ClientStore =
  cs_clients :: "OAuthClient gomap"
  cs_backend :: "OAuthBackend option"

record CodeStore =
  co_codes :: "AuthCode gomap"
  co_backend :: "OAuthBackend option"

record TokenStore =
  tk_tokens :: "RefreshToken gomap"
  tk_backend :: "OAuthBackend option"

record SessionStore =
  sn_sessions :: "AuthSession gomap"
  sn_backend :: "OAuthBackend option"

definition NewClientStore :: ClientStore where
  "NewClientStore = \<lparr>cs_clients = [], cs_backend = None\<rparr>"

definition NewCodeStore :: CodeStore where
  "NewCodeStore = \<lparr>co_codes = [], co_backend = None\<rparr>"

definition NewTokenStore :: TokenStore where
  "NewTokenStore = \<lparr>tk_tokens = [], tk_backend = None\<rparr>"

definition NewSessionStore :: SessionStore where
  "NewSessionStore = \<lparr>sn_sessions = [], sn_backend = None\<rparr>"

text \<open>A call to the backend, if there is one, whose error is only logged.\<close>

definition log_only :: "OAuthBackend option \<Rightarrow> (OAuthBackend \<Rightarrow> ('s, error + unit) io) \<Rightarrow> ('s, unit) io" where
  "log_only bk f = (case bk of None \<Rightarrow> ret () | Some b \<Rightarrow> do { f b; ret () })"

text \<open>A lookup in the backend: an error is logged and counts as not found.\<close>

definition fetch :: "OAuthBackend option \<Rightarrow> (OAuthBackend \<Rightarrow> ('s, error + 'v option) io) \<Rightarrow> ('s, 'v option) io" where
  "fetch bk f =
     (case bk of
        None \<Rightarrow> ret None
      | Some b \<Rightarrow> do { r \<leftarrow> f b; case r of Inl _ \<Rightarrow> ret None | Inr x \<Rightarrow> ret x })"

section \<open>Clients\<close>

definition client_Put :: "OAuthClient \<Rightarrow> (ClientStore, unit) io" where
  "client_Put c =
     do { mod_st (\<lambda>s. s\<lparr>cs_clients := AList.update (cl_id c) c (cs_clients s)\<rparr>);
          bk \<leftarrow> get_st cs_backend;
          log_only bk (\<lambda>b. SaveClient b c) }"

definition client_Get :: "string \<Rightarrow> (ClientStore, OAuthClient option) io" where
  "client_Get clientID =
     do { c \<leftarrow> get_st (\<lambda>s. map_of (cs_clients s) clientID);
          case c of
            Some c \<Rightarrow> ret (Some c)
          | None \<Rightarrow>
              do { bk \<leftarrow> get_st cs_backend;
                   r \<leftarrow> fetch bk (\<lambda>b. GetClient b clientID);
                   case r of
                     None \<Rightarrow> ret None
                   | Some c \<Rightarrow>
                       do { mod_st (\<lambda>s. s\<lparr>cs_clients := AList.update (cl_id c) c (cs_clients s)\<rparr>);
                            ret (Some c) } } }"

section \<open>Authorization codes\<close>

definition code_Put :: "AuthCode \<Rightarrow> (CodeStore, unit) io" where
  "code_Put c =
     do { mod_st (\<lambda>s. s\<lparr>co_codes := AList.update (ac_code c) c (co_codes s)\<rparr>);
          bk \<leftarrow> get_st co_backend;
          log_only bk (\<lambda>b. SaveCode b c) }"

definition code_Get :: "string \<Rightarrow> (CodeStore, AuthCode option) io" where
  "code_Get code =
     do { c \<leftarrow> get_st (\<lambda>s. map_of (co_codes s) code);
          bk \<leftarrow> get_st co_backend;
          found \<leftarrow> (case c of
              Some c \<Rightarrow> ret (Some c)
            | None \<Rightarrow>
                do { r \<leftarrow> fetch bk (\<lambda>b. GetCode b code);
                     case r of
                       None \<Rightarrow> ret None
                     | Some c \<Rightarrow>
                         do { mod_st (\<lambda>s. s\<lparr>co_codes := AList.update (ac_code c) c (co_codes s)\<rparr>);
                              ret (Some c) } });
          case found of
            None \<Rightarrow> ret None
          | Some c \<Rightarrow> do { now \<leftarrow> time_Now; ret (if After now (ac_expires c) then None else Some c) } }"

text \<open>Setting \<open>c.Used\<close> through the pointer in the map.\<close>

definition set_used :: "string \<Rightarrow> CodeStore \<Rightarrow> CodeStore" where
  "set_used code s =
     (case map_of (co_codes s) code of
        None \<Rightarrow> s
      | Some c \<Rightarrow> s\<lparr>co_codes := AList.update code (c\<lparr>ac_used := True\<rparr>) (co_codes s)\<rparr>)"

definition code_MarkUsed :: "string \<Rightarrow> (CodeStore, unit) io" where
  "code_MarkUsed code =
     do { mod_st (set_used code);
          bk \<leftarrow> get_st co_backend;
          log_only bk (\<lambda>b. MarkCodeUsed b code) }"

text \<open>The code to judge: the cached one, or one fetched and cached unless one appeared meanwhile.\<close>

definition consume_find :: "string \<Rightarrow> (CodeStore, AuthCode option) io" where
  "consume_find code =
     do { c \<leftarrow> get_st (\<lambda>s. map_of (co_codes s) code);
          bk \<leftarrow> get_st co_backend;
          case c of
            Some c \<Rightarrow> ret (Some c)
          | None \<Rightarrow>
              do { r \<leftarrow> fetch bk (\<lambda>b. GetCode b code);
                   case r of
                     None \<Rightarrow> ret None
                   | Some c \<Rightarrow>
                       do { existing \<leftarrow> get_st (\<lambda>s. map_of (co_codes s) code);
                            case existing of
                              Some e \<Rightarrow> ret (Some e)
                            | None \<Rightarrow>
                                do { mod_st (\<lambda>s. s\<lparr>co_codes := AList.update code c (co_codes s)\<rparr>);
                                     ret (Some c) } } } }"

definition ConsumeCode :: "string \<Rightarrow> (CodeStore, AuthCode option) io" where
  "ConsumeCode code =
     do { found \<leftarrow> consume_find code;
          case found of
            None \<Rightarrow> ret None
          | Some c \<Rightarrow>
              do { now \<leftarrow> time_Now;
                   if After now (ac_expires c) then ret None
                   else if ac_used c then ret None
                   else do { mod_st (set_used code);
                             bk \<leftarrow> get_st co_backend;
                             log_only bk (\<lambda>b. MarkCodeUsed b code);
                             ret (Some (c\<lparr>ac_used := True\<rparr>)) } } }"

text \<open>A loop over the map that deletes the entries found expired.\<close>

definition delete_if :: "('v \<Rightarrow> bool) \<Rightarrow> 'v gomap \<Rightarrow> 'v gomap \<Rightarrow> 'v gomap" where
  "delete_if expired es m = fold (\<lambda>(k, v) m. if expired v then AList.delete k m else m) es m"

definition code_Cleanup :: "(CodeStore, unit) io" where
  "code_Cleanup =
     do { now \<leftarrow> time_Now;
          m \<leftarrow> get_st co_codes;
          es \<leftarrow> range_map m;
          mod_st (\<lambda>s. s\<lparr>co_codes := delete_if (\<lambda>c. After now (ac_expires c)) es (co_codes s)\<rparr>) }"

text \<open>The calls the server makes on the code store, with the codes consumed by each.\<close>

datatype code_op = OpPut AuthCode | OpConsume string | OpMark string

fun code_step :: "code_op \<Rightarrow> (CodeStore, AuthCode option) io" where
  "code_step (OpPut c) = do { code_Put c; ret None }"
| "code_step (OpConsume code) = ConsumeCode code"
| "code_step (OpMark code) = do { code_MarkUsed code; ret None }"

section \<open>Refresh tokens\<close>

definition token_Put :: "RefreshToken \<Rightarrow> (TokenStore, unit) io" where
  "token_Put t =
     do { mod_st (\<lambda>s. s\<lparr>tk_tokens := AList.update (rt_token t) t (tk_tokens s)\<rparr>);
          bk \<leftarrow> get_st tk_backend;
          log_only bk (\<lambda>b. SaveToken b t) }"

definition token_Get :: "string \<Rightarrow> (TokenStore, RefreshToken option) io" where
  "token_Get token =
     do { t \<leftarrow> get_st (\<lambda>s. map_of (tk_tokens s) token);
          bk \<leftarrow> get_st tk_backend;
          found \<leftarrow> (case t of
              Some t \<Rightarrow> ret (Some t)
            | None \<Rightarrow>
                do { r \<leftarrow> fetch bk (\<lambda>b. LookupToken b token);
                     case r of
                       None \<Rightarrow> ret None
                     | Some t \<Rightarrow>
                         do { mod_st (\<lambda>s. s\<lparr>tk_tokens := AList.update (rt_token t) t (tk_tokens s)\<rparr>);
                              ret (Some t) } });
          case found of
            None \<Rightarrow> ret None
          | Some t \<Rightarrow> do { now \<leftarrow> time_Now; ret (if After now (rt_expires t) then None else Some t) } }"

definition token_Delete :: "string \<Rightarrow> (TokenStore, unit) io" where
  "token_Delete token =
     do { mod_st (\<lambda>s. s\<lparr>tk_tokens := AList.delete token (tk_tokens s)\<rparr>);
          bk \<leftarrow> get_st tk_backend;
          log_only bk (\<lambda>b. RevokeToken b token) }"

definition token_Cleanup :: "(TokenStore, unit) io" where
  "token_Cleanup =
     do { now \<leftarrow> time_Now;
          m \<leftarrow> get_st tk_tokens;
          es \<leftarrow> range_map m;
          mod_st (\<lambda>s. s\<lparr>tk_tokens := delete_if (\<lambda>t. After now (rt_expires t)) es (tk_tokens s)\<rparr>) }"

section \<open>Sessions\<close>

definition sessionTTL :: duration where
  "sessionTTL = 10 * Minute"

definition session_expired :: "time \<Rightarrow> AuthSession \<Rightarrow> bool" where
  "session_expired now sess = After now (time_Add (ss_created sess) sessionTTL)"

definition session_Put :: "AuthSession \<Rightarrow> (SessionStore, unit) io" where
  "session_Put x =
     do { mod_st (\<lambda>s. s\<lparr>sn_sessions := AList.update (ss_id x) x (sn_sessions s)\<rparr>);
          bk \<leftarrow> get_st sn_backend;
          log_only bk (\<lambda>b. SaveSession b x) }"

definition session_Get :: "string \<Rightarrow> (SessionStore, AuthSession option) io" where
  "session_Get sessionID =
     do { x \<leftarrow> get_st (\<lambda>s. map_of (sn_sessions s) sessionID);
          bk \<leftarrow> get_st sn_backend;
          found \<leftarrow> (case x of
              Some x \<Rightarrow> ret (Some x)
            | None \<Rightarrow>
                do { r \<leftarrow> fetch bk (\<lambda>b. GetSession b sessionID);
                     case r of
                       None \<Rightarrow> ret None
                     | Some x \<Rightarrow>
                         do { mod_st (\<lambda>s. s\<lparr>sn_sessions := AList.update (ss_id x) x (sn_sessions s)\<rparr>);
                              ret (Some x) } });
          case found of
            None \<Rightarrow> ret None
          | Some x \<Rightarrow> do { now \<leftarrow> time_Now; ret (if session_expired now x then None else Some x) } }"

definition session_Delete :: "string \<Rightarrow> (SessionStore, unit) io" where
  "session_Delete sessionID =
     do { mod_st (\<lambda>s. s\<lparr>sn_sessions := AList.delete sessionID (sn_sessions s)\<rparr>);
          bk \<leftarrow> get_st sn_backend;
          log_only bk (\<lambda>b. DeleteSession b sessionID) }"

text \<open>The loop of \<open>GetByClientID\<close>: the newest live session of the client so far.\<close>

definition newer :: "string \<Rightarrow> time \<Rightarrow> string \<times> AuthSession \<Rightarrow> AuthSession option \<Rightarrow> AuthSession option" where
  "newer clientID now e best =
     (let sess = snd e
      in if ss_client sess \<noteq> clientID then best
         else if session_expired now sess then best
         else (case best of
             None \<Rightarrow> Some sess
           | Some b \<Rightarrow> if After (ss_created sess) (ss_created b) then Some sess else best))"

definition GetByClientID :: "string \<Rightarrow> (SessionStore, AuthSession option) io" where
  "GetByClientID clientID =
     do { now \<leftarrow> time_Now;
          m \<leftarrow> get_st sn_sessions;
          es \<leftarrow> range_map m;
          bk \<leftarrow> get_st sn_backend;
          case fold (newer clientID now) es None of
            Some best \<Rightarrow> ret (Some best)
          | None \<Rightarrow>
              do { r \<leftarrow> fetch bk (\<lambda>b. GetSessionByClientID b clientID);
                   case r of
                     None \<Rightarrow> ret None
                   | Some x \<Rightarrow>
                       if session_expired now x then ret None
                       else do { mod_st (\<lambda>s. s\<lparr>sn_sessions := AList.update (ss_id x) x (sn_sessions s)\<rparr>);
                                 ret (Some x) } } }"

definition session_Cleanup :: "(SessionStore, unit) io" where
  "session_Cleanup =
     do { now \<leftarrow> time_Now;
          m \<leftarrow> get_st sn_sessions;
          es \<leftarrow> range_map m;
          mod_st (\<lambda>s. s\<lparr>sn_sessions := delete_if (session_expired now) es (sn_sessions s)\<rparr>) }"

section \<open>Runs of the operations\<close>

lemma keeps_log_only [inv_intros]: "(\<And>b. bk = Some b \<Longrightarrow> keeps P (f b)) \<Longrightarrow> keeps P (log_only bk f)"
  by (auto simp: log_only_def intro!: inv_intros split: option.splits)

lemma keeps_fetch [inv_intros]: "(\<And>b. bk = Some b \<Longrightarrow> keeps P (f b)) \<Longrightarrow> keeps P (fetch bk f)"
  by (auto simp: fetch_def intro!: inv_intros split: option.splits)

lemma fetch_None [simp]: "fetch None f = ret None"
  by (simp add: fetch_def)

text \<open>Neither a logged call nor a fetch touches the store.\<close>

lemma log_only_state:
  assumes "\<And>I b. keeps (st_inv I) (f b)" "run_state (log_only bk f) (s, w) = (u, (s', w'))"
  shows "s' = s"
  by (rule st_unchanged [OF _ assms(2)]) (intro inv_intros assms(1))

lemma fetch_state:
  assumes "\<And>I b. keeps (st_inv I) (f b)" "run_state (fetch bk f) (s, w) = (r, (s', w'))"
  shows "s' = s"
  by (rule st_unchanged [OF _ assms(2)]) (intro inv_intros assms(1))

lemmas log_states = log_only_state [of "\<lambda>b. SaveClient b c" for c, OF keeps_backend(5)]
  log_only_state [of "\<lambda>b. SaveCode b c" for c, OF keeps_backend(7)]
  log_only_state [of "\<lambda>b. MarkCodeUsed b k" for k, OF keeps_backend(9)]
  log_only_state [of "\<lambda>b. SaveToken b c" for c, OF keeps_backend(10)]
  log_only_state [of "\<lambda>b. RevokeToken b k" for k, OF keeps_backend(12)]
  log_only_state [of "\<lambda>b. SaveSession b c" for c, OF keeps_backend(1)]
  log_only_state [of "\<lambda>b. DeleteSession b k" for k, OF keeps_backend(4)]

lemmas fetch_states = fetch_state [of "\<lambda>b. GetClient b k" for k, OF keeps_backend(6)]
  fetch_state [of "\<lambda>b. GetCode b k" for k, OF keeps_backend(8)]
  fetch_state [of "\<lambda>b. LookupToken b k" for k, OF keeps_backend(11)]
  fetch_state [of "\<lambda>b. GetSession b k" for k, OF keeps_backend(2)]
  fetch_state [of "\<lambda>b. GetSessionByClientID b k" for k, OF keeps_backend(3)]

lemma Put_runs:
  "run_state (client_Put cl) (s1, w) = (u, (s1', w')) \<Longrightarrow> s1' = s1\<lparr>cs_clients := AList.update (cl_id cl) cl (cs_clients s1)\<rparr>"
  "run_state (code_Put c) (s2, w) = (u, (s2', w')) \<Longrightarrow> s2' = s2\<lparr>co_codes := AList.update (ac_code c) c (co_codes s2)\<rparr>"
  "run_state (token_Put t) (s3, w) = (u, (s3', w')) \<Longrightarrow> s3' = s3\<lparr>tk_tokens := AList.update (rt_token t) t (tk_tokens s3)\<rparr>"
  "run_state (session_Put x) (s4, w) = (u, (s4', w')) \<Longrightarrow> s4' = s4\<lparr>sn_sessions := AList.update (ss_id x) x (sn_sessions s4)\<rparr>"
  by (auto simp: client_Put_def code_Put_def token_Put_def session_Put_def dest!: log_states)

lemma Delete_runs:
  "run_state (token_Delete k) (s3, w) = (u, (s3', w')) \<Longrightarrow> s3' = s3\<lparr>tk_tokens := AList.delete k (tk_tokens s3)\<rparr>"
  "run_state (session_Delete k) (s4, w) = (u, (s4', w')) \<Longrightarrow> s4' = s4\<lparr>sn_sessions := AList.delete k (sn_sessions s4)\<rparr>"
  by (auto simp: token_Delete_def session_Delete_def dest!: log_states)

lemma delete_if_filter:
  assumes "wf_map m" "set es = set m"
  shows "delete_if expired es m = filter (\<lambda>(k, v). \<not> expired v) m"
proof -
  have step: "delete_if expired xs ys = filter (\<lambda>(k, _). \<not> (\<exists>v. (k, v) \<in> set xs \<and> expired v)) ys" for xs ys
  proof (induction xs arbitrary: ys)
    case (Cons x xs)
    obtain k v where x: "x = (k, v)" by (cases x)
    have d: "AList.delete k ys = filter (\<lambda>(k', _). k' \<noteq> k) ys" by (induction ys) auto
    have "delete_if expired (x # xs) ys = delete_if expired xs (if expired v then AList.delete k ys else ys)"
      by (simp add: delete_if_def x)
    also have "\<dots> = filter (\<lambda>(k, _). \<not> (\<exists>v. (k, v) \<in> set (x # xs) \<and> expired v)) ys"
      unfolding Cons.IH by (auto simp: d x intro!: filter_cong simp del: filter_id_conv)
    finally show ?case .
  qed (simp add: delete_if_def)
  have "(\<exists>v'. (k, v') \<in> set m \<and> expired v') \<longleftrightarrow> expired v" if "(k, v) \<in> set m" for k v
    using that assms(1) unfolding wf_map_def by (metis eq_key_imp_eq_value)
  then show ?thesis unfolding step assms(2) by (auto intro!: filter_cong)
qed

lemma delete_if_range:
  "wf_map m \<Longrightarrow> delete_if expired (go_range pick m) m = filter (\<lambda>(k, v). \<not> expired v) m"
  using go_range_perm [of m pick] by (simp add: delete_if_filter)

lemma Cleanup_runs:
  "wf_map (co_codes s2) \<Longrightarrow> run_state code_Cleanup (s2, w) = (u, (s2', w')) \<Longrightarrow>
     s2' = s2\<lparr>co_codes := filter (\<lambda>(k, c). \<not> After (clock w (ticks w)) (ac_expires c)) (co_codes s2)\<rparr>"
  "wf_map (tk_tokens s3) \<Longrightarrow> run_state token_Cleanup (s3, w) = (u, (s3', w')) \<Longrightarrow>
     s3' = s3\<lparr>tk_tokens := filter (\<lambda>(k, t). \<not> After (clock w (ticks w)) (rt_expires t)) (tk_tokens s3)\<rparr>"
  "wf_map (sn_sessions s4) \<Longrightarrow> run_state session_Cleanup (s4, w) = (u, (s4', w')) \<Longrightarrow>
     s4' = s4\<lparr>sn_sessions := filter (\<lambda>(k, x). \<not> session_expired (clock w (ticks w)) x) (sn_sessions s4)\<rparr>"
  by (auto simp: code_Cleanup_def token_Cleanup_def session_Cleanup_def delete_if_range)

section \<open>The contract of a store\<close>

text \<open>
  A store writes through: putting a value makes it the one held under its key. It reads through: a
  held value is returned while it is live, a missing one may be fetched, and then it is held.
\<close>

locale write_through =
  fixes content :: "'s \<Rightarrow> 'v gomap" and backend :: "'s \<Rightarrow> OAuthBackend option"
    and key_of :: "'v \<Rightarrow> string" and put :: "'v \<Rightarrow> ('s, unit) io"
  assumes put_content: "run_state (put v) (s, w) = (u, (s', w')) \<Longrightarrow>
    content s' = AList.update (key_of v) v (content s) \<and> backend s' = backend s"
begin

lemma put_lookup:
  "run_state (put v) (s, w) = (u, (s', w')) \<Longrightarrow>
     map_of (content s') k = (if k = key_of v then Some v else map_of (content s) k)"
  by (simp add: put_content)

lemma put_wf: "wf_map (content s) \<Longrightarrow> run_state (put v) (s, w) = (u, (s', w')) \<Longrightarrow> wf_map (content s')"
  by (simp add: put_content)

end

locale read_through = write_through content backend key_of put
  for content :: "'s \<Rightarrow> 'v gomap" and backend and key_of and put +
  fixes get :: "string \<Rightarrow> ('s, 'v option) io" and live :: "time \<Rightarrow> 'v \<Rightarrow> bool"
  assumes get_hit: "map_of (content s) k = Some v \<Longrightarrow> run_state (get k) (s, w) = (r, (s', w')) \<Longrightarrow>
      s' = s \<and> r = (if live (clock w (ticks w)) v then Some v else None)"
    and get_none: "map_of (content s) k = None \<Longrightarrow> backend s = None \<Longrightarrow>
      run_state (get k) (s, w) = (r, (s', w')) \<Longrightarrow> s' = s \<and> r = None"
    and get_fetch: "map_of (content s) k = None \<Longrightarrow> run_state (get k) (s, w) = (r, (s', w')) \<Longrightarrow>
      backend s' = backend s \<and> (content s' = content s \<and> r = None
        \<or> (\<exists>v. content s' = AList.update (key_of v) v (content s) \<and> (r = None \<or> r = Some v)))"
begin

lemma put_get:
  "run_state (put v) (s, w) = (u, (s', w')) \<Longrightarrow> run_state (get (key_of v)) (s', z) = (r, (s'', z')) \<Longrightarrow>
     r = (if live (clock z (ticks z)) v then Some v else None) \<and> s'' = s'"
  using get_hit [of s' "key_of v" v z] by (simp add: put_lookup)

lemma get_wf: "wf_map (content s) \<Longrightarrow> run_state (get k) (s, w) = (r, (s', w')) \<Longrightarrow> wf_map (content s')"
  using get_hit [of s k _ w r s' w'] get_fetch [of s k w r s' w'] by (cases "map_of (content s) k") auto

lemma get_held:
  assumes "run_state (get k) (s, w) = (Some v, (s', w'))"
  shows "\<exists>k'. map_of (content s') k' = Some v"
proof (cases "map_of (content s) k")
  case None
  from get_fetch [OF this assms] show ?thesis by auto
next
  case (Some v')
  from get_hit [OF this assms] Some show ?thesis by (auto split: if_splits)
qed

end

locale deletable = read_through content backend key_of put get live
  for content :: "'s \<Rightarrow> 'v gomap" and backend and key_of and put and get and live +
  fixes del :: "string \<Rightarrow> ('s, unit) io"
  assumes del_content: "run_state (del k) (s, w) = (u, (s', w')) \<Longrightarrow>
    content s' = AList.delete k (content s) \<and> backend s' = backend s"
begin

lemma del_get:
  "backend s = None \<Longrightarrow> run_state (del k) (s, w) = (u, (s', w')) \<Longrightarrow>
     run_state (get k) (s', z) = (r, (s'', z')) \<Longrightarrow> r = None"
  using get_none [of s' k z r] del_content by simp

end

text \<open>
  Cleanup drops what is no longer live. When time does not run backwards nobody can tell: a lookup
  in a store without backend gives the same before and after.
\<close>

locale cleanable = read_through content backend key_of put get live
  for content :: "'s \<Rightarrow> 'v gomap" and backend and key_of and put and get and live +
  fixes cleanup :: "('s, unit) io"
  assumes cleanup_content: "wf_map (content s) \<Longrightarrow> run_state cleanup (s, w) = (u, (s', w')) \<Longrightarrow>
      content s' = filter (\<lambda>(k, v). live (clock w (ticks w)) v) (content s) \<and> backend s' = backend s"
    and live_before: "t \<le> t' \<Longrightarrow> live t' v \<Longrightarrow> live t v"
begin

lemma cleanup_transparent:
  assumes wf: "wf_map (content s)" and nb: "backend s = None"
    and c: "run_state cleanup (s, w) = (u, (s', w'))" and t: "clock w (ticks w) \<le> clock z (ticks z)"
    and g: "run_state (get k) (s, z) = (r, (s1, z1))" and g': "run_state (get k) (s', z) = (r', (s1', z1'))"
  shows "r' = r"
proof -
  have m: "map_of (content s') k = (case map_of (content s) k of None \<Rightarrow> None
      | Some v \<Rightarrow> if live (clock w (ticks w)) v then Some v else None)" and nb': "backend s' = None"
    using cleanup_content [OF wf c] nb by (simp_all add: map_of_filter_wf [OF wf])
  show ?thesis
  proof (cases "map_of (content s) k")
    case None
    with m get_none [OF None nb g] get_none [OF _ nb' g'] show ?thesis by simp
  next
    case (Some v)
    note r = get_hit [OF Some g]
    show ?thesis
    proof (cases "live (clock w (ticks w)) v")
      case True
      with Some m have "map_of (content s') k = Some v" by simp
      from get_hit [OF this g'] r show ?thesis by simp
    next
      case False
      with Some m get_none [OF _ nb' g'] have "r' = None" by simp
      moreover have "r = None" using False live_before [OF t] r by auto
      ultimately show ?thesis by simp
    qed
  qed
qed

lemma cleanup_wf: "wf_map (content s) \<Longrightarrow> run_state cleanup (s, w) = (u, (s', w')) \<Longrightarrow> wf_map (content s')"
  by (simp add: cleanup_content wf_map_filter)

end

section \<open>The stores meet their contracts\<close>

interpretation clients: read_through cs_clients cs_backend cl_id client_Put client_Get "\<lambda>_ _. True"
  by unfold_locales
     (auto simp: client_Get_def dest!: Put_runs fetch_states split: option.splits prod.splits)

interpretation codes: cleanable co_codes co_backend ac_code code_Put code_Get
    "\<lambda>t c. \<not> After t (ac_expires c)" code_Cleanup
  by unfold_locales
     (auto simp: code_Get_def After_def dest!: Put_runs Cleanup_runs fetch_states split: option.splits prod.splits if_splits, blast)

interpretation tokens: deletable tk_tokens tk_backend rt_token token_Put token_Get
    "\<lambda>t r. \<not> After t (rt_expires r)" token_Delete
  by unfold_locales
     (auto simp: token_Get_def After_def dest!: Put_runs Delete_runs fetch_states split: option.splits prod.splits if_splits, blast)

interpretation tokens: cleanable tk_tokens tk_backend rt_token token_Put token_Get
    "\<lambda>t r. \<not> After t (rt_expires r)" token_Cleanup
  by unfold_locales (auto simp: After_def dest!: Cleanup_runs)

interpretation sessions: deletable sn_sessions sn_backend ss_id session_Put session_Get
    "\<lambda>t x. \<not> session_expired t x" session_Delete
  by unfold_locales
     (auto simp: session_Get_def dest!: Put_runs Delete_runs fetch_states split: option.splits prod.splits if_splits, blast)

interpretation sessions: cleanable sn_sessions sn_backend ss_id session_Put session_Get
    "\<lambda>t x. \<not> session_expired t x" session_Cleanup
  by unfold_locales (auto simp: session_expired_def After_def dest!: Cleanup_runs)

lemma keeps_store_env [inv_intros]:
  "keeps (env_inv w0) (client_Put cl)" "keeps (env_inv w0) (client_Get k)"
  "keeps (env_inv w0) (code_Put c)" "keeps (env_inv w0) (ConsumeCode k)"
  "keeps (env_inv w0) (token_Put t)" "keeps (env_inv w0) (token_Get k)" "keeps (env_inv w0) (token_Delete k)"
  "keeps (env_inv w0) (session_Put x)" "keeps (env_inv w0) (session_Get k)"
  "keeps (env_inv w0) (session_Delete k)" "keeps (env_inv w0) (GetByClientID k)"
  unfolding client_Put_def client_Get_def code_Put_def ConsumeCode_def consume_find_def token_Put_def token_Get_def
    token_Delete_def session_Put_def session_Get_def session_Delete_def GetByClientID_def
  by (intro inv_intros)+

section \<open>Consuming a code\<close>

lemma consume_find_run:
  assumes "run_state (consume_find code) (s, w) = (r, (s', w'))"
  shows "co_backend s' = co_backend s
    \<and> (case map_of (co_codes s) code of
         Some c \<Rightarrow> r = Some c \<and> s' = s \<and> w' = w
       | None \<Rightarrow> r = None \<and> s' = s \<or> (\<exists>c. r = Some c \<and> s' = s\<lparr>co_codes := AList.update code c (co_codes s)\<rparr>))"
  using assms
  by (auto simp: consume_find_def dest!: fetch_states split: option.splits prod.splits)

lemma consume_find_held:
  "run_state (consume_find code) (s, w) = (Some c, (s', w')) \<Longrightarrow> map_of (co_codes s') code = Some c"
  using consume_find_run [of code s w "Some c" s' w'] by (auto split: option.splits)

lemma consume_find_other:
  "run_state (consume_find code) (s, w) = (r, (s', w')) \<Longrightarrow> k \<noteq> code \<Longrightarrow>
     map_of (co_codes s') k = map_of (co_codes s) k"
  using consume_find_run [of code s w r s' w'] by (auto split: option.splits)

text \<open>What a consumer gets, and what it leaves behind.\<close>

lemma ConsumeCode_Some:
  assumes "run_state (ConsumeCode code) (s, w) = (Some c, (s', w'))"
  obtains c0 s1 w1 where "run_state (consume_find code) (s, w) = (Some c0, (s1, w1))"
    "\<not> ac_used c0" "clock w1 (ticks w1) \<le> ac_expires c0" "c = c0\<lparr>ac_used := True\<rparr>"
    "s' = s1\<lparr>co_codes := AList.update code c (co_codes s1)\<rparr>"
proof -
  obtain r s1 w1 where f: "run_state (consume_find code) (s, w) = (r, (s1, w1))" by (metis surj_pair)
  with assms obtain c0 where r: "r = Some c0" by (cases r) (auto simp: ConsumeCode_def)
  have "map_of (co_codes s1) code = Some c0" using consume_find_held f r by blast
  then have "set_used code s1 = s1\<lparr>co_codes := AList.update code (c0\<lparr>ac_used := True\<rparr>) (co_codes s1)\<rparr>"
    by (simp add: set_used_def)
  then show thesis
    using assms f r
    by (intro that [of c0 s1 w1])
       (auto simp: ConsumeCode_def After_def dest!: log_states split: if_splits prod.splits)
qed

lemma ConsumeCode_None:
  assumes "run_state (ConsumeCode code) (s, w) = (None, (s', w'))"
  shows "\<exists>r w1. run_state (consume_find code) (s, w) = (r, (s', w1))"
  using assms by (auto simp: ConsumeCode_def split: option.splits if_splits prod.splits)

lemma ConsumeCode_other:
  assumes "run_state (ConsumeCode code) (s, w) = (r, (s', w'))" "k \<noteq> code"
  shows "map_of (co_codes s') k = map_of (co_codes s) k"
proof (cases r)
  case None
  with assms ConsumeCode_None [of code s w s' w'] consume_find_other show ?thesis by blast
next
  case (Some c)
  with assms(1) have "run_state (ConsumeCode code) (s, w) = (Some c, (s', w'))" by simp
  then obtain c0 s1 w1 where f: "run_state (consume_find code) (s, w) = (Some c0, (s1, w1))"
    and s': "s' = s1\<lparr>co_codes := AList.update code c (co_codes s1)\<rparr>"
    by (rule ConsumeCode_Some)
  show ?thesis using consume_find_other [OF f assms(2)] assms(2) by (simp add: s')
qed

definition code_used :: "string \<Rightarrow> CodeStore \<Rightarrow> bool" where
  "code_used code s \<longleftrightarrow> (\<exists>c. map_of (co_codes s) code = Some c \<and> ac_used c)"

lemma used_not_consumed:
  assumes "code_used code s" "run_state (ConsumeCode code) (s, w) = (r, (s', w'))"
  shows "r = None \<and> s' = s"
proof -
  obtain c where c: "map_of (co_codes s) code = Some c" "ac_used c"
    using assms(1) by (auto simp: code_used_def)
  have "run_state (consume_find code) (s, w) = (Some c, (s, w))"
    using c(1) by (simp add: consume_find_def)
  with assms(2) c(2) show ?thesis by (auto simp: ConsumeCode_def split: if_splits)
qed

lemma consumed_used:
  assumes "run_state (ConsumeCode code) (s, w) = (Some c, (s', w'))"
  shows "code_used code s'"
  by (rule ConsumeCode_Some [OF assms]) (simp add: code_used_def)

lemma used_kept:
  assumes "code_used code s" "run_state (code_step x) (s, w) = (r, (s', w'))" "\<And>c. x = OpPut c \<Longrightarrow> ac_code c \<noteq> code"
  shows "code_used code s'"
proof (cases x)
  case (OpPut c)
  with assms show ?thesis by (auto simp: code_used_def dest!: Put_runs split: prod.splits)
next
  case (OpConsume k)
  show ?thesis
  proof (cases "k = code")
    case True
    with assms OpConsume used_not_consumed [of code s w r s' w'] show ?thesis by simp
  next
    case False
    with assms OpConsume ConsumeCode_other [of k s w r s' w' code] show ?thesis by (simp add: code_used_def)
  qed
next
  case (OpMark k)
  with assms show ?thesis
    by (auto simp: code_used_def code_MarkUsed_def set_used_def dest!: log_states split: option.splits prod.splits)
qed

text \<open>The successes for one code in a log of calls.\<close>

definition successes :: "string \<Rightarrow> (code_op \<times> AuthCode option) list \<Rightarrow> AuthCode list" where
  "successes code log = concat (map (\<lambda>(x, r). if x = OpConsume code then (case r of None \<Rightarrow> [] | Some c \<Rightarrow> [c]) else []) log)"

definition consumes :: "string \<Rightarrow> code_op \<times> AuthCode option \<Rightarrow> bool" where
  "consumes code e \<longleftrightarrow> fst e = OpConsume code \<and> snd e \<noteq> None"

lemma length_successes: "length (successes code log) = length (filter (consumes code) log)"
  by (induction log) (auto simp: successes_def consumes_def split: option.splits)

definition puts_other :: "string \<Rightarrow> code_op list \<Rightarrow> bool" where
  "puts_other code xs \<longleftrightarrow> (\<forall>c. OpPut c \<in> set xs \<longrightarrow> ac_code c \<noteq> code)"

interpretation code_store: single_use code_step "consumes code" "\<lambda>x. \<forall>c. x = OpPut c \<longrightarrow> ac_code c \<noteq> code" "code_used code"
  "\<lambda>_. True" for code
proof
  fix x s w r s' w'
  assume "run_state (code_step x) (s, w) = (r, (s', w'))" "consumes code (x, r)"
  then obtain c where "run_state (ConsumeCode code) (s, w) = (Some c, (s', w'))" by (auto simp: consumes_def)
  with consumed_used used_not_consumed show "\<not> code_used code s \<and> code_used code s'" by fastforce
qed (auto intro: used_kept)

lemma one_success:
  assumes "puts_other code xs" "run_state (history code_step xs) (s, w) = (log, (s', w'))"
  shows "length (successes code log) \<le> 1"
  unfolding length_successes by (rule code_store.one_hit [OF assms(2)]) (use assms(1) in \<open>auto simp: puts_other_def list_all_iff\<close>)

lemma ConsumeCode_held:
  assumes "map_of (co_codes s) code = Some c"
  shows "fst (run_state (ConsumeCode code) (s, w))
    = (if \<not> ac_used c \<and> clock w (ticks w) \<le> ac_expires c then Some (c\<lparr>ac_used := True\<rparr>) else None)"
proof -
  have "run_state (consume_find code) (s, w) = (Some c, (s, w))"
    using assms by (simp add: consume_find_def)
  then show ?thesis by (auto simp: ConsumeCode_def After_def split: prod.splits)
qed

section \<open>The newest session of a client\<close>

definition session_for :: "string \<Rightarrow> time \<Rightarrow> AuthSession \<Rightarrow> bool" where
  "session_for clientID now x \<longleftrightarrow> ss_client x = clientID \<and> \<not> session_expired now x"

lemma newer_fold:
  "(case fold (newer clientID now) es b of
      None \<Rightarrow> b = None \<and> (\<forall>e\<in>set es. \<not> session_for clientID now (snd e))
    | Some x \<Rightarrow> (b = Some x \<or> x \<in> snd ` set es \<and> session_for clientID now x)
        \<and> (\<forall>e\<in>set es. session_for clientID now (snd e) \<longrightarrow> ss_created (snd e) \<le> ss_created x)
        \<and> (\<forall>y. b = Some y \<longrightarrow> ss_created y \<le> ss_created x))"
proof (induction es arbitrary: b)
  case Nil
  then show ?case by (simp split: option.splits)
next
  case (Cons e es)
  define b' where "b' = newer clientID now e b"
  have b': "b' = (if session_for clientID now (snd e) then
      (case b of None \<Rightarrow> Some (snd e) | Some y \<Rightarrow> if ss_created (snd e) > ss_created y then Some (snd e) else b) else b)"
    by (auto simp: b'_def newer_def session_for_def After_def Let_def split: option.splits)
  have f: "fold (newer clientID now) (e # es) b = fold (newer clientID now) es b'" by (simp add: b'_def)
  show ?case
  proof (cases "session_for clientID now (snd e) \<and> (\<forall>y. b = Some y \<longrightarrow> ss_created y < ss_created (snd e))")
    case True
    then have "b' = Some (snd e)" by (auto simp: b' split: option.splits)
    with Cons.IH [of b'] True show ?thesis unfolding f by (force split: option.splits)
  next
    case False
    then have "b' = b" by (auto simp: b' split: option.splits)
    moreover have "session_for clientID now (snd e) \<Longrightarrow> \<exists>y. b = Some y \<and> ss_created (snd e) \<le> ss_created y"
      using False by auto
    ultimately show ?thesis using Cons.IH [of b] unfolding f by (auto split: option.splits)
  qed
qed

lemma GetByClientID_local:
  assumes "wf_map (sn_sessions s)" "sn_backend s = None"
    and "run_state (GetByClientID clientID) (s, w) = (r, (s', w'))"
  shows "s' = s \<and> (case r of
      None \<Rightarrow> \<forall>x\<in>snd ` set (sn_sessions s). \<not> session_for clientID (clock w (ticks w)) x
    | Some x \<Rightarrow> x \<in> snd ` set (sn_sessions s) \<and> session_for clientID (clock w (ticks w)) x
        \<and> (\<forall>y\<in>snd ` set (sn_sessions s). session_for clientID (clock w (ticks w)) y \<longrightarrow> ss_created y \<le> ss_created x))"
proof -
  let ?now = "clock w (ticks w)"
  let ?es = "go_range (order w (ranges w)) (sn_sessions s)"
  have es: "set ?es = set (sn_sessions s)" using go_range_perm [OF assms(1)] by blast
  have "r = fold (newer clientID ?now) ?es None \<and> s' = s"
    using assms(2,3) by (auto simp: GetByClientID_def split: option.splits)
  with newer_fold [where clientID = clientID and now = ?now and es = ?es and b = None] es show ?thesis by (auto split: option.splits)
qed

section \<open>Properties\<close>



text \<open>
  \<open>ConsumeCode\<close> on a code the store holds succeeds exactly when the code is unused and the
  clock has not passed its expiry, and then returns it with the used flag set.
\<close>
lemma ConsumeCode_exact:
  assumes "map_of (co_codes s) code = Some c"
  shows "fst (run_state (ConsumeCode code) (s, w))
    = (if \<not> ac_used c \<and> clock w (ticks w) \<le> ac_expires c then Some (c\<lparr>ac_used := True\<rparr>) else None)"
  by (rule ConsumeCode_held [OF assms])

text \<open>
  Cleaning up expired sessions is invisible: in a store without backend, when the clock does not
  run backwards, every lookup after a cleanup returns what it would have returned without it.
\<close>
lemma session_cleanup_transparent:
  assumes "wf_map (sn_sessions s)" "sn_backend s = None"
    and "run_state session_Cleanup (s, w) = (u, (s', w'))" "clock w (ticks w) \<le> clock z (ticks z)"
    and "run_state (session_Get k) (s, z) = (r, (s1, z1))" "run_state (session_Get k) (s', z) = (r', (s1', z1'))"
  shows "r' = r"
  by (rule sessions.cleanup_transparent [OF assms])

definition sample_session :: AuthSession where
  "sample_session = \<lparr>ss_id = ''s1'', ss_client = ''app'', ss_redirect = ''http://a/cb'', ss_state = ''st'',
     ss_challenge = ''x'', ss_method = ''S256'', ss_scope = ''openid'', ss_created = 0, ss_user = []\<rparr>"

text \<open>
  \<open>GetByClientID\<close> in a store without backend returns a live session of the client such that no
  live session of the client was created later, and nothing only if the client has no live session,
  whatever the order in which the map is visited.
\<close>
lemma GetByClientID_newest:
  assumes "wf_map (sn_sessions s)" "sn_backend s = None"
    and "run_state (GetByClientID clientID) (s, w) = (r, (s', w'))"
  shows "case r of
      None \<Rightarrow> \<forall>x\<in>snd ` set (sn_sessions s). \<not> session_for clientID (clock w (ticks w)) x
    | Some x \<Rightarrow> x \<in> snd ` set (sn_sessions s) \<and> session_for clientID (clock w (ticks w)) x
        \<and> (\<forall>y\<in>snd ` set (sn_sessions s). session_for clientID (clock w (ticks w)) y \<longrightarrow> ss_created y \<le> ss_created x)"
  using GetByClientID_local [OF assms] by simp

end
