(* ===== verification/OAuth_Server.thy ===== *)
theory OAuth_Server
  imports OAuth_Store JWT_Auth
begin

text \<open>
  The OAuth 2.1 authorization server for MCP clients (src/internal/auth/server.go, pkce.go, dcr.go,
  authorize.go, token.go, discovery.go): its state, the completion of an authorization, and the
  HTTP handlers for registration, authorization, token exchange and discovery. A handler takes the
  response writer and the request and returns the written response.
\<close>

unbundle bit_operations_syntax

section \<open>State\<close>

record OAuthServer =
  os_base :: string
  os_secret :: string
  os_clients :: ClientStore
  os_sessions :: SessionStore
  os_codes :: CodeStore
  os_tokens :: TokenStore

definition NewOAuthServer :: "string \<Rightarrow> string \<Rightarrow> string \<Rightarrow> OAuthServer" where
  "NewOAuthServer baseURL apiURL jwtSecret =
     (let bk = (if apiURL \<noteq> [] then Some (NewOAuthBackend apiURL) else None)
      in \<lparr>os_base = TrimRight (TrimSpace baseURL) (CHR ''/''), os_secret = jwtSecret,
          os_clients = NewClientStore\<lparr>cs_backend := bk\<rparr>, os_sessions = NewSessionStore\<lparr>sn_backend := bk\<rparr>,
          os_codes = NewCodeStore\<lparr>co_backend := bk\<rparr>, os_tokens = NewTokenStore\<lparr>tk_backend := bk\<rparr>\<rparr>)"

definition on_clients :: "(ClientStore, 'a) io \<Rightarrow> (OAuthServer, 'a) io" where
  "on_clients m = zoom os_clients (\<lambda>c s. s\<lparr>os_clients := c\<rparr>) m"

definition on_sessions :: "(SessionStore, 'a) io \<Rightarrow> (OAuthServer, 'a) io" where
  "on_sessions m = zoom os_sessions (\<lambda>c s. s\<lparr>os_sessions := c\<rparr>) m"

definition on_codes :: "(CodeStore, 'a) io \<Rightarrow> (OAuthServer, 'a) io" where
  "on_codes m = zoom os_codes (\<lambda>c s. s\<lparr>os_codes := c\<rparr>) m"

definition on_tokens :: "(TokenStore, 'a) io \<Rightarrow> (OAuthServer, 'a) io" where
  "on_tokens m = zoom os_tokens (\<lambda>c s. s\<lparr>os_tokens := c\<rparr>) m"

section \<open>Random identifiers and PKCE\<close>

definition generateRandomHex :: "nat \<Rightarrow> ('s, error + string) io" where
  "generateRandomHex n =
     do { b \<leftarrow> rand_Read n; ret (case b of Inl e \<Rightarrow> Inl e | Inr b \<Rightarrow> Inr (hex_EncodeToString b)) }"

text \<open>The version and variant bits of a UUID, and its text.\<close>

definition uuid_bits :: "string \<Rightarrow> string" where
  "uuid_bits b =
     b[6 := char_of ((of_char (b ! 6) AND 0x0f) OR 0x40 :: nat),
       8 := char_of ((of_char (b ! 8) AND 0x3f) OR 0x80 :: nat)]"

definition uuid_text :: "string \<Rightarrow> string" where
  "uuid_text b =
     hex_EncodeToString (take 4 b) @ ''-'' @ hex_EncodeToString (take 2 (drop 4 b)) @ ''-''
     @ hex_EncodeToString (take 2 (drop 6 b)) @ ''-'' @ hex_EncodeToString (take 2 (drop 8 b)) @ ''-''
     @ hex_EncodeToString (take 6 (drop 10 b))"

definition generateUUID :: "('s, error + string) io" where
  "generateUUID =
     do { b \<leftarrow> rand_Read 16; ret (case b of Inl e \<Rightarrow> Inl e | Inr b \<Rightarrow> Inr (uuid_text (uuid_bits b))) }"

definition VerifyPKCE :: "string \<Rightarrow> string \<Rightarrow> bool" where
  "VerifyPKCE verifier challenge = (ConstantTimeCompare (b64_Encode (Sum256 verifier)) challenge = 1)"

definition GenerateCodeChallenge :: "string \<Rightarrow> string" where
  "GenerateCodeChallenge verifier = b64_Encode (Sum256 verifier)"

section \<open>Completing an authorization\<close>

definition new_code :: "string \<Rightarrow> string \<Rightarrow> AuthSession \<Rightarrow> time \<Rightarrow> AuthCode" where
  "new_code code userID sess now =
     \<lparr>ac_code = code, ac_client = ss_client sess, ac_user = userID, ac_redirect = ss_redirect sess,
      ac_challenge = ss_challenge sess, ac_scope = ss_scope sess, ac_expires = time_Add now (5 * Minute),
      ac_used = False\<rparr>"

definition code_redirect :: "url \<Rightarrow> string \<Rightarrow> string \<Rightarrow> string" where
  "code_redirect u code state =
     url_String (u\<lparr>u_rawquery :=
       Values_Encode (Values_Set (Values_Set (url_Query u) ''code'' code) ''state'' state)\<rparr>)"

definition CompleteAuthorization :: "string \<Rightarrow> string \<Rightarrow> (OAuthServer, error + string) io" where
  "CompleteAuthorization sessionID userID =
     do { sess \<leftarrow> on_sessions (session_Get sessionID);
          case sess of
            None \<Rightarrow> ret (Inl ''session not found or expired'')
          | Some sess \<Rightarrow>
              do { code \<leftarrow> generateRandomHex 16;
                   case code of
                     Inl e \<Rightarrow> ret (Inl (''failed to generate auth code: '' @ e))
                   | Inr code \<Rightarrow>
                       do { now \<leftarrow> time_Now;
                            on_codes (code_Put (new_code code userID sess now));
                            on_sessions (session_Delete sessionID);
                            case url_Parse (ss_redirect sess) of
                              None \<Rightarrow> do { e \<leftarrow> error_for (ss_redirect sess);
                                          ret (Inl (''invalid redirect URI: '' @ e)) }
                            | Some u \<Rightarrow> ret (Inr (code_redirect u code (ss_state sess))) } } }"

section \<open>Writing responses\<close>

definition writeOAuthError :: "nat \<Rightarrow> string \<Rightarrow> string \<Rightarrow> response \<Rightarrow> response" where
  "writeOAuthError status code description w =
     Encode_json (JObj [(''error'', JStr code), (''error_description'', JStr description)])
       (WriteHeader status (Header_Set ''Content-Type'' ''application/json'' w))"

definition writeJSON :: "nat \<Rightarrow> json \<Rightarrow> response \<Rightarrow> response" where
  "writeJSON status v w = Encode_json v (WriteHeader status (Header_Set ''Content-Type'' ''application/json'' w))"

definition redirectWithError :: "request \<Rightarrow> string \<Rightarrow> string \<Rightarrow> string \<Rightarrow> string \<Rightarrow> response \<Rightarrow> response" where
  "redirectWithError r redirectURI errorCode description state w =
     (case url_Parse redirectURI of
        None \<Rightarrow> http_Error ''invalid redirect_uri'' 400 w
      | Some u \<Rightarrow>
          let q = Values_Set (Values_Set (url_Query u) ''error'' errorCode) ''error_description'' description;
              q = (if state \<noteq> [] then Values_Set q ''state'' state else q)
          in http_Redirect r (url_String (u\<lparr>u_rawquery := Values_Encode q\<rparr>)) 302 w)"

fun containsString :: "string list \<Rightarrow> string \<Rightarrow> bool" where
  "containsString [] val = False"
| "containsString (s # ss) val = (if s = val then True else containsString ss val)"

section \<open>Registration\<close>

record dcrRequest =
  dr_name :: string
  dr_redirects :: "string list"
  dr_grants :: "string list"
  dr_responses :: "string list"
  dr_method :: string

definition dcr_of_json :: "json \<Rightarrow> dcrRequest option" where
  "dcr_of_json v =
     do { kvs \<leftarrow> json_members v;
          let fs = [''client_name'', ''redirect_uris'', ''grant_types'', ''response_types'',
                    ''token_endpoint_auth_method''];
          n \<leftarrow> json_field json_as_string [] fs ''client_name'' kvs;
          ru \<leftarrow> json_field json_as_strings [] fs ''redirect_uris'' kvs;
          gt \<leftarrow> json_field json_as_strings [] fs ''grant_types'' kvs;
          rt \<leftarrow> json_field json_as_strings [] fs ''response_types'' kvs;
          am \<leftarrow> json_field json_as_string [] fs ''token_endpoint_auth_method'' kvs;
          Some \<lparr>dr_name = n, dr_redirects = ru, dr_grants = gt, dr_responses = rt, dr_method = am\<rparr> }"

definition dcr_client :: "dcrRequest \<Rightarrow> string \<Rightarrow> string \<Rightarrow> int \<Rightarrow> OAuthClient" where
  "dcr_client req clientID clientSecret created =
     \<lparr>cl_id = clientID, cl_secret = clientSecret, cl_name = dr_name req, cl_redirects = dr_redirects req,
      cl_grants = (if dr_grants req = [] then [''authorization_code'', ''refresh_token''] else dr_grants req),
      cl_responses = (if dr_responses req = [] then [''code''] else dr_responses req),
      cl_method = (if dr_method req = [] then ''none'' else dr_method req),
      cl_created = created\<rparr>"

definition HandleRegister :: "response \<Rightarrow> request \<Rightarrow> (OAuthServer, response) io" where
  "HandleRegister w r =
     (if rq_method r \<noteq> ''POST'' then ret (WriteHeader 405 w)
      else (case Option.bind (json_Decode (fst (read_body r))) dcr_of_json of
          None \<Rightarrow> ret (writeOAuthError 400 ''invalid_request'' ''invalid JSON body'' w)
        | Some req \<Rightarrow>
            if dr_redirects req = []
            then ret (writeOAuthError 400 ''invalid_request'' ''redirect_uris is required'' w)
            else
              do { clientID \<leftarrow> generateUUID;
                   case clientID of
                     Inl _ \<Rightarrow> ret (writeOAuthError 500 ''server_error'' ''failed to generate client_id'' w)
                   | Inr clientID \<Rightarrow>
                       do { clientSecret \<leftarrow> generateRandomHex 32;
                            case clientSecret of
                              Inl _ \<Rightarrow> ret (writeOAuthError 500 ''server_error'' ''failed to generate client_secret'' w)
                            | Inr clientSecret \<Rightarrow>
                                do { now \<leftarrow> time_Now;
                                     let client = dcr_client req clientID clientSecret (Unix now);
                                     on_clients (client_Put client);
                                     ret (Encode_json (client_json client)
                                       (WriteHeader 201 (Header_Set ''Content-Type'' ''application/json'' w))) } } }))"

section \<open>Authorization\<close>

definition defaultScope :: string where
  "defaultScope = ''openid portfolio:read tools:invoke''"

definition createAuthSession ::
  "string \<Rightarrow> string \<Rightarrow> string \<Rightarrow> string \<Rightarrow> string \<Rightarrow> string \<Rightarrow> string \<Rightarrow> (OAuthServer, error + string) io" where
  "createAuthSession clientID redirectURI responseType codeChallenge codeChallengeMethod state scope =
     do { c \<leftarrow> on_clients (client_Get clientID);
          client \<leftarrow> (case c of
              Some c \<Rightarrow> ret c
            | None \<Rightarrow>
                do { now \<leftarrow> time_Now;
                     let c = \<lparr>cl_id = clientID, cl_secret = [], cl_name = ''auto-registered'',
                              cl_redirects = [redirectURI], cl_grants = [''authorization_code'', ''refresh_token''],
                              cl_responses = [''code''], cl_method = ''none'', cl_created = Unix now\<rparr>;
                     on_clients (client_Put c);
                     ret c });
          if \<not> containsString (cl_redirects client) redirectURI
          then ret (Inl ''redirect_uri does not match registered URI'')
          else do { sessionID \<leftarrow> generateRandomHex 16;
                    case sessionID of
                      Inl e \<Rightarrow> ret (Inl e)
                    | Inr sessionID \<Rightarrow>
                        do { now \<leftarrow> time_Now;
                             on_sessions (session_Put
                               \<lparr>ss_id = sessionID, ss_client = clientID, ss_redirect = redirectURI, ss_state = state,
                                ss_challenge = codeChallenge, ss_method = codeChallengeMethod,
                                ss_scope = (if scope = [] then defaultScope else scope), ss_created = now, ss_user = []\<rparr>);
                             ret (Inr sessionID) } } }"

definition setSessionCookieAndRedirect :: "response \<Rightarrow> request \<Rightarrow> string \<Rightarrow> (OAuthServer, response) io" where
  "setSessionCookieAndRedirect w r sessionID =
     do { secret \<leftarrow> get_st os_secret;
          userID \<leftarrow> extractSessionUserID secret r;
          done \<leftarrow> (if userID \<noteq> [] then CompleteAuthorization sessionID userID else ret (Inl []));
          case done of
            Inr redirectURL \<Rightarrow> ret (http_Redirect r redirectURL 302 w)
          | Inl _ \<Rightarrow>
              ret (http_Redirect r (''/?mcp_session='' @ sessionID) 302
                (SetCookie \<lparr>ck_name = ''mcp_session_id'', ck_value = sessionID, ck_path = ''/'', ck_maxage = 600,
                            ck_httponly = True, ck_secure = False, ck_samesite = SameSiteLax\<rparr> w)) }"

text \<open>A redirect URI the handlers take: it parses and has a host.\<close>

definition redirect_ok :: "string \<Rightarrow> bool" where
  "redirect_ok u = (case url_Parse u of None \<Rightarrow> False | Some p \<Rightarrow> u_host p \<noteq> [])"

definition handleAuthorizeGET :: "response \<Rightarrow> request \<Rightarrow> (OAuthServer, response) io" where
  "handleAuthorizeGET w r =
     (let q = req_Query r;
          clientID = Values_Get q ''client_id'';
          redirectURI = Values_Get q ''redirect_uri'';
          responseType = Values_Get q ''response_type'';
          codeChallenge = Values_Get q ''code_challenge'';
          codeChallengeMethod = Values_Get q ''code_challenge_method'';
          state = Values_Get q ''state'';
          scope = Values_Get q ''scope''
      in if redirectURI = [] then
           do { sess \<leftarrow> (if clientID \<noteq> [] then on_sessions (GetByClientID clientID) else ret None);
                case sess of
                  Some sess \<Rightarrow> setSessionCookieAndRedirect w r (ss_id sess)
                | None \<Rightarrow> ret (http_Error ''missing redirect_uri'' 400 w) }
         else if \<not> redirect_ok redirectURI then ret (http_Error ''invalid redirect_uri'' 400 w)
         else if clientID = [] \<or> responseType = [] \<or> codeChallenge = [] \<or> codeChallengeMethod = [] \<or> state = []
         then ret (redirectWithError r redirectURI ''invalid_request'' ''missing required parameters'' state w)
         else if responseType \<noteq> ''code''
         then ret (redirectWithError r redirectURI ''unsupported_response_type'' ''only code is supported'' state w)
         else if codeChallengeMethod \<noteq> ''S256''
         then ret (redirectWithError r redirectURI ''invalid_request''
                     ''only S256 code_challenge_method is supported'' state w)
         else do { sid \<leftarrow> createAuthSession clientID redirectURI responseType codeChallenge codeChallengeMethod state scope;
                   case sid of
                     Inl e \<Rightarrow> ret (http_Error e 400 w)
                   | Inr sessionID \<Rightarrow> setSessionCookieAndRedirect w r sessionID })"

definition handleAuthorizePOST :: "response \<Rightarrow> request \<Rightarrow> (OAuthServer, response) io" where
  "handleAuthorizePOST w r =
     (if snd (ParseForm r) then ret (http_Error ''invalid form data'' 400 w)
      else let clientID = FormValue r ''client_id'';
               redirectURI = FormValue r ''redirect_uri'';
               responseType = FormValue r ''response_type'';
               codeChallenge = FormValue r ''code_challenge'';
               codeChallengeMethod = FormValue r ''code_challenge_method'';
               state = FormValue r ''state'';
               scope = FormValue r ''scope'';
               fail = (\<lambda>e. ret (writeJSON 400 (JObj [(''error'', JStr e)]) w))
           in if redirectURI = [] then fail ''missing redirect_uri''
              else if \<not> redirect_ok redirectURI then fail ''invalid redirect_uri''
              else if clientID = [] \<or> responseType = [] \<or> codeChallenge = [] \<or> codeChallengeMethod = [] \<or> state = []
              then fail ''missing required parameters''
              else if responseType \<noteq> ''code'' then fail ''unsupported response_type''
              else if codeChallengeMethod \<noteq> ''S256'' then fail ''only S256 code_challenge_method supported''
              else do { sid \<leftarrow> createAuthSession clientID redirectURI responseType codeChallenge
                                 codeChallengeMethod state scope;
                        case sid of
                          Inl e \<Rightarrow> fail e
                        | Inr sessionID \<Rightarrow> ret (writeJSON 200 (JObj [(''session_id'', JStr sessionID)]) w) })"

definition HandleAuthorize :: "response \<Rightarrow> request \<Rightarrow> (OAuthServer, response) io" where
  "HandleAuthorize w r =
     (if rq_method r = ''GET'' then handleAuthorizeGET w r
      else if rq_method r = ''POST'' then handleAuthorizePOST w r
      else ret (WriteHeader 405 w))"

definition HandleAuthorizeResume :: "response \<Rightarrow> request \<Rightarrow> (OAuthServer, response) io" where
  "HandleAuthorizeResume w r =
     (if rq_method r \<noteq> ''GET'' then ret (WriteHeader 405 w)
      else let sessionID = Values_Get (req_Query r) ''s''
           in if sessionID = [] then ret (http_Error ''missing session parameter'' 400 w)
              else do { sess \<leftarrow> on_sessions (session_Get sessionID);
                        case sess of
                          None \<Rightarrow> ret (http_Error ''invalid or expired session'' 400 w)
                        | Some _ \<Rightarrow> setSessionCookieAndRedirect w r sessionID })"

section \<open>Tokens\<close>

definition baseURLFromRequest :: "request \<Rightarrow> string" where
  "baseURLFromRequest r =
     (if rq_tls r \<or> EqualFold (req_Get r ''X-Forwarded-Proto'') ''https'' then ''https'' else ''http'')
     @ ''://'' @ rq_host r"

definition token_response :: "string \<Rightarrow> string \<Rightarrow> string \<Rightarrow> response \<Rightarrow> response" where
  "token_response accessToken refreshToken scope w =
     Encode_json (JObj [(''access_token'', JStr accessToken), (''expires_in'', jint 3600),
                        (''refresh_token'', JStr refreshToken), (''scope'', JStr scope), (''token_type'', JStr ''Bearer'')])
       (Header_Set ''Cache-Control'' ''no-store'' (Header_Set ''Content-Type'' ''application/json'' w))"

definition refreshTTL :: duration where
  "refreshTTL = 7 * 24 * Hour"

definition handleAuthCodeGrant :: "response \<Rightarrow> request \<Rightarrow> (OAuthServer, response) io" where
  "handleAuthCodeGrant w r =
     (let code = FormValue r ''code'';
          clientID = FormValue r ''client_id'';
          redirectURI = FormValue r ''redirect_uri'';
          codeVerifier = FormValue r ''code_verifier''
      in if code = [] \<or> clientID = [] \<or> redirectURI = [] \<or> codeVerifier = []
         then ret (writeOAuthError 400 ''invalid_request'' ''missing required parameters'' w)
         else do { authCode \<leftarrow> on_codes (ConsumeCode code);
                   case authCode of
                     None \<Rightarrow> ret (writeOAuthError 400 ''invalid_grant''
                                  ''authorization code not found, expired, or already used'' w)
                   | Some authCode \<Rightarrow>
                       if ac_client authCode \<noteq> clientID
                       then ret (writeOAuthError 400 ''invalid_grant'' ''client_id mismatch'' w)
                       else if ac_redirect authCode \<noteq> redirectURI
                       then ret (writeOAuthError 400 ''invalid_grant'' ''redirect_uri mismatch'' w)
                       else if \<not> VerifyPKCE codeVerifier (ac_challenge authCode)
                       then ret (writeOAuthError 400 ''invalid_grant'' ''PKCE verification failed'' w)
                       else
                         do { secret \<leftarrow> get_st os_secret;
                              tok \<leftarrow> mintAccessToken secret (ac_user authCode) (ac_scope authCode)
                                       (ac_client authCode) (baseURLFromRequest r);
                              case tok of
                                Inl _ \<Rightarrow> ret (writeOAuthError 500 ''server_error'' ''failed to mint access token'' w)
                              | Inr accessToken \<Rightarrow>
                                  do { rt \<leftarrow> generateUUID;
                                       case rt of
                                         Inl _ \<Rightarrow> ret (writeOAuthError 500 ''server_error'' ''failed to generate refresh token'' w)
                                       | Inr refreshToken \<Rightarrow>
                                           do { now \<leftarrow> time_Now;
                                                on_tokens (token_Put
                                                  \<lparr>rt_token = refreshToken, rt_user = ac_user authCode,
                                                   rt_client = ac_client authCode, rt_scope = ac_scope authCode,
                                                   rt_expires = time_Add now refreshTTL\<rparr>);
                                                ret (token_response accessToken refreshToken (ac_scope authCode) w) } } } })"

definition handleRefreshTokenGrant :: "response \<Rightarrow> request \<Rightarrow> (OAuthServer, response) io" where
  "handleRefreshTokenGrant w r =
     (let refreshTokenStr = FormValue r ''refresh_token'';
          clientID = FormValue r ''client_id''
      in if refreshTokenStr = [] \<or> clientID = []
         then ret (writeOAuthError 400 ''invalid_request'' ''missing required parameters'' w)
         else do { t \<leftarrow> on_tokens (token_Get refreshTokenStr);
                   case t of
                     None \<Rightarrow> ret (writeOAuthError 400 ''invalid_grant'' ''refresh token not found or expired'' w)
                   | Some refreshToken \<Rightarrow>
                       if rt_client refreshToken \<noteq> clientID
                       then ret (writeOAuthError 400 ''invalid_grant'' ''client_id mismatch'' w)
                       else
                         do { on_tokens (token_Delete refreshTokenStr);
                              secret \<leftarrow> get_st os_secret;
                              tok \<leftarrow> mintAccessToken secret (rt_user refreshToken) (rt_scope refreshToken)
                                       (rt_client refreshToken) (baseURLFromRequest r);
                              case tok of
                                Inl _ \<Rightarrow> ret (writeOAuthError 500 ''server_error'' ''failed to mint access token'' w)
                              | Inr accessToken \<Rightarrow>
                                  do { rt \<leftarrow> generateUUID;
                                       case rt of
                                         Inl _ \<Rightarrow> ret (writeOAuthError 500 ''server_error'' ''failed to generate refresh token'' w)
                                       | Inr newToken \<Rightarrow>
                                           do { now \<leftarrow> time_Now;
                                                on_tokens (token_Put
                                                  \<lparr>rt_token = newToken, rt_user = rt_user refreshToken,
                                                   rt_client = rt_client refreshToken, rt_scope = rt_scope refreshToken,
                                                   rt_expires = time_Add now refreshTTL\<rparr>);
                                                ret (token_response accessToken newToken (rt_scope refreshToken) w) } } } })"

definition HandleToken :: "response \<Rightarrow> request \<Rightarrow> (OAuthServer, response) io" where
  "HandleToken w r =
     (if rq_method r \<noteq> ''POST'' then ret (WriteHeader 405 w)
      else if snd (ParseForm r) then ret (writeOAuthError 400 ''invalid_request'' ''invalid form body'' w)
      else if FormValue r ''grant_type'' = ''authorization_code'' then handleAuthCodeGrant w r
      else if FormValue r ''grant_type'' = ''refresh_token'' then handleRefreshTokenGrant w r
      else ret (writeOAuthError 400 ''unsupported_grant_type''
                  ''grant_type must be authorization_code or refresh_token'' w))"

section \<open>Discovery\<close>

definition authorization_metadata :: "string \<Rightarrow> json" where
  "authorization_metadata baseURL = JObj
     [(''authorization_endpoint'', JStr (baseURL @ ''/authorize'')),
      (''code_challenge_methods_supported'', JArr [JStr ''S256'']),
      (''grant_types_supported'', JArr [JStr ''authorization_code'', JStr ''refresh_token'']),
      (''issuer'', JStr baseURL),
      (''registration_endpoint'', JStr (baseURL @ ''/register'')),
      (''response_types_supported'', JArr [JStr ''code'']),
      (''scopes_supported'', JArr [JStr ''openid'', JStr ''portfolio:read'', JStr ''portfolio:write'', JStr ''tools:invoke'']),
      (''token_endpoint'', JStr (baseURL @ ''/token'')),
      (''token_endpoint_auth_methods_supported'', JArr [JStr ''client_secret_post'', JStr ''none''])]"

definition resource_metadata :: "string \<Rightarrow> json" where
  "resource_metadata baseURL = JObj
     [(''authorization_servers'', JArr [JStr baseURL]),
      (''bearer_methods_supported'', JArr [JStr ''header'']),
      (''resource'', JStr baseURL),
      (''scopes_supported'', JArr [JStr ''portfolio:read'', JStr ''portfolio:write'', JStr ''tools:invoke''])]"

definition serve_metadata :: "json \<Rightarrow> response \<Rightarrow> request \<Rightarrow> response" where
  "serve_metadata v w r =
     (if rq_method r \<noteq> ''GET'' \<and> rq_method r \<noteq> ''HEAD'' then WriteHeader 405 w
      else Encode_json v
             (Header_Set ''Cache-Control'' ''public, max-age=3600'' (Header_Set ''Content-Type'' ''application/json'' w)))"

definition handleAuthorizationServer :: "response \<Rightarrow> request \<Rightarrow> string \<Rightarrow> response" where
  "handleAuthorizationServer w r baseURL = serve_metadata (authorization_metadata baseURL) w r"

definition handleProtectedResource :: "response \<Rightarrow> request \<Rightarrow> string \<Rightarrow> response" where
  "handleProtectedResource w r baseURL = serve_metadata (resource_metadata baseURL) w r"

definition HandleAuthorizationServer :: "response \<Rightarrow> request \<Rightarrow> response" where
  "HandleAuthorizationServer w r = handleAuthorizationServer w r (baseURLFromRequest r)"

definition HandleProtectedResource :: "response \<Rightarrow> request \<Rightarrow> response" where
  "HandleProtectedResource w r = handleProtectedResource w r (baseURLFromRequest r)"

end
