(* ===== verification/OAuth_Flow.thy ===== *)
theory OAuth_Flow
  imports OAuth_Server
begin

text \<open>
  Theorems on the authorization server: what a successful authorization, registration and token
  exchange guarantee, that a code yields tokens at most once over every history of requests, that
  refresh tokens rotate, and the shape of generated identifiers.
\<close>

section \<open>Running parts of the server\<close>

lemma run_on_codes:
  "run_state (on_codes m) (s, w) = (case run_state m (os_codes s, w) of (a, (c, w')) \<Rightarrow> (a, (s\<lparr>os_codes := c\<rparr>, w')))"
  by (simp add: on_codes_def)

lemma run_on_sessions:
  "run_state (on_sessions m) (s, w) = (case run_state m (os_sessions s, w) of (a, (c, w')) \<Rightarrow> (a, (s\<lparr>os_sessions := c\<rparr>, w')))"
  by (simp add: on_sessions_def)

lemma run_on_tokens:
  "run_state (on_tokens m) (s, w) = (case run_state m (os_tokens s, w) of (a, (c, w')) \<Rightarrow> (a, (s\<lparr>os_tokens := c\<rparr>, w')))"
  by (simp add: on_tokens_def)

lemma run_on_clients:
  "run_state (on_clients m) (s, w) = (case run_state m (os_clients s, w) of (a, (c, w')) \<Rightarrow> (a, (s\<lparr>os_clients := c\<rparr>, w')))"
  by (simp add: on_clients_def)

lemmas run_on = run_on_codes run_on_sessions run_on_tokens run_on_clients

lemma run_generateRandomHex:
  "run_state (generateRandomHex n) (s, w) =
     (if entropy_ok w (draws w) then Inr (hex_EncodeToString (draw_bytes w n)) else Inl (err_text w ''rand''),
      (s, w\<lparr>draws := Suc (draws w)\<rparr>))"
  by (simp add: generateRandomHex_def)

lemma run_generateUUID:
  "run_state generateUUID (s, w) =
     (if entropy_ok w (draws w) then Inr (uuid_text (uuid_bits (draw_bytes w 16))) else Inl (err_text w ''rand''),
      (s, w\<lparr>draws := Suc (draws w)\<rparr>))"
  by (simp add: generateUUID_def)

lemma run_mintAccessToken:
  "run_state (mintAccessToken sec u sc c i) (s, w) =
     (Inr (jwt_sign sec (access_claims u sc c i (clock w (ticks w)))), (s, w\<lparr>ticks := Suc (ticks w)\<rparr>))"
  by (simp add: mintAccessToken_def)

section \<open>Identifiers and PKCE\<close>

lemma nth_hex: "i < length b \<Longrightarrow> hex_EncodeToString b ! (2 * i) = hex_chr (of_char (b ! i) div 16)"
proof (induction b arbitrary: i)
  case (Cons c b)
  then show ?case by (cases i) (auto simp: hex_byte_shape)
qed simp

lemma div16_drop_bit: "(n::nat) div 16 = drop_bit 4 n"
  by (simp add: drop_bit_eq_div)

lemma version_nibble: "((x AND 0x0f) OR 0x40 :: nat) div 16 = 4"
  by (simp add: div16_drop_bit drop_bit_or drop_bit_and)

lemma variant_nibble: "((x AND 0x3f) OR 0x80 :: nat) div 16 \<in> {8, 9, 10, 11}"
proof -
  define k where "k = drop_bit 4 x AND (3::nat)"
  have "k = take_bit 2 (drop_bit 4 x)" by (simp add: k_def take_bit_eq_mask mask_eq_exp_minus_1)
  then have "k < 4" using take_bit_nat_less_exp [of 2 "drop_bit 4 x"] by simp
  moreover have "((x AND 0x3f) OR 0x80) div 16 = k OR 8"
    by (simp add: div16_drop_bit drop_bit_or drop_bit_and k_def)
  ultimately have "k = 0 \<or> k = 1 \<or> k = 2 \<or> k = 3" by linarith
  then show ?thesis using \<open>((x AND 0x3f) OR 0x80) div 16 = k OR 8\<close> by auto
qed

lemma of_char_div16_char_of: "n div 16 < 16 \<Longrightarrow> of_char (char_of n :: char) div 16 = (n div 16 :: nat)"
  by (simp add: of_char_of)

lemma uuid_bits_props:
  assumes "length b = 16"
  shows "length (uuid_bits b) = 16"
    "of_char (uuid_bits b ! 6) div 16 = (4::nat)" "of_char (uuid_bits b ! 8) div 16 \<in> {8, 9, 10, 11::nat}"
proof -
  let ?v = "(of_char (b ! 6) AND 0x0f) OR 0x40 :: nat" and ?r = "(of_char (b ! 8) AND 0x3f) OR 0x80 :: nat"
  show "length (uuid_bits b) = 16" using assms by (simp add: uuid_bits_def)
  have "uuid_bits b ! 6 = char_of ?v" "uuid_bits b ! 8 = char_of ?r" using assms by (simp_all add: uuid_bits_def)
  moreover have "of_char (char_of ?v :: char) div 16 = ?v div 16"
    by (rule of_char_div16_char_of) (simp add: version_nibble)
  moreover have "of_char (char_of ?r :: char) div 16 = ?r div 16"
    using variant_nibble [of "of_char (b ! 8)"] by (intro of_char_div16_char_of) auto
  ultimately show "of_char (uuid_bits b ! 6) div 16 = (4::nat)" "of_char (uuid_bits b ! 8) div 16 \<in> {8, 9, 10, 11::nat}"
    using version_nibble variant_nibble by simp_all
qed

lemma uuid_text_shape:
  assumes "length b = 16"
  shows "length (uuid_text b) = 36" "uuid_text b ! 14 = hex_chr (of_char (b ! 6) div 16)"
    "uuid_text b ! 19 = hex_chr (of_char (b ! 8) div 16)"
    "uuid_text b ! 8 = CHR ''-''" "uuid_text b ! 13 = CHR ''-''" "uuid_text b ! 18 = CHR ''-''" "uuid_text b ! 23 = CHR ''-''"
  using assms nth_hex [of 0 "take 2 (drop 6 b)"] nth_hex [of 0 "take 2 (drop 8 b)"]
  by (simp_all add: uuid_text_def nth_append)

lemma VerifyPKCE_eq: "VerifyPKCE v c \<longleftrightarrow> c = GenerateCodeChallenge v"
  by (auto simp: VerifyPKCE_def GenerateCodeChallenge_def ConstantTimeCompare_iff)

section \<open>Status of the written responses\<close>

lemma status_writers:
  assumes "rs_code w = None"
  shows "status_of (writeOAuthError st c d w) = st" "status_of (writeJSON st v w) = st"
    "status_of (http_Error m st w) = st" "status_of (token_response a b d w) = 200"
  using assms
  by (simp_all add: writeOAuthError_def writeJSON_def token_response_def Encode_json_def
      status_Error status_WriteHeader status_unwritten)

section \<open>The code grant\<close>

lemma code_grant_run:
  assumes "run_state (handleAuthCodeGrant wr r) (s, w) = (resp, (s', w'))" "rs_code wr = None" "status_of resp = 200"
  obtains c s1 w1 refresh t where
    "run_state (ConsumeCode (FormValue r ''code'')) (os_codes s, w) = (Some c, (s1, w1))"
    "ac_client c = FormValue r ''client_id''" "ac_redirect c = FormValue r ''redirect_uri''"
    "ac_challenge c = GenerateCodeChallenge (FormValue r ''code_verifier'')"
    "os_codes s' = s1"
    "resp = token_response (jwt_sign (os_secret s) (access_claims (ac_user c) (ac_scope c) (ac_client c)
              (baseURLFromRequest r) (clock w1 (ticks w1)))) refresh (ac_scope c) wr"
    "map_of (tk_tokens (os_tokens s')) refresh = Some \<lparr>rt_token = refresh, rt_user = ac_user c,
       rt_client = ac_client c, rt_scope = ac_scope c, rt_expires = t + refreshTTL\<rparr>"
proof -
  obtain ac s1 w1 where c: "run_state (ConsumeCode (FormValue r ''code'')) (os_codes s, w) = (ac, (s1, w1))"
    by (rule run_split)
  note st = status_writers [OF assms(2)]
  have ne: "\<not> (FormValue r ''code'' = [] \<or> FormValue r ''client_id'' = [] \<or> FormValue r ''redirect_uri'' = []
      \<or> FormValue r ''code_verifier'' = [])"
    using assms(1,3) st by (auto simp: handleAuthCodeGrant_def Let_def)
  obtain a where a: "ac = Some a" and m: "ac_client a = FormValue r ''client_id''" "ac_redirect a = FormValue r ''redirect_uri''"
      "VerifyPKCE (FormValue r ''code_verifier'') (ac_challenge a)" and ok: "entropy_ok w1 (draws w1)"
    using assms(1,3) st ne c
    by (cases ac) (auto simp: handleAuthCodeGrant_def Let_def run_on run_mintAccessToken run_generateUUID split: if_splits)
  let ?rt = "uuid_text (uuid_bits (draw_bytes (w1\<lparr>ticks := Suc (ticks w1)\<rparr>) 16))"
  let ?t = "clock w1 (Suc (ticks w1))"
  let ?tok = "\<lparr>rt_token = ?rt, rt_user = ac_user a, rt_client = ac_client a, rt_scope = ac_scope a, rt_expires = ?t + refreshTTL\<rparr>"
  obtain u s2 w2 where p: "run_state (token_Put ?tok)
      (os_tokens s, w1\<lparr>draws := Suc (draws w1), ticks := Suc (Suc (ticks w1))\<rparr>) = (u, (s2, w2))" by (rule run_split)
  have s2: "map_of (tk_tokens s2) ?rt = Some ?tok" using tokens.put_lookup [OF p] by simp
  have "os_codes s' = s1 \<and> os_tokens s' = s2 \<and>
      resp = token_response (jwt_sign (os_secret s) (access_claims (ac_user a) (ac_scope a) (ac_client a)
              (baseURLFromRequest r) (clock w1 (ticks w1)))) ?rt (ac_scope a) wr"
    using assms(1) ne c a m ok p
    by (auto simp: handleAuthCodeGrant_def run_on run_mintAccessToken run_generateUUID time_Add_def)
  with that [of a s1 w1 ?rt ?t] c a m s2 show thesis by (simp add: VerifyPKCE_eq)
qed

text \<open>Whatever the answer of the token endpoint, a code that was found and live is used up.\<close>

lemma code_grant_codes:
  assumes "run_state (handleAuthCodeGrant wr r) (s, w) = (resp, (s', w'))"
  shows "os_codes s' = os_codes s
    \<or> (\<exists>a w1. run_state (ConsumeCode (FormValue r ''code'')) (os_codes s, w) = (a, (os_codes s', w1)))"
proof -
  obtain ac s1 w1 where c: "run_state (ConsumeCode (FormValue r ''code'')) (os_codes s, w) = (ac, (s1, w1))"
    by (rule run_split)
  have "os_codes s' = os_codes s \<or> os_codes s' = s1"
    using assms c
    by (auto simp: handleAuthCodeGrant_def Let_def run_on run_mintAccessToken run_generateUUID
        split: if_splits option.splits prod.splits)
  with c show ?thesis by auto
qed

section \<open>The refresh grant\<close>

lemma refresh_grant_run:
  assumes "run_state (handleRefreshTokenGrant wr r) (s, w) = (resp, (s', w'))" "rs_code wr = None" "status_of resp = 200"
  obtains old s1 w1 new t t0 where
    "run_state (token_Get (FormValue r ''refresh_token'')) (os_tokens s, w) = (Some old, (s1, w1))"
    "rt_client old = FormValue r ''client_id''"
    "resp = token_response (jwt_sign (os_secret s) (access_claims (rt_user old) (rt_scope old) (rt_client old)
              (baseURLFromRequest r) t0)) new (rt_scope old) wr"
    "tk_tokens (os_tokens s') = AList.update new \<lparr>rt_token = new, rt_user = rt_user old,
       rt_client = rt_client old, rt_scope = rt_scope old, rt_expires = t + refreshTTL\<rparr>
       (AList.delete (FormValue r ''refresh_token'') (tk_tokens s1))"
    "tk_backend (os_tokens s') = tk_backend s1"
proof -
  obtain ot s1 w1 where g: "run_state (token_Get (FormValue r ''refresh_token'')) (os_tokens s, w) = (ot, (s1, w1))"
    by (rule run_split)
  obtain u1 s2 w2 where d: "run_state (token_Delete (FormValue r ''refresh_token'')) (s1, w1) = (u1, (s2, w2))"
    by (rule run_split)
  note st = status_writers [OF assms(2)]
  have ne: "FormValue r ''refresh_token'' \<noteq> []" "FormValue r ''client_id'' \<noteq> []"
    using assms(1,3) st by (auto simp: handleRefreshTokenGrant_def Let_def)
  obtain old where o: "ot = Some old" and cl: "rt_client old = FormValue r ''client_id''" and ok: "entropy_ok w2 (draws w2)"
    using assms(1,3) st ne g d
    by (cases ot) (auto simp: handleRefreshTokenGrant_def Let_def run_on run_mintAccessToken run_generateUUID split: if_splits)
  let ?rt = "uuid_text (uuid_bits (draw_bytes (w2\<lparr>ticks := Suc (ticks w2)\<rparr>) 16))"
  let ?t = "clock w2 (Suc (ticks w2))"
  let ?tok = "\<lparr>rt_token = ?rt, rt_user = rt_user old, rt_client = rt_client old, rt_scope = rt_scope old,
    rt_expires = ?t + refreshTTL\<rparr>"
  obtain u s3 w3 where p: "run_state (token_Put ?tok)
      (s2, w2\<lparr>draws := Suc (draws w2), ticks := Suc (Suc (ticks w2))\<rparr>) = (u, (s3, w3))" by (rule run_split)
  have s3: "tk_tokens s3 = AList.update ?rt ?tok (AList.delete (FormValue r ''refresh_token'') (tk_tokens s1))"
    "tk_backend s3 = tk_backend s1"
    using Delete_runs(1) [OF d] Put_runs(3) [OF p] by simp_all
  have "os_tokens s' = s3 \<and>
      resp = token_response (jwt_sign (os_secret s) (access_claims (rt_user old) (rt_scope old) (rt_client old)
              (baseURLFromRequest r) (clock w2 (ticks w2)))) ?rt (rt_scope old) wr"
    using assms(1) ne g d o cl ok p
    by (auto simp: handleRefreshTokenGrant_def Let_def run_on run_mintAccessToken run_generateUUID time_Add_def)
  with that [of old s1 w1 "clock w2 (ticks w2)" ?rt ?t] g o cl s3 show thesis by simp
qed

section \<open>Completing an authorization\<close>

lemma CompleteAuthorization_run:
  assumes "run_state (CompleteAuthorization sid user) (s, w) = (Inr target, (s', w'))"
  obtains sess s1 w1 code now u where
    "run_state (session_Get sid) (os_sessions s, w) = (Some sess, (s1, w1))"
    "entropy_ok w1 (draws w1)" "code = hex_EncodeToString (draw_bytes w1 16)"
    "now = clock w1 (ticks w1)"
    "co_codes (os_codes s') = AList.update code (new_code code user sess now) (co_codes (os_codes s))"
    "sn_sessions (os_sessions s') = AList.delete sid (sn_sessions s1)"
    "sn_backend (os_sessions s') = sn_backend s1"
    "url_Parse (ss_redirect sess) = Some u" "target = code_redirect u code (ss_state sess)"
    "os_clients s' = os_clients s" "os_tokens s' = os_tokens s" "os_secret s' = os_secret s"
proof -
  obtain so s1 w1 where g: "run_state (session_Get sid) (os_sessions s, w) = (so, (s1, w1))" by (rule run_split)
  obtain sess where so: "so = Some sess" and ok: "entropy_ok w1 (draws w1)"
    using assms g by (cases so) (auto simp: CompleteAuthorization_def run_on run_generateRandomHex split: if_splits)
  let ?c = "hex_EncodeToString (draw_bytes w1 16)"
  let ?now = "clock w1 (ticks w1)"
  let ?w1 = "w1\<lparr>draws := Suc (draws w1), ticks := Suc (ticks w1)\<rparr>"
  obtain u1 s2 w2 where p: "run_state (code_Put (new_code ?c user sess ?now)) (os_codes s, ?w1) = (u1, (s2, w2))"
    by (rule run_split)
  obtain u2 s3 w3 where d: "run_state (session_Delete sid) (s1, w2) = (u2, (s3, w3))" by (rule run_split)
  obtain u where u: "url_Parse (ss_redirect sess) = Some u" and t: "target = code_redirect u ?c (ss_state sess)"
    and s': "s' = s\<lparr>os_sessions := s3, os_codes := s2\<rparr>"
    using assms g so ok p d
    by (cases "url_Parse (ss_redirect sess)")
       (auto simp: CompleteAuthorization_def run_on run_generateRandomHex)
  have "co_codes s2 = AList.update ?c (new_code ?c user sess ?now) (co_codes (os_codes s))"
    using Put_runs(2) [OF p] by (simp add: new_code_def)
  moreover have "sn_sessions s3 = AList.delete sid (sn_sessions s1)" "sn_backend s3 = sn_backend s1"
    using Delete_runs(2) [OF d] by simp_all
  ultimately show thesis using that [of sess s1 w1 ?c ?now u] g so ok u t s' by simp
qed

lemma code_redirect_query:
  "\<exists>q. code_redirect u code state = url_String (u\<lparr>u_rawquery := q\<rparr>)
     \<and> Values_Get (fst (ParseQuery q)) ''code'' = code \<and> Values_Get (fst (ParseQuery q)) ''state'' = state
     \<and> (\<forall>k. k \<noteq> ''code'' \<longrightarrow> k \<noteq> ''state'' \<longrightarrow> Values_Get (fst (ParseQuery q)) k = Values_Get (url_Query u) k)"
  unfolding code_redirect_def by (rule exI, rule conjI, rule refl) simp

section \<open>Histories of requests\<close>

text \<open>
  The calls other parts of the portal make on the server, in any order: the HTTP handlers and the
  completion of an authorization after a login.
\<close>

datatype oauth_call = CallRegister request | CallAuthorize request | CallResume request
  | CallToken request | CallComplete string string

fun oauth_step :: "oauth_call \<Rightarrow> (OAuthServer, response) io" where
  "oauth_step (CallRegister r) = HandleRegister new_response r"
| "oauth_step (CallAuthorize r) = HandleAuthorize new_response r"
| "oauth_step (CallResume r) = HandleAuthorizeResume new_response r"
| "oauth_step (CallToken r) = HandleToken new_response r"
| "oauth_step (CallComplete sid user) = do { CompleteAuthorization sid user; ret new_response }"

text \<open>A request for tokens in exchange for the code that was granted.\<close>

definition grants_code :: "string \<Rightarrow> oauth_call \<times> response \<Rightarrow> bool" where
  "grants_code code e =
     (case fst e of
        CallToken r \<Rightarrow> rq_method r = ''POST'' \<and> \<not> snd (ParseForm r)
          \<and> FormValue r ''grant_type'' = ''authorization_code'' \<and> FormValue r ''code'' = code
          \<and> status_of (snd e) = 200
      | _ \<Rightarrow> False)"

text \<open>No draw of sixteen bytes from now on gives the code again.\<close>

definition code_fresh :: "string \<Rightarrow> world \<Rightarrow> bool" where
  "code_fresh code w \<longleftrightarrow> (\<forall>d \<ge> draws w. hex_EncodeToString (map (entropy w d) [0..<16]) \<noteq> code)"

lemma code_fresh_evolves: "code_fresh code w \<Longrightarrow> evolves w w' \<Longrightarrow> code_fresh code w'"
  by (auto simp: code_fresh_def evolves_def)

lemma code_fresh_draw: "code_fresh code w \<Longrightarrow> hex_EncodeToString (draw_bytes w 16) \<noteq> code"
  by (auto simp: code_fresh_def draw_bytes_def)

lemma keeps_server_env [inv_intros]:
  "keeps (env_inv w0) m1 \<Longrightarrow> keeps (env_inv w0) (on_clients m1)"
  "keeps (env_inv w0) m2 \<Longrightarrow> keeps (env_inv w0) (on_sessions m2)"
  "keeps (env_inv w0) m3 \<Longrightarrow> keeps (env_inv w0) (on_codes m3)"
  "keeps (env_inv w0) m4 \<Longrightarrow> keeps (env_inv w0) (on_tokens m4)"
  "keeps (env_inv w0) (generateRandomHex n)" "keeps (env_inv w0) generateUUID"
  unfolding on_clients_def on_sessions_def on_codes_def on_tokens_def generateRandomHex_def generateUUID_def
  by (intro inv_intros; assumption?)+

lemma keeps_Complete_env [inv_intros]: "keeps (env_inv w0) (CompleteAuthorization sid user)"
  unfolding CompleteAuthorization_def by (intro inv_intros)

lemma keeps_handlers_env [inv_intros]:
  "keeps (env_inv w0) (setSessionCookieAndRedirect wr r sid)"
  "keeps (env_inv w0) (createAuthSession a b c d e f g)"
  unfolding setSessionCookieAndRedirect_def createAuthSession_def Let_def by (intro inv_intros)+

lemma keeps_endpoints_env [inv_intros]:
  "keeps (env_inv w0) (HandleRegister wr r)" "keeps (env_inv w0) (handleAuthorizeGET wr r)"
  "keeps (env_inv w0) (handleAuthorizePOST wr r)" "keeps (env_inv w0) (HandleAuthorizeResume wr r)"
  "keeps (env_inv w0) (handleAuthCodeGrant wr r)" "keeps (env_inv w0) (handleRefreshTokenGrant wr r)"
  unfolding HandleRegister_def handleAuthorizeGET_def handleAuthorizePOST_def HandleAuthorizeResume_def
    handleAuthCodeGrant_def handleRefreshTokenGrant_def Let_def
  by (intro inv_intros)+

lemma keeps_step_env [inv_intros]: "keeps (env_inv w0) (oauth_step x)"
  by (cases x; simp only: oauth_step.simps HandleAuthorize_def HandleToken_def; intro inv_intros)

text \<open>What a call does to the code store: nothing, one consumption, or storing a freshly drawn code.\<close>

definition codes_after :: "OAuthServer \<Rightarrow> world \<Rightarrow> OAuthServer \<Rightarrow> bool" where
  "codes_after s w s' \<longleftrightarrow> os_codes s' = os_codes s
     \<or> (\<exists>k v a w'. run_state (ConsumeCode k) (os_codes s, v) = (a, (os_codes s', w')))
     \<or> (\<exists>v c. evolves w v \<and> co_codes (os_codes s')
           = AList.update (hex_EncodeToString (draw_bytes v 16)) c (co_codes (os_codes s)))"

lemma codes_after_refl [simp]: "os_codes s' = os_codes s \<Longrightarrow> codes_after s w s'"
  by (simp add: codes_after_def)

lemma codes_after_env: "codes_after s1 w1 s' \<Longrightarrow> os_codes s1 = os_codes s \<Longrightarrow> evolves w w1 \<Longrightarrow> codes_after s w s'"
  unfolding codes_after_def by (auto intro: evolves_trans)

lemma Complete_codes:
  assumes "run_state (CompleteAuthorization sid user) (s, w) = (res, (s', w'))"
  shows "codes_after s w s'"
proof -
  obtain so s1 w1 where g: "run_state (session_Get sid) (os_sessions s, w) = (so, (s1, w1))" by (rule run_split)
  have e: "evolves w w1" using keeps_evolves [OF keeps_store_env(9) g] .
  show ?thesis
  proof (cases "so = None \<or> \<not> entropy_ok w1 (draws w1)")
    case True
    then have "os_codes s' = os_codes s"
      using assms g by (auto simp: CompleteAuthorization_def run_on run_generateRandomHex split: option.splits)
    then show ?thesis by simp
  next
    case False
    then obtain sess where so: "so = Some sess" and ok: "entropy_ok w1 (draws w1)" by auto
    let ?c = "hex_EncodeToString (draw_bytes w1 16)"
    let ?w1 = "w1\<lparr>draws := Suc (draws w1), ticks := Suc (ticks w1)\<rparr>"
    let ?code = "new_code ?c user sess (clock w1 (ticks w1))"
    obtain u1 s2 w2 where p: "run_state (code_Put ?code) (os_codes s, ?w1) = (u1, (s2, w2))" by (rule run_split)
    obtain u2 s3 w3 where d: "run_state (session_Delete sid) (s1, w2) = (u2, (s3, w3))" by (rule run_split)
    have "os_codes s' = s2"
      using assms g so ok p d
      by (auto simp: CompleteAuthorization_def run_on run_generateRandomHex split: option.splits)
    moreover have "co_codes s2 = AList.update ?c ?code (co_codes (os_codes s))"
      using Put_runs(2) [OF p] by (simp add: new_code_def)
    ultimately show ?thesis using e unfolding codes_after_def by auto
  qed
qed

lemma setSession_codes:
  assumes "run_state (setSessionCookieAndRedirect wr r sid) (s, w) = (res, (s', w'))"
  shows "codes_after s w s'"
proof -
  obtain u s1 w1 where x: "run_state (extractSessionUserID (os_secret s) r) (s, w) = (u, (s1, w1))" by (rule run_split)
  have s1: "s1 = s" using st_unchanged [OF keeps_jwt(5) x] .
  have e: "evolves w w1" using keeps_evolves [OF keeps_jwt(6) x] .
  obtain d s2 w2 where c: "run_state (CompleteAuthorization sid u) (s, w1) = (d, (s2, w2))" by (rule run_split)
  have "s' = s \<or> s' = s2"
    using assms x s1 c by (auto simp: setSessionCookieAndRedirect_def split: if_splits sum.splits)
  then show ?thesis using Complete_codes [OF c] codes_after_env e by auto
qed

text \<open>The operations that work on the other stores leave the codes and the secret as they are.\<close>

abbreviation codes_const :: "CodeStore \<Rightarrow> string \<Rightarrow> OAuthServer \<times> world \<Rightarrow> bool" where
  "codes_const c k \<equiv> st_inv (\<lambda>s. os_codes s = c \<and> os_secret s = k)"

lemma keeps_codes_const [inv_intros]:
  "keeps (codes_const c k) (on_clients m1)" "keeps (codes_const c k) (on_sessions m2)"
  "keeps (codes_const c k) (on_tokens m3)"
  by (rule keeps_pairI; auto simp: run_on split: prod.splits)+

lemma keeps_random_const [inv_intros]:
  "keeps (codes_const c k) (generateRandomHex n)" "keeps (codes_const c k) generateUUID"
  unfolding generateRandomHex_def generateUUID_def by (intro inv_intros)+

lemma keeps_createSession_const [inv_intros]: "keeps (codes_const c k) (createAuthSession a b e d f g h)"
  unfolding createAuthSession_def Let_def by (intro inv_intros)

lemma keeps_endpoints_const:
  "keeps (codes_const c k) (handleAuthorizePOST wr r)" "keeps (codes_const c k) (HandleRegister wr r)"
  "keeps (codes_const c k) (handleRefreshTokenGrant wr r)"
  unfolding handleAuthorizePOST_def HandleRegister_def handleRefreshTokenGrant_def Let_def
  by (intro inv_intros)+

lemma codes_constD:
  assumes "keeps (codes_const (os_codes s) (os_secret s)) m" "run_state m (s, w) = (res, (s', w'))"
  shows "os_codes s' = os_codes s"
  using keeps_st_invD [OF assms(1) _ assms(2)] by simp

lemmas createSession_codes = codes_constD [OF keeps_createSession_const]
  and POST_codes = codes_constD [OF keeps_endpoints_const(1)]
  and Register_codes = codes_constD [OF keeps_endpoints_const(2)]
  and refresh_codes = codes_constD [OF keeps_endpoints_const(3)]

lemma GET_codes:
  assumes "run_state (handleAuthorizeGET wr r) (s, w) = (res, (s', w'))"
  shows "codes_after s w s'"
proof -
  let ?q = "req_Query r"
  let ?create = "createAuthSession (Values_Get ?q ''client_id'') (Values_Get ?q ''redirect_uri'')
    (Values_Get ?q ''response_type'') (Values_Get ?q ''code_challenge'') (Values_Get ?q ''code_challenge_method'')
    (Values_Get ?q ''state'') (Values_Get ?q ''scope'')"
  obtain x s1 w1 where g: "run_state (on_sessions (GetByClientID (Values_Get ?q ''client_id''))) (s, w) = (x, (s1, w1))"
    by (rule run_split)
  obtain y s2 w2 where c: "run_state ?create (s, w) = (y, (s2, w2))" by (rule run_split)
  have 1: "os_codes s1 = os_codes s" "evolves w w1"
    using g keeps_evolves [OF _ g] by (auto simp: run_on intro: inv_intros split: prod.splits)
  have 2: "os_codes s2 = os_codes s" "evolves w w2"
    using createSession_codes [OF c] keeps_evolves [OF keeps_handlers_env(2) c] by auto
  from assms consider "s' = s" | "s' = s1" | "s' = s2"
    | sid where "run_state (setSessionCookieAndRedirect wr r sid) (s1, w1) = (res, (s', w'))"
    | sid where "run_state (setSessionCookieAndRedirect wr r sid) (s2, w2) = (res, (s', w'))"
    using g c
    by (auto simp: handleAuthorizeGET_def Let_def split: if_splits option.splits sum.splits)
  then show ?thesis
  proof cases
    case (4 sid)
    then show ?thesis using codes_after_env [OF setSession_codes] 1 by blast
  next
    case (5 sid)
    then show ?thesis using codes_after_env [OF setSession_codes] 2 by blast
  qed (use 1 2 in simp_all)
qed

lemma Resume_codes:
  assumes "run_state (HandleAuthorizeResume wr r) (s, w) = (res, (s', w'))"
  shows "codes_after s w s'"
proof -
  obtain x s1 w1 where g: "run_state (on_sessions (session_Get (Values_Get (req_Query r) ''s''))) (s, w) = (x, (s1, w1))"
    by (rule run_split)
  have 1: "os_codes s1 = os_codes s" "evolves w w1"
    using g keeps_evolves [OF _ g] by (auto simp: run_on intro: inv_intros split: prod.splits)
  from assms consider "s' = s" | "s' = s1"
    | "run_state (setSessionCookieAndRedirect wr r (Values_Get (req_Query r) ''s'')) (s1, w1) = (res, (s', w'))"
    using g by (auto simp: HandleAuthorizeResume_def Let_def split: if_splits option.splits)
  then show ?thesis
  proof cases
    case 3
    then show ?thesis using codes_after_env [OF setSession_codes] 1 by blast
  qed (use 1 in simp_all)
qed

lemma Token_codes:
  assumes "run_state (HandleToken wr r) (s, w) = (res, (s', w'))"
  shows "codes_after s w s'"
  using assms code_grant_codes [of wr r s w res s' w'] refresh_codes [of wr r s w res s' w']
  by (auto simp: HandleToken_def codes_after_def split: if_splits)

lemma Authorize_codes:
  assumes "run_state (HandleAuthorize wr r) (s, w) = (res, (s', w'))"
  shows "codes_after s w s'"
  using assms GET_codes [of wr r s w res s' w'] POST_codes [of wr r s w res s' w']
  by (auto simp: HandleAuthorize_def split: if_splits)

lemma step_codes:
  assumes "run_state (oauth_step x) (s, w) = (res, (s', w'))"
  shows "codes_after s w s'"
proof (cases x)
  case (CallComplete sid u)
  with assms Complete_codes [of sid u s w] show ?thesis by (auto split: prod.splits)
qed (use assms Register_codes [of new_response] Authorize_codes Resume_codes Token_codes in auto)

lemma codes_keep_used:
  assumes "codes_after s w s'" "code_used code (os_codes s)" "code_fresh code w"
  shows "code_used code (os_codes s')"
  using assms(1) unfolding codes_after_def
proof (elim disjE exE conjE)
  fix k v a w'
  assume "run_state (ConsumeCode k) (os_codes s, v) = (a, (os_codes s', w'))"
  with used_kept [of code "os_codes s" "OpConsume k"] assms(2) show ?thesis by auto
next
  fix v c
  assume "evolves w v" "co_codes (os_codes s') = AList.update (hex_EncodeToString (draw_bytes v 16)) c (co_codes (os_codes s))"
  with assms(2) code_fresh_draw [OF code_fresh_evolves [OF assms(3)]] show ?thesis by (auto simp: code_used_def)
qed (use assms(2) in simp)

lemma step_keeps_used:
  assumes "run_state (oauth_step x) (s, w) = (res, (s', w'))" "code_used code (os_codes s)" "code_fresh code w"
  shows "code_used code (os_codes s')"
  by (rule codes_keep_used [OF step_codes [OF assms(1)] assms(2,3)])

lemma grant_uses:
  assumes "run_state (oauth_step x) (s, w) = (res, (s', w'))" "grants_code code (x, res)"
  shows "\<not> code_used code (os_codes s) \<and> code_used code (os_codes s')"
proof -
  obtain r where x: "x = CallToken r" "FormValue r ''code'' = code" "status_of res = 200"
    and g: "run_state (handleAuthCodeGrant new_response r) (s, w) = (res, (s', w'))"
    using assms by (cases x) (auto simp: grants_code_def HandleToken_def)
  show ?thesis
  proof (rule code_grant_run [OF g _ x(3)])
    fix c s1 w1
    assume c: "run_state (ConsumeCode (FormValue r ''code'')) (os_codes s, w) = (Some c, (s1, w1))" "os_codes s' = s1"
    with x(2) consumed_used used_not_consumed show ?thesis by fastforce
  qed (simp add: new_response_def)
qed

interpretation oauth_code: single_use oauth_step "grants_code code" "\<lambda>_. True" "\<lambda>s. code_used code (os_codes s)" "code_fresh code"
  for code
  by standard (rule code_fresh_evolves, assumption, erule keeps_evolves [OF keeps_step_env], rule step_keeps_used, assumption+, rule grant_uses)

section \<open>Exchanging a code\<close>

definition is_code_exchange :: "request \<Rightarrow> bool" where
  "is_code_exchange r \<longleftrightarrow> rq_method r = ''POST'' \<and> \<not> snd (ParseForm r) \<and> FormValue r ''grant_type'' = ''authorization_code''"

definition is_refresh :: "request \<Rightarrow> bool" where
  "is_refresh r \<longleftrightarrow> rq_method r = ''POST'' \<and> \<not> snd (ParseForm r) \<and> FormValue r ''grant_type'' = ''refresh_token''"

text \<open>A token request granted for a code finds it unused and leaves it used.\<close>

lemma token_grant_uses:
  assumes "run_state (HandleToken wr r) (s, w) = (res, (s', w'))" "is_code_exchange r" "rs_code wr = None" "status_of res = 200"
  shows "\<not> code_used (FormValue r ''code'') (os_codes s) \<and> code_used (FormValue r ''code'') (os_codes s')"
proof -
  have g: "run_state (handleAuthCodeGrant wr r) (s, w) = (res, (s', w'))"
    using assms(1,2) by (simp add: HandleToken_def is_code_exchange_def)
  show ?thesis
  proof (rule code_grant_run [OF g assms(3,4)])
    fix c s1 w1
    assume c: "run_state (ConsumeCode (FormValue r ''code'')) (os_codes s, w) = (Some c, (s1, w1))" "os_codes s' = s1"
    with consumed_used used_not_consumed show ?thesis by fastforce
  qed
qed

text \<open>What the request must show about the code it presents.\<close>

definition exchange_ok :: "request \<Rightarrow> AuthCode \<Rightarrow> time \<Rightarrow> bool" where
  "exchange_ok r c now \<longleftrightarrow> FormValue r ''code'' \<noteq> [] \<and> FormValue r ''client_id'' \<noteq> [] \<and> FormValue r ''redirect_uri'' \<noteq> []
     \<and> FormValue r ''code_verifier'' \<noteq> [] \<and> \<not> ac_used c \<and> now \<le> ac_expires c \<and> ac_client c = FormValue r ''client_id''
     \<and> ac_redirect c = FormValue r ''redirect_uri'' \<and> ac_challenge c = GenerateCodeChallenge (FormValue r ''code_verifier'')"

lemma HandleToken_code: "is_code_exchange r \<Longrightarrow> HandleToken wr r = handleAuthCodeGrant wr r"
  by (simp add: HandleToken_def is_code_exchange_def)

lemma HandleToken_refresh: "is_refresh r \<Longrightarrow> HandleToken wr r = handleRefreshTokenGrant wr r"
  by (simp add: HandleToken_def is_refresh_def)

lemma code_grant_status:
  assumes "map_of (co_codes (os_codes s)) (FormValue r ''code'') = Some c" "\<forall>d. entropy_ok w d" "rs_code wr = None"
    and "run_state (handleAuthCodeGrant wr r) (s, w) = (resp, (s', w'))"
  shows "status_of resp = (if exchange_ok r c (clock w (ticks w)) then 200 else 400)"
proof -
  obtain ac s1 w1 where p: "run_state (ConsumeCode (FormValue r ''code'')) (os_codes s, w) = (ac, (s1, w1))"
    by (rule run_split)
  have ac: "ac = (if \<not> ac_used c \<and> clock w (ticks w) \<le> ac_expires c then Some (c\<lparr>ac_used := True\<rparr>) else None)"
    using ConsumeCode_held [OF assms(1), of w] p by simp
  have e: "entropy_ok w1 d" for d
    using keeps_evolves [OF keeps_store_env(4) p] assms(2) by (auto simp: evolves_def)
  show ?thesis
    using assms(4) p ac e status_writers [OF assms(3)]
    by (auto simp: handleAuthCodeGrant_def Let_def exchange_ok_def VerifyPKCE_eq run_on run_mintAccessToken run_generateUUID
        split: if_splits prod.splits)
qed

lemma code_grant_burns:
  assumes "map_of (co_codes (os_codes s)) (FormValue r ''code'') = Some c" "clock w (ticks w) \<le> ac_expires c"
    and "FormValue r ''code'' \<noteq> []" "FormValue r ''client_id'' \<noteq> []" "FormValue r ''redirect_uri'' \<noteq> []" "FormValue r ''code_verifier'' \<noteq> []"
    and "run_state (handleAuthCodeGrant wr r) (s, w) = (resp, (s', w'))"
  shows "code_used (FormValue r ''code'') (os_codes s')"
proof -
  obtain ac s1 w1 where p: "run_state (ConsumeCode (FormValue r ''code'')) (os_codes s, w) = (ac, (s1, w1))"
    by (rule run_split)
  have ac: "ac = (if \<not> ac_used c then Some (c\<lparr>ac_used := True\<rparr>) else None)"
    using ConsumeCode_held [OF assms(1), of w] assms(2) p by simp
  have "code_used (FormValue r ''code'') s1"
  proof (cases "ac_used c")
    case True
    with assms(1) used_not_consumed [OF _ p] show ?thesis by (auto simp: code_used_def)
  next
    case False
    with ac p consumed_used show ?thesis by simp
  qed
  moreover have "os_codes s' = s1"
    using assms(3-7) p
    by (auto simp: handleAuthCodeGrant_def Let_def run_on run_mintAccessToken run_generateUUID
        split: if_splits option.splits prod.splits)
  ultimately show ?thesis by simp
qed

section \<open>Authorization sessions\<close>

lemma containsString_set: "containsString ss v \<longleftrightarrow> v \<in> set ss"
  by (induction ss) auto

lemma createAuthSession_run:
  assumes "run_state (createAuthSession clientID uri rt ch meth state scope) (s, w) = (Inr sid, (s', w'))"
  obtains cl t where "uri \<in> set (cl_redirects cl)"
    "(\<exists>x. run_state (client_Get clientID) (os_clients s, w) = (Some cl, x)) \<or> cl_redirects cl = [uri] \<and> cl_secret cl = []"
    "map_of (sn_sessions (os_sessions s')) sid = Some \<lparr>ss_id = sid, ss_client = clientID, ss_redirect = uri,
       ss_state = state, ss_challenge = ch, ss_method = meth,
       ss_scope = (if scope = [] then defaultScope else scope), ss_created = t, ss_user = []\<rparr>"
proof -
  obtain c s1 w1 where g: "run_state (client_Get clientID) (os_clients s, w) = (c, (s1, w1))" by (rule run_split)
  let ?new = "\<lparr>cl_id = clientID, cl_secret = [], cl_name = ''auto-registered'', cl_redirects = [uri],
    cl_grants = [''authorization_code'', ''refresh_token''], cl_responses = [''code''], cl_method = ''none'',
    cl_created = Unix (clock w1 (ticks w1))\<rparr>"
  obtain u s2 w2 where p: "run_state (client_Put ?new) (s1, w1\<lparr>ticks := Suc (ticks w1)\<rparr>) = (u, (s2, w2))" by (rule run_split)
  define cl where "cl = (case c of Some c \<Rightarrow> c | None \<Rightarrow> ?new)"
  define v where "v = (case c of Some _ \<Rightarrow> w1 | None \<Rightarrow> w2)"
  let ?sess = "\<lparr>ss_id = sid, ss_client = clientID, ss_redirect = uri, ss_state = state, ss_challenge = ch, ss_method = meth,
       ss_scope = (if scope = [] then defaultScope else scope), ss_created = clock v (ticks v), ss_user = []\<rparr>"
  obtain u' s3 w3 where q: "run_state (session_Put ?sess) (os_sessions s, v\<lparr>draws := Suc (draws v), ticks := Suc (ticks v)\<rparr>)
      = (u', (s3, w3))" by (rule run_split)
  have sid: "sid = hex_EncodeToString (draw_bytes v 16)" and in_uri: "uri \<in> set (cl_redirects cl)"
    using assms g p by (auto simp: createAuthSession_def Let_def run_on run_generateRandomHex cl_def v_def containsString_set
        split: option.splits if_splits prod.splits)
  then have "os_sessions s' = s3"
    using assms g p q by (auto simp: createAuthSession_def Let_def run_on run_generateRandomHex cl_def v_def containsString_set
        split: option.splits if_splits prod.splits)
  moreover have "map_of (sn_sessions s3) sid = Some ?sess" using sessions.put_lookup [OF q] by simp
  ultimately show thesis
    using that [of cl "clock v (ticks v)"] in_uri g by (cases c) (auto simp: cl_def)
qed

section \<open>A server for examples\<close>

definition post_form :: "string \<Rightarrow> request" where
  "post_form b = sample_request\<lparr>rq_method := ''POST'', rq_body := b,
     rq_media := (''application/x-www-form-urlencoded'', False)\<rparr>"

definition sample_server :: OAuthServer where
  "sample_server = (NewOAuthServer [] [] ''k'')
     \<lparr>os_codes := \<lparr>co_codes = [(''c1'', sample_code\<lparr>ac_challenge := GenerateCodeChallenge ''v'', ac_expires := Hour\<rparr>)],
                   co_backend = None\<rparr>,
      os_sessions := \<lparr>sn_sessions = [(''s1'', sample_session\<lparr>ss_challenge := GenerateCodeChallenge ''v''\<rparr>)], sn_backend = None\<rparr>,
      os_tokens := \<lparr>tk_tokens = [(''t1'', \<lparr>rt_token = ''t1'', rt_user = ''alice'', rt_client = ''app'', rt_scope = ''openid'',
                                     rt_expires = Hour\<rparr>)], tk_backend = None\<rparr>\<rparr>"

definition exchange_form :: string where
  "exchange_form = ''grant_type=authorization_code&code=c1&client_id=app&redirect_uri=http://a/cb&code_verifier=v''"

definition sample_exchange :: request where
  "sample_exchange = post_form exchange_form"

lemma ParseQuery_empty: "ParseQuery [] = ([], False)"
  by code_simp

lemma ParseForm_post: "length b < 1000 \<Longrightarrow> ParseForm (post_form b) = ParseQuery b"
  by (simp add: ParseForm_def post_form_def sample_request_def parsePostForm_def ReadAll_def read_body_def maxFormSize_def
      copyValues_def ParseQuery_empty split: prod.split)

lemma ParseForm_exchange:
  "ParseForm sample_exchange = ([(''grant_type'', [''authorization_code'']), (''code'', [''c1'']), (''client_id'', [''app'']),
     (''redirect_uri'', [''http://a/cb'']), (''code_verifier'', [''v''])], False)"
proof -
  have "length exchange_form < 1000" by (simp add: exchange_form_def)
  moreover have "ParseQuery exchange_form = ([(''grant_type'', [''authorization_code'']), (''code'', [''c1'']),
     (''client_id'', [''app'']), (''redirect_uri'', [''http://a/cb'']), (''code_verifier'', [''v''])], False)" by code_simp
  ultimately show ?thesis by (simp add: sample_exchange_def ParseForm_post)
qed

lemma sample_exchange_form:
  "is_code_exchange sample_exchange" "FormValue sample_exchange ''code'' = ''c1''"
  "FormValue sample_exchange ''client_id'' = ''app''" "FormValue sample_exchange ''redirect_uri'' = ''http://a/cb''"
  "FormValue sample_exchange ''code_verifier'' = ''v''"
  by (simp_all add: is_code_exchange_def FormValue_def ParseForm_exchange Values_Get_def)
     (simp add: sample_exchange_def post_form_def)

lemma sample_held:
  "map_of (co_codes (os_codes sample_server)) ''c1'' = Some (sample_code\<lparr>ac_challenge := GenerateCodeChallenge ''v'', ac_expires := Hour\<rparr>)"
  "os_sessions sample_server = \<lparr>sn_sessions = [(''s1'', sample_session\<lparr>ss_challenge := GenerateCodeChallenge ''v''\<rparr>)], sn_backend = None\<rparr>"
  "os_tokens sample_server = \<lparr>tk_tokens = [(''t1'', \<lparr>rt_token = ''t1'', rt_user = ''alice'', rt_client = ''app'', rt_scope = ''openid'',
     rt_expires = Hour\<rparr>)], tk_backend = None\<rparr>"
  by (simp_all add: sample_server_def)

lemma sample_entropy: "entropy_ok sample_world d"
  by (simp add: sample_world_def)

section \<open>Properties\<close>

text \<open>
  C4: The token endpoint on a code the server holds: the answer is 200 exactly when all parameters
  are there, the code is unused and unexpired, client and redirect URI are those of the
  authorization and the S256 transform of the verifier is the challenge; otherwise it is 400. An
  attempt with all parameters uses an unexpired code up whatever the answer.
\<close>
theorem code_exchange_exact:
  assumes "is_code_exchange r" "map_of (co_codes (os_codes s)) (FormValue r ''code'') = Some c" "\<forall>d. entropy_ok w d"
    and "run_state (HandleToken new_response r) (s, w) = (resp, (s', w'))"
  shows "status_of resp = (if exchange_ok r c (clock w (ticks w)) then 200 else 400)
    \<and> (clock w (ticks w) \<le> ac_expires c \<longrightarrow> list_all (\<lambda>k. FormValue r k \<noteq> []) [''code'', ''client_id'', ''redirect_uri'', ''code_verifier'']
         \<longrightarrow> code_used (FormValue r ''code'') (os_codes s'))"
proof -
  have g: "run_state (handleAuthCodeGrant new_response r) (s, w) = (resp, (s', w'))"
    using assms(4) by (simp add: HandleToken_code [OF assms(1)])
  show ?thesis
    using code_grant_status [OF assms(2,3) _ g] code_grant_burns [OF assms(2) _ _ _ _ _ g] by (simp add: new_response_def)
qed

theorem code_exchange_exact_witness:
  "status_of (fst (run_state (HandleToken new_response sample_exchange) (sample_server, sample_world))) = 200"
proof -
  have "exchange_ok sample_exchange (sample_code\<lparr>ac_challenge := GenerateCodeChallenge ''v'', ac_expires := Hour\<rparr>)
      (clock sample_world (ticks sample_world))"
    by (simp add: exchange_ok_def sample_exchange_form sample_code_def sample_world_def duration_defs)
  then show ?thesis
    using code_exchange_exact [OF sample_exchange_form(1) _ _ run_eta, of sample_server _ sample_world]
    by (simp add: sample_exchange_form(2) sample_held sample_entropy)
qed

text \<open>
  Over every history of calls on the authorization server (registrations, authorizations,
  resumptions, completions and token requests in any order, with any backend), at most one token
  request presenting a given code is answered with tokens, provided the random generator does not
  draw that code again.
\<close>
lemma code_grants_once:
  assumes "code_fresh code w" "run_state (history oauth_step calls) (s, w) = (log, (s', w'))"
  shows "length (filter (grants_code code) log) \<le> 1"
  by (rule oauth_code.one_hit [OF assms(2) _ assms(1)]) (simp add: list_all_iff)


definition refresh_form :: string where
  "refresh_form = ''grant_type=refresh_token&refresh_token=t1&client_id=app''"

lemma sample_refresh_form:
  "is_refresh (post_form refresh_form)" "FormValue (post_form refresh_form) ''refresh_token'' = ''t1''"
  "FormValue (post_form refresh_form) ''client_id'' = ''app''"
proof -
  have "length refresh_form < 1000" by (simp add: refresh_form_def)
  moreover have "ParseQuery refresh_form
      = ([(''grant_type'', [''refresh_token'']), (''refresh_token'', [''t1'']), (''client_id'', [''app''])], False)" by code_simp
  ultimately have "ParseForm (post_form refresh_form)
      = ([(''grant_type'', [''refresh_token'']), (''refresh_token'', [''t1'']), (''client_id'', [''app''])], False)"
    by (simp add: ParseForm_post)
  then show "is_refresh (post_form refresh_form)" "FormValue (post_form refresh_form) ''refresh_token'' = ''t1''"
    "FormValue (post_form refresh_form) ''client_id'' = ''app''"
    by (simp_all add: is_refresh_def FormValue_def Values_Get_def) (simp add: post_form_def)
qed


text \<open>
  C11: Completing an authorization for a user issues a code bound to exactly the user and to the
  client, redirect URI, challenge and scope of the session, unused and valid for five minutes; the
  session is spent; and the user is sent to the session's redirect URI with the code and the
  session's state added to the parameters it already had.
\<close>
theorem completion_binds_code:
  assumes "run_state (CompleteAuthorization sid user) (s, w) = (Inr target, (s', w'))"
  shows "\<exists>sess code now u q. (\<exists>x. run_state (session_Get sid) (os_sessions s, w) = (Some sess, x))
    \<and> map_of (co_codes (os_codes s')) code = Some \<lparr>ac_code = code, ac_client = ss_client sess, ac_user = user,
          ac_redirect = ss_redirect sess, ac_challenge = ss_challenge sess, ac_scope = ss_scope sess,
          ac_expires = now + 5 * Minute, ac_used = False\<rparr>
    \<and> map_of (sn_sessions (os_sessions s')) sid = None
    \<and> url_Parse (ss_redirect sess) = Some u \<and> target = url_String (u\<lparr>u_rawquery := q\<rparr>)
    \<and> Values_Get (fst (ParseQuery q)) ''code'' = code \<and> Values_Get (fst (ParseQuery q)) ''state'' = ss_state sess
    \<and> (\<forall>k. k \<noteq> ''code'' \<longrightarrow> k \<noteq> ''state'' \<longrightarrow> Values_Get (fst (ParseQuery q)) k = Values_Get (url_Query u) k)"
proof (rule CompleteAuthorization_run [OF assms])
  fix sess s1 w1 code now u
  assume g: "run_state (session_Get sid) (os_sessions s, w) = (Some sess, (s1, w1))"
    and c: "co_codes (os_codes s') = AList.update code (new_code code user sess now) (co_codes (os_codes s))"
    and d: "sn_sessions (os_sessions s') = AList.delete sid (sn_sessions s1)"
    and u: "url_Parse (ss_redirect sess) = Some u" "target = code_redirect u code (ss_state sess)"
  obtain q where "target = url_String (u\<lparr>u_rawquery := q\<rparr>)" "Values_Get (fst (ParseQuery q)) ''code'' = code"
    "Values_Get (fst (ParseQuery q)) ''state'' = ss_state sess"
    "\<forall>k. k \<noteq> ''code'' \<longrightarrow> k \<noteq> ''state'' \<longrightarrow> Values_Get (fst (ParseQuery q)) k = Values_Get (url_Query u) k"
    using code_redirect_query [of u code "ss_state sess"] u(2) by auto
  then show ?thesis
    using g c d u(1)
    by (intro exI [of _ sess] exI [of _ code] exI [of _ now] exI [of _ u] exI [of _ q])
       (simp add: new_code_def time_Add_def delete_conv')
qed

lemma sample_url: "\<exists>u. url_Parse ''http://a/cb'' = Some u"
proof -
  have "url_Parse ''http://a/cb'' \<noteq> None" by code_simp
  then show ?thesis by blast
qed

lemma sample_session_get:
  "run_state (session_Get ''s1'') (os_sessions sample_server, sample_world)
     = (Some (sample_session\<lparr>ss_challenge := GenerateCodeChallenge ''v''\<rparr>),
        (os_sessions sample_server, sample_world\<lparr>ticks := 1\<rparr>))"
  by (simp add: session_Get_def sample_held sample_session_def session_expired_def After_def time_Add_def sessionTTL_def
      duration_defs sample_world_def)

lemma sample_completion:
  obtains target s' w' where
    "run_state (CompleteAuthorization ''s1'' ''alice'') (sample_server, sample_world) = (Inr target, (s', w'))"
proof -
  have "\<exists>t. fst (run_state (CompleteAuthorization ''s1'' ''alice'') (sample_server, sample_world)) = Inr t"
    using sample_url sample_session_get
    by (auto simp: CompleteAuthorization_def run_on run_generateRandomHex sample_entropy sample_session_def split: prod.splits)
  then show thesis using that by (metis run_eta)
qed

theorem completion_binds_code_witness:
  "\<exists>target s' w' (sess::AuthSession) code now. run_state (CompleteAuthorization ''s1'' ''alice'') (sample_server, sample_world) = (Inr target, (s', w'))
     \<and> map_of (co_codes (os_codes s')) code = Some \<lparr>ac_code = code, ac_client = ss_client sess, ac_user = ''alice'',
          ac_redirect = ss_redirect sess, ac_challenge = ss_challenge sess, ac_scope = ss_scope sess,
          ac_expires = now + 5 * Minute, ac_used = False\<rparr>"
proof (rule sample_completion)
  fix target s' w'
  assume r: "run_state (CompleteAuthorization ''s1'' ''alice'') (sample_server, sample_world) = (Inr target, (s', w'))"
  obtain sess :: AuthSession and code now where "map_of (co_codes (os_codes s')) code = Some \<lparr>ac_code = code, ac_client = ss_client sess, ac_user = ''alice'',
          ac_redirect = ss_redirect sess, ac_challenge = ss_challenge sess, ac_scope = ss_scope sess,
          ac_expires = now + 5 * Minute, ac_used = False\<rparr>"
    using completion_binds_code [OF r] by (elim exE conjE) (rule that, assumption)
  with r show ?thesis by (intro exI conjI)
qed

text \<open>
  C10: An authorized client gets its tokens: after a completed authorization the redirect carries a
  code such that every token request with that code, the client and redirect URI of the session and
  the verifier of its challenge is answered with 200 while the clock is within five minutes.
\<close>
theorem authorized_client_gets_tokens:
  assumes "run_state (CompleteAuthorization sid user) (s, w) = (Inr target, (s', w'))"
    and "run_state (session_Get sid) (os_sessions s, w) = (Some sess, (s1, w1))"
  shows "\<exists>u code. url_Parse (ss_redirect sess) = Some u \<and> target = code_redirect u code (ss_state sess) \<and> code \<noteq> []
    \<and> (\<forall>r v. is_code_exchange r \<longrightarrow> FormValue r ''code'' = code \<longrightarrow> FormValue r ''client_id'' = ss_client sess
         \<longrightarrow> FormValue r ''redirect_uri'' = ss_redirect sess \<longrightarrow> ss_challenge sess = GenerateCodeChallenge (FormValue r ''code_verifier'')
         \<longrightarrow> ss_client sess \<noteq> [] \<longrightarrow> ss_redirect sess \<noteq> [] \<longrightarrow> FormValue r ''code_verifier'' \<noteq> []
         \<longrightarrow> (\<forall>d. entropy_ok v d) \<longrightarrow> clock v (ticks v) \<le> clock w1 (ticks w1) + 5 * Minute
         \<longrightarrow> status_of (fst (run_state (HandleToken new_response r) (s', v))) = 200)"
proof (rule CompleteAuthorization_run [OF assms(1)])
  fix sess' s1' w1' code now u
  assume g: "run_state (session_Get sid) (os_sessions s, w) = (Some sess', (s1', w1'))"
    and code: "code = hex_EncodeToString (draw_bytes w1' 16)" and now: "now = clock w1' (ticks w1')"
    and c: "co_codes (os_codes s') = AList.update code (new_code code user sess' now) (co_codes (os_codes s))"
    and u: "url_Parse (ss_redirect sess') = Some u" "target = code_redirect u code (ss_state sess')"
  have eq: "sess' = sess" "w1' = w1" using g assms(2) by simp_all
  have ne: "code \<noteq> []" using code by (metis length_draw_bytes length_hex length_0_conv mult_eq_0_iff zero_neq_numeral)
  have "status_of (fst (run_state (HandleToken new_response r) (s', v))) = 200"
    if "is_code_exchange r" "FormValue r ''code'' = code" "FormValue r ''client_id'' = ss_client sess"
      "FormValue r ''redirect_uri'' = ss_redirect sess" "ss_challenge sess = GenerateCodeChallenge (FormValue r ''code_verifier'')"
      "ss_client sess \<noteq> []" "ss_redirect sess \<noteq> []" "FormValue r ''code_verifier'' \<noteq> []" "\<forall>d. entropy_ok v d"
      "clock v (ticks v) \<le> clock w1 (ticks w1) + 5 * Minute" for r v
  proof -
    have h: "map_of (co_codes (os_codes s')) (FormValue r ''code'') = Some (new_code code user sess now)"
      using c that(2) eq by simp
    have "exchange_ok r (new_code code user sess now) (clock v (ticks v))"
      using that ne eq now by (simp add: exchange_ok_def new_code_def time_Add_def)
    then show ?thesis
      using code_grant_status [OF h that(9) _ run_eta] unfolding HandleToken_code [OF that(1)] by (simp add: new_response_def)
  qed
  with u ne eq show ?thesis by (intro exI [of _ u] exI [of _ code]) simp
qed

definition code_request :: "string \<Rightarrow> request" where
  "code_request code = (let b = Values_Encode [(''grant_type'', [''authorization_code'']), (''code'', [code]),
       (''client_id'', [''app'']), (''redirect_uri'', [''http://a/cb'']), (''code_verifier'', [''v''])]
     in (post_form b)\<lparr>rq_limit := Some (length b)\<rparr>)"

lemma code_request_form:
  "is_code_exchange (code_request code)" "FormValue (code_request code) ''code'' = code"
  "FormValue (code_request code) ''client_id'' = ''app''" "FormValue (code_request code) ''redirect_uri'' = ''http://a/cb''"
  "FormValue (code_request code) ''code_verifier'' = ''v''"
proof -
  let ?v = "[(''grant_type'', [''authorization_code'']), (''code'', [code]), (''client_id'', [''app'']),
    (''redirect_uri'', [''http://a/cb'']), (''code_verifier'', [''v''])]"
  have p: "ParseForm (code_request code) = ParseQuery (Values_Encode ?v)"
    by (simp add: code_request_def Let_def ParseForm_def post_form_def sample_request_def parsePostForm_def ReadAll_def
        read_body_def copyValues_def ParseQuery_empty split: prod.split)
  have w: "wf_map ?v" by (simp add: wf_map_def)
  have f: "FormValue (code_request code) k = Values_Get ?v k" for k
    by (simp only: FormValue_def p ParseQuery_Encode [OF w])
  show "is_code_exchange (code_request code)" "FormValue (code_request code) ''code'' = code"
    "FormValue (code_request code) ''client_id'' = ''app''" "FormValue (code_request code) ''redirect_uri'' = ''http://a/cb''"
    "FormValue (code_request code) ''code_verifier'' = ''v''"
    using Values_Encode_no_error [OF w] p
    by (simp_all add: is_code_exchange_def f) (simp_all add: Values_Get_def code_request_def Let_def post_form_def)
qed

theorem authorized_client_gets_tokens_witness:
  "\<exists>target s' w' code. run_state (CompleteAuthorization ''s1'' ''alice'') (sample_server, sample_world) = (Inr target, (s', w'))
     \<and> status_of (fst (run_state (HandleToken new_response (code_request code)) (s', sample_world))) = 200"
proof (rule sample_completion)
  fix target s' w'
  assume r: "run_state (CompleteAuthorization ''s1'' ''alice'') (sample_server, sample_world) = (Inr target, (s', w'))"
  obtain code where c: "\<forall>r v. is_code_exchange r \<longrightarrow> FormValue r ''code'' = code \<longrightarrow> FormValue r ''client_id'' = ''app''
         \<longrightarrow> FormValue r ''redirect_uri'' = ''http://a/cb'' \<longrightarrow> GenerateCodeChallenge ''v'' = GenerateCodeChallenge (FormValue r ''code_verifier'')
         \<longrightarrow> FormValue r ''code_verifier'' \<noteq> [] \<longrightarrow> (\<forall>d. entropy_ok v d) \<longrightarrow> clock v (ticks v) \<le> Second + 5 * Minute
         \<longrightarrow> status_of (fst (run_state (HandleToken new_response r) (s', v))) = 200"
    using authorized_client_gets_tokens [OF r sample_session_get]
    by (auto simp: sample_session_def sample_world_def)
  have "status_of (fst (run_state (HandleToken new_response (code_request code)) (s', sample_world))) = 200"
    by (rule c [rule_format]) (simp_all add: code_request_form sample_entropy sample_world_def duration_defs)
  with r show ?thesis by (intro exI conjI)
qed


definition authorize_form :: string where
  "authorize_form = ''client_id=app&redirect_uri=http://a/cb&response_type=code&code_challenge=x&code_challenge_method=S256&state=st''"


lemma hex_digits_uuid:
  "hex_chr 4 = CHR ''4''" "hex_chr 8 = CHR ''8''" "hex_chr 9 = CHR ''9''" "hex_chr 10 = CHR ''a''" "hex_chr 11 = CHR ''b''"
  by code_simp+

text \<open>
  Generated client ids and refresh tokens have the form of a version 4 UUID: 36 characters with
  hyphens at positions 8, 13, 18 and 23, version digit 4, and variant digit 8, 9, a or b.
\<close>
lemma generated_uuid_shape:
  assumes "run_state generateUUID (s, w) = (Inr u, (s', w'))"
  shows "length u = 36 \<and> u ! 8 = CHR ''-'' \<and> u ! 13 = CHR ''-'' \<and> u ! 18 = CHR ''-'' \<and> u ! 23 = CHR ''-''
    \<and> u ! 14 = CHR ''4'' \<and> u ! 19 \<in> set ''89ab''"
proof -
  have u: "u = uuid_text (uuid_bits (draw_bytes w 16))" using assms by (simp add: run_generateUUID split: if_splits)
  have "length (draw_bytes w 16) = 16" by simp
  from uuid_bits_props [OF this] have "length (uuid_bits (draw_bytes w 16)) = 16"
    "of_char (uuid_bits (draw_bytes w 16) ! 6) div 16 = (4::nat)"
    "of_char (uuid_bits (draw_bytes w 16) ! 8) div 16 \<in> {8, 9, 10, 11::nat}" by auto
  with uuid_text_shape [of "uuid_bits (draw_bytes w 16)"] show ?thesis unfolding u by (auto simp: hex_digits_uuid)
qed

end
