(* ===== verification/Auth_Handlers.thy ===== *)
theory Auth_Handlers
  imports OAuth_Flow
begin

text \<open>
  Login, logout and the callbacks of the identity providers (src/internal/handlers/auth.go). The
  handler's state is that of the authorization server it completes MCP sessions with;
  \<open>ah_oauth\<close> tells whether one is set. A \<open>Host\<close> override of an outgoing request is recorded as its
  Host header.
\<close>

section \<open>State\<close>

record AuthHandler =
  ah_devMode :: bool
  ah_apiURL :: string
  ah_callbackURL :: string
  ah_jwtSecret :: string
  ah_oauth :: bool

definition NewAuthHandler :: "bool \<Rightarrow> string \<Rightarrow> string \<Rightarrow> string \<Rightarrow> AuthHandler" where
  "NewAuthHandler devMode apiURL callbackURL jwtSecret =
     \<lparr>ah_devMode = devMode, ah_apiURL = apiURL, ah_callbackURL = callbackURL, ah_jwtSecret = jwtSecret, ah_oauth = False\<rparr>"

definition SetOAuthServer :: "AuthHandler \<Rightarrow> AuthHandler" where
  "SetOAuthServer h = h\<lparr>ah_oauth := True\<rparr>"

section \<open>Completing an MCP session\<close>

definition session_cookie :: "string \<Rightarrow> string \<Rightarrow> int \<Rightarrow> cookie" where
  "session_cookie name v maxage =
     \<lparr>ck_name = name, ck_value = v, ck_path = ''/'', ck_maxage = maxage, ck_httponly = True, ck_secure = False,
      ck_samesite = SameSiteLax\<rparr>"

text \<open>The redirect URL, empty when there was nothing to complete, and the response.\<close>

definition tryCompleteMCPSession :: "AuthHandler \<Rightarrow> response \<Rightarrow> request \<Rightarrow> string \<Rightarrow> (OAuthServer, string \<times> response) io" where
  "tryCompleteMCPSession h w r token =
     (if \<not> ah_oauth h then ret ([], w)
      else (case req_Cookie r ''mcp_session_id'' of
          None \<Rightarrow> ret ([], w)
        | Some sid \<Rightarrow>
            if sid = [] then ret ([], w)
            else let sub = extractJWTSubFromToken token
                 in if sub = [] then ret ([], w)
                    else do { res \<leftarrow> CompleteAuthorization sid sub;
                              case res of
                                Inl _ \<Rightarrow> ret ([], w)
                              | Inr redirectURL \<Rightarrow>
                                  ret (redirectURL, http_Redirect r redirectURL 302
                                                      (SetCookie (session_cookie ''mcp_session_id'' [] (-1)) w)) }))"

text \<open>The end of a login: an MCP session is completed, otherwise the token becomes the session.\<close>

definition finish_login :: "AuthHandler \<Rightarrow> response \<Rightarrow> request \<Rightarrow> string \<Rightarrow> (OAuthServer, response) io" where
  "finish_login h w r token =
     do { (mcpRedirect, w1) \<leftarrow> tryCompleteMCPSession h w r token;
          if mcpRedirect \<noteq> [] then ret w1
          else ret (http_Redirect r ''/dashboard'' 302 (SetCookie (session_cookie ''vire_session'' token 0) w1)) }"

section \<open>Password login\<close>

definition login_token :: "json \<Rightarrow> string option" where
  "login_token v =
     do { kvs \<leftarrow> json_members v;
          let fs = [''status'', ''data''];
          st \<leftarrow> json_field json_as_string [] fs ''status'' kvs;
          d \<leftarrow> json_nested fs ''data'' kvs;
          json_field json_as_string [] [''token''] ''token'' d }"

definition login_body :: "string \<Rightarrow> string \<Rightarrow> string" where
  "login_body username password = json_encode (JObj [(''password'', JStr password), (''username'', JStr username)])"

definition error_page :: "request \<Rightarrow> string \<Rightarrow> response \<Rightarrow> response" where
  "error_page r reason w = http_Redirect r (''/error?reason='' @ reason) 302 w"

definition login_answer :: "AuthHandler \<Rightarrow> response \<Rightarrow> request \<Rightarrow> http_result \<Rightarrow> (OAuthServer, response) io" where
  "login_answer h w r res =
     (case res of
        NetErr _ \<Rightarrow> ret (error_page r ''server_unavailable'' w)
      | HttpResp status _ raw broken \<Rightarrow>
          (case LimitRead (2 ^ 20) raw broken of
             None \<Rightarrow> ret (error_page r ''auth_failed'' w)
           | Some body \<Rightarrow>
               if status \<noteq> 200 then ret (error_page r ''invalid_credentials'' w)
               else (case Option.bind (json_Unmarshal body) login_token of
                   None \<Rightarrow> ret (error_page r ''auth_failed'' w)
                 | Some token \<Rightarrow>
                     if token = [] then ret (error_page r ''auth_failed'' w)
                     else finish_login h w r token)))"

definition HandleLogin :: "AuthHandler \<Rightarrow> response \<Rightarrow> request \<Rightarrow> (OAuthServer, response) io" where
  "HandleLogin h w r =
     (if snd (ParseForm r) then ret (error_page r ''bad_request'' w)
      else let username = TrimSpace (FormValue r ''username'');
               password = FormValue r ''password''
           in if username = [] \<or> password = [] then ret (error_page r ''missing_credentials'' w)
              else
                do { res \<leftarrow> http_Post (ah_apiURL h @ ''/api/auth/login'') ''application/json'' (login_body username password);
                     login_answer h w r res })"

definition HandleTestLogin :: "AuthHandler \<Rightarrow> response \<Rightarrow> request \<Rightarrow> ('s, response) io" where
  \<open>HandleTestLogin h w r =
     (if \<not> ah_devMode h then ret (http_Error ''Not available in production'' 403 w)
      else if snd (ParseForm r) then ret (http_Error ''{"error":"bad_request"}'' 400 w)
      else let username = TrimSpace (FormValue r ''username'');
               password = FormValue r ''password''
           in if username = [] \<or> password = [] then ret (http_Error ''{"error":"missing_credentials"}'' 400 w)
              else
                do { res \<leftarrow> http_Post (ah_apiURL h @ ''/api/auth/login'') ''application/json'' (login_body username password);
                     case res of
                       NetErr _ \<Rightarrow> ret (http_Error ''{"error":"server_unavailable"}'' 503 w)
                     | HttpResp status _ raw broken \<Rightarrow>
                         (case LimitRead (2 ^ 20) raw broken of
                            None \<Rightarrow> ret (http_Error ''{"error":"read_failed"}'' 500 w)
                          | Some body \<Rightarrow>
                              if status \<noteq> 200 then ret (http_Error ''{"error":"invalid_credentials"}'' 401 w)
                              else (case Option.bind (json_Unmarshal body) login_token of
                                  None \<Rightarrow> ret (http_Error ''{"error":"invalid_response"}'' 500 w)
                                | Some token \<Rightarrow>
                                    if token = [] then ret (http_Error ''{"error":"invalid_response"}'' 500 w)
                                    else ret (Encode_json (JObj
                                           [(''message'', JStr ''Use this token in X-Test-Session header or set as vire_session cookie''),
                                            (''status'', JStr ''ok''), (''token'', JStr token)])
                                         (Header_Set ''Content-Type'' ''application/json'' w)))) })\<close>

definition HandleLogout :: "response \<Rightarrow> request \<Rightarrow> response" where
  "HandleLogout w r = http_Redirect r ''/'' 302 (SetCookie (session_cookie ''vire_session'' [] (-1)) w)"

section \<open>Identity providers\<close>

definition public_host :: "AuthHandler \<Rightarrow> http_request \<Rightarrow> http_request" where
  "public_host h rq =
     (if ah_callbackURL h = [] then rq
      else (case url_Parse (ah_callbackURL h) of None \<Rightarrow> rq | Some u \<Rightarrow> req_Set rq ''Host'' (u_host u)))"

definition proxyOAuthRedirect :: "AuthHandler \<Rightarrow> response \<Rightarrow> request \<Rightarrow> string \<Rightarrow> ('s, response) io" where
  "proxyOAuthRedirect h w r provider =
     do { rq \<leftarrow> NewRequest ''GET'' (ah_apiURL h @ ''/api/auth/login/'' @ provider @ ''?callback='' @ QueryEscape (ah_callbackURL h)) [];
          case rq of
            Inl _ \<Rightarrow> ret (error_page r ''auth_failed'' w)
          | Inr rq \<Rightarrow>
              do { res \<leftarrow> client_Do (public_host h rq);
                   case res of
                     NetErr _ \<Rightarrow> ret (error_page r ''auth_unavailable'' w)
                   | HttpResp _ hdr _ _ \<Rightarrow>
                       let location = hdr_Get hdr ''Location''
                       in if location = [] then ret (error_page r ''auth_failed'' w)
                          else ret (http_Redirect r location 302 w) } }"

definition HandleGoogleLogin :: "AuthHandler \<Rightarrow> response \<Rightarrow> request \<Rightarrow> ('s, response) io" where
  "HandleGoogleLogin h w r = proxyOAuthRedirect h w r ''google''"

definition HandleGitHubLogin :: "AuthHandler \<Rightarrow> response \<Rightarrow> request \<Rightarrow> ('s, response) io" where
  "HandleGitHubLogin h w r = proxyOAuthRedirect h w r ''github''"

definition proxyOAuthCallback :: "AuthHandler \<Rightarrow> response \<Rightarrow> request \<Rightarrow> ('s, response) io" where
  "proxyOAuthCallback h w r =
     do { rq \<leftarrow> NewRequest ''GET'' (ah_apiURL h @ rq_path r @ (if rq_rawquery r = [] then [] else ''?'' @ rq_rawquery r)) [];
          case rq of
            Inl _ \<Rightarrow> ret (error_page r ''auth_failed'' w)
          | Inr rq \<Rightarrow>
              do { res \<leftarrow> client_Do (public_host h rq);
                   case res of
                     NetErr _ \<Rightarrow> ret (error_page r ''auth_unavailable'' w)
                   | HttpResp status hdr body _ \<Rightarrow> ret (Write body (WriteHeader status (add_headers hdr w))) } }"

definition HandleGoogleCallback :: "AuthHandler \<Rightarrow> response \<Rightarrow> request \<Rightarrow> ('s, response) io" where
  "HandleGoogleCallback h w r = proxyOAuthCallback h w r"

definition HandleGitHubCallback :: "AuthHandler \<Rightarrow> response \<Rightarrow> request \<Rightarrow> ('s, response) io" where
  "HandleGitHubCallback h w r = proxyOAuthCallback h w r"

definition HandleOAuthCallback :: "AuthHandler \<Rightarrow> response \<Rightarrow> request \<Rightarrow> (OAuthServer, response) io" where
  "HandleOAuthCallback h w r =
     (let token = Values_Get (req_Query r) ''token''
      in if token = [] then ret (error_page r ''auth_failed'' w) else finish_login h w r token)"

section \<open>Cookies of the answers\<close>

lemma cookies_writers [simp]:
  "rs_cookies (WriteHeader c w) = rs_cookies w" "rs_cookies (Write b w) = rs_cookies w"
  "rs_cookies (Header_Set k v w) = rs_cookies w"
  by (simp_all add: WriteHeader_def Write_def Header_Set_def Let_def)

lemma cookies_redirect [simp]: "rs_cookies (http_Redirect r u c w) = rs_cookies w" "rs_cookies (error_page r e w) = rs_cookies w"
  by (simp_all add: http_Redirect_def error_page_def Let_def)

lemma cookies_set: "set (rs_cookies (SetCookie c w)) \<subseteq> insert c (set (rs_cookies w))"
  by (auto simp: SetCookie_def)

lemma tryComplete_cookies:
  assumes "run_state (tryCompleteMCPSession h w r t) (s, v) = ((u, w1), x)"
  shows "set (rs_cookies w1) \<subseteq> insert (session_cookie ''mcp_session_id'' [] (-1)) (set (rs_cookies w))"
  using assms cookies_set [of "session_cookie ''mcp_session_id'' [] (-1)" w]
  by (auto simp: tryCompleteMCPSession_def Let_def split: if_splits option.splits sum.splits prod.splits)

lemma finish_login_cookies:
  assumes "run_state (finish_login h w r t) (s, v) = (resp, x)"
  shows "set (rs_cookies resp) \<subseteq> {session_cookie ''mcp_session_id'' [] (-1), session_cookie ''vire_session'' t 0} \<union> set (rs_cookies w)"
proof -
  obtain u w1 y where t: "run_state (tryCompleteMCPSession h w r t) (s, v) = ((u, w1), y)" by (metis surj_pair)
  have "set (rs_cookies resp) \<subseteq> insert (session_cookie ''vire_session'' t 0) (set (rs_cookies w1))"
    using assms t cookies_set [of "session_cookie ''vire_session'' t 0" w1] by (auto simp: finish_login_def split: if_splits)
  with tryComplete_cookies [OF t] show ?thesis by blast
qed

lemma run_http_Post:
  "run_state (http_Post u c b) (s, w) = (case url_Parse u of
     None \<Rightarrow> (NetErr (err_text w u), (s, w))
   | Some _ \<Rightarrow> let rq = \<lparr>ro_method = ''POST'', ro_url = u, ro_header = [(''Content-Type'', c)], ro_body = b\<rparr>
       in (peer w (length (sent w)) rq, (s, w\<lparr>sent := sent w @ [rq]\<rparr>)))"
  by (simp add: http_Post_def NewRequest_def client_Do_def error_for_def req_Set_def hdr_Set_def Let_def split: option.split)

definition login_request_to :: "AuthHandler \<Rightarrow> request \<Rightarrow> http_request" where
  "login_request_to h r = \<lparr>ro_method = ''POST'', ro_url = ah_apiURL h @ ''/api/auth/login'',
     ro_header = [(''Content-Type'', ''application/json'')],
     ro_body = login_body (TrimSpace (FormValue r ''username'')) (FormValue r ''password'')\<rparr>"

lemma HandleLogin_cases:
  assumes "run_state (HandleLogin h w r) (s, v) = (resp, (s', v'))"
  shows "rs_cookies resp = rs_cookies w \<or> run_state (login_answer h w r (peer v (length (sent v)) (login_request_to h r)))
    (s, v\<lparr>sent := sent v @ [login_request_to h r]\<rparr>) = (resp, (s', v'))"
proof (cases "snd (ParseForm r) \<or> TrimSpace (FormValue r ''username'') = [] \<or> FormValue r ''password'' = []")
  case True
  then have "\<exists>e. HandleLogin h w r = ret (error_page r e w)" by (auto simp: HandleLogin_def Let_def)
  with assms show ?thesis by auto
next
  case False
  let ?u = "ah_apiURL h @ ''/api/auth/login''"
  let ?b = "login_body (TrimSpace (FormValue r ''username'')) (FormValue r ''password'')"
  have d: "HandleLogin h w r = http_Post ?u ''application/json'' ?b \<bind> login_answer h w r"
    using False by (simp add: HandleLogin_def Let_def)
  show ?thesis
  proof (cases "url_Parse ?u")
    case None
    then have "run_state (http_Post ?u ''application/json'' ?b) (s, v) = (NetErr (err_text v ?u), (s, v))"
      by (simp only: run_http_Post option.case)
    with assms d show ?thesis by (auto simp: login_answer_def)
  next
    case (Some x)
    then have "run_state (http_Post ?u ''application/json'' ?b) (s, v)
        = (peer v (length (sent v)) (login_request_to h r), (s, v\<lparr>sent := sent v @ [login_request_to h r]\<rparr>))"
      by (simp only: run_http_Post option.case Let_def login_request_to_def)
    with assms d show ?thesis by simp
  qed
qed

lemma login_answer_cases:
  assumes "run_state (login_answer h w r res) (s, v) = (resp, x)"
  shows "rs_cookies resp = rs_cookies w \<or> (\<exists>hdr raw broken body t. res = HttpResp 200 hdr raw broken
    \<and> LimitRead (2 ^ 20) raw broken = Some body \<and> Option.bind (json_Unmarshal body) login_token = Some t \<and> t \<noteq> []
    \<and> run_state (finish_login h w r t) (s, v) = (resp, x))"
proof (cases res)
  case (NetErr e)
  with assms show ?thesis by (simp add: login_answer_def) (metis cookies_redirect(2))
next
  case (HttpResp st hdr raw broken)
  show ?thesis
  proof (cases "LimitRead (2 ^ 20) raw broken")
    case None
    with assms HttpResp have "resp = error_page r ''auth_failed'' w" by (simp add: login_answer_def)
    then show ?thesis by simp
  next
    case (Some body)
    show ?thesis
    proof (cases "st = 200 \<and> Option.bind (json_Unmarshal body) login_token \<noteq> None
        \<and> Option.bind (json_Unmarshal body) login_token \<noteq> Some []")
      case True
      then obtain t where "Option.bind (json_Unmarshal body) login_token = Some t" "t \<noteq> []" by auto
      with assms True HttpResp Some show ?thesis by (simp add: login_answer_def)
    next
      case False
      with assms HttpResp Some have "\<exists>e. resp = error_page r e w"
        by (auto simp: login_answer_def split: option.splits if_splits)
      then show ?thesis by auto
    qed
  qed
qed

section \<open>A forged token\<close>

lemma extract_signed: "extractJWTSubFromToken (jwt_sign k (JObj [(''sub'', JStr user)])) = user"
proof -
  let ?v = "JObj [(''sub'', JStr user)]"
  have 3: "SplitN s c 3 = (case cut_chr c s of None \<Rightarrow> [s] | Some (a, b) \<Rightarrow> a #
      (case cut_chr c b of None \<Rightarrow> [b] | Some (a', b') \<Rightarrow> [a', b']))" for s c
    by (simp add: eval_nat_numeral cong: option.case_cong prod.case_cong)
  have h: "CHR ''.'' \<notin> set jwt_header" by (simp add: jwt_header_def)
  have "SplitN (jwt_sign k ?v) (CHR ''.'') 3 = [jwt_header, b64_Encode (json_encode ?v),
      b64_Encode (hmac_sha256 k (jwt_header @ ''.'' @ b64_Encode (json_encode ?v)))]"
    using h by (simp add: 3 jwt_sign_def Let_def del: json_encode.simps)
  moreover have "json_ok ?v" "sub_of ?v = Some user"
    by (simp_all add: sub_of_def json_field_def json_target_def)
  ultimately show ?thesis by (simp add: extractJWTSubFromToken_def json_Unmarshal_encode del: json_encode.simps)
qed

section \<open>Properties\<close>

text \<open>
  C31: A password login makes a session only out of a token of vire-server: a session cookie in the
  answer carries the nonempty token that vire-server returned, with status 200, to the login request
  with the submitted credentials; the cookie is closed to scripts and same-site.
\<close>
theorem login_session_from_server:
  assumes "run_state (HandleLogin h new_response r) (s, w) = (resp, (s', w'))"
    and "c \<in> set (rs_cookies resp)" "ck_name c = ''vire_session''"
  shows "\<exists>hdr raw broken body. peer w (length (sent w))
        \<lparr>ro_method = ''POST'', ro_url = ah_apiURL h @ ''/api/auth/login'', ro_header = [(''Content-Type'', ''application/json'')],
         ro_body = login_body (TrimSpace (FormValue r ''username'')) (FormValue r ''password'')\<rparr> = HttpResp 200 hdr raw broken
    \<and> LimitRead (2 ^ 20) raw broken = Some body \<and> Option.bind (json_Unmarshal body) login_token = Some (ck_value c)
    \<and> ck_value c \<noteq> [] \<and> ck_httponly c \<and> ck_samesite c = SameSiteLax"
proof -
  let ?rq = "login_request_to h r"
  have n: "rs_cookies new_response = []" by (simp add: new_response_def)
  have g: "run_state (login_answer h new_response r (peer w (length (sent w)) ?rq)) (s, w\<lparr>sent := sent w @ [?rq]\<rparr>) = (resp, (s', w'))"
    using HandleLogin_cases [OF assms(1)] n assms(2) by (elim disjE) simp_all
  obtain hdr raw broken body t where p: "peer w (length (sent w)) ?rq = HttpResp 200 hdr raw broken"
    "LimitRead (2 ^ 20) raw broken = Some body" "Option.bind (json_Unmarshal body) login_token = Some t" "t \<noteq> []"
    and f: "run_state (finish_login h new_response r t) (s, w\<lparr>sent := sent w @ [?rq]\<rparr>) = (resp, (s', w'))"
    using login_answer_cases [OF g] n assms(2) by (elim disjE exE conjE) (simp, rule that)
  from finish_login_cookies [OF f] n assms(2,3) have "c = session_cookie ''vire_session'' t 0"
    unfolding session_cookie_def by fastforce
  then have "ck_value c = t" "ck_httponly c" "ck_samesite c = SameSiteLax" by (simp_all add: session_cookie_def)
  with p show ?thesis
    unfolding login_request_to_def by (intro exI [of _ hdr] exI [of _ raw] exI [of _ broken] exI [of _ body]) simp
qed

text \<open>
  C34: The callback does not check who signed the token it takes the user from: a request to
  /auth/callback with a pending MCP session and a token signed with any key, naming any user, makes
  the server issue an authorization code for that user.
\<close>
theorem callback_code_for_any_user:
  assumes "user \<noteq> []"
    and "r = sample_request\<lparr>rq_path := ''/auth/callback'', rq_cookies := [(''mcp_session_id'', ''s1'')],
           rq_rawquery := Values_Encode [(''token'', [jwt_sign anykey (JObj [(''sub'', JStr user)])])]\<rparr>"
    and "run_state (HandleOAuthCallback (SetOAuthServer (NewAuthHandler False [] [] secret)) new_response r)
           (sample_server, sample_world) = (resp, (s', w'))"
  shows "\<exists>code c. map_of (co_codes (os_codes s')) code = Some c \<and> ac_user c = user \<and> ac_client c = ''app'' \<and> \<not> ac_used c"
proof -
  let ?t = "jwt_sign anykey (JObj [(''sub'', JStr user)])"
  let ?h = "SetOAuthServer (NewAuthHandler False [] [] secret)"
  have q: "Values_Get (req_Query r) ''token'' = ?t"
    using ParseQuery_Encode [of "[(''token'', [?t])]" "''token''"]
    by (simp add: assms(2) req_Query_def wf_map_def Values_Get_def)
  have c: "req_Cookie r ''mcp_session_id'' = Some ''s1''" by (simp add: assms(2) req_Cookie_def)
  have t: "?t \<noteq> []" by (simp add: jwt_sign_def Let_def)
  obtain target s1 w1 where a: "run_state (CompleteAuthorization ''s1'' user) (sample_server, sample_world) = (Inr target, (s1, w1))"
  proof -
    have "\<exists>t. fst (run_state (CompleteAuthorization ''s1'' user) (sample_server, sample_world)) = Inr t"
      using sample_url sample_session_get
      by (auto simp: CompleteAuthorization_def run_on run_generateRandomHex sample_entropy sample_session_def split: prod.splits)
    then show thesis using that by (metis run_eta)
  qed
  have "os_codes s' = os_codes s1"
    using assms(1,3) q t c a extract_signed [of anykey user]
    by (auto simp: HandleOAuthCallback_def Let_def finish_login_def tryCompleteMCPSession_def SetOAuthServer_def NewAuthHandler_def
        split: if_splits)
  moreover obtain code now where "map_of (co_codes (os_codes s1)) code
      = Some (new_code code user (sample_session\<lparr>ss_challenge := GenerateCodeChallenge ''v''\<rparr>) now)"
  proof (rule CompleteAuthorization_run [OF a])
    fix sess k v code now
    assume "run_state (session_Get ''s1'') (os_sessions sample_server, sample_world) = (Some sess, (k, v))"
      and c: "co_codes (os_codes s1) = AList.update code (new_code code user sess now) (co_codes (os_codes sample_server))"
    then have "sess = sample_session\<lparr>ss_challenge := GenerateCodeChallenge ''v''\<rparr>" using sample_session_get by simp
    with c that [of code now] show thesis by simp
  qed
  ultimately show ?thesis by (intro exI [of _ code]) (simp add: new_code_def sample_session_def)
qed

theorem callback_code_for_any_user_witness:
  "\<exists>code c. map_of (co_codes (os_codes (fst (snd (run_state (HandleOAuthCallback
       (SetOAuthServer (NewAuthHandler False [] [] ''portal-secret'')) new_response
       (sample_request\<lparr>rq_path := ''/auth/callback'', rq_cookies := [(''mcp_session_id'', ''s1'')],
          rq_rawquery := Values_Encode [(''token'', [jwt_sign ''attacker'' (JObj [(''sub'', JStr ''admin'')])])]\<rparr>))
       (sample_server, sample_world)))))) code = Some c \<and> ac_user c = ''admin''"
proof -
  have ne: "''admin'' \<noteq> []" by simp
  show ?thesis
    by (rule exE [OF callback_code_for_any_user [OF ne refl run_eta, of "''portal-secret''" "''attacker''"]], elim exE conjE,
        intro exI conjI, assumption+)
qed

definition login_reply :: string where
  \<open>login_reply = ''{"status":"ok","data":{"token":"tok"}}''\<close>

definition login_world :: world where
  "login_world = sample_world\<lparr>peer := (\<lambda>_ _. HttpResp 200 [] login_reply False)\<rparr>"

lemma login_reply_token: "LimitRead (2 ^ 20) login_reply False = Some login_reply"
  "Option.bind (json_Unmarshal login_reply) login_token = Some ''tok''"
  by (simp add: LimitRead_def login_reply_def) code_simp

theorem login_session_from_server_witness:
  "\<exists>c. c \<in> set (rs_cookies (fst (run_state (HandleLogin (NewAuthHandler False ''http://h'' [] []) new_response
      (post_form ''username=alice&password=pw'')) (sample_server, login_world)))) \<and> ck_value c \<noteq> [] \<and> ck_httponly c"
proof -
  let ?h = "NewAuthHandler False ''http://h'' [] []" and ?r = "post_form ''username=alice&password=pw''"
  let ?v = "login_world\<lparr>sent := sent login_world @ [login_request_to ?h ?r]\<rparr>"
  let ?c = "session_cookie ''vire_session'' ''tok'' 0"
  have f: "ParseForm ?r = ([(''username'', [''alice'']), (''password'', [''pw''])], False)"
  proof -
    have "ParseQuery ''username=alice&password=pw'' = ([(''username'', [''alice'']), (''password'', [''pw''])], False)" by code_simp
    then show ?thesis by (simp add: ParseForm_post)
  qed
  have t: "TrimSpace ''alice'' = ''alice''" by code_simp
  obtain u where u: "url_Parse (''http://h'' @ ''/api/auth/login'') = Some u"
  proof -
    have "url_Parse (''http://h'' @ ''/api/auth/login'') \<noteq> None" by code_simp
    then show thesis using that by blast
  qed
  have h: "ah_apiURL ?h = ''http://h''" "\<not> ah_oauth ?h" by (simp_all add: NewAuthHandler_def)
  have p: "peer login_world n q = HttpResp 200 [] login_reply False" for n q by (simp add: login_world_def)
  have "run_state (HandleLogin ?h new_response ?r) (sample_server, login_world)
      = run_state (login_answer ?h new_response ?r (HttpResp 200 [] login_reply False)) (sample_server, ?v)"
    using u by (simp add: HandleLogin_def Let_def FormValue_def f t Values_Get_def run_http_Post h p login_request_to_def)
  also have "\<dots> = run_state (finish_login ?h new_response ?r ''tok'') (sample_server, ?v)"
    by (simp add: login_answer_def login_reply_token [simplified])
  finally have "?c \<in> set (rs_cookies (fst (run_state (HandleLogin ?h new_response ?r) (sample_server, login_world))))"
    by (simp add: finish_login_def tryCompleteMCPSession_def h SetCookie_def new_response_def)
  moreover have "ck_value ?c \<noteq> []" "ck_httponly ?c" using login_session_from_server [OF run_eta calculation] by (simp_all add: session_cookie_def)
  ultimately show ?thesis by (intro exI conjI)
qed

end
