(* ===== verification/Log_Store.thy ===== *)
theory Log_Store
  imports Go_HTTP "HOL-Library.Multiset"
begin

text \<open>
  The remote log store (src/internal/client/log_store.go): a buffer that is flushed when it is full,
  when a timer fires and when the store is closed. A flush starts a goroutine; the batches of the
  goroutines that have not run yet are part of the state. The mutex makes \<open>Store\<close>, \<open>timerFlush\<close> and
  the first half of \<open>Close\<close> single steps.
\<close>

section \<open>Data\<close>

definition logFlushSize :: nat where "logFlushSize = 50"
definition logMaxBatch :: nat where "logMaxBatch = 500"

datatype log_level = TraceLevel | DebugLevel | InfoLevel | WarnLevel | ErrorLevel | FatalLevel | PanicLevel | OtherLevel

primrec levelString :: "log_level \<Rightarrow> string" where
  "levelString TraceLevel = ''trace''"
| "levelString DebugLevel = ''debug''"
| "levelString InfoLevel = ''info''"
| "levelString WarnLevel = ''warn''"
| "levelString ErrorLevel = ''error''"
| "levelString FatalLevel = ''fatal''"
| "levelString PanicLevel = ''panic''"
| "levelString OtherLevel = ''info''"

text \<open>The event of the logging library, its fields as the values encoding/json makes of them.\<close>

record LogEvent =
  ev_Timestamp :: time
  ev_Level :: log_level
  ev_Message :: string
  ev_CorrelationID :: string
  ev_Prefix :: string
  ev_Error :: string
  ev_Function :: string
  ev_Fields :: "json gomap"

record logIngestEntry =
  le_Timestamp :: time
  le_Level :: string
  le_Message :: string
  le_CorrelationID :: string
  le_Prefix :: string
  le_Error :: string
  le_Function :: string
  le_Fields :: "json gomap"

definition omit_empty :: "string \<Rightarrow> string \<Rightarrow> (string \<times> json) list" where
  "omit_empty k v = (if v = [] then [] else [(k, JStr v)])"

definition json_entry :: "logIngestEntry \<Rightarrow> json option" where
  "json_entry e =
     do { t \<leftarrow> MarshalTime (le_Timestamp e);
          Some (JObj ([(''timestamp'', JStr t), (''level'', JStr (le_Level e)), (''message'', JStr (le_Message e))]
            @ omit_empty ''correlation_id'' (le_CorrelationID e) @ omit_empty ''prefix'' (le_Prefix e)
            @ omit_empty ''error'' (le_Error e) @ omit_empty ''caller'' (le_Function e)
            @ (if le_Fields e = [] then [] else [(''fields'', JObj (sort_key fst (le_Fields e)))]))) }"

definition json_ingest :: "logIngestEntry list \<Rightarrow> json option" where
  "json_ingest batch =
     do { es \<leftarrow> those (map json_entry batch); Some (JObj [(''source'', JStr ''portal''), (''entries'', JArr es)]) }"

record HTTPLogStore =
  hl_baseURL :: string
  hl_serviceID :: string
  hl_buf :: "logIngestEntry list"
  hl_timer :: bool
  hl_closed :: bool
  hl_sending :: "logIngestEntry list list"

section \<open>Operations\<close>

definition NewHTTPLogStore :: "string \<Rightarrow> string \<Rightarrow> HTTPLogStore" where
  "NewHTTPLogStore baseURL serviceID =
     \<lparr>hl_baseURL = baseURL, hl_serviceID = serviceID, hl_buf = [], hl_timer = True, hl_closed = False, hl_sending = []\<rparr>"

definition flushLocked :: "HTTPLogStore \<Rightarrow> HTTPLogStore" where
  "flushLocked s = (if hl_buf s = [] then s else s\<lparr>hl_buf := [], hl_sending := hl_sending s @ [hl_buf s]\<rparr>)"

definition entry_of :: "LogEvent \<Rightarrow> logIngestEntry" where
  "entry_of e =
     \<lparr>le_Timestamp = ev_Timestamp e, le_Level = levelString (ev_Level e), le_Message = ev_Message e,
      le_CorrelationID = ev_CorrelationID e, le_Prefix = ev_Prefix e, le_Error = ev_Error e,
      le_Function = ev_Function e, le_Fields = ev_Fields e\<rparr>"

definition Store :: "LogEvent \<Rightarrow> HTTPLogStore \<Rightarrow> (error + unit) \<times> HTTPLogStore" where
  "Store entry s =
     (if hl_closed s then (Inl ''log store closed'', s)
      else let s = s\<lparr>hl_buf := hl_buf s @ [entry_of entry]\<rparr>
           in (Inr (), if length (hl_buf s) \<ge> logFlushSize then flushLocked s else s))"

text \<open>The timer has fired; it is set again unless the store is closed.\<close>

definition timerFlush :: "HTTPLogStore \<Rightarrow> HTTPLogStore" where
  "timerFlush s = (let s = s\<lparr>hl_timer := False\<rparr> in if hl_closed s then s else (flushLocked s)\<lparr>hl_timer := True\<rparr>)"

definition setFlushInterval :: "HTTPLogStore \<Rightarrow> HTTPLogStore" where
  "setFlushInterval s = s\<lparr>hl_timer := True\<rparr>"

text \<open>One request per batch; a batch that cannot be encoded or sent is given up. Results are logged only.\<close>

definition send_batch :: "string \<Rightarrow> string \<Rightarrow> logIngestEntry list \<Rightarrow> ('s, unit) io" where
  "send_batch baseURL serviceID batch =
     (case json_ingest batch of
        None \<Rightarrow> ret ()
      | Some payload \<Rightarrow>
          do { q \<leftarrow> NewRequest ''POST'' (baseURL @ ''/api/logs/ingest'') (json_encode payload @ [CHR 0x0A]);
               case q of
                 Inl e \<Rightarrow> ret ()
               | Inr rq \<Rightarrow>
                   do { res \<leftarrow> client_Do (req_Set (req_Set rq ''Content-Type'' ''application/json'') ''X-Vire-Service-Id'' serviceID);
                        ret () } })"

function send :: "string \<Rightarrow> string \<Rightarrow> logIngestEntry list \<Rightarrow> ('s, unit) io" where
  "send baseURL serviceID entries =
     (if entries = [] then ret ()
      else do { send_batch baseURL serviceID (take logMaxBatch entries);
                send baseURL serviceID (drop logMaxBatch entries) })"
  by pat_completeness auto
termination
  by (relation "measure (\<lambda>(_, _, es). length es)") (auto simp: logMaxBatch_def)

declare send.simps [simp del]

text \<open>\<open>Close\<close> under the mutex: it leaves the entries that it then sends itself.\<close>

definition close_locked :: "HTTPLogStore \<Rightarrow> logIngestEntry list \<times> HTTPLogStore" where
  "close_locked s = (hl_buf s, s\<lparr>hl_closed := True, hl_timer := False, hl_buf := []\<rparr>)"

definition log_Close :: "(HTTPLogStore, unit) io" where
  "log_Close =
     do { s \<leftarrow> get_st (\<lambda>s. s);
          let remaining = fst (close_locked s);
          mod_st (\<lambda>s. snd (close_locked s));
          if_do (remaining \<noteq> []) (send (hl_baseURL s) (hl_serviceID s) remaining) }"

text \<open>The reading methods of a write-only store: \<open>GetByCorrelation\<close>, \<open>GetSince\<close>, \<open>GetRecent\<close> and the others.\<close>

definition read_nothing :: "HTTPLogStore \<Rightarrow> LogEvent list" where
  "read_nothing s = []"

section \<open>Runs\<close>

text \<open>
  A run of the store with the events accepted by \<open>Store\<close> so far and the batches handed to the server,
  each in order. A started goroutine may run at any later time and in any order, and a timer that
  has fired may find the store closed.
\<close>

inductive log_run :: "HTTPLogStore \<Rightarrow> world \<Rightarrow> LogEvent list \<Rightarrow> logIngestEntry list list \<Rightarrow> bool" where
  init: "log_run (NewHTTPLogStore u i) w [] []"
| store: "log_run s w acc out \<Longrightarrow> Store e s = (Inr (), s') \<Longrightarrow> log_run s' w (acc @ [e]) out"
| refused: "log_run s w acc out \<Longrightarrow> Store e s = (Inl x, s') \<Longrightarrow> log_run s' w acc out"
| timer: "log_run s w acc out \<Longrightarrow> log_run (timerFlush s) w acc out"
| goroutine: "log_run s w acc out \<Longrightarrow> i < length (hl_sending s)
     \<Longrightarrow> run_state (send (hl_baseURL s) (hl_serviceID s) (hl_sending s ! i)) ((), w) = ((), (u, w'))
     \<Longrightarrow> log_run (s\<lparr>hl_sending := take i (hl_sending s) @ drop (Suc i) (hl_sending s)\<rparr>) w' acc (out @ [hl_sending s ! i])"
| close: "log_run s w acc out \<Longrightarrow> run_state log_Close (s, w) = ((), (s', w'))
     \<Longrightarrow> log_run s' w' acc (if hl_buf s = [] then out else out @ [hl_buf s])"

section \<open>Lemmas\<close>

definition log_inv :: "HTTPLogStore \<Rightarrow> LogEvent list \<Rightarrow> logIngestEntry list list \<Rightarrow> bool" where
  "log_inv s acc out \<longleftrightarrow>
     mset (map entry_of acc) = mset (concat out) + mset (concat (hl_sending s)) + mset (hl_buf s)
     \<and> (\<forall>b\<in>set out \<union> set (hl_sending s). b \<noteq> [] \<and> length b \<le> logFlushSize)
     \<and> length (hl_buf s) < logFlushSize \<and> (hl_closed s \<longrightarrow> hl_buf s = [])"

lemma log_inv_flush:
  "log_inv s acc out \<Longrightarrow> log_inv (flushLocked s) acc out"
  by (auto simp: log_inv_def flushLocked_def)

lemma log_inv_store:
  assumes "log_inv s acc out" "Store e s = (Inr (), s')"
  shows "log_inv s' (acc @ [e]) out"
  using assms by (auto simp: log_inv_def Store_def flushLocked_def Let_def split: if_splits)

lemma log_inv_remove:
  assumes "log_inv s acc out" "i < length (hl_sending s)"
  shows "log_inv (s\<lparr>hl_sending := take i (hl_sending s) @ drop (Suc i) (hl_sending s)\<rparr>) acc (out @ [hl_sending s ! i])"
proof -
  have "hl_sending s = take i (hl_sending s) @ hl_sending s ! i # drop (Suc i) (hl_sending s)"
    using assms(2) by (rule id_take_nth_drop)
  then have m: "mset (concat (hl_sending s))
      = mset (concat (take i (hl_sending s))) + mset (hl_sending s ! i) + mset (concat (drop (Suc i) (hl_sending s)))"
    by (metis add.assoc concat.simps(2) concat_append mset_append)
  have "hl_sending s ! i \<in> set (hl_sending s)" using assms(2) by simp
  with assms(1) m show ?thesis
    by (auto simp: log_inv_def dest: in_set_takeD in_set_dropD)
qed

lemma keeps_send: "keeps (st_inv I) (send u i es)"
  by (induction u i es rule: send.induct)
     (subst send.simps, auto intro!: inv_intros simp: send_batch_def split: option.splits)

lemma close_state:
  assumes "run_state log_Close (s, w) = ((), (s', w'))"
  shows "s' = s\<lparr>hl_closed := True, hl_timer := False, hl_buf := []\<rparr>"
proof (cases "hl_buf s = []")
  case True
  with assms show ?thesis by (simp add: log_Close_def close_locked_def Let_def)
next
  case False
  then have "run_state (send (hl_baseURL s) (hl_serviceID s) (hl_buf s))
      (s\<lparr>hl_closed := True, hl_timer := False, hl_buf := []\<rparr>, w) = ((), (s', w'))"
    using assms by (simp add: log_Close_def close_locked_def Let_def)
  then show ?thesis by (rule st_unchanged [OF keeps_send])
qed

lemma log_run_inv: "log_run s w acc out \<Longrightarrow> log_inv s acc out"
proof (induction rule: log_run.induct)
  case (init u i w)
  then show ?case by (simp add: log_inv_def NewHTTPLogStore_def logFlushSize_def)
next
  case (store s w acc out e s')
  then show ?case using log_inv_store by blast
next
  case (refused s w acc out e x s')
  then show ?case by (auto simp: Store_def Let_def split: if_splits)
next
  case (timer s w acc out)
  have "log_inv (s\<lparr>hl_timer := False\<rparr>) acc out" using timer.IH by (simp add: log_inv_def)
  from log_inv_flush [OF this] this show ?case by (auto simp: timerFlush_def Let_def log_inv_def)
next
  case (goroutine s w acc out i u w')
  then show ?case using log_inv_remove by blast
next
  case (close s w acc out s' w')
  then show ?case using close_state [OF close.hyps(2)] by (auto simp: log_inv_def logFlushSize_def)
qed

text \<open>A batch of the store fits one request.\<close>

lemma send_single:
  assumes "es \<noteq> []" "length es \<le> logMaxBatch"
  shows "(send u i es :: ('s, unit) io) = send_batch u i es"
proof -
  have "(send u i es :: ('s, unit) io) = do { send_batch u i es; send u i [] }" using assms by (subst send.simps) simp
  also have "(send u i [] :: ('s, unit) io) = ret ()" by (subst send.simps) simp
  also have "do { send_batch u i es; ret () } = (send_batch u i es :: ('s, unit) io)"
    by (rule state_ext) (simp split: prod.split)
  finally show ?thesis .
qed

section \<open>Properties\<close>

text \<open>
  C32: The log store neither loses nor duplicates entries and never sends large batches. At any time,
  for any schedule of the timer and of the sending goroutines, the accepted events are exactly those
  handed to the server, those waiting in a started goroutine and those in the buffer; every batch has
  between 1 and 50 entries, so that it is sent with a single request; the buffer holds less than 50;
  and a closed store has an empty buffer and accepts nothing.
\<close>
theorem log_entries_conserved:
  assumes "log_run s w acc out"
  shows "mset (map entry_of acc) = mset (concat out) + mset (concat (hl_sending s)) + mset (hl_buf s)
    \<and> (\<forall>b\<in>set out \<union> set (hl_sending s). b \<noteq> [] \<and> length b \<le> 50 \<and> send u i b = (send_batch u i b :: (unit, unit) io))
    \<and> length (hl_buf s) < 50
    \<and> (hl_closed s \<longrightarrow> hl_buf s = [] \<and> Store e s = (Inl ''log store closed'', s))"
proof -
  have "log_inv s acc out" by (rule log_run_inv [OF assms])
  moreover have "send u i b = (send_batch u i b :: (unit, unit) io)" if "b \<noteq> []" "length b \<le> 50" for b
    using that by (intro send_single) (simp_all add: logMaxBatch_def)
  ultimately show ?thesis by (auto simp: log_inv_def logFlushSize_def Store_def)
qed

definition sample_event :: LogEvent where
  "sample_event = \<lparr>ev_Timestamp = 0, ev_Level = WarnLevel, ev_Message = ''hi'', ev_CorrelationID = [], ev_Prefix = [],
     ev_Error = [], ev_Function = [], ev_Fields = []\<rparr>"

lemma sample_log: "log_run (snd (Store sample_event (NewHTTPLogStore ''u'' ''i''))) w [sample_event] []"
proof -
  have "Store sample_event (NewHTTPLogStore ''u'' ''i'') = (Inr (), snd (Store sample_event (NewHTTPLogStore ''u'' ''i'')))"
    by (simp add: Store_def NewHTTPLogStore_def Let_def)
  from log_run.store [OF log_run.init this] show ?thesis by simp
qed

theorem log_entries_conserved_witness:
  "mset (hl_buf (snd (Store sample_event (NewHTTPLogStore ''u'' ''i'')))) = {# entry_of sample_event #}"
  using log_entries_conserved [OF sample_log [of sample_world], of "''u''" "''i''" sample_event]
  by (simp add: Store_def NewHTTPLogStore_def Let_def logFlushSize_def flushLocked_def)

end
