(* ===== verification/Vire_Client.thy ===== *)
theory Vire_Client
  imports Go_HTTP
begin

text \<open>
  The client of the vire-server API (src/internal/client/vire_client.go). A client is the
  base URL of its server.
\<close>

section \<open>Data\<close>

record UserProfile =
  up_Username :: string
  up_Email :: string
  up_Role :: string
  up_NavexaKeySet :: bool
  up_NavexaKeyPreview :: string

record OAuthResponse =
  or_Token :: string
  or_User :: UserProfile

record SeedUser =
  su_Username :: string
  su_Email :: string
  su_Password :: string
  su_Role :: string
  su_NavexaKey :: string

record AdminUser =
  au_ID :: string
  au_Email :: string
  au_Name :: string
  au_Role :: string
  au_Provider :: string
  au_CreatedAt :: string

definition profile_of :: "(string \<times> json) list \<Rightarrow> UserProfile option" where
  "profile_of kvs =
     do { let fs = [''username'', ''email'', ''role'', ''navexa_key_set'', ''navexa_key_preview''];
          u \<leftarrow> json_field json_as_string [] fs ''username'' kvs;
          e \<leftarrow> json_field json_as_string [] fs ''email'' kvs;
          r \<leftarrow> json_field json_as_string [] fs ''role'' kvs;
          s \<leftarrow> json_field json_as_bool False fs ''navexa_key_set'' kvs;
          p \<leftarrow> json_field json_as_string [] fs ''navexa_key_preview'' kvs;
          Some \<lparr>up_Username = u, up_Email = e, up_Role = r, up_NavexaKeySet = s, up_NavexaKeyPreview = p\<rparr> }"

definition admin_of :: "(string \<times> json) list \<Rightarrow> AdminUser option" where
  "admin_of kvs =
     do { let fs = [''id'', ''email'', ''name'', ''role'', ''provider'', ''created_at''];
          i \<leftarrow> json_field json_as_string [] fs ''id'' kvs;
          e \<leftarrow> json_field json_as_string [] fs ''email'' kvs;
          n \<leftarrow> json_field json_as_string [] fs ''name'' kvs;
          r \<leftarrow> json_field json_as_string [] fs ''role'' kvs;
          p \<leftarrow> json_field json_as_string [] fs ''provider'' kvs;
          c \<leftarrow> json_field json_as_string [] fs ''created_at'' kvs;
          Some \<lparr>au_ID = i, au_Email = e, au_Name = n, au_Role = r, au_Provider = p, au_CreatedAt = c\<rparr> }"

text \<open>The envelopes of the answers.\<close>

definition user_result :: "json \<Rightarrow> UserProfile option" where
  "user_result v =
     do { kvs \<leftarrow> json_members v;
          status \<leftarrow> json_field json_as_string [] [''status'', ''data''] ''status'' kvs;
          data \<leftarrow> json_nested [''status'', ''data''] ''data'' kvs;
          profile_of data }"

definition users_result :: "json \<Rightarrow> UserProfile list option" where
  "users_result v =
     do { kvs \<leftarrow> json_members v;
          status \<leftarrow> json_field json_as_string [] [''status'', ''data''] ''status'' kvs;
          json_field (json_as_list (\<lambda>u. Option.bind (json_members u) profile_of)) [] [''status'', ''data''] ''data'' kvs }"

definition oauth_result :: "json \<Rightarrow> OAuthResponse option" where
  "oauth_result v =
     do { kvs \<leftarrow> json_members v;
          status \<leftarrow> json_field json_as_string [] [''status'', ''data''] ''status'' kvs;
          data \<leftarrow> json_nested [''status'', ''data''] ''data'' kvs;
          t \<leftarrow> json_field json_as_string [] [''token'', ''user''] ''token'' data;
          u \<leftarrow> json_nested [''token'', ''user''] ''user'' data;
          p \<leftarrow> profile_of u;
          Some \<lparr>or_Token = t, or_User = p\<rparr> }"

definition service_result :: "json \<Rightarrow> string option" where
  "service_result v =
     do { kvs \<leftarrow> json_members v; json_field json_as_string [] [''service_user_id''] ''service_user_id'' kvs }"

definition admins_result :: "json \<Rightarrow> AdminUser list option" where
  "admins_result v =
     do { kvs \<leftarrow> json_members v;
          json_field (json_as_list (\<lambda>u. Option.bind (json_members u) admin_of)) [] [''users''] ''users'' kvs }"

section \<open>Requests\<close>

text \<open>The steps every method shares: reading an answer up to 1 MB, and decoding its body.\<close>

definition read_reply :: "http_result \<Rightarrow> ('s, error + nat \<times> string) io" where
  "read_reply res =
     (case res of
        NetErr e \<Rightarrow> ret (Inl (''failed to reach vire-server: '' @ e))
      | HttpResp status _ raw broken \<Rightarrow>
          (case LimitRead (2 ^ 20) raw broken of
             None \<Rightarrow> do { e \<leftarrow> error_for ''body''; ret (Inl (''failed to read response: '' @ e)) }
           | Some body \<Rightarrow> ret (Inr (status, body))))"

definition server_returned :: "nat \<Rightarrow> string \<Rightarrow> error" where
  "server_returned status body = ''server returned '' @ show_nat status @ '': '' @ body"

definition parse_reply :: "(json \<Rightarrow> 'a option) \<Rightarrow> string \<Rightarrow> ('s, error + 'a) io" where
  "parse_reply conv body =
     (case Option.bind (json_Unmarshal body) conv of
        None \<Rightarrow> do { e \<leftarrow> error_for ''json''; ret (Inl (''failed to parse response: '' @ e)) }
      | Some v \<Rightarrow> ret (Inr v))"

definition GetUser :: "string \<Rightarrow> string \<Rightarrow> ('s, error + UserProfile) io" where
  "GetUser baseURL userID =
     do { res \<leftarrow> http_Get (baseURL @ ''/api/users/'' @ userID);
          r \<leftarrow> read_reply res;
          case r of
            Inl e \<Rightarrow> ret (Inl e)
          | Inr (status, body) \<Rightarrow>
              if status = 404 then ret (Inl (''user not found: '' @ userID))
              else if status \<noteq> 200 then ret (Inl (server_returned status body))
              else parse_reply user_result body }"

definition ListUsers :: "string \<Rightarrow> ('s, error + UserProfile list) io" where
  "ListUsers baseURL =
     do { res \<leftarrow> http_Get (baseURL @ ''/api/users'');
          r \<leftarrow> read_reply res;
          case r of
            Inl e \<Rightarrow> ret (Inl e)
          | Inr (status, body) \<Rightarrow>
              if status \<noteq> 200 then ret (Inl (server_returned status body)) else parse_reply users_result body }"

definition ExchangeOAuth :: "string \<Rightarrow> string \<Rightarrow> string \<Rightarrow> string \<Rightarrow> ('s, error + OAuthResponse) io" where
  "ExchangeOAuth baseURL provider code state =
     do { res \<leftarrow> http_Post (baseURL @ ''/api/auth/oauth'') ''application/json''
                   (json_encode (JObj [(''code'', JStr code), (''provider'', JStr provider), (''state'', JStr state)]));
          r \<leftarrow> read_reply res;
          case r of
            Inl e \<Rightarrow> ret (Inl e)
          | Inr (status, body) \<Rightarrow>
              if status \<noteq> 200 then ret (Inl (server_returned status body)) else parse_reply oauth_result body }"

definition json_seed_user :: "SeedUser \<Rightarrow> json" where
  "json_seed_user u =
     JObj [(''username'', JStr (su_Username u)), (''email'', JStr (su_Email u)), (''password'', JStr (su_Password u)),
           (''role'', JStr (su_Role u)), (''navexa_key'', JStr (su_NavexaKey u))]"

definition UpsertUser :: "string \<Rightarrow> SeedUser \<Rightarrow> ('s, error + unit) io" where
  "UpsertUser baseURL user =
     do { res \<leftarrow> http_Post (baseURL @ ''/api/users/upsert'') ''application/json'' (json_encode (json_seed_user user));
          r \<leftarrow> read_reply res;
          ret (case r of
                 Inl e \<Rightarrow> Inl e
               | Inr (status, body) \<Rightarrow>
                   if status \<noteq> 200 \<and> status \<noteq> 201 then Inl (server_returned status body) else Inr ()) }"

definition client_RegisterService :: "string \<Rightarrow> string \<Rightarrow> string \<Rightarrow> ('s, error + string) io" where
  "client_RegisterService baseURL serviceID serviceKey =
     do { res \<leftarrow> http_Post (baseURL @ ''/api/services/register'') ''application/json''
                   (json_encode (JObj [(''service_id'', JStr serviceID), (''service_key'', JStr serviceKey),
                                       (''service_type'', JStr ''portal'')]));
          r \<leftarrow> read_reply res;
          case r of
            Inl e \<Rightarrow> ret (Inl e)
          | Inr (status, body) \<Rightarrow>
              if status \<noteq> 200 then ret (Inl (server_returned status body)) else parse_reply service_result body }"

definition AdminListUsers :: "string \<Rightarrow> string \<Rightarrow> ('s, error + AdminUser list) io" where
  "AdminListUsers baseURL serviceID =
     do { q \<leftarrow> NewRequest ''GET'' (baseURL @ ''/api/admin/users'') [];
          case q of
            Inl e \<Rightarrow> ret (Inl e)
          | Inr rq \<Rightarrow>
              do { res \<leftarrow> client_Do (req_Set rq ''X-Vire-Service-Id'' serviceID);
                   r \<leftarrow> read_reply res;
                   case r of
                     Inl e \<Rightarrow> ret (Inl e)
                   | Inr (status, body) \<Rightarrow>
                       if status \<noteq> 200 then ret (Inl (server_returned status body)) else parse_reply admins_result body } }"

definition AdminUpdateUserRole :: "string \<Rightarrow> string \<Rightarrow> string \<Rightarrow> string \<Rightarrow> ('s, error + unit) io" where
  "AdminUpdateUserRole baseURL serviceID userID role =
     do { q \<leftarrow> NewRequest ''PATCH'' (baseURL @ ''/api/admin/users/'' @ userID @ ''/role'')
                 (json_encode (JObj [(''role'', JStr role)]));
          case q of
            Inl e \<Rightarrow> ret (Inl e)
          | Inr rq \<Rightarrow>
              do { res \<leftarrow> client_Do (req_Set (req_Set rq ''Content-Type'' ''application/json'') ''X-Vire-Service-Id'' serviceID);
                   r \<leftarrow> read_reply res;
                   ret (case r of
                          Inl e \<Rightarrow> Inl e
                        | Inr (status, body) \<Rightarrow> if status \<noteq> 200 then Inl (server_returned status body) else Inr ()) } }"

definition ProxyGet :: "string \<Rightarrow> string \<Rightarrow> string \<Rightarrow> ('s, error + string) io" where
  "ProxyGet baseURL path userID =
     do { q \<leftarrow> NewRequest ''GET'' (baseURL @ path) [];
          case q of
            Inl e \<Rightarrow> ret (Inl (''failed to create request: '' @ e))
          | Inr rq \<Rightarrow>
              do { res \<leftarrow> client_Do (if userID \<noteq> [] then req_Set rq ''X-Vire-User-Id'' userID else rq);
                   r \<leftarrow> read_reply res;
                   ret (case r of
                          Inl e \<Rightarrow> Inl e
                        | Inr (status, body) \<Rightarrow>
                            if status < 200 \<or> status \<ge> 300 then Inl (server_returned status body) else Inr body) } }"

text \<open>A map of strings is encoded with its keys in order.\<close>

definition UpdateUser :: "string \<Rightarrow> string \<Rightarrow> string gomap \<Rightarrow> ('s, error + UserProfile) io" where
  "UpdateUser baseURL userID upd =
     do { q \<leftarrow> NewRequest ''PUT'' (baseURL @ ''/api/users/'' @ userID)
                 (json_encode (JObj (sort_key fst (map (\<lambda>(k, v). (k, JStr v)) upd))));
          case q of
            Inl e \<Rightarrow> ret (Inl e)
          | Inr rq \<Rightarrow>
              do { res \<leftarrow> client_Do (req_Set rq ''Content-Type'' ''application/json'');
                   r \<leftarrow> read_reply res;
                   case r of
                     Inl e \<Rightarrow> ret (Inl e)
                   | Inr (status, body) \<Rightarrow>
                       if status \<noteq> 200 then ret (Inl (server_returned status body)) else parse_reply user_result body } }"

end
