(* ===== verification/Portal_Config.thy ===== *)
theory Portal_Config
  imports Go_HTTP
begin

text \<open>
  The configuration of the portal (src/internal/config) and the part of
  src/cmd/vire-portal/main.go that finds, loads, overrides and checks it before the server starts.
  The TOML decoder is a parameter: what it makes of a configuration and the text of a file. The
  operating system is a record of its answers.
\<close>

section \<open>Data\<close>

record AuthConfig =
  ac_JWTSecret :: string
  ac_CallbackURL :: string
  ac_PortalURL :: string

record ServiceConfig =
  sc_Key :: string
  sc_PortalID :: string

record UserConfig =
  uc_Portfolios :: "string list"
  uc_DisplayCurrency :: string

record ServerConfig =
  srv_Port :: int
  srv_Host :: string

record LoggingConfig =
  lc_Level :: string
  lc_Format :: string
  lc_Outputs :: "string list"
  lc_FilePath :: string
  lc_MaxSizeMB :: int
  lc_MaxBackups :: int

text \<open>The sections with one field are their field: \<open>API.URL\<close>, \<open>Portal.URL\<close> and \<open>MCP.CatalogRetries\<close>.\<close>

record Config =
  cf_Environment :: string
  cf_AdminUsers :: string
  cf_Server :: ServerConfig
  cf_APIURL :: string
  cf_PortalURL :: string
  cf_Auth :: AuthConfig
  cf_Service :: ServiceConfig
  cf_User :: UserConfig
  cf_Logging :: LoggingConfig
  cf_CatalogRetries :: int

definition NewDefaultConfig :: Config where
  "NewDefaultConfig =
     \<lparr>cf_Environment = ''prod'', cf_AdminUsers = [],
      cf_Server = \<lparr>srv_Port = 8080, srv_Host = ''0.0.0.0''\<rparr>,
      cf_APIURL = ''http://localhost:8080'', cf_PortalURL = ''http://localhost:8080'',
      cf_Auth = \<lparr>ac_JWTSecret = [], ac_CallbackURL = ''http://localhost:8080/auth/callback'', ac_PortalURL = []\<rparr>,
      cf_Service = \<lparr>sc_Key = [], sc_PortalID = []\<rparr>,
      cf_User = \<lparr>uc_Portfolios = [], uc_DisplayCurrency = []\<rparr>,
      cf_Logging = \<lparr>lc_Level = ''info'', lc_Format = ''text'', lc_Outputs = [''console'', ''file''],
        lc_FilePath = ''logs/vire-portal.log'', lc_MaxSizeMB = 0, lc_MaxBackups = 0\<rparr>,
      cf_CatalogRetries = 3\<rparr>"

section \<open>Reading the configuration\<close>

definition IsDevMode :: "Config \<Rightarrow> bool" where
  "IsDevMode c \<longleftrightarrow> ToLower (TrimSpace (cf_Environment c)) = ''dev''"

definition AdminEmails :: "Config \<Rightarrow> string list" where
  "AdminEmails c =
     (if TrimSpace (cf_AdminUsers c) = [] then []
      else filter (\<lambda>e. e \<noteq> []) (map (\<lambda>p. ToLower (TrimSpace p)) (Split (cf_AdminUsers c) (CHR '',''))))"

definition normalizeEnvironment :: "string \<Rightarrow> string" where
  "normalizeEnvironment env =
     (let e = ToLower (TrimSpace env)
      in if e = ''development'' then ''dev'' else if e = ''production'' then ''prod'' else env)"

definition BaseURL :: "Config \<Rightarrow> string" where
  "BaseURL c =
     (if ac_PortalURL (cf_Auth c) \<noteq> [] then TrimRight (ac_PortalURL (cf_Auth c)) (CHR ''/'')
      else let host = srv_Host (cf_Server c);
               host = (if host = [] \<or> host = ''0.0.0.0'' then ''localhost'' else host)
           in ''http://'' @ host @ '':'' @ Itoa (srv_Port (cf_Server c)))"

datatype issue = APIURLRequired | JWTSecretRequired | PortRange int

definition Validate :: "Config \<Rightarrow> issue list" where
  "Validate c =
     (if TrimSpace (cf_APIURL c) = [] then [APIURLRequired] else [])
     @ (if \<not> IsDevMode c \<and> TrimSpace (ac_JWTSecret (cf_Auth c)) = [] then [JWTSecretRequired] else [])
     @ (if srv_Port (cf_Server c) < 1 \<or> srv_Port (cf_Server c) > 65535 then [PortRange (srv_Port (cf_Server c))] else [])"

section \<open>Loading\<close>

record os =
  Getenv :: "string \<Rightarrow> string"
  ReadFile :: "string \<Rightarrow> error + string"
  Stat :: "string \<Rightarrow> bool"
  Executable :: "string option"
  filepath_Abs :: "string \<Rightarrow> string option"

definition set_env :: "os \<Rightarrow> string \<Rightarrow> (string \<Rightarrow> 'c \<Rightarrow> 'c) \<Rightarrow> 'c \<Rightarrow> 'c" where
  "set_env env name f c = (let v = Getenv env name in if v \<noteq> [] then f v c else c)"

definition applyEnvOverrides :: "os \<Rightarrow> Config \<Rightarrow> Config" where
  "applyEnvOverrides env c =
     (let c = set_env env ''VIRE_ENV'' (\<lambda>v c. c\<lparr>cf_Environment := v\<rparr>) c;
          c = set_env env ''VIRE_SERVER_PORT'' (\<lambda>v c. case Atoi v of None \<Rightarrow> c | Some p \<Rightarrow> c\<lparr>cf_Server := (cf_Server c)\<lparr>srv_Port := p\<rparr>\<rparr>) c;
          c = set_env env ''VIRE_SERVER_HOST'' (\<lambda>v c. c\<lparr>cf_Server := (cf_Server c)\<lparr>srv_Host := v\<rparr>\<rparr>) c;
          c = set_env env ''VIRE_LOG_LEVEL'' (\<lambda>v c. c\<lparr>cf_Logging := (cf_Logging c)\<lparr>lc_Level := v\<rparr>\<rparr>) c;
          c = set_env env ''VIRE_LOG_FORMAT'' (\<lambda>v c. c\<lparr>cf_Logging := (cf_Logging c)\<lparr>lc_Format := v\<rparr>\<rparr>) c;
          c = set_env env ''VIRE_API_URL'' (\<lambda>v c. c\<lparr>cf_APIURL := v\<rparr>) c;
          c = set_env env ''VIRE_DEFAULT_PORTFOLIO'' (\<lambda>v c. c\<lparr>cf_User := (cf_User c)\<lparr>uc_Portfolios := [v]\<rparr>\<rparr>) c;
          c = set_env env ''VIRE_DISPLAY_CURRENCY'' (\<lambda>v c. c\<lparr>cf_User := (cf_User c)\<lparr>uc_DisplayCurrency := v\<rparr>\<rparr>) c;
          c = set_env env ''VIRE_ADMIN_USERS'' (\<lambda>v c. c\<lparr>cf_AdminUsers := v\<rparr>) c;
          c = set_env env ''VIRE_SERVICE_KEY'' (\<lambda>v c. c\<lparr>cf_Service := (cf_Service c)\<lparr>sc_Key := v\<rparr>\<rparr>) c;
          c = set_env env ''VIRE_PORTAL_ID'' (\<lambda>v c. c\<lparr>cf_Service := (cf_Service c)\<lparr>sc_PortalID := v\<rparr>\<rparr>) c;
          c = set_env env ''VIRE_AUTH_JWT_SECRET'' (\<lambda>v c. c\<lparr>cf_Auth := (cf_Auth c)\<lparr>ac_JWTSecret := v\<rparr>\<rparr>) c;
          c = set_env env ''VIRE_AUTH_CALLBACK_URL'' (\<lambda>v c. c\<lparr>cf_Auth := (cf_Auth c)\<lparr>ac_CallbackURL := v\<rparr>\<rparr>) c
      in set_env env ''VIRE_PORTAL_URL'' (\<lambda>v c. c\<lparr>cf_Auth := (cf_Auth c)\<lparr>ac_PortalURL := v\<rparr>, cf_PortalURL := v\<rparr>) c)"

text \<open>
  The files in turn; \<open>toml\<close> is what toml.Unmarshal makes of a text and the configuration so far.
  \<open>i\<close> counts the files read and \<open>n\<close> is their number.
\<close>

fun load_files ::
  "(string \<Rightarrow> Config \<Rightarrow> error + Config) \<Rightarrow> os \<Rightarrow> nat \<Rightarrow> nat \<Rightarrow> string list \<Rightarrow> Config \<Rightarrow> error + Config" where
  "load_files toml env n i [] c = Inr c"
| "load_files toml env n i (path # paths) c =
     (if path = [] then load_files toml env n (Suc i) paths c
      else case ReadFile env path of
          Inl e \<Rightarrow> Inl (''failed to read config file '' @ path @ '': '' @ e)
        | Inr data \<Rightarrow>
            (case toml data c of
               Inl e \<Rightarrow> Inl (''failed to parse config file '' @ path @ '' (file '' @ show_nat (Suc i) @ '' of '' @ show_nat n @ ''): '' @ e)
             | Inr c \<Rightarrow> load_files toml env n (Suc i) paths c))"

definition LoadFromFiles :: "(string \<Rightarrow> Config \<Rightarrow> error + Config) \<Rightarrow> os \<Rightarrow> string list \<Rightarrow> error + Config" where
  "LoadFromFiles toml env paths =
     (case load_files toml env (length paths) 0 paths NewDefaultConfig of
        Inl e \<Rightarrow> Inl e
      | Inr c \<Rightarrow>
          let c = applyEnvOverrides env c
          in Inr (c\<lparr>cf_Environment := normalizeEnvironment (cf_Environment c)\<rparr>))"

definition LoadFromFile :: "(string \<Rightarrow> Config \<Rightarrow> error + Config) \<Rightarrow> os \<Rightarrow> string \<Rightarrow> error + Config" where
  "LoadFromFile toml env path = (if path = [] then LoadFromFiles toml env [] else LoadFromFiles toml env [path])"

definition ApplyFlagOverrides :: "Config \<Rightarrow> int \<Rightarrow> string \<Rightarrow> Config" where
  "ApplyFlagOverrides c port host =
     (let c = (if port > 0 then c\<lparr>cf_Server := (cf_Server c)\<lparr>srv_Port := port\<rparr>\<rparr> else c)
      in if host \<noteq> [] then c\<lparr>cf_Server := (cf_Server c)\<lparr>srv_Host := host\<rparr>\<rparr> else c)"

section \<open>Start of the portal\<close>

text \<open>filepath.Dir and filepath.Join on Unix.\<close>

definition filepath_Dir :: "string \<Rightarrow> string" where
  "filepath_Dir p = path_Clean (rev (dropWhile (\<lambda>c. c \<noteq> CHR ''/'') (rev p)))"

definition filepath_Join :: "string list \<Rightarrow> string" where
  "filepath_Join es =
     (let es = dropWhile (\<lambda>e. e = []) es in if es = [] then [] else path_Clean (Join es ''/''))"

fun dedup_paths :: "os \<Rightarrow> string list \<Rightarrow> string list \<Rightarrow> string list" where
  "dedup_paths env seen [] = []"
| "dedup_paths env seen (p # ps) =
     (let abs = (case filepath_Abs env p of None \<Rightarrow> p | Some a \<Rightarrow> a)
      in if abs \<in> set seen then dedup_paths env seen ps else p # dedup_paths env (abs # seen) ps)"

definition portalConfigSearchPaths :: "os \<Rightarrow> string list" where
  "portalConfigSearchPaths env =
     (let candidates = [''vire-portal.toml'', ''config/vire-portal.toml'', ''docker/vire-portal.toml'']
      in case Executable env of
           None \<Rightarrow> candidates
         | Some exe \<Rightarrow>
             let binDir = filepath_Dir exe
             in dedup_paths env []
                  ([filepath_Join [binDir, ''vire-portal.toml''], filepath_Join [binDir, ''config'', ''vire-portal.toml'']] @ candidates))"

record flags =
  fl_config :: "string list"
  fl_port :: int
  fl_p :: int
  fl_host :: string

datatype startup = LoadFailed error | Invalid "issue list" | Started Config

text \<open>The start of \<open>main\<close> up to the point where the configuration is accepted.\<close>

definition startup_config :: "(string \<Rightarrow> Config \<Rightarrow> error + Config) \<Rightarrow> os \<Rightarrow> flags \<Rightarrow> startup" where
  "startup_config toml env fl =
     (let finalPort = (if fl_p fl \<noteq> 0 then fl_p fl else fl_port fl);
          configFiles = (if fl_config fl = []
                         then (case List.find (Stat env) (portalConfigSearchPaths env) of None \<Rightarrow> [] | Some p \<Rightarrow> [p])
                         else fl_config fl)
      in case LoadFromFiles toml env configFiles of
           Inl e \<Rightarrow> LoadFailed e
         | Inr cfg \<Rightarrow>
             let cfg = ApplyFlagOverrides cfg finalPort (fl_host fl)
             in if Validate cfg \<noteq> [] then Invalid (Validate cfg) else Started cfg)"

text \<open>The version strings of the build, fixed by the linker; two packages hold a copy.\<close>

record build_info =
  bi_version :: string
  bi_build :: string
  bi_commit :: string

definition GetFullVersion :: "build_info \<Rightarrow> string" where
  "GetFullVersion bi = bi_version bi @ '' (build: '' @ bi_build bi @ '', commit: '' @ bi_commit bi @ '')''"

section \<open>Lemmas\<close>

text \<open>The environment variable wins when it is set.\<close>

definition env_or :: "os \<Rightarrow> string \<Rightarrow> string \<Rightarrow> string" where
  "env_or env name d = (if Getenv env name \<noteq> [] then Getenv env name else d)"

definition env_port :: "os \<Rightarrow> int \<Rightarrow> int" where
  "env_port env d = (case Atoi (Getenv env ''VIRE_SERVER_PORT'') of None \<Rightarrow> d | Some p \<Rightarrow> p)"

lemma set_env_other:
  "(\<And>v c. g (f v c) = g c) \<Longrightarrow> g (set_env env name f c) = g c"
  by (simp add: set_env_def Let_def)

lemma set_env_this:
  "(\<And>v c. g (f v c) = v) \<Longrightarrow> g (set_env env name f c) = env_or env name (g c)"
  by (simp add: set_env_def env_or_def Let_def)

lemma set_env_port:
  "srv_Port (cf_Server (set_env env ''VIRE_SERVER_PORT'' (\<lambda>v c. case Atoi v of None \<Rightarrow> c | Some p \<Rightarrow> c\<lparr>cf_Server := (cf_Server c)\<lparr>srv_Port := p\<rparr>\<rparr>) c))
     = env_port env (srv_Port (cf_Server c))"
  by (auto simp: set_env_def env_port_def Let_def Atoi_def all_digits_def split: option.split)

lemma set_env_port_other:
  "(\<And>c s. g (c\<lparr>cf_Server := s\<rparr>) = g c) \<Longrightarrow>
     g (set_env env n (\<lambda>v c. case Atoi v of None \<Rightarrow> c | Some p \<Rightarrow> c\<lparr>cf_Server := (cf_Server c)\<lparr>srv_Port := p\<rparr>\<rparr>) c) = g c"
  by (simp add: set_env_def Let_def split: option.split)

lemma applyEnvOverrides_fields:
  "cf_Environment (applyEnvOverrides env c) = env_or env ''VIRE_ENV'' (cf_Environment c)"
  "srv_Port (cf_Server (applyEnvOverrides env c)) = env_port env (srv_Port (cf_Server c))"
  "cf_APIURL (applyEnvOverrides env c) = env_or env ''VIRE_API_URL'' (cf_APIURL c)"
  "ac_JWTSecret (cf_Auth (applyEnvOverrides env c)) = env_or env ''VIRE_AUTH_JWT_SECRET'' (ac_JWTSecret (cf_Auth c))"
  "ac_PortalURL (cf_Auth (applyEnvOverrides env c)) = env_or env ''VIRE_PORTAL_URL'' (ac_PortalURL (cf_Auth c))"
  unfolding applyEnvOverrides_def Let_def
  by (simp_all add: set_env_other [where g = cf_Environment] set_env_this [where g = cf_Environment]
      set_env_port_other [where g = cf_Environment] set_env_port
      set_env_other [where g = "\<lambda>c. srv_Port (cf_Server c)"]
      set_env_other [where g = cf_APIURL] set_env_this [where g = cf_APIURL] set_env_port_other [where g = cf_APIURL]
      set_env_other [where g = "\<lambda>c. ac_JWTSecret (cf_Auth c)"] set_env_this [where g = "\<lambda>c. ac_JWTSecret (cf_Auth c)"]
      set_env_port_other [where g = "\<lambda>c. ac_JWTSecret (cf_Auth c)"]
      set_env_other [where g = "\<lambda>c. ac_PortalURL (cf_Auth c)"] set_env_this [where g = "\<lambda>c. ac_PortalURL (cf_Auth c)"]
      set_env_port_other [where g = "\<lambda>c. ac_PortalURL (cf_Auth c)"])

lemma normalized_dev:
  "ToLower (TrimSpace (normalizeEnvironment e)) = ''dev'' \<longleftrightarrow> ToLower (TrimSpace e) \<in> {''dev'', ''development''}"
proof -
  have "ToLower (TrimSpace ''dev'') = ''dev''" "ToLower (TrimSpace ''prod'') = ''prod''" by code_simp+
  then show ?thesis by (auto simp: normalizeEnvironment_def Let_def)
qed

lemma TrimSpace_nonempty: "TrimSpace s \<noteq> [] \<Longrightarrow> s \<noteq> []"
  by (auto simp: TrimSpace_def TrimLeftFunc_def TrimRightFunc_def)

lemma startup_secret:
  assumes "startup_config toml env fl = Started cfg" "\<not> IsDevMode cfg"
  shows "ac_JWTSecret (cf_Auth cfg) \<noteq> []"
proof -
  have "Validate cfg = []"
    using assms(1) by (auto simp: startup_config_def Let_def split: sum.splits if_splits)
  then show ?thesis using assms(2) by (auto simp: Validate_def intro: TrimSpace_nonempty split: if_splits)
qed

text \<open>The admin list has no empty, padded or upper-case entry.\<close>

lemma AdminEmails_nonempty: "e \<in> set (AdminEmails c) \<Longrightarrow> e \<noteq> [] \<and> ToLower e = e"
proof -
  have "lower_chr (lower_chr x) = lower_chr x" for x
    by (auto simp: lower_chr_def isUpper_def)
  then show "e \<in> set (AdminEmails c) \<Longrightarrow> e \<noteq> [] \<and> ToLower e = e"
    by (auto simp: AdminEmails_def ToLower_def split: if_splits)
qed

section \<open>Properties\<close>


text \<open>A file that sets the secret, read by a decoder that takes the text for the secret.\<close>

definition sample_os :: os where
  "sample_os = \<lparr>Getenv = (\<lambda>_. []), ReadFile = (\<lambda>_. Inr ''secret''), Stat = (\<lambda>_. True), Executable = None,
     filepath_Abs = (\<lambda>p. Some p)\<rparr>"

definition sample_toml :: "string \<Rightarrow> Config \<Rightarrow> error + Config" where
  "sample_toml text c = Inr (c\<lparr>cf_Auth := (cf_Auth c)\<lparr>ac_JWTSecret := text\<rparr>\<rparr>)"

definition sample_flags :: flags where
  "sample_flags = \<lparr>fl_config = [''a.toml''], fl_port = 0, fl_p = 0, fl_host = []\<rparr>"

definition sample_config :: Config where
  "sample_config = NewDefaultConfig\<lparr>cf_Auth := (cf_Auth NewDefaultConfig)\<lparr>ac_JWTSecret := ''secret''\<rparr>\<rparr>"

lemma sample_started: "startup_config sample_toml sample_os sample_flags = Started sample_config"
proof -
  have e: "set_env sample_os n f c = c" for n f c by (simp add: set_env_def sample_os_def)
  have r: "ReadFile sample_os p = Inr ''secret''" for p by (simp add: sample_os_def)
  have "TrimSpace ''http://localhost:8080'' \<noteq> []" "TrimSpace ''secret'' \<noteq> []" "normalizeEnvironment ''prod'' = ''prod''"
    by code_simp+
  then show ?thesis
    by (simp add: startup_config_def LoadFromFiles_def applyEnvOverrides_def e Let_def sample_flags_def sample_toml_def
        sample_config_def NewDefaultConfig_def Validate_def ApplyFlagOverrides_def r)
qed


end
