(* ===== verification/Page_Common.thy ===== *)
theory Page_Common
  imports JWT_Auth Middleware Vire_Client Portal_Config
begin

text \<open>
  What the page handlers share (src/internal/handlers/helpers.go, version.go, health.go,
  server_health.go) and the pages of src/internal/handlers/landing.go. Templates are a parameter:
  the text a template produces for its data and whether it succeeds. The functions a handler is
  wired with are fields of its record, absent when the code has nil.
\<close>

section \<open>Answers\<close>

definition RequireMethod :: "response \<Rightarrow> request \<Rightarrow> string \<Rightarrow> bool \<times> response" where
  "RequireMethod w r method =
     (if rq_method r = method \<or> method = ''GET'' \<and> rq_method r = ''HEAD'' then (True, w)
      else (False, http_Error ''Method not allowed'' 405 w))"

definition WriteJSON :: "nat \<Rightarrow> json \<Rightarrow> response \<Rightarrow> response" where
  "WriteJSON statusCode data w =
     Encode_json data (WriteHeader statusCode (Header_Set ''Content-Type'' ''application/json'' w))"

definition WriteError :: "nat \<Rightarrow> string \<Rightarrow> response \<Rightarrow> response" where
  "WriteError statusCode message w = WriteJSON statusCode (JObj [(''error'', JStr message), (''status'', JStr ''error'')]) w"

section \<open>Health and versions\<close>

definition Health_ServeHTTP :: "'s handler" where
  "Health_ServeHTTP w r =
     (let (ok, w) = RequireMethod w r ''GET''
      in ret (Returned (if ok then WriteJSON 200 (JObj [(''status'', JStr ''ok'')]) w else w)))"

definition server_status :: "nat \<Rightarrow> string \<Rightarrow> response \<Rightarrow> response" where
  "server_status code s w = WriteJSON code (JObj [(''status'', JStr s)]) w"

definition ServerHealth_ServeHTTP :: "string \<Rightarrow> 's handler" where
  "ServerHealth_ServeHTTP apiURL w r =
     (let (ok, w) = RequireMethod w r ''GET''
      in if \<not> ok then ret (Returned w)
         else do { q \<leftarrow> NewRequest ''GET'' (apiURL @ ''/api/health'') [];
                   case q of
                     Inl e \<Rightarrow> ret (Returned (server_status 503 ''down'' w))
                   | Inr rq \<Rightarrow>
                       do { res \<leftarrow> client_Do rq;
                            ret (Returned (case res of
                                   NetErr e \<Rightarrow> server_status 503 ''down'' w
                                 | HttpResp status _ _ _ \<Rightarrow>
                                     if status = 200 then server_status 200 ''ok'' w else server_status 503 ''down'' w)) } })"

text \<open>
  \<open>None\<close> is the panic of the assignment to a nil map, which JSON null leaves behind. Reading stops
  after the first value.
\<close>

definition fetchServerVersionFields :: "string \<Rightarrow> ('s, string gomap option) io" where
  "fetchServerVersionFields apiURL =
     (let unavailable = [(''version'', ''unavailable'')]
      in if apiURL = [] then ret (Some unavailable)
         else do { res \<leftarrow> http_Get (apiURL @ ''/api/version'');
                   ret (case res of
                          NetErr e \<Rightarrow> Some unavailable
                        | HttpResp status _ raw _ \<Rightarrow>
                            if status \<noteq> 200 then Some unavailable
                            else (case json_Decode raw of
                                None \<Rightarrow> Some unavailable
                              | Some v \<Rightarrow>
                                  (case string_map_of_json v of
                                     None \<Rightarrow> Some unavailable
                                   | Some data \<Rightarrow>
                                       if map_index data ''version'' \<noteq> [] then Some data
                                       else if v = JNull then None
                                       else Some (AList.update ''version'' ''unavailable'' data)))) })"

definition GetServerVersion :: "string \<Rightarrow> ('s, string option) io" where
  "GetServerVersion apiURL =
     do { f \<leftarrow> fetchServerVersionFields apiURL;
          ret (map_option (\<lambda>m. case map_of m ''version'' of Some v \<Rightarrow> v | None \<Rightarrow> ''unavailable'') f) }"

definition Version_ServeHTTP :: "build_info \<Rightarrow> string \<Rightarrow> 's handler" where
  "Version_ServeHTTP bi apiURL w r =
     (let (ok, w) = RequireMethod w r ''GET''
      in if \<not> ok then ret (Returned w)
         else do { f \<leftarrow> fetchServerVersionFields apiURL;
                   case f of
                     None \<Rightarrow> ret (Panicked w)
                   | Some m \<Rightarrow>
                       do { m \<leftarrow> range_map m;
                            let resp = fold (\<lambda>(k, v) resp. AList.update k v resp) m
                              [(''portal_version'', bi_version bi), (''portal_build'', bi_build bi), (''portal_commit'', bi_commit bi)];
                            ret (Returned (WriteJSON 200 (JObj (sort_key fst (map (\<lambda>(k, v). (k, JStr v)) resp))) w)) } })"

section \<open>Pages\<close>

record GlossaryTerm =
  gt_term :: string
  gt_label :: string
  gt_definition :: string
  gt_formula :: string

record GlossaryCategory =
  gc_name :: string
  gc_terms :: "GlossaryTerm list"

record MCPPageTool =
  mt_name :: string
  mt_description :: string
  mt_method :: string
  mt_path :: string

text \<open>The values templates are given; \<open>TJS\<close> is text inserted as script without escaping.\<close>

datatype tval = TStr string | TBool bool | TInt int | TJS string | TCategories "GlossaryCategory list"
  | TUsers "AdminUser list" | TTools "MCPPageTool list"

type_synonym page_data = "(string \<times> tval) list"

record 's PageHandler =
  pg_templates :: "string \<Rightarrow> page_data \<Rightarrow> string \<times> bool"
  pg_devMode :: bool
  pg_jwtSecret :: string
  pg_apiURL :: string
  pg_userLookupFn :: "(string \<Rightarrow> ('s, error + UserProfile) io) option"
  pg_proxyGetFn :: "(string \<Rightarrow> string \<Rightarrow> ('s, error + string) io) option"
  pg_version :: string

definition NewPageHandler ::
  "(string \<Rightarrow> page_data \<Rightarrow> string \<times> bool) \<Rightarrow> string \<Rightarrow> bool \<Rightarrow> string \<Rightarrow> (string \<Rightarrow> ('s, error + UserProfile) io) option \<Rightarrow> 's PageHandler" where
  "NewPageHandler templates version devMode jwtSecret userLookupFn =
     \<lparr>pg_templates = templates, pg_devMode = devMode, pg_jwtSecret = jwtSecret, pg_apiURL = [],
      pg_userLookupFn = userLookupFn, pg_proxyGetFn = None, pg_version = version\<rparr>"

definition page_SetAPIURL :: "string \<Rightarrow> 's PageHandler \<Rightarrow> 's PageHandler" where
  "page_SetAPIURL apiURL h = h\<lparr>pg_apiURL := apiURL\<rparr>"

definition SetProxyGetFn :: "(string \<Rightarrow> string \<Rightarrow> ('s, error + string) io) \<Rightarrow> 's PageHandler \<Rightarrow> 's PageHandler" where
  "SetProxyGetFn fn h = h\<lparr>pg_proxyGetFn := Some fn\<rparr>"

text \<open>Executing a template writes what it produces, also when it fails later on.\<close>

definition ExecuteTemplate :: "('s, 'z) PageHandler_scheme \<Rightarrow> string \<Rightarrow> page_data \<Rightarrow> response \<Rightarrow> response \<times> bool" where
  "ExecuteTemplate h name data w =
     (case pg_templates h name data of (out, ok) \<Rightarrow> (if out = [] then w else Write out w, ok))"

definition render :: "('s, 'z) PageHandler_scheme \<Rightarrow> string \<Rightarrow> page_data \<Rightarrow> response \<Rightarrow> response" where
  "render h name data w =
     (case ExecuteTemplate h name data w of
        (w, ok) \<Rightarrow> if ok then w else http_Error ''Internal Server Error'' 500 w)"

definition render_only :: "('s, 'z) PageHandler_scheme \<Rightarrow> string \<Rightarrow> page_data \<Rightarrow> response \<Rightarrow> response" where
  "render_only h name data w = fst (ExecuteTemplate h name data w)"

text \<open>The user behind the claims, if there is a lookup and it succeeds.\<close>

definition lookup_user :: "('s, 'z) PageHandler_scheme \<Rightarrow> JWTClaims option \<Rightarrow> ('s, UserProfile option) io" where
  "lookup_user h claims =
     (case (pg_userLookupFn h, claims) of
        (Some fn, Some c) \<Rightarrow>
          if jc_sub c = [] then ret None
          else do { r \<leftarrow> fn (jc_sub c); ret (case r of Inl _ \<Rightarrow> None | Inr u \<Rightarrow> Some u) }
      | _ \<Rightarrow> ret None)"

definition role_of :: "UserProfile option \<Rightarrow> string" where
  "role_of u = (case u of None \<Rightarrow> [] | Some u \<Rightarrow> up_Role u)"

definition common_data :: "('s, 'z) PageHandler_scheme \<Rightarrow> string \<Rightarrow> bool \<Rightarrow> string \<Rightarrow> string \<Rightarrow> page_data" where
  "common_data h page loggedIn userRole serverVersion =
     [(''Page'', TStr page), (''DevMode'', TBool (pg_devMode h)), (''LoggedIn'', TBool loggedIn), (''UserRole'', TStr userRole),
      (''PortalVersion'', TStr (pg_version h)), (''ServerVersion'', TStr serverVersion)]"

text \<open>The end of a handler: the version of the server, which may panic, and the template.\<close>

definition finish_page ::
  "('s, 'z) PageHandler_scheme \<Rightarrow> response \<Rightarrow> (string \<Rightarrow> response \<Rightarrow> response) \<Rightarrow> ('s, outcome) io" where
  "finish_page h w body =
     do { v \<leftarrow> GetServerVersion (pg_apiURL h);
          ret (case v of None \<Rightarrow> Panicked w | Some v \<Rightarrow> Returned (body v w)) }"

definition clear_session :: "response \<Rightarrow> response" where
  "clear_session w = SetCookie \<lparr>ck_name = ''vire_session'', ck_value = [], ck_path = ''/'', ck_maxage = - 1,
     ck_httponly = True, ck_secure = False, ck_samesite = SameSiteStrict\<rparr> w"

definition ServePage :: "'s PageHandler \<Rightarrow> string \<Rightarrow> string \<Rightarrow> 's handler" where
  "ServePage h templateName pageName w r =
     do { claims \<leftarrow> IsLoggedIn r (pg_jwtSecret h);
          let w = (if pageName = ''home'' then clear_session w else w);
          let loggedIn = (claims \<noteq> None \<and> pageName \<noteq> ''home'');
          u \<leftarrow> (if loggedIn then lookup_user h claims else ret None);
          finish_page h w (\<lambda>v. render h templateName (common_data h pageName loggedIn (role_of u) v)) }"

definition error_messages :: "(string \<times> string) list" where
  "error_messages =
     [(''server_unavailable'', ''The authentication server is unavailable. Please try again shortly.''),
      (''auth_failed'', ''Authentication failed. Please try again.''),
      (''invalid_credentials'', ''Invalid username or password.''),
      (''missing_credentials'', ''Please provide both username and password.''),
      (''bad_request'', ''Bad request. Please try again.'')]"

definition error_message :: "string \<Rightarrow> string" where
  "error_message reason =
     (case map_of error_messages reason of
        Some msg \<Rightarrow> msg | None \<Rightarrow> ''Something went wrong. Please try again.'')"

definition ServeErrorPage :: "'s PageHandler \<Rightarrow> 's handler" where
  "ServeErrorPage h w r =
     do { claims \<leftarrow> IsLoggedIn r (pg_jwtSecret h);
          u \<leftarrow> lookup_user h claims;
          let msg = error_message (Values_Get (req_Query r) ''reason'');
          finish_page h w (\<lambda>v. render_only h ''error.html''
            (common_data h ''error'' (claims \<noteq> None) (role_of u) v @ [(''ErrorMessage'', TStr msg)])) }"

definition checkServerHealth :: "string \<Rightarrow> ('s, bool) io" where
  "checkServerHealth apiURL =
     (if apiURL = [] then ret False
      else do { res \<leftarrow> http_Get (apiURL @ ''/api/health'');
                ret (case res of NetErr _ \<Rightarrow> False | HttpResp status _ _ _ \<Rightarrow> status = 200) })"

definition ServeLandingPage :: "'s PageHandler \<Rightarrow> 's handler" where
  "ServeLandingPage h w r =
     do { let w = clear_session w;
          up \<leftarrow> checkServerHealth (pg_apiURL h);
          finish_page h w (\<lambda>v. render_only h ''landing.html''
            (common_data h ''home'' False [] v @ [(''ServerStatus'', TBool up)])) }"

definition term_of_json :: "json \<Rightarrow> GlossaryTerm option" where
  "term_of_json v =
     do { kvs \<leftarrow> json_members v;
          let fs = [''term'', ''label'', ''definition'', ''formula''];
          t \<leftarrow> json_field json_as_string [] fs ''term'' kvs;
          l \<leftarrow> json_field json_as_string [] fs ''label'' kvs;
          d \<leftarrow> json_field json_as_string [] fs ''definition'' kvs;
          f \<leftarrow> json_field json_as_string [] fs ''formula'' kvs;
          Some \<lparr>gt_term = t, gt_label = l, gt_definition = d, gt_formula = f\<rparr> }"

definition category_of_json :: "json \<Rightarrow> GlossaryCategory option" where
  "category_of_json v =
     do { kvs \<leftarrow> json_members v;
          n \<leftarrow> json_field json_as_string [] [''name'', ''terms''] ''name'' kvs;
          ts \<leftarrow> json_field (json_as_list term_of_json) [] [''name'', ''terms''] ''terms'' kvs;
          Some \<lparr>gc_name = n, gc_terms = ts\<rparr> }"

definition categories_of_json :: "json \<Rightarrow> GlossaryCategory list option" where
  "categories_of_json v =
     do { kvs \<leftarrow> json_members v;
          json_field (json_as_list category_of_json) [] [''categories''] ''categories'' kvs }"

definition ServeGlossaryPage :: "'s PageHandler \<Rightarrow> 's handler" where
  "ServeGlossaryPage h w r =
     do { claims \<leftarrow> IsLoggedIn r (pg_jwtSecret h);
          u \<leftarrow> lookup_user h claims;
          (categories, fetchError) \<leftarrow>
            (case pg_proxyGetFn h of
               None \<Rightarrow> ret ([], [])
             | Some fn \<Rightarrow>
                 do { b \<leftarrow> fn ''/api/glossary'' [];
                      ret (case b of
                             Inl _ \<Rightarrow> ([], ''Glossary data is not yet available.'')
                           | Inr body \<Rightarrow>
                               (case Option.bind (json_Unmarshal body) categories_of_json of None \<Rightarrow> ([], []) | Some cs \<Rightarrow> (cs, []))) });
          finish_page h w (\<lambda>v. render_only h ''glossary.html''
            (common_data h ''glossary'' (claims \<noteq> None) (role_of u) v
             @ [(''Categories'', TCategories categories), (''FetchError'', TStr fetchError),
                (''TermParam'', TStr (Values_Get (req_Query r) ''term''))])) }"

text \<open>
  A json.RawMessage field keeps the text of its value. \<open>raw_members\<close> reads the members of an object
  with the texts of their values; it is applied to text that \<open>json_Unmarshal\<close> accepts.
\<close>

fun raw_members :: "nat \<Rightarrow> string \<Rightarrow> (string \<times> string) list" where
  "raw_members 0 s = []"
| "raw_members (Suc f) s =
     (case skip_ws s of
        [] \<Rightarrow> []
      | c # r \<Rightarrow>
          (case parse_str r of
             None \<Rightarrow> []
           | Some (k, r1) \<Rightarrow>
               let t = skip_ws (tl (skip_ws r1))
               in case parse_value (Suc (length t)) t of
                    None \<Rightarrow> []
                  | Some (v, r2) \<Rightarrow>
                      (k, take (length t - length r2) t)
                      # (case skip_ws r2 of d # q \<Rightarrow> if d = CHR '','' then raw_members f q else [] | [] \<Rightarrow> [])))"

definition raw_field :: "string list \<Rightarrow> string \<Rightarrow> string \<Rightarrow> string option" where
  "raw_field fs f body =
     (if HasPrefix (skip_ws body) ''{''
      then map_of (rev (map (\<lambda>(k, t). (case json_target fs k of None \<Rightarrow> [] | Some x \<Rightarrow> x, t))
                         (raw_members (length body) (tl (skip_ws body))))) f
      else None)"

definition ServeChangelogPage :: "'s PageHandler \<Rightarrow> 's handler" where
  "ServeChangelogPage h w r =
     do { claims \<leftarrow> IsLoggedIn r (pg_jwtSecret h);
          u \<leftarrow> lookup_user h claims;
          entries \<leftarrow>
            (case pg_proxyGetFn h of
               None \<Rightarrow> ret ''[]''
             | Some fn \<Rightarrow>
                 do { b \<leftarrow> fn ''/api/changelog?per_page=100&page=1'' [];
                      ret (case b of
                             Inl _ \<Rightarrow> ''[]''
                           | Inr body \<Rightarrow>
                               (case Option.bind (json_Unmarshal body) json_members of
                                  None \<Rightarrow> ''[]''
                                | Some _ \<Rightarrow> (case raw_field [''items''] ''items'' body of None \<Rightarrow> ''[]'' | Some t \<Rightarrow> t))) });
          finish_page h w (\<lambda>v. render_only h ''changelog.html''
            (common_data h ''changelog'' (claims \<noteq> None) (role_of u) v @ [(''EntriesJSON'', TJS entries)])) }"

definition ServeHelpPage :: "'s PageHandler \<Rightarrow> 's handler" where
  "ServeHelpPage h w r =
     do { claims \<leftarrow> IsLoggedIn r (pg_jwtSecret h);
          case claims of
            None \<Rightarrow> ret (Returned (http_Redirect r ''/'' 302 w))
          | Some c \<Rightarrow>
              do { u \<leftarrow> lookup_user h claims;
                   (feedback, total) \<leftarrow>
                     (case pg_proxyGetFn h of
                        None \<Rightarrow> ret (''[]'', 0)
                      | Some fn \<Rightarrow>
                          if jc_sub c = [] then ret (''[]'', 0)
                          else do { b \<leftarrow> fn ''/api/feedback?per_page=50'' (jc_sub c);
                                    ret (case b of
                                           Inl _ \<Rightarrow> (''[]'', 0)
                                         | Inr body \<Rightarrow>
                                             (case do { v \<leftarrow> json_Unmarshal body;
                                                        kvs \<leftarrow> json_members v;
                                                        json_field json_as_int64 0 [''items'', ''total''] ''total'' kvs } of
                                                None \<Rightarrow> (''[]'', 0)
                                              | Some n \<Rightarrow>
                                                  (case raw_field [''items'', ''total''] ''items'' body of None \<Rightarrow> ''[]'' | Some t \<Rightarrow> t, n))) });
                   finish_page h w (\<lambda>v. render_only h ''help.html''
                     (common_data h ''help'' True (role_of u) v
                      @ [(''FeedbackJSON'', TJS feedback), (''FeedbackTotal'', TInt total)])) } }"

section \<open>Static files\<close>

text \<open>The first candidate that is a directory; \<open>isDir\<close> is what os.Stat finds.\<close>

definition FindPagesDir :: "os \<Rightarrow> (string \<Rightarrow> bool) \<Rightarrow> string" where
  "FindPagesDir env isDir =
     (case List.find isDir [''./pages'', ''../pages'', ''../../pages'', ''.''] of
        Some dir \<Rightarrow> (case filepath_Abs env dir of None \<Rightarrow> [] | Some a \<Rightarrow> a)
      | None \<Rightarrow> ''.'')"

definition http_NotFound :: "response \<Rightarrow> response" where
  "http_NotFound w = http_Error ''404 page not found'' 404 w"

text \<open>\<open>ServeFile\<close> answers from the file system; a path shorter than the prefix makes the slice panic.\<close>

definition StaticFileHandler :: "os \<Rightarrow> (string \<Rightarrow> bool) \<Rightarrow> (string \<Rightarrow> response \<Rightarrow> request \<Rightarrow> response) \<Rightarrow> 's handler" where
  "StaticFileHandler env isDir ServeFile w r =
     (let staticDir = filepath_Join [FindPagesDir env isDir, ''static'']
      in if length (rq_path r) < length ''/static/'' then ret (Panicked w)
         else let path = drop (length ''/static/'') (rq_path r);
                  fullPath = filepath_Join [staticDir, path];
                  absStaticDir = (case filepath_Abs env staticDir of None \<Rightarrow> [] | Some a \<Rightarrow> a);
                  absFullPath = (case filepath_Abs env fullPath of None \<Rightarrow> [] | Some a \<Rightarrow> a)
              in ret (Returned (if \<not> HasPrefix absFullPath absStaticDir then http_NotFound w else ServeFile fullPath w r)))"

definition isMobileBrowser :: "string \<Rightarrow> bool" where
  "isMobileBrowser ua =
     (let ua = ToLower ua
      in list_ex (Contains ua) [''iphone'', ''android'', ''mobile'', ''ipod'', ''windows phone'', ''blackberry'', ''opera mini'', ''iemobile'']
         \<and> \<not> Contains ua ''ipad'')"

end
