(* ===== verification/Page_Handlers.thy ===== *)
theory Page_Handlers
  imports Page_Common
begin

text \<open>
  The pages behind the login: src/internal/handlers/dashboard.go, mobile_dashboard.go, cash.go,
  strategy.go, users.go, mcp_page.go and profile.go. The dashboard, mobile, cash and strategy
  handlers have the fields of the page handler.
\<close>

section \<open>Portfolios\<close>

definition portfolios_of_json :: "json \<Rightarrow> (string list \<times> string) option" where
  "portfolios_of_json v =
     do { kvs \<leftarrow> json_members v;
          let fs = [''portfolios'', ''default''];
          ns \<leftarrow> json_field (json_as_list (\<lambda>p. do { m \<leftarrow> json_members p; json_field json_as_string [] [''name''] ''name'' m }))
                 [] fs ''portfolios'' kvs;
          d \<leftarrow> json_field json_as_string [] fs ''default'' kvs;
          Some (ns, d) }"

text \<open>The portfolio to show: the one in the path if it exists, else the default, else the first.\<close>

definition select_portfolio :: "string \<Rightarrow> string list \<Rightarrow> string \<Rightarrow> string" where
  "select_portfolio urlPortfolio names def =
     (let selected = (if urlPortfolio \<in> set names then urlPortfolio else []);
          selected = (if selected = [] then def else selected)
      in if selected = [] \<and> names \<noteq> [] then hd names else selected)"

text \<open>The name in the path after a prefix, decoded once more than the path already is.\<close>

definition url_portfolio :: "string \<Rightarrow> string \<Rightarrow> string" where
  "url_portfolio pre path =
     (let suffix = TrimPrefix path pre
      in if length suffix > 1 \<and> hd suffix = CHR ''/''
         then (case unescape EncPathSegment (tl suffix) of None \<Rightarrow> [] | Some d \<Rightarrow> d) else [])"

text \<open>
  Requests sent by concurrent goroutines: they reach the server in an order of the environment's
  choice; the answers are collected under their labels.
\<close>

fun run_jobs :: "(string \<Rightarrow> string \<Rightarrow> ('s, error + string) io) \<Rightarrow> string \<Rightarrow> string gomap \<Rightarrow> ('s, string gomap) io" where
  "run_jobs fn userID [] = ret []"
| "run_jobs fn userID ((label, path) # jobs) =
     do { r \<leftarrow> fn path userID;
          rest \<leftarrow> run_jobs fn userID jobs;
          ret (case r of Inl _ \<Rightarrow> rest | Inr body \<Rightarrow> (label, body) # rest) }"

definition fetch_parallel :: "(string \<Rightarrow> string \<Rightarrow> ('s, error + string) io) \<Rightarrow> string \<Rightarrow> string gomap \<Rightarrow> ('s, string gomap) io" where
  "fetch_parallel fn userID jobs = do { js \<leftarrow> range_map jobs; run_jobs fn userID js }"

definition js_or_null :: "string gomap \<Rightarrow> string \<Rightarrow> tval" where
  "js_or_null m label = TJS (case map_of m label of None \<Rightarrow> ''null'' | Some t \<Rightarrow> t)"

text \<open>
  The data of a portfolio page: the list, the selected portfolio (absent when there was no readable
  list) and the answers of the jobs.
\<close>

definition portfolio_data ::
  "('s, 'z) PageHandler_scheme \<Rightarrow> string \<Rightarrow> string \<Rightarrow> (string \<Rightarrow> string gomap)
     \<Rightarrow> ((string \<Rightarrow> string \<Rightarrow> ('s, error + string) io) \<Rightarrow> string \<Rightarrow> string gomap \<Rightarrow> ('s, string gomap) io)
     \<Rightarrow> ('s, string option \<times> string option \<times> string gomap) io" where
  "portfolio_data h sub urlPortfolio jobs run =
     (case pg_proxyGetFn h of
        None \<Rightarrow> ret (None, None, [])
      | Some fn \<Rightarrow>
          if sub = [] then ret (None, None, [])
          else do { b \<leftarrow> fn ''/api/portfolios'' sub;
                    case b of
                      Inl _ \<Rightarrow> ret (None, None, [])
                    | Inr body \<Rightarrow>
                        (case Option.bind (json_Unmarshal body) portfolios_of_json of
                           None \<Rightarrow> ret (Some body, None, [])
                         | Some (names, def) \<Rightarrow>
                             let selected = select_portfolio urlPortfolio names def
                             in if selected = [] then ret (Some body, Some selected, [])
                                else do { m \<leftarrow> run fn sub (jobs (PathEscape selected)); ret (Some body, Some selected, m) }) })"

definition js_list :: "string option \<Rightarrow> tval" where
  "js_list b = TJS (case b of None \<Rightarrow> ''null'' | Some t \<Rightarrow> t)"

definition selected_data :: "string option \<Rightarrow> page_data" where
  "selected_data s =
     [(''SelectedPortfolio'', TStr (case s of None \<Rightarrow> [] | Some n \<Rightarrow> n)),
      (''SelectedJSON'', TJS (case s of None \<Rightarrow> [CHR 0x22, CHR 0x22] | Some n \<Rightarrow> json_encode (JStr n)))]"

definition navexa_missing :: "UserProfile option \<Rightarrow> tval" where
  "navexa_missing u = TBool (case u of None \<Rightarrow> False | Some u \<Rightarrow> \<not> up_NavexaKeySet u)"

section \<open>Dashboards\<close>

definition dashboard_jobs :: "string \<Rightarrow> string gomap" where
  "dashboard_jobs name =
     [(''portfolio'', ''/api/portfolios/'' @ name), (''timeline'', ''/api/portfolios/'' @ name @ ''/timeline''),
      (''watchlist'', ''/api/portfolios/'' @ name @ ''/watchlist''), (''glossary'', ''/api/glossary'')]"

definition mobile_path :: "string \<Rightarrow> string" where
  "mobile_path path =
     (let suffix = TrimPrefix path ''/dashboard''
      in if length suffix > 1 \<and> hd suffix = CHR ''/'' then ''/m'' @ suffix else ''/m'')"

definition Dashboard_ServeHTTP :: "'s PageHandler \<Rightarrow> 's handler" where
  "Dashboard_ServeHTTP h w r =
     do { claims \<leftarrow> IsLoggedIn r (pg_jwtSecret h);
          case claims of
            None \<Rightarrow> ret (Returned (http_Redirect r ''/'' 302 w))
          | Some c \<Rightarrow>
              if isMobileBrowser (req_Get r ''User-Agent'') then ret (Returned (http_Redirect r (mobile_path (rq_path r)) 302 w))
              else do { u \<leftarrow> lookup_user h claims;
                        (list, sel, m) \<leftarrow>
                          portfolio_data h (jc_sub c) (url_portfolio ''/dashboard'' (rq_path r)) dashboard_jobs fetch_parallel;
                        finish_page h w (\<lambda>v. render h ''dashboard.html''
                          (common_data h ''dashboard'' True (role_of u) v
                           @ [(''NavexaKeyMissing'', navexa_missing u), (''PortfoliosJSON'', js_list list),
                              (''PortfolioJSON'', js_or_null m ''portfolio''), (''TimelineJSON'', js_or_null m ''timeline''),
                              (''WatchlistJSON'', js_or_null m ''watchlist''), (''GlossaryJSON'', js_or_null m ''glossary'')]
                           @ selected_data sel)) } }"

definition mobile_jobs :: "string \<Rightarrow> string gomap" where
  "mobile_jobs name =
     [(''portfolio'', ''/api/portfolios/'' @ name), (''timeline'', ''/api/portfolios/'' @ name @ ''/timeline'')]"

definition Mobile_ServeHTTP :: "'s PageHandler \<Rightarrow> 's handler" where
  "Mobile_ServeHTTP h w r =
     do { claims \<leftarrow> IsLoggedIn r (pg_jwtSecret h);
          case claims of
            None \<Rightarrow> ret (Returned (http_Redirect r ''/'' 302 w))
          | Some c \<Rightarrow>
              do { u \<leftarrow> lookup_user h claims;
                   (list, sel, m) \<leftarrow> portfolio_data h (jc_sub c) (url_portfolio ''/m'' (rq_path r)) mobile_jobs fetch_parallel;
                   finish_page h w (\<lambda>v. render h ''mobile.html''
                     (common_data h ''mobile'' True (role_of u) v
                      @ [(''NavexaKeyMissing'', navexa_missing u), (''PortfoliosJSON'', js_list list),
                         (''PortfolioJSON'', js_or_null m ''portfolio''), (''TimelineJSON'', js_or_null m ''timeline'')]
                      @ selected_data sel)) } }"

section \<open>Cash and strategy\<close>

definition Cash_ServeHTTP :: "'s PageHandler \<Rightarrow> 's handler" where
  "Cash_ServeHTTP h w r =
     do { claims \<leftarrow> IsLoggedIn r (pg_jwtSecret h);
          case claims of
            None \<Rightarrow> ret (Returned (http_Redirect r ''/'' 302 w))
          | Some c \<Rightarrow>
              do { u \<leftarrow> lookup_user h claims;
                   (list, sel, m) \<leftarrow>
                     portfolio_data h (jc_sub c) [] (\<lambda>n. [(''transactions'', ''/api/portfolios/'' @ n @ ''/cash-transactions'')]) run_jobs;
                   finish_page h w (\<lambda>v. render h ''cash.html''
                     (common_data h ''cash'' True (role_of u) v
                      @ [(''NavexaKeyMissing'', navexa_missing u), (''PortfoliosJSON'', js_list list),
                         (''TransactionsJSON'', js_or_null m ''transactions'')])) } }"

definition Strategy_ServeHTTP :: "'s PageHandler \<Rightarrow> 's handler" where
  "Strategy_ServeHTTP h w r =
     do { claims \<leftarrow> IsLoggedIn r (pg_jwtSecret h);
          case claims of
            None \<Rightarrow> ret (Returned (http_Redirect r ''/'' 302 w))
          | Some c \<Rightarrow>
              do { u \<leftarrow> lookup_user h claims;
                   (list, sel, m) \<leftarrow>
                     portfolio_data h (jc_sub c) []
                       (\<lambda>n. [(''strategy'', ''/api/portfolios/'' @ n @ ''/strategy''), (''plan'', ''/api/portfolios/'' @ n @ ''/plan'')]) run_jobs;
                   finish_page h w (\<lambda>v. render h ''strategy.html''
                     (common_data h ''strategy'' True (role_of u) v
                      @ [(''NavexaKeyMissing'', navexa_missing u), (''PortfoliosJSON'', js_list list),
                         (''StrategyJSON'', js_or_null m ''strategy''), (''PlanJSON'', js_or_null m ''plan'')])) } }"

section \<open>Users\<close>

record 's AdminUsersHandler = "'s PageHandler" +
  au_listFn :: "(string \<Rightarrow> ('s, error + AdminUser list) io) option"
  au_serviceUserID :: string

definition AdminUsers_ServeHTTP :: "'s AdminUsersHandler \<Rightarrow> 's handler" where
  "AdminUsers_ServeHTTP h w r =
     do { claims \<leftarrow> IsLoggedIn r (pg_jwtSecret h);
          case claims of
            None \<Rightarrow> ret (Returned (http_Redirect r ''/'' 302 w))
          | Some c \<Rightarrow>
              do { u \<leftarrow> lookup_user h claims;
                   if role_of u \<noteq> ''admin'' then ret (Returned (http_Redirect r ''/dashboard'' 302 w))
                   else do { (users, err) \<leftarrow>
                               (case au_listFn h of
                                  None \<Rightarrow> ret ([], ''Admin API not configured. Set VIRE_SERVICE_KEY to enable.'')
                                | Some fn \<Rightarrow>
                                    if au_serviceUserID h = [] then ret ([], ''Admin API not configured. Set VIRE_SERVICE_KEY to enable.'')
                                    else do { l \<leftarrow> fn (au_serviceUserID h);
                                              ret (case l of
                                                     Inl _ \<Rightarrow> ([], ''Failed to load user list. Ensure vire-server is running.'')
                                                   | Inr us \<Rightarrow> (us, [])) });
                             finish_page h w (\<lambda>v. render h ''users.html''
                               (common_data h ''users'' True (role_of u) v
                                @ [(''Users'', TUsers users), (''UserCount'', TInt (int (length users))), (''FetchError'', TStr err)])) } } }"

section \<open>MCP info\<close>

record 's MCPPageHandler = "'s PageHandler" +
  mp_port :: int
  mp_catalogFn :: "('s, MCPPageTool list) io"
  mp_devMCPEndpoint :: "(string \<Rightarrow> ('s, string) io) option"
  mp_baseURL :: string

definition dev_endpoint :: "(string \<Rightarrow> ('s, string) io) option \<Rightarrow> string \<Rightarrow> ('s, string) io" where
  "dev_endpoint fn sub = (case fn of None \<Rightarrow> ret [] | Some f \<Rightarrow> if sub = [] then ret [] else f sub)"

definition MCPPage_ServeHTTP :: "'s MCPPageHandler \<Rightarrow> 's handler" where
  "MCPPage_ServeHTTP h w r =
     do { claims \<leftarrow> IsLoggedIn r (pg_jwtSecret h);
          case claims of
            None \<Rightarrow> ret (Returned (http_Redirect r ''/'' 302 w))
          | Some c \<Rightarrow>
              do { tools \<leftarrow> mp_catalogFn h;
                   let toolStatus = (if tools = [] then ''NO TOOLS'' else show_nat (length tools));
                   let base = (if mp_baseURL h = [] then ''http://localhost:'' @ Itoa (mp_port h) else mp_baseURL h);
                   dev \<leftarrow> dev_endpoint (mp_devMCPEndpoint h) (jc_sub c);
                   u \<leftarrow> lookup_user h claims;
                   finish_page h w (\<lambda>v. render h ''mcp.html''
                     (common_data h ''mcp'' True (role_of u) v
                      @ [(''Tools'', TTools tools), (''ToolCount'', TInt (int (length tools))), (''ToolStatus'', TStr toolStatus),
                         (''MCPEndpoint'', TStr (base @ ''/mcp'')), (''DevMCPEndpoint'', TStr dev), (''Port'', TInt (mp_port h))])) } }"

section \<open>Profile\<close>

record 's ProfileHandler = "'s PageHandler" +
  pf_userSaveFn :: "(string \<Rightarrow> string gomap \<Rightarrow> ('s, error + unit) io) option"
  pf_devMCPEndpoint :: "(string \<Rightarrow> ('s, string) io) option"

text \<open>A Unix time in RFC 3339; for years outside 0 to 9999 the text is taken from the environment.\<close>

definition format_unix :: "int \<Rightarrow> ('s, string) io" where
  "format_unix t = (case MarshalTime (t * Second) of Some s \<Rightarrow> ret s | None \<Rightarrow> error_for (Itoa t))"

definition jwt_data :: "request \<Rightarrow> JWTClaims \<Rightarrow> ('s, page_data) io" where
  "jwt_data r c =
     do { let tok = (case req_Cookie r ''vire_session'' of None \<Rightarrow> [] | Some v \<Rightarrow> [(''JWTToken'', TStr v)]);
          iat \<leftarrow> format_unix (jc_iat c);
          ex \<leftarrow> format_unix (jc_exp c);
          now \<leftarrow> time_Now;
          ret (tok @ [(''JWTSub'', TStr (jc_sub c)), (''JWTEmail'', TStr (jc_email c)), (''JWTName'', TStr (jc_name c)),
                (''JWTProvider'', TStr (jc_provider c)), (''JWTIssuer'', TStr (jc_iss c)), (''JWTIssuedAt'', TStr iat),
                (''JWTExpires'', TStr ex), (''JWTExpired'', TBool (jc_exp c < Unix now))]) }"

definition HandleProfile :: "'s ProfileHandler \<Rightarrow> 's handler" where
  "HandleProfile h w r =
     do { claims \<leftarrow> IsLoggedIn r (pg_jwtSecret h);
          case claims of
            None \<Rightarrow> ret (Returned (http_Redirect r ''/'' 302 w))
          | Some c \<Rightarrow>
              do { let csrf = (case req_Cookie r ''_csrf'' of None \<Rightarrow> [] | Some v \<Rightarrow> v);
                   u1 \<leftarrow> (if jc_name c = [] then lookup_user h claims else ret None);
                   let userName = (if jc_name c \<noteq> [] then jc_name c else case u1 of None \<Rightarrow> [] | Some u \<Rightarrow> up_Username u);
                   v \<leftarrow> GetServerVersion (pg_apiURL h);
                   case v of
                     None \<Rightarrow> ret (Panicked w)
                   | Some v \<Rightarrow>
                       do { u \<leftarrow> lookup_user h claims;
                            jwt \<leftarrow> (if pg_devMode h then jwt_data r c else ret []);
                            dev \<leftarrow> (if pg_devMode h then dev_endpoint (pf_devMCPEndpoint h) (jc_sub c) else ret []);
                            let data =
                              [(''Page'', TStr ''profile''), (''DevMode'', TBool (pg_devMode h)), (''LoggedIn'', TBool True),
                               (''NavexaKeySet'', TBool (case u of None \<Rightarrow> False | Some u \<Rightarrow> up_NavexaKeySet u)),
                               (''NavexaKeyPreview'', TStr (case u of None \<Rightarrow> [] | Some u \<Rightarrow> up_NavexaKeyPreview u)),
                               (''Saved'', TBool (Values_Get (req_Query r) ''saved'' = ''1'')), (''CSRFToken'', TStr csrf),
                               (''PortalVersion'', TStr (pg_version h)), (''ServerVersion'', TStr v), (''UserEmail'', TStr (jc_email c)),
                               (''UserName'', TStr userName), (''AuthMethod'', TStr (jc_provider c)),
                               (''IsOAuth'', TBool (jc_provider c = ''google'' \<or> jc_provider c = ''github''))]
                              @ (case u of None \<Rightarrow> [] | Some u \<Rightarrow> [(''UserRole'', TStr (up_Role u))]) @ jwt
                              @ (if pg_devMode h \<and> pf_devMCPEndpoint h \<noteq> None \<and> jc_sub c \<noteq> [] then [(''DevMCPEndpoint'', TStr dev)] else []);
                            ret (Returned (render h ''profile.html'' data w)) } } }"

definition HandleSaveProfile :: "'s ProfileHandler \<Rightarrow> 's handler" where
  "HandleSaveProfile h w r =
     do { claims \<leftarrow> IsLoggedIn r (pg_jwtSecret h);
          case claims of
            None \<Rightarrow> ret (Returned (http_Error ''Unauthorized'' 401 w))
          | Some c \<Rightarrow>
              if jc_sub c = [] then ret (Returned (http_Error ''Unauthorized'' 401 w))
              else (case pf_userSaveFn h of
                  None \<Rightarrow> ret (Returned (http_Error ''Internal Server Error'' 500 w))
                | Some save \<Rightarrow>
                    if snd (ParseForm r) then ret (Returned (http_Error ''Bad Request'' 400 w))
                    else do { e \<leftarrow> save (jc_sub c) [(''navexa_key'', TrimSpace (FormValue r ''navexa_key''))];
                              ret (Returned (case e of
                                     Inl _ \<Rightarrow> http_Error ''Internal Server Error'' 500 w
                                   | Inr _ \<Rightarrow> http_Redirect r ''/profile?saved=1'' 302 w)) }) }"

text \<open>\<open>ExtractJWTSub\<close>, no longer used by the pages: no signature is checked.\<close>

definition ExtractJWTSub :: "string \<Rightarrow> ('s, string) io" where
  "ExtractJWTSub token = do { c \<leftarrow> ValidateJWT token []; ret (case c of Inl _ \<Rightarrow> [] | Inr claims \<Rightarrow> jc_sub claims) }"

section \<open>Sessions\<close>

text \<open>The claims in the payload of a token, and a signed token the request presents as its session.\<close>

definition browser_carries :: "string \<Rightarrow> JWTClaims \<Rightarrow> bool" where
  "browser_carries tok c \<longleftrightarrow>
     Option.bind (Option.bind (b64_Decode (SplitN tok (CHR ''.'') 4 ! 1)) json_Unmarshal) JWTClaims_of = Some c"

definition session_of :: "string \<Rightarrow> request \<Rightarrow> JWTClaims \<Rightarrow> bool" where
  "session_of secret r c \<longleftrightarrow>
     (\<exists>tok. (req_Get r ''X-Test-Session'' = tok \<or> req_Cookie r ''vire_session'' = Some tok)
        \<and> signed_by secret tok \<and> browser_carries tok c)"

lemma ValidateJWT_carries:
  "run_state (ValidateJWT tok secret) \<sigma> = (Inr c, \<sigma>') \<Longrightarrow> browser_carries tok c"
  by (cases \<sigma>) (auto simp: ValidateJWT_def Let_def browser_carries_def split: if_splits sig_result.splits option.splits)

lemma ValidateJWT_session:
  assumes "run_state (ValidateJWT tok secret) (s, w) = (Inr c, (s', w'))" "secret \<noteq> []"
    and "req_Get r ''X-Test-Session'' = tok \<or> req_Cookie r ''vire_session'' = Some tok"
  shows "session_of secret r c"
  using ValidateJWT_sound [OF assms(1)] ValidateJWT_carries [OF assms(1)] assms(2,3) unfolding session_of_def by blast

lemma IsLoggedIn_session:
  assumes "run_state (IsLoggedIn r secret) (s, w) = (Some c, (s', w'))" "secret \<noteq> []"
  shows "session_of secret r c"
proof -
  obtain t s1 w1 where t: "run_state (if req_Get r ''X-Test-Session'' \<noteq> []
      then ValidateJWT (req_Get r ''X-Test-Session'') secret else ret (Inl [])) (s, w) = (t, (s1, w1))"
    by (metis prod_cases3)
  show ?thesis
  proof (cases t)
    case (Inr c')
    with t assms have "run_state (ValidateJWT (req_Get r ''X-Test-Session'') secret) (s, w) = (Inr c, (s1, w1))"
      by (auto simp: IsLoggedIn_def split: if_splits)
    then show ?thesis by (rule ValidateJWT_session [OF _ assms(2)]) simp
  next
    case (Inl e)
    with t assms(1) obtain tok where tok: "req_Cookie r ''vire_session'' = Some tok" "tok \<noteq> []"
      by (auto simp: IsLoggedIn_def split: option.splits if_splits)
    obtain d s2 w2 where d: "run_state (ValidateJWT tok secret) (s1, w1) = (d, (s2, w2))" by (metis prod_cases3)
    with t tok Inl assms(1) have "d = Inr c" by (cases d) (simp_all add: IsLoggedIn_def)
    with d have "run_state (ValidateJWT tok secret) (s1, w1) = (Inr c, (s2, w2))" by simp
    then show ?thesis by (rule ValidateJWT_session [OF _ assms(2)]) (simp add: tok)
  qed
qed

text \<open>The contract of the pages behind the login: nothing happens before the session is checked.\<close>

locale login_page =
  fixes page :: "'s handler" and secret :: string
  assumes refuse: "run_state (IsLoggedIn r secret) (s, w) = (None, \<sigma>)
    \<Longrightarrow> run_state (page wr r) (s, w) = (Returned (http_Redirect r ''/'' 302 wr), \<sigma>)"
begin

lemma guarded:
  assumes "secret \<noteq> []" "run_state (page wr r) (s, w) = (res, (s', w'))"
  shows "(res = Returned (http_Redirect r ''/'' 302 wr) \<and> s' = s \<and> sent w' = sent w)
    \<or> (\<exists>c w1. session_of secret r c \<and> evolves w w1 \<and> sent w1 = sent w
        \<and> run_state (IsLoggedIn r secret) (s, w) = (Some c, (s, w1)))"
proof -
  obtain c s1 w1 where l: "run_state (IsLoggedIn r secret) (s, w) = (c, (s1, w1))" by (metis prod_cases3)
  have q: "s1 = s" "sent w1 = sent w" "evolves w w1"
    using st_unchanged [OF keeps_login(1) l] keeps_quietD [OF keeps_login(3) l] keeps_evolves [OF keeps_login(2) l]
    by simp_all
  show ?thesis
  proof (cases c)
    case None
    with refuse [of r s w "(s1, w1)"] l q assms(2) show ?thesis by simp
  next
    case (Some d)
    with l q have "run_state (IsLoggedIn r secret) (s, w) = (Some d, (s, w1))" by simp
    with q IsLoggedIn_session [OF this assms(1)] show ?thesis by (intro disjI2 exI [of _ d] exI [of _ w1]) simp
  qed
qed

end

interpretation dashboard: login_page "Dashboard_ServeHTTP h" "pg_jwtSecret h" for h
  by unfold_locales (simp add: Dashboard_ServeHTTP_def)

interpretation mobile: login_page "Mobile_ServeHTTP h" "pg_jwtSecret h" for h
  by unfold_locales (simp add: Mobile_ServeHTTP_def)

interpretation cash: login_page "Cash_ServeHTTP h" "pg_jwtSecret h" for h
  by unfold_locales (simp add: Cash_ServeHTTP_def)

interpretation strategy: login_page "Strategy_ServeHTTP h" "pg_jwtSecret h" for h
  by unfold_locales (simp add: Strategy_ServeHTTP_def)

interpretation help_page: login_page "ServeHelpPage h" "pg_jwtSecret h" for h
  by unfold_locales (simp add: ServeHelpPage_def)

interpretation users: login_page "AdminUsers_ServeHTTP h" "pg_jwtSecret h" for h :: "'s AdminUsersHandler"
  by unfold_locales (simp add: AdminUsers_ServeHTTP_def)

interpretation mcp_page: login_page "MCPPage_ServeHTTP h" "pg_jwtSecret h" for h :: "'s MCPPageHandler"
  by unfold_locales (simp add: MCPPage_ServeHTTP_def)

interpretation profile: login_page "HandleProfile h" "pg_jwtSecret h" for h :: "'s ProfileHandler"
  by unfold_locales (simp add: HandleProfile_def)

section \<open>What pages send\<close>

text \<open>
  The requests a page makes for a user: the version of the server, the profile of the user, and data
  under the id of the user.
\<close>

definition own_request :: "string \<Rightarrow> string \<Rightarrow> http_request \<Rightarrow> bool" where
  "own_request base sub rq \<longleftrightarrow>
     ro_url rq = base @ ''/api/version'' \<or> ro_url rq = base @ ''/api/users/'' @ sub
     \<or> hdr_Get (ro_header rq) ''X-Vire-User-Id'' = sub"

lemma keeps_sends_reply [inv_intros]:
  "keeps (sends P n) (read_reply res)" "keeps (sends P n) (parse_reply conv body)"
  unfolding read_reply_def parse_reply_def
  by (auto intro!: inv_intros split: http_result.splits option.splits)

lemma keeps_sends_GetUser:
  "(\<And>rq. ro_url rq = base @ ''/api/users/'' @ sub \<Longrightarrow> P rq) \<Longrightarrow> keeps (sends P n) (GetUser base sub)"
  unfolding GetUser_def by (intro inv_intros) auto

lemma keeps_sends_version:
  "(\<And>rq. ro_url rq = base @ ''/api/version'' \<Longrightarrow> P rq) \<Longrightarrow> keeps (sends P n) (GetServerVersion base)"
  unfolding GetServerVersion_def fetchServerVersionFields_def Let_def by (intro inv_intros) auto

lemma keeps_own_ProxyGet: "sub \<noteq> [] \<Longrightarrow> keeps (sends (own_request base sub) n) (ProxyGet base path sub)"
  unfolding ProxyGet_def by (intro inv_intros) (simp add: own_request_def req_Set_def)

lemma keeps_run_jobs: "(\<And>p. keeps P (fn p sub)) \<Longrightarrow> keeps P (run_jobs fn sub jobs)"
  by (induction jobs rule: run_jobs.induct) (auto intro!: inv_intros split: sum.splits)

lemma keeps_portfolio_data:
  assumes "pg_proxyGetFn h = Some fn" "\<And>p. sub \<noteq> [] \<Longrightarrow> keeps P (fn p sub)"
    and "\<And>js. sub \<noteq> [] \<Longrightarrow> keeps P (run fn sub js)"
  shows "keeps P (portfolio_data h sub u jobs run)"
  using assms unfolding portfolio_data_def Let_def
  by (auto intro!: inv_intros split: sum.splits option.splits prod.splits)

lemma keeps_fetch_parallel: "(\<And>p. keeps (sends Q n) (fn p sub)) \<Longrightarrow> keeps (sends Q n) (fetch_parallel fn sub jobs)"
  unfolding fetch_parallel_def by (intro inv_intros keeps_run_jobs)

lemma keeps_own_lookup: "pg_userLookupFn h = Some (GetUser base) \<Longrightarrow> keeps (sends (own_request base (jc_sub c)) n) (lookup_user h (Some c))"
  unfolding lookup_user_def by (auto intro!: inv_intros keeps_sends_GetUser simp: own_request_def)

lemma keeps_own_finish: "pg_apiURL h = base \<Longrightarrow> keeps (sends (own_request base sub) n) (finish_page h w body)"
  unfolding finish_page_def by (auto intro!: inv_intros keeps_sends_version simp: own_request_def)

lemma keeps_own_portfolio:
  "pg_proxyGetFn h = Some (ProxyGet base) \<Longrightarrow> keeps (sends (own_request base sub) n) (portfolio_data h sub u jobs fetch_parallel)"
  "pg_proxyGetFn h = Some (ProxyGet base) \<Longrightarrow> keeps (sends (own_request base sub) n) (portfolio_data h sub u jobs run_jobs)"
  by (erule keeps_portfolio_data; intro keeps_own_ProxyGet keeps_fetch_parallel keeps_run_jobs; assumption)+

text \<open>
  The contract of the pages that show the data of a user: what they send after the session is
  checked concerns the user of the session.
\<close>

locale own_page = login_page page secret for page :: "'s handler" and secret :: string +
  fixes base :: string
  assumes own: "run_state (IsLoggedIn r secret) (s, w) = (Some c, (s1, w1))
    \<Longrightarrow> run_state (page wr r) (s, w) = (res, (s', w'))
    \<Longrightarrow> list_all (own_request base (jc_sub c)) (drop (length (sent w1)) (sent w'))"
begin

lemma own_data:
  assumes "secret \<noteq> []" "run_state (page wr r) (s, w) = (res, (s', w'))"
  shows "(res = Returned (http_Redirect r ''/'' 302 wr) \<and> s' = s \<and> sent w' = sent w)
    \<or> (\<exists>c. session_of secret r c \<and> list_all (own_request base (jc_sub c)) (drop (length (sent w)) (sent w')))"
  using guarded [OF assms]
proof (elim disjE exE conjE)
  fix c w1
  assume "session_of secret r c" "sent w1 = sent w" "run_state (IsLoggedIn r secret) (s, w) = (Some c, (s, w1))"
  with own [OF this(3) assms(2)] show ?thesis by (intro disjI2 exI [of _ c]) simp
qed simp

end

lemma page_own:
  assumes "m = State_Monad.bind (IsLoggedIn r secret) f" "\<And>n. keeps (sends P n) (f (Some c))"
    and "run_state (IsLoggedIn r secret) (s, w) = (Some c, (s1, w1))" "run_state m (s, w) = (res, (s', w'))"
  shows "list_all P (drop (length (sent w1)) (sent w'))"
  using sendsD [OF assms(2)] assms(1,3,4) by simp

end
