(* ===== verification/MCP_Proxy.thy ===== *)
theory MCP_Proxy
  imports Portal_Config
begin

text \<open>
  The proxy that turns MCP tool calls into requests to vire-server (src/internal/mcp/proxy.go) and
  the user of a request (src/internal/mcp/context.go), an optional user id. The readings of the
  clock around a request only feed the log.
\<close>

section \<open>State\<close>

record MCPProxy =
  px_serverURL :: string
  px_userHeaders :: "(string \<times> string) list"

definition maxResponseSize :: nat where
  "maxResponseSize = 50 * 2 ^ 20"

definition NewMCPProxy :: "string \<Rightarrow> Config \<Rightarrow> build_info \<Rightarrow> MCPProxy" where
  "NewMCPProxy serverURL cfg bi =
     (let h = [];
          h = (if uc_Portfolios (cf_User cfg) \<noteq> [] then hdr_Set h ''X-Vire-Portfolios'' (Join (uc_Portfolios (cf_User cfg)) '','') else h);
          h = (if uc_DisplayCurrency (cf_User cfg) \<noteq> [] then hdr_Set h ''X-Vire-Display-Currency'' (uc_DisplayCurrency (cf_User cfg)) else h);
          h = hdr_Set h ''X-Vire-Portal-Version'' (bi_version bi);
          h = hdr_Set h ''X-Vire-Portal-Build'' (bi_build bi);
          h = hdr_Set h ''X-Vire-Portal-Commit'' (bi_commit bi)
      in \<lparr>px_serverURL = serverURL, px_userHeaders = h\<rparr>)"

definition UserHeaders :: "MCPProxy \<Rightarrow> (string \<times> string) list" where
  "UserHeaders p = px_userHeaders p"

definition ServerURL :: "MCPProxy \<Rightarrow> string" where
  "ServerURL p = px_serverURL p"

section \<open>Requests\<close>

text \<open>A replacer of single characters by nothing.\<close>

definition sanitizeHeaderValue :: "string \<Rightarrow> string" where
  "sanitizeHeaderValue s = filter (\<lambda>c. c \<noteq> CHR 0x0D \<and> c \<noteq> CHR 0x0A) s"

definition applyUserHeaders :: "MCPProxy \<Rightarrow> string option \<Rightarrow> http_request \<Rightarrow> http_request" where
  "applyUserHeaders p user rq =
     (let rq = fold (\<lambda>(k, v) rq. req_Set rq k v) (px_userHeaders p) rq
      in case user of
           None \<Rightarrow> rq
         | Some u \<Rightarrow> if u \<noteq> [] then req_Set rq ''X-Vire-User-Id'' (sanitizeHeaderValue u) else rq)"

definition error_of_json :: "json \<Rightarrow> string option" where
  "error_of_json v = do { kvs \<leftarrow> json_members v; json_field json_as_string [] [''error''] ''error'' kvs }"

definition parseErrorResponse :: "nat \<Rightarrow> string \<Rightarrow> error" where
  "parseErrorResponse statusCode body =
     (case Option.bind (json_Unmarshal body) error_of_json of
        Some e \<Rightarrow> if e \<noteq> [] then e else ''server returned '' @ show_nat statusCode @ '': '' @ body
      | None \<Rightarrow> ''server returned '' @ show_nat statusCode @ '': '' @ body)"

text \<open>Sending a request and reading its answer, common to the three ways of asking.\<close>

definition proxy_Do :: "http_request \<Rightarrow> ('s, error + string) io" where
  "proxy_Do rq =
     do { start \<leftarrow> time_Now;
          res \<leftarrow> client_Do rq;
          stop \<leftarrow> time_Now;
          case res of
            NetErr e \<Rightarrow> ret (Inl (''server request failed: '' @ e))
          | HttpResp status _ raw broken \<Rightarrow>
              (case LimitRead maxResponseSize raw broken of
                 None \<Rightarrow> do { e \<leftarrow> error_for ''body''; ret (Inl (''failed to read response: '' @ e)) }
               | Some body \<Rightarrow>
                   if status \<ge> 400 then ret (Inl (parseErrorResponse status body)) else ret (Inr body)) }"

definition proxy_get :: "MCPProxy \<Rightarrow> string option \<Rightarrow> string \<Rightarrow> ('s, error + string) io" where
  "proxy_get p user path =
     do { rq \<leftarrow> NewRequest ''GET'' (px_serverURL p @ path) [];
          case rq of Inl e \<Rightarrow> ret (Inl e) | Inr rq \<Rightarrow> proxy_Do (applyUserHeaders p user rq) }"

definition proxy_del :: "MCPProxy \<Rightarrow> string option \<Rightarrow> string \<Rightarrow> ('s, error + string) io" where
  "proxy_del p user path =
     do { rq \<leftarrow> NewRequest ''DELETE'' (px_serverURL p @ path) [];
          case rq of
            Inl e \<Rightarrow> ret (Inl e)
          | Inr rq \<Rightarrow> proxy_Do (applyUserHeaders p user (req_Set rq ''Content-Type'' ''application/json'')) }"

definition doJSON :: "MCPProxy \<Rightarrow> string option \<Rightarrow> string \<Rightarrow> string \<Rightarrow> json option \<Rightarrow> ('s, error + string) io" where
  "doJSON p user method path data =
     do { rq \<leftarrow> NewRequest method (px_serverURL p @ path) (case data of None \<Rightarrow> [] | Some v \<Rightarrow> json_encode v);
          case rq of
            Inl e \<Rightarrow> ret (Inl e)
          | Inr rq \<Rightarrow> proxy_Do (applyUserHeaders p user (req_Set rq ''Content-Type'' ''application/json'')) }"

definition proxy_post :: "MCPProxy \<Rightarrow> string option \<Rightarrow> string \<Rightarrow> json option \<Rightarrow> ('s, error + string) io" where
  "proxy_post p user path data = doJSON p user ''POST'' path data"

definition proxy_put :: "MCPProxy \<Rightarrow> string option \<Rightarrow> string \<Rightarrow> json option \<Rightarrow> ('s, error + string) io" where
  "proxy_put p user path data = doJSON p user ''PUT'' path data"

definition proxy_patch :: "MCPProxy \<Rightarrow> string option \<Rightarrow> string \<Rightarrow> json option \<Rightarrow> ('s, error + string) io" where
  "proxy_patch p user path data = doJSON p user ''PATCH'' path data"

section \<open>Lemmas\<close>

lemma keeps_proxy_Do [inv_intros]: "keeps (st_inv I) (proxy_Do rq)" "keeps (env_inv w0) (proxy_Do rq)"
  unfolding proxy_Do_def by (intro inv_intros)+

lemma keeps_proxy [inv_intros]:
  "keeps (st_inv I) (proxy_get p u x)" "keeps (env_inv w0) (proxy_get p u x)"
  "keeps (st_inv I) (proxy_del p u x)" "keeps (env_inv w0) (proxy_del p u x)"
  "keeps (st_inv I) (doJSON p u m x d)" "keeps (env_inv w0) (doJSON p u m x d)"
  unfolding proxy_get_def proxy_del_def doJSON_def by (intro inv_intros)+

lemma run_proxy_Do:
  "run_state (proxy_Do rq) (s, w) =
     ((case peer w (length (sent w)) rq of
         NetErr e \<Rightarrow> Inl (''server request failed: '' @ e)
       | HttpResp st h raw broken \<Rightarrow>
           (case LimitRead maxResponseSize raw broken of
              None \<Rightarrow> Inl (''failed to read response: '' @ err_text w ''body'')
            | Some body \<Rightarrow> if st \<ge> 400 then Inl (parseErrorResponse st body) else Inr body)),
      (s, w\<lparr>ticks := Suc (Suc (ticks w)), sent := sent w @ [rq]\<rparr>))"
  by (auto simp: proxy_Do_def client_Do_def error_for_def split: http_result.split option.split)

text \<open>No header value set from a user id contains a line break.\<close>

lemma sanitizeHeaderValue_clean: "CHR 0x0D \<notin> set (sanitizeHeaderValue s) \<and> CHR 0x0A \<notin> set (sanitizeHeaderValue s)"
  by (simp add: sanitizeHeaderValue_def)

lemma hdr_req_Set [simp]: "hdr_Get (ro_header (req_Set rq k v)) k' = (if k' = k then v else hdr_Get (ro_header rq) k')"
  by (simp add: req_Set_def)

lemma applyUserHeaders_user:
  "u \<noteq> [] \<Longrightarrow> hdr_Get (ro_header (applyUserHeaders p (Some u) rq)) ''X-Vire-User-Id'' = sanitizeHeaderValue u"
  by (simp add: applyUserHeaders_def Let_def)

lemma keeps_sends_Do [inv_intros]: "P rq \<Longrightarrow> keeps (sends P n) (proxy_Do rq)"
  unfolding proxy_Do_def by (intro inv_intros)

text \<open>A request to the API of vire-server in the name of a user.\<close>

definition api_call :: "MCPProxy \<Rightarrow> string \<Rightarrow> http_request \<Rightarrow> bool" where
  "api_call p u rq \<longleftrightarrow>
     HasPrefix (ro_url rq) (px_serverURL p @ ''/api/'') \<and> hdr_Get (ro_header rq) ''X-Vire-User-Id'' = sanitizeHeaderValue u"

lemma applyUserHeaders_url [simp]: "ro_url (applyUserHeaders p user rq) = ro_url rq"
proof -
  have "ro_url (fold (\<lambda>(k, v) rq. req_Set rq k v) hs r) = ro_url r" for hs r
    by (induction hs arbitrary: r) (auto simp: req_Set_def)
  then show ?thesis by (simp add: applyUserHeaders_def Let_def req_Set_def split: option.split)
qed

lemma HasPrefix_same: "HasPrefix (a @ b) (a @ c) \<longleftrightarrow> HasPrefix b c"
  by (simp add: HasPrefix_def)

lemma api_path:
  "HasPrefix path ''/api/'' \<Longrightarrow> u \<noteq> [] \<Longrightarrow> ro_url rq = px_serverURL p @ path \<Longrightarrow> api_call p u (applyUserHeaders p (Some u) rq)"
  by (simp add: api_call_def applyUserHeaders_user HasPrefix_same)

lemma keeps_api_calls:
  assumes "HasPrefix path ''/api/''" "u \<noteq> []"
  shows "keeps (sends (api_call p u) n) (proxy_get p (Some u) path)"
    "keeps (sends (api_call p u) n) (proxy_del p (Some u) path)"
    "keeps (sends (api_call p u) n) (doJSON p (Some u) m path d)"
  unfolding proxy_get_def proxy_del_def doJSON_def
  by (rule keeps_bind_res, intro inv_intros, intro inv_intros api_path [OF assms],
      auto dest: NewRequest_url simp: req_Set_def)+

end
