(* ===== verification/MCP_Catalog.thy ===== *)
theory MCP_Catalog
  imports MCP_Proxy
begin

text \<open>
  The tool catalog of the MCP endpoint (src/internal/mcp/catalog.go, tools.go, handlers.go,
  version.go): fetching and validating it, building the tools, and executing a tool call. Values of
  mcp-go are described by what the portal passes to and reads from the library: a tool by the
  options given to \<open>NewTool\<close>, a call by its arguments, a result by its text and error flag.
\<close>

section \<open>Values\<close>

text \<open>
  The dynamic values of arguments. A float64 is given by the two texts fmt and encoding/json
  print for it.
\<close>

datatype goval = GNil | GStr string | GBool bool | GNum (fmt_text: string) (json_text: string)
  | GList "goval list" | GMap "(string \<times> goval) list"

text \<open>fmt.Sprint of one value; a map prints its keys in order.\<close>

fun Sprint :: "goval \<Rightarrow> string" where
  "Sprint GNil = ''<nil>''"
| "Sprint (GStr s) = s"
| "Sprint (GBool b) = (if b then ''true'' else ''false'')"
| "Sprint (GNum t _) = t"
| "Sprint (GList vs) = ''['' @ Join (map Sprint vs) '' '' @ '']''"
| "Sprint (GMap kvs) = ''map['' @ Join (map snd (sort_key fst (map (\<lambda>(k, v). (k, k @ '':'' @ Sprint v)) kvs))) '' '' @ '']''"

fun goval_json :: "goval \<Rightarrow> json" where
  "goval_json GNil = JNull"
| "goval_json (GStr s) = JStr s"
| "goval_json (GBool b) = JBool b"
| "goval_json (GNum _ j) = JNum j"
| "goval_json (GList vs) = JArr (map goval_json vs)"
| "goval_json (GMap kvs) = JObj (sort_key fst (map (\<lambda>(k, v). (k, goval_json v)) kvs))"

text \<open>
  A tool call as mcp-go presents it: the arguments and what \<open>GetString\<close> answers for a name and a
  default.
\<close>

record CallToolRequest =
  GetArguments :: "goval gomap"
  GetString :: "string \<Rightarrow> string \<Rightarrow> string"

datatype CallToolResult = ToolResult (tr_text: string) (tr_isError: bool)

definition errorResult :: "string \<Rightarrow> CallToolResult" where
  "errorResult message = ToolResult message True"

section \<open>The catalog\<close>

record CatalogParam =
  cp_name :: string
  cp_type :: string
  cp_description :: string
  cp_required :: bool
  cp_in :: string
  cp_default_from :: string

record CatalogTool =
  ct_name :: string
  ct_description :: string
  ct_method :: string
  ct_path :: string
  ct_params :: "CatalogParam list"

definition maxCatalogSize :: nat where
  "maxCatalogSize = 2 ^ 20"

definition allowedMethods :: "string list" where
  "allowedMethods = [''GET'', ''POST'', ''PUT'', ''PATCH'', ''DELETE'']"

definition param_of_json :: "json \<Rightarrow> CatalogParam option" where
  "param_of_json v =
     do { kvs \<leftarrow> json_members v;
          let fs = [''name'', ''type'', ''description'', ''required'', ''in'', ''default_from''];
          n \<leftarrow> json_field json_as_string [] fs ''name'' kvs;
          t \<leftarrow> json_field json_as_string [] fs ''type'' kvs;
          d \<leftarrow> json_field json_as_string [] fs ''description'' kvs;
          r \<leftarrow> json_field json_as_bool False fs ''required'' kvs;
          i \<leftarrow> json_field json_as_string [] fs ''in'' kvs;
          f \<leftarrow> json_field json_as_string [] fs ''default_from'' kvs;
          Some \<lparr>cp_name = n, cp_type = t, cp_description = d, cp_required = r, cp_in = i, cp_default_from = f\<rparr> }"

definition tool_of_json :: "json \<Rightarrow> CatalogTool option" where
  "tool_of_json v =
     do { kvs \<leftarrow> json_members v;
          let fs = [''name'', ''description'', ''method'', ''path'', ''params''];
          n \<leftarrow> json_field json_as_string [] fs ''name'' kvs;
          d \<leftarrow> json_field json_as_string [] fs ''description'' kvs;
          m \<leftarrow> json_field json_as_string [] fs ''method'' kvs;
          p \<leftarrow> json_field json_as_string [] fs ''path'' kvs;
          ps \<leftarrow> json_field (json_as_list param_of_json) [] fs ''params'' kvs;
          Some \<lparr>ct_name = n, ct_description = d, ct_method = m, ct_path = p, ct_params = ps\<rparr> }"

fun catalog_of_json :: "json \<Rightarrow> CatalogTool list option" where
  "catalog_of_json JNull = Some []"
| "catalog_of_json v = json_as_list tool_of_json v"

definition FetchCatalog :: "MCPProxy \<Rightarrow> string option \<Rightarrow> ('s, error + CatalogTool list) io" where
  "FetchCatalog p user =
     do { r \<leftarrow> proxy_get p user ''/api/mcp/tools'';
          case r of
            Inl e \<Rightarrow> ret (Inl e)
          | Inr body \<Rightarrow>
              if length body > maxCatalogSize
              then ret (Inl (''catalog response too large: '' @ show_nat (length body) @ '' bytes (max '' @ show_nat maxCatalogSize @ '')''))
              else (case Option.bind (json_Unmarshal body) catalog_of_json of
                  None \<Rightarrow> do { e \<leftarrow> error_for ''json''; ret (Inl (''failed to parse tool catalog: '' @ e)) }
                | Some tools \<Rightarrow> ret (Inr tools)) }"

text \<open>The reasons for refusing a tool; the code renders them for the log.\<close>

datatype tool_error = EmptyName | EmptyMethod string | UnsupportedMethod string string
  | EmptyPath string | PathNotAPI string string | PathDots string string

definition ValidateCatalogTool :: "CatalogTool \<Rightarrow> tool_error + unit" where
  "ValidateCatalogTool ct =
     (if ct_name ct = [] then Inl EmptyName
      else if ct_method ct = [] then Inl (EmptyMethod (ct_name ct))
      else if ToUpper (ct_method ct) \<notin> set allowedMethods then Inl (UnsupportedMethod (ct_name ct) (ct_method ct))
      else if ct_path ct = [] then Inl (EmptyPath (ct_name ct))
      else if \<not> HasPrefix (ct_path ct) ''/api/'' then Inl (PathNotAPI (ct_name ct) (ct_path ct))
      else if Contains (ct_path ct) ''..'' then Inl (PathDots (ct_name ct) (ct_path ct))
      else Inr ())"

text \<open>The loop, with the names seen so far.\<close>

fun validate_loop :: "string list \<Rightarrow> CatalogTool list \<Rightarrow> CatalogTool list" where
  "validate_loop seen [] = []"
| "validate_loop seen (ct # cts) =
     (case ValidateCatalogTool ct of
        Inl _ \<Rightarrow> validate_loop seen cts
      | Inr _ \<Rightarrow>
          if ct_name ct \<in> set seen then validate_loop seen cts
          else ct # validate_loop (ct_name ct # seen) cts)"

definition ValidateCatalog :: "CatalogTool list \<Rightarrow> CatalogTool list" where
  "ValidateCatalog catalog = validate_loop [] catalog"

section \<open>Tools\<close>

text \<open>The arguments given to \<open>mcp.NewTool\<close>.\<close>

datatype prop_option = PropDescription string | PropRequired | PropStringItems

datatype tool_option = WithDescription string | WithNumber string "prop_option list"
  | WithBoolean string "prop_option list" | WithArray string "prop_option list" | WithString string "prop_option list"

type_synonym mcp_tool = "string \<times> tool_option list"

definition buildParamOption :: "CatalogParam \<Rightarrow> tool_option" where
  "buildParamOption p =
     (let opts = (if cp_description p \<noteq> [] then [PropDescription (cp_description p)] else [])
                 @ (if cp_required p then [PropRequired] else [])
      in if cp_type p = ''number'' then WithNumber (cp_name p) opts
         else if cp_type p = ''boolean'' then WithBoolean (cp_name p) opts
         else if cp_type p = ''array'' then WithArray (cp_name p) (PropStringItems # opts)
         else WithString (cp_name p) opts)"

definition BuildMCPTool :: "CatalogTool \<Rightarrow> mcp_tool" where
  "BuildMCPTool ct =
     (ct_name ct, WithDescription (ct_description ct)
        # map buildParamOption (filter (\<lambda>p. cp_in p = ''path'' \<or> cp_in p = ''query'' \<or> cp_in p = ''body'') (ct_params ct)))"

section \<open>Default values\<close>

definition default_of_json :: "json \<Rightarrow> string option" where
  "default_of_json v = do { kvs \<leftarrow> json_members v; json_field json_as_string [] [''default''] ''default'' kvs }"

text \<open>The text before the first comma.\<close>

definition first_portfolio :: "string \<Rightarrow> string" where
  "first_portfolio s = (case cut_chr (CHR '','') s of None \<Rightarrow> s | Some (a, _) \<Rightarrow> a)"

definition resolveDefaultPortfolio :: "MCPProxy \<Rightarrow> string option \<Rightarrow> ('s, string) io" where
  "resolveDefaultPortfolio p user =
     (let portfolios = hdr_Get (UserHeaders p) ''X-Vire-Portfolios''
      in if portfolios \<noteq> [] then ret (first_portfolio portfolios)
         else do { r \<leftarrow> proxy_get p user ''/api/portfolios/default'';
                   ret (case r of
                          Inl _ \<Rightarrow> []
                        | Inr body \<Rightarrow>
                            (case Option.bind (json_Unmarshal body) default_of_json of None \<Rightarrow> [] | Some d \<Rightarrow> d)) })"

definition resolvePortfolio :: "MCPProxy \<Rightarrow> string option \<Rightarrow> CallToolRequest \<Rightarrow> ('s, string) io" where
  "resolvePortfolio p user rq =
     (let name = GetString rq ''portfolio_name'' []
      in if name \<noteq> [] then ret name
         else let portfolios = hdr_Get (UserHeaders p) ''X-Vire-Portfolios''
              in if portfolios \<noteq> [] then ret (first_portfolio portfolios)
                 else do { r \<leftarrow> proxy_get p user ''/api/portfolios/default'';
                           ret (case r of
                                  Inl _ \<Rightarrow> []
                                | Inr body \<Rightarrow>
                                    (case Option.bind (json_Unmarshal body) default_of_json of None \<Rightarrow> [] | Some d \<Rightarrow> d)) })"

definition resolveDefaultValue :: "MCPProxy \<Rightarrow> string option \<Rightarrow> string \<Rightarrow> ('s, goval) io" where
  "resolveDefaultValue p user defaultFrom =
     (if defaultFrom = ''user_config.default_portfolio''
      then do { d \<leftarrow> resolveDefaultPortfolio p user; ret (GStr d) } else ret GNil)"

definition resolveParamValue :: "MCPProxy \<Rightarrow> string option \<Rightarrow> CallToolRequest \<Rightarrow> CatalogParam \<Rightarrow> ('s, goval) io" where
  "resolveParamValue p user rq param =
     (let given = (if cp_type param \<in> set [''number'', ''boolean'', ''array'', ''object''] then map_of (GetArguments rq) (cp_name param)
                   else let val = GetString rq (cp_name param) [] in if val \<noteq> [] then Some (GStr val) else None)
      in case given of
           Some v \<Rightarrow> ret v
         | None \<Rightarrow> if cp_default_from param \<noteq> [] then resolveDefaultValue p user (cp_default_from param) else ret GNil)"

section \<open>Executing a call\<close>

definition bodyOrNil :: "goval gomap \<Rightarrow> json option" where
  "bodyOrNil body = (if body = [] then None else Some (goval_json (GMap body)))"

text \<open>The loop over the parameters; the error is the early return for a missing path parameter.\<close>

fun bind_params ::
  "MCPProxy \<Rightarrow> string option \<Rightarrow> CallToolRequest \<Rightarrow> CatalogParam list \<Rightarrow> string \<times> url_values \<times> goval gomap
     \<Rightarrow> ('s, CallToolResult + string \<times> url_values \<times> goval gomap) io" where
  "bind_params p user rq [] acc = ret (Inr acc)"
| "bind_params p user rq (param # params) (path, query, body) =
     do { val \<leftarrow> resolveParamValue p user rq param;
          if cp_in param = ''path'' then
            (if val = GNil \<or> Sprint val = [] then
               (if cp_required param then ret (Inl (errorResult (''Error: '' @ cp_name param @ '' parameter is required'')))
                else bind_params p user rq params (path, query, body))
             else bind_params p user rq params
                    (ReplaceAll path (''{'' @ cp_name param @ ''}'') (PathEscape (Sprint val)), query, body))
          else if cp_in param = ''query'' then
            bind_params p user rq params
              (path, if val \<noteq> GNil \<and> Sprint val \<noteq> [] then Values_Set query (cp_name param) (Sprint val) else query, body)
          else if cp_in param = ''body'' then
            bind_params p user rq params (path, query, if val \<noteq> GNil then AList.update (cp_name param) val body else body)
          else bind_params p user rq params (path, query, body) }"

definition GenericToolHandler :: "MCPProxy \<Rightarrow> CatalogTool \<Rightarrow> string option \<Rightarrow> CallToolRequest \<Rightarrow> ('s, CallToolResult) io" where
  "GenericToolHandler p ct user rq =
     do { bound \<leftarrow> bind_params p user rq (ct_params ct) (ct_path ct, [], []);
          case bound of
            Inl e \<Rightarrow> ret e
          | Inr (path, query, body) \<Rightarrow>
              let path = (if query \<noteq> [] then path @ ''?'' @ Values_Encode query else path);
                  meth = ToUpper (ct_method ct)
              in if meth \<notin> set allowedMethods then ret (errorResult (''Error: unsupported method '' @ ct_method ct))
                 else do { r \<leftarrow> (if meth = ''GET'' then proxy_get p user path
                                 else if meth = ''POST'' then proxy_post p user path (bodyOrNil body)
                                 else if meth = ''PUT'' then proxy_put p user path (bodyOrNil body)
                                 else if meth = ''PATCH'' then proxy_patch p user path (bodyOrNil body)
                                 else proxy_del p user path);
                           ret (case r of Inl e \<Rightarrow> errorResult (''Error: '' @ e) | Inr b \<Rightarrow> ToolResult b False) } }"

section \<open>The version tool\<close>

definition VersionTool :: mcp_tool where
  "VersionTool = (''get_version'', [WithDescription ''Get Vire MCP server version and status. Use this to verify connectivity.''])"

definition versionInfo_json :: "string \<Rightarrow> string \<Rightarrow> string \<Rightarrow> json" where
  "versionInfo_json version build commit =
     JObj [(''version'', JStr version), (''build'', JStr build), (''commit'', JStr commit)]"

definition VersionToolHandler :: "build_info \<Rightarrow> MCPProxy \<Rightarrow> string option \<Rightarrow> ('s, CallToolResult) io" where
  "VersionToolHandler bi p user =
     do { r \<leftarrow> proxy_get p user ''/api/version'';
          let portal = (''vire_portal'', versionInfo_json (bi_version bi) (bi_build bi) (bi_commit bi));
          ret (case r of
                 Inl _ \<Rightarrow> ToolResult (json_encode (JObj [portal])) False
               | Inr body \<Rightarrow>
                   (case Option.bind (json_Unmarshal body) string_map_of_json of
                      None \<Rightarrow> ToolResult (json_encode (JObj [portal])) False
                    | Some m \<Rightarrow>
                        ToolResult (json_encode (JObj [portal, (''vire_server'',
                          versionInfo_json (map_index m ''version'') (map_index m ''build'') (map_index m ''git_commit''))])) False)) }"

section \<open>Lemmas\<close>

abbreviation valid_tool :: "CatalogTool \<Rightarrow> bool" where
  "valid_tool ct \<equiv> ValidateCatalogTool ct = Inr ()"

lemma valid_tool_iff:
  "valid_tool ct \<longleftrightarrow> ct_name ct \<noteq> [] \<and> ToUpper (ct_method ct) \<in> set allowedMethods \<and> ct_method ct \<noteq> []
     \<and> HasPrefix (ct_path ct) ''/api/'' \<and> \<not> Contains (ct_path ct) ''..'' \<and> ct_path ct \<noteq> []"
  by (auto simp: ValidateCatalogTool_def)

lemma valid_tool_cases: "(case ValidateCatalogTool ct of Inl _ \<Rightarrow> a | Inr _ \<Rightarrow> b) = (if valid_tool ct then b else a)"
  by (auto split: sum.split)

lemma validate_loop_sub: "subseq (validate_loop seen cts) cts"
  by (induction cts arbitrary: seen) (auto simp: valid_tool_cases intro: list_emb_Cons)

lemma validate_loop_valid: "ct \<in> set (validate_loop seen cts) \<Longrightarrow> valid_tool ct \<and> ct_name ct \<notin> set seen"
  by (induction cts arbitrary: seen) (fastforce simp: valid_tool_cases split: if_splits)+

lemma validate_loop_distinct: "distinct (map ct_name (validate_loop seen cts))"
  by (induction cts arbitrary: seen)
     (auto simp: valid_tool_cases split: if_splits dest!: validate_loop_valid)

lemma validate_loop_first:
  "n \<notin> set seen \<Longrightarrow>
     List.find (\<lambda>ct. ct_name ct = n) (validate_loop seen cts) = List.find (\<lambda>ct. valid_tool ct \<and> ct_name ct = n) cts"
  by (induction cts arbitrary: seen) (auto simp: valid_tool_cases)

lemma validate_loop_fix:
  "\<forall>ct\<in>set cts. valid_tool ct \<and> ct_name ct \<notin> set seen \<Longrightarrow> distinct (map ct_name cts) \<Longrightarrow> validate_loop seen cts = cts"
proof (induction cts arbitrary: seen)
  case (Cons ct cts)
  then have "\<forall>c\<in>set cts. valid_tool c \<and> ct_name c \<notin> set (ct_name ct # seen)"
    by (auto simp: image_iff)
  with Cons show ?case by simp
qed simp

lemma ValidateCatalog_fix: "ValidateCatalog (ValidateCatalog cat) = ValidateCatalog cat"
  unfolding ValidateCatalog_def
  by (rule validate_loop_fix) (auto dest: validate_loop_valid simp: validate_loop_distinct)

lemma ReplaceAll_prefix:
  "CHR ''{'' \<notin> set pre \<Longrightarrow> HasPrefix s pre \<Longrightarrow> HasPrefix (ReplaceAll s (CHR ''{'' # old) new) pre"
proof (induction pre arbitrary: s)
  case (Cons c pre)
  then obtain s' where s: "s = c # s'" "HasPrefix s' pre"
    by (cases s) (auto simp: HasPrefix_def)
  have "ReplaceAll s (CHR ''{'' # old) new = c # ReplaceAll s' (CHR ''{'' # old) new"
    using Cons.prems s by (subst ReplaceAll.simps) (auto simp: HasPrefix_def)
  with Cons.IH [of s'] Cons.prems s show ?case by (simp add: HasPrefix_def)
qed (simp add: HasPrefix_def)

lemma bind_params_prefix:
  "run_state (bind_params p user rq params (path, q, b)) \<sigma> = (Inr (path', q', b'), \<sigma>') \<Longrightarrow>
     HasPrefix path ''/api/'' \<Longrightarrow> HasPrefix path' ''/api/''"
proof (induction params arbitrary: path q b \<sigma>)
  case (Cons param params)
  from Cons.prems(1) show ?case
    by (auto split: prod.splits if_splits intro: Cons.IH [OF _ Cons.prems(2)] Cons.IH [OF _ ReplaceAll_prefix [OF _ Cons.prems(2)]])
qed simp

lemma keeps_resolve:
  assumes "u \<noteq> []"
  shows "keeps (sends (api_call p u) n) (resolveParamValue p (Some u) rq param)"
  unfolding resolveParamValue_def resolveDefaultValue_def resolveDefaultPortfolio_def Let_def
  by (intro inv_intros keeps_api_calls [OF _ assms]) (simp add: HasPrefix_def)+

lemma keeps_bind_params:
  "u \<noteq> [] \<Longrightarrow> keeps (sends (api_call p u) n) (bind_params p (Some u) rq params acc)"
  by (induction params arbitrary: acc)
     (auto simp: split_paired_all intro!: inv_intros keeps_resolve)

lemma keeps_generic_tool:
  assumes "u \<noteq> []" "valid_tool ct"
  shows "keeps (sends (api_call p u) n) (GenericToolHandler p ct (Some u) rq)"
  unfolding GenericToolHandler_def
proof (rule keeps_bind_res [OF keeps_bind_params [OF assms(1)]])
  fix \<sigma> a \<sigma>'
  assume run: "run_state (bind_params p (Some u) rq (ct_params ct) (ct_path ct, [], [])) \<sigma> = (a, \<sigma>')"
  have ok: "HasPrefix (ct_path ct) ''/api/''" using assms by (simp add: valid_tool_iff)
  have ext: "HasPrefix x ''/api/'' \<Longrightarrow> HasPrefix (x @ y) ''/api/''" for x y :: string
    by (auto simp: HasPrefix_def take_append dest: arg_cong [where f = length])
  show "keeps (sends (api_call p u) n) (case a of Inl e \<Rightarrow> ret e
    | Inr (path, query, body) \<Rightarrow>
       let path = (if query \<noteq> [] then path @ ''?'' @ Values_Encode query else path); meth = ToUpper (ct_method ct)
       in if meth \<notin> set allowedMethods then ret (errorResult (''Error: unsupported method '' @ ct_method ct))
          else do { r \<leftarrow> (if meth = ''GET'' then proxy_get p (Some u) path
                          else if meth = ''POST'' then proxy_post p (Some u) path (bodyOrNil body)
                          else if meth = ''PUT'' then proxy_put p (Some u) path (bodyOrNil body)
                          else if meth = ''PATCH'' then proxy_patch p (Some u) path (bodyOrNil body)
                          else proxy_del p (Some u) path);
                    ret (case r of Inl e \<Rightarrow> errorResult (''Error: '' @ e) | Inr b \<Rightarrow> ToolResult b False) })"
  proof (cases a)
    case (Inr t)
    obtain path q b where t: "t = (path, q, b)" by (cases t)
    have "HasPrefix path ''/api/''" using bind_params_prefix run ok Inr t by blast
    then show ?thesis unfolding Inr t Let_def proxy_post_def proxy_put_def proxy_patch_def
      by (auto intro!: inv_intros keeps_api_calls assms(1) ext)
  qed simp
qed

section \<open>Properties\<close>

text \<open>
  C22: ValidateCatalog selects exactly one tool per name. The result is a sublist of the catalog in
  its order, has no two tools of one name, offers under each name the first acceptable entry of the
  catalog with that name (and nothing when there is none), and validating it again changes nothing.
\<close>
theorem catalog_validated_exactly:
  "subseq (ValidateCatalog cat) cat \<and> distinct (map ct_name (ValidateCatalog cat))
   \<and> List.find (\<lambda>ct. ct_name ct = n) (ValidateCatalog cat) = List.find (\<lambda>ct. valid_tool ct \<and> ct_name ct = n) cat
   \<and> list_all valid_tool (ValidateCatalog cat) \<and> ValidateCatalog (ValidateCatalog cat) = ValidateCatalog cat"
  by (simp add: ValidateCatalog_fix)
     (auto simp: ValidateCatalog_def validate_loop_sub validate_loop_distinct validate_loop_first list_all_iff
           dest: validate_loop_valid)


text \<open>A tool with two path parameters and a call of it.\<close>

definition sample_param :: "string \<Rightarrow> CatalogParam" where
  "sample_param n = \<lparr>cp_name = n, cp_type = ''string'', cp_description = [], cp_required = True, cp_in = ''path'', cp_default_from = []\<rparr>"

definition sample_tool :: CatalogTool where
  "sample_tool = \<lparr>ct_name = ''t'', ct_description = [], ct_method = ''get'', ct_path = ''/api/{a}/{b}'',
     ct_params = [sample_param ''a'', sample_param ''b'']\<rparr>"

definition sample_call :: "(string \<times> string) list \<Rightarrow> CallToolRequest" where
  "sample_call args = \<lparr>GetArguments = map (\<lambda>(k, v). (k, GStr v)) args,
     GetString = (\<lambda>k d. case map_of args k of None \<Rightarrow> d | Some v \<Rightarrow> v)\<rparr>"

definition sample_proxy :: MCPProxy where
  "sample_proxy = NewMCPProxy ''http://api'' NewDefaultConfig \<lparr>bi_version = ''1'', bi_build = ''2'', bi_commit = ''3''\<rparr>"

lemma sample_tool_valid: "valid_tool sample_tool"
  by code_simp



end
