(* ===== verification/MCP_Handler.thy ===== *)
theory MCP_Handler
  imports MCP_Catalog JWT_Auth Middleware
begin

text \<open>
  The MCP endpoint (src/internal/mcp/handler.go, tools.go, get_page.go): start-up with retries,
  the refresh of the catalog, the watcher of the server's version, and the authentication in front
  of the MCP server of mcp-go. That server is a parameter: \<open>AddTool\<close> and \<open>SetTools\<close> as functions on
  its state, and its HTTP handler. A registered tool is its definition with the closure that serves
  it.
\<close>

section \<open>Tools\<close>

datatype tool_handler = GenericTool MCPProxy CatalogTool | CombinedVersion MCPProxy | GetPage string string

type_synonym server_tool = "mcp_tool \<times> tool_handler"

definition allowedPages :: "string gomap" where
  "allowedPages = map (\<lambda>p. (p, CHR ''/'' # p))
     [''dashboard'', ''strategy'', ''cash'', ''glossary'', ''changelog'', ''help'', ''mcp-info'', ''profile'', ''docs'']"

definition maxPageResponseSize :: nat where
  "maxPageResponseSize = 5 * 2 ^ 20"

definition GetPageTool :: mcp_tool where
  "GetPageTool = (''portal_get_page'',
     [WithDescription (''Fetch a rendered portal page as HTML. Returns the full HTML of the requested page as seen by the authenticated user. ''
        @ ''Use this to review page layout, content accuracy, and data rendering without requiring screenshots.''),
      WithString ''page''
        [PropDescription ''Page to fetch. One of: dashboard, strategy, cash, glossary, changelog, help, mcp-info, profile, docs'',
         PropRequired]])"

text \<open>Request.AddCookie on a request without cookies: invalid bytes go, blanks and commas are quoted.\<close>

definition sanitizeCookieValue :: "string \<Rightarrow> string" where
  "sanitizeCookieValue v =
     (let v = filter (\<lambda>c. 0x20 \<le> (of_char c :: nat) \<and> of_char c < (0x7f :: nat) \<and> c \<notin> {CHR 0x22, CHR '';'', CHR 0x5C}) v
      in if CHR '' '' \<in> set v \<or> CHR '','' \<in> set v then CHR 0x22 # v @ [CHR 0x22] else v)"

definition req_AddCookie :: "http_request \<Rightarrow> string \<Rightarrow> string \<Rightarrow> http_request" where
  "req_AddCookie rq name v = req_Set rq ''Cookie'' (name @ ''='' @ sanitizeCookieValue v)"

text \<open>The verb \<^verbatim>\<open>%q\<close> quotes the page name; the quoted form is taken from the environment.\<close>

definition GetPageToolHandler :: "string \<Rightarrow> string \<Rightarrow> string option \<Rightarrow> CallToolRequest \<Rightarrow> ('s, CallToolResult) io" where
  "GetPageToolHandler portalBaseURL jwtSecret user rq =
     (let page = GetString rq ''page'' []
      in case map_of allowedPages page of
           None \<Rightarrow> do { q \<leftarrow> error_for page;
                        ret (errorResult (''Error: '' @ q @ '' is not a valid page. Choose one of: dashboard, strategy, cash, glossary, changelog, help, mcp-info, profile, docs'')) }
         | Some path \<Rightarrow>
             (case user of
                None \<Rightarrow> ret (errorResult ''Error: authentication required'')
              | Some uid \<Rightarrow>
                  do { t \<leftarrow> mintLoopbackJWT uid jwtSecret;
                       case t of
                         Inl e \<Rightarrow> ret (errorResult (''Error: failed to mint loopback token: '' @ e))
                       | Inr token \<Rightarrow>
                           do { r \<leftarrow> NewRequest ''GET'' (portalBaseURL @ path) [];
                                case r of
                                  Inl e \<Rightarrow> ret (errorResult (''Error: failed to build request: '' @ e))
                                | Inr req \<Rightarrow>
                                    do { resp \<leftarrow> client_Do (req_AddCookie req ''vire_session'' token);
                                         case resp of
                                           NetErr e \<Rightarrow> ret (errorResult (''Error: portal request failed: '' @ e))
                                         | HttpResp status _ raw broken \<Rightarrow>
                                             (case LimitRead maxPageResponseSize raw broken of
                                                None \<Rightarrow> do { e \<leftarrow> error_for ''body''; ret (errorResult (''Error: failed to read response: '' @ e)) }
                                              | Some body \<Rightarrow>
                                                  if status \<noteq> 200
                                                  then ret (errorResult (''Error: portal returned status '' @ show_nat status @ '': '' @ body))
                                                  else ret (ToolResult body False)) } } }))"

definition run_tool :: "build_info \<Rightarrow> tool_handler \<Rightarrow> string option \<Rightarrow> CallToolRequest \<Rightarrow> ('s, CallToolResult) io" where
  "run_tool bi t user rq =
     (case t of
        GenericTool p ct \<Rightarrow> GenericToolHandler p ct user rq
      | CombinedVersion p \<Rightarrow> VersionToolHandler bi p user
      | GetPage base secret \<Rightarrow> GetPageToolHandler base secret user rq)"

section \<open>The handler\<close>

record 'm mcp_lib =
  NewMCPServer :: 'm
  AddTool :: "server_tool \<Rightarrow> 'm \<Rightarrow> 'm"
  SetTools :: "server_tool list \<Rightarrow> 'm \<Rightarrow> 'm"

record 'm Handler =
  hd_catalog :: "CatalogTool list"
  hd_jwtSecret :: string
  hd_portalBaseURL :: string
  hd_mcpSrv :: 'm
  hd_proxy :: MCPProxy
  hd_stopped :: bool

definition generic_tool :: "MCPProxy \<Rightarrow> CatalogTool \<Rightarrow> server_tool" where
  "generic_tool p ct = (BuildMCPTool ct, GenericTool p ct)"

definition RegisterToolsFromCatalog :: "'m mcp_lib \<Rightarrow> 'm \<Rightarrow> MCPProxy \<Rightarrow> CatalogTool list \<Rightarrow> 'm \<times> nat" where
  "RegisterToolsFromCatalog lib s p catalog =
     (fold (\<lambda>ct s. AddTool lib (generic_tool p ct) s) catalog s, length catalog)"

text \<open>The retry loop with the attempts left; without any attempt there is no catalog and no error.\<close>

fun fetch_retry :: "MCPProxy \<Rightarrow> nat \<Rightarrow> ('s, error + CatalogTool list) io" where
  "fetch_retry p 0 = ret (Inr [])"
| "fetch_retry p (Suc n) =
     do { r \<leftarrow> FetchCatalog p None;
          case r of
            Inr catalog \<Rightarrow> ret (Inr catalog)
          | Inl e \<Rightarrow> if n = 0 then ret (Inl e) else fetch_retry p n }"

definition NewHandler :: "'m mcp_lib \<Rightarrow> build_info \<Rightarrow> Config \<Rightarrow> ('s, 'm Handler) io" where
  "NewHandler lib bi cfg =
     do { let proxy = NewMCPProxy (cf_APIURL cfg) cfg bi;
          r \<leftarrow> fetch_retry proxy (nat (cf_CatalogRetries cfg));
          let validated = (case r of Inl _ \<Rightarrow> [] | Inr catalog \<Rightarrow> ValidateCatalog catalog);
          let s = fst (RegisterToolsFromCatalog lib (NewMCPServer lib) proxy validated);
          let s = AddTool lib (VersionTool, CombinedVersion proxy) s;
          let s = AddTool lib (GetPageTool, GetPage (BaseURL cfg) (ac_JWTSecret (cf_Auth cfg))) s;
          ret \<lparr>hd_catalog = validated, hd_jwtSecret = ac_JWTSecret (cf_Auth cfg), hd_portalBaseURL = BaseURL cfg,
               hd_mcpSrv = s, hd_proxy = proxy, hd_stopped = False\<rparr> }"

definition Catalog :: "'m Handler \<Rightarrow> CatalogTool list" where
  "Catalog h = hd_catalog h"

definition local_tools :: "'m Handler \<Rightarrow> server_tool list" where
  "local_tools h = [(VersionTool, CombinedVersion (hd_proxy h)), (GetPageTool, GetPage (hd_portalBaseURL h) (hd_jwtSecret h))]"

definition RefreshCatalog :: "'m mcp_lib \<Rightarrow> ('m Handler, error + nat) io" where
  "RefreshCatalog lib =
     do { h \<leftarrow> get_st (\<lambda>h. h);
          r \<leftarrow> FetchCatalog (hd_proxy h) None;
          case r of
            Inl e \<Rightarrow> ret (Inl (''fetch catalog: '' @ e))
          | Inr catalog \<Rightarrow>
              do { let validated = ValidateCatalog catalog;
                   mod_st (\<lambda>h. h\<lparr>hd_mcpSrv := SetTools lib (map (generic_tool (hd_proxy h)) validated @ local_tools h) (hd_mcpSrv h)\<rparr>);
                   mod_st (\<lambda>h. h\<lparr>hd_catalog := validated\<rparr>);
                   ret (Inr (length validated)) } }"

definition build_of_json :: "json \<Rightarrow> string option" where
  "build_of_json v = do { kvs \<leftarrow> json_members v; json_field json_as_string [] [''build''] ''build'' kvs }"

definition fetchServerBuild :: "('m Handler, string) io" where
  "fetchServerBuild =
     do { p \<leftarrow> get_st hd_proxy;
          r \<leftarrow> proxy_get p None ''/api/version'';
          ret (case r of
                 Inl _ \<Rightarrow> []
               | Inr body \<Rightarrow> (case Option.bind (json_Unmarshal body) build_of_json of None \<Rightarrow> [] | Some b \<Rightarrow> b)) }"

text \<open>The outcome of the refresh is only logged.\<close>

definition triggerRefresh :: "'m mcp_lib \<Rightarrow> ('m Handler, unit) io" where
  "triggerRefresh lib = do { r \<leftarrow> RefreshCatalog lib; ret () }"

text \<open>One tick of the ticker, with the last build seen.\<close>

definition watch_poll :: "'m mcp_lib \<Rightarrow> string \<Rightarrow> ('m Handler, string) io" where
  "watch_poll lib lastBuild =
     do { build \<leftarrow> fetchServerBuild;
          if build = [] then ret lastBuild
          else if lastBuild = [] \<or> build \<noteq> lastBuild then do { triggerRefresh lib; ret build }
          else ret lastBuild }"

definition Handler_Close :: "'m Handler \<Rightarrow> 'm Handler" where
  "Handler_Close h = h\<lparr>hd_stopped := True\<rparr>"

text \<open>
  The watcher beside the rest of the program: it polls when the ticker fires, ends when the stop
  channel is closed, and the channel may be closed at any time; a closed channel does not keep
  \<open>select\<close> from taking a tick that is also ready.
\<close>

datatype 'm watch = Watching "'m Handler" string world | Ended "'m Handler" world

inductive watch_step :: "'m mcp_lib \<Rightarrow> 'm watch \<Rightarrow> 'm watch \<Rightarrow> bool" for lib where
  tick: "run_state (watch_poll lib b) (h, w) = (b', (h', w')) \<Longrightarrow> watch_step lib (Watching h b w) (Watching h' b' w')"
| stop: "hd_stopped h \<Longrightarrow> watch_step lib (Watching h b w) (Ended h w)"
| close: "watch_step lib (Watching h b w) (Watching (Handler_Close h) b w)"
| close_again: "watch_step lib (Ended h w) (Ended (Handler_Close h) w)"

inductive watched :: "'m mcp_lib \<Rightarrow> build_info \<Rightarrow> Config \<Rightarrow> world \<Rightarrow> 'm watch \<Rightarrow> bool" for lib bi cfg w0 where
  start: "run_state (NewHandler lib bi cfg) ((), w0) = (h, (u, w1)) \<Longrightarrow> run_state fetchServerBuild (h, w1) = (b, (h', w2))
            \<Longrightarrow> watched lib bi cfg w0 (Watching h' b w2)"
| step: "watched lib bi cfg w0 x \<Longrightarrow> watch_step lib x y \<Longrightarrow> watched lib bi cfg w0 y"

section \<open>Requests\<close>

definition sanitizeHost :: "string \<Rightarrow> string" where
  "sanitizeHost host = ReplaceAll (ReplaceAll (ReplaceAll host [CHR 0x0D] []) [CHR 0x0A] []) [CHR 0x22] []"

definition bearer_user :: "string \<Rightarrow> request \<Rightarrow> ('s, string) io" where
  "bearer_user jwtSecret r =
     (if HasPrefix (req_Get r ''Authorization'') ''Bearer ''
      then do { c \<leftarrow> validateJWT_mcp (TrimPrefix (req_Get r ''Authorization'') ''Bearer '') jwtSecret;
                ret (case c of Inl _ \<Rightarrow> [] | Inr claims \<Rightarrow> mc_sub claims) }
      else ret [])"

definition withUserContext :: "string \<Rightarrow> request \<Rightarrow> ('s, request) io" where
  "withUserContext jwtSecret r =
     do { u \<leftarrow> bearer_user jwtSecret r;
          if u \<noteq> [] then ret (r\<lparr>rq_user := Some u\<rparr>)
          else (case req_Cookie r ''vire_session'' of
              None \<Rightarrow> ret r
            | Some tok \<Rightarrow>
                if tok = [] then ret r
                else do { c \<leftarrow> validateJWT_mcp tok jwtSecret;
                          let u = (case c of Inl _ \<Rightarrow> [] | Inr claims \<Rightarrow> mc_sub claims);
                          ret (if u \<noteq> [] then r\<lparr>rq_user := Some u\<rparr>
                               else if jwtSecret = [] \<and> extractJWTSub tok \<noteq> [] then r\<lparr>rq_user := Some (extractJWTSub tok)\<rparr>
                               else r) }) }"

text \<open>The refusal, with the pointer to the metadata that starts the OAuth discovery.\<close>

definition unauthorized :: "request \<Rightarrow> response \<Rightarrow> response" where
  "unauthorized r w =
     (let scheme = (if rq_tls r \<or> EqualFold (req_Get r ''X-Forwarded-Proto'') ''https'' then ''https'' else ''http'');
          resourceMetadata = scheme @ ''://'' @ sanitizeHost (rq_host r) @ ''/.well-known/oauth-protected-resource'';
          w = Header_Set ''Www-Authenticate'' (''Bearer resource_metadata='' @ [CHR 0x22] @ resourceMetadata @ [CHR 0x22]) w;
          w = Header_Set ''Content-Type'' ''application/json'' w;
          w = WriteHeader 401 w
      in Encode_json (JObj [(''error'', JStr ''unauthorized''),
           (''error_description'', JStr ''Authentication required to access MCP endpoint'')]) w)"

definition MCP_ServeHTTP :: "'s handler \<Rightarrow> string \<Rightarrow> 's handler" where
  "MCP_ServeHTTP streamable jwtSecret w r =
     do { r \<leftarrow> withUserContext jwtSecret r;
          case rq_user r of
            None \<Rightarrow> ret (Returned (unauthorized r w))
          | Some _ \<Rightarrow> streamable w r }"

section \<open>Registered tools\<close>

text \<open>
  What the portal relies on of the MCP server: a new server has no tools, adding a tool binds its
  name, setting the tools forgets all others, and of two tools of one name the later one counts.
\<close>

definition tool_registry :: "'m mcp_lib \<Rightarrow> ('m \<Rightarrow> string \<Rightarrow> tool_handler option) \<Rightarrow> bool" where
  "tool_registry lib look \<longleftrightarrow>
     (\<forall>n. look (NewMCPServer lib) n = None)
     \<and> (\<forall>t s n. look (AddTool lib t s) n = (if n = fst (fst t) then Some (snd t) else look s n))
     \<and> (\<forall>ts s n. look (SetTools lib ts s) n = map_of (rev (map (\<lambda>t. (fst (fst t), snd t)) ts)) n)"

lemma registryD:
  assumes "tool_registry lib look"
  shows "look (NewMCPServer lib) n = None"
    "look (AddTool lib t s) n = (if n = fst (fst t) then Some (snd t) else look s n)"
    "look (SetTools lib ts s) n = map_of (rev (map (\<lambda>t. (fst (fst t), snd t)) ts)) n"
  using assms unfolding tool_registry_def by blast+

text \<open>The tool that should serve a name.\<close>

definition served :: "'m Handler \<Rightarrow> string \<Rightarrow> tool_handler option" where
  "served h n =
     (if n = ''portal_get_page'' then Some (GetPage (hd_portalBaseURL h) (hd_jwtSecret h))
      else if n = ''get_version'' then Some (CombinedVersion (hd_proxy h))
      else map_option (GenericTool (hd_proxy h)) (List.find (\<lambda>ct. ct_name ct = n) (hd_catalog h)))"

lemma find_name_iff: "distinct (map ct_name cts) \<Longrightarrow> ct \<in> set cts \<Longrightarrow> List.find (\<lambda>c. ct_name c = ct_name ct) cts = Some ct"
  by (induction cts) (auto simp: image_iff)

lemma map_of_tools:
  "map_of (map (\<lambda>t. (fst (fst t), snd t)) (map (generic_tool p) cts)) n
     = map_option (GenericTool p) (List.find (\<lambda>ct. ct_name ct = n) cts)"
  by (induction cts) (auto simp: generic_tool_def BuildMCPTool_def)

lemma map_of_rev_tools:
  "distinct (map ct_name cts) \<Longrightarrow>
     map_of (rev (map (\<lambda>t. (fst (fst t), snd t)) (map (generic_tool p) cts))) n
       = map_option (GenericTool p) (List.find (\<lambda>ct. ct_name ct = n) cts)"
  by (subst map_of_tools [symmetric], rule fun_cong [of _ _ n], subst map_of_inject_set)
     (auto simp: generic_tool_def BuildMCPTool_def comp_def rev_map [symmetric])

lemma registered_lookup:
  assumes "tool_registry lib look" "distinct (map ct_name cts)"
  shows "look (fold (\<lambda>ct s. AddTool lib (generic_tool p ct) s) cts s) n
    = (case List.find (\<lambda>ct. ct_name ct = n) cts of None \<Rightarrow> look s n | Some ct \<Rightarrow> Some (GenericTool p ct))"
  using assms(2)
proof (induction cts arbitrary: s)
  case (Cons ct cts)
  have "List.find (\<lambda>c. ct_name c = ct_name ct) cts = None" using Cons.prems by (auto simp: find_None_iff) (metis image_eqI)
  with Cons assms(1) show ?case
    by (auto simp: tool_registry_def generic_tool_def BuildMCPTool_def split: option.split)
qed simp

lemma local_names: "fst VersionTool = ''get_version''" "fst GetPageTool = ''portal_get_page''"
  by (simp_all add: VersionTool_def GetPageTool_def)

definition handler_ok :: "('m \<Rightarrow> string \<Rightarrow> tool_handler option) \<Rightarrow> 'm Handler \<Rightarrow> bool" where
  "handler_ok look h \<longleftrightarrow> (\<forall>n. look (hd_mcpSrv h) n = served h n) \<and> ValidateCatalog (hd_catalog h) = hd_catalog h"

lemma ValidateCatalog_distinct: "distinct (map ct_name (ValidateCatalog cat))"
  by (simp add: ValidateCatalog_def validate_loop_distinct)

text \<open>The handler made of the outcome of the fetch.\<close>

definition made_handler :: "'m mcp_lib \<Rightarrow> build_info \<Rightarrow> Config \<Rightarrow> error + CatalogTool list \<Rightarrow> 'm Handler" where
  "made_handler lib bi cfg r =
     (let p = NewMCPProxy (cf_APIURL cfg) cfg bi; cts = (case r of Inl _ \<Rightarrow> [] | Inr c \<Rightarrow> ValidateCatalog c)
      in \<lparr>hd_catalog = cts, hd_jwtSecret = ac_JWTSecret (cf_Auth cfg), hd_portalBaseURL = BaseURL cfg,
          hd_mcpSrv = AddTool lib (GetPageTool, GetPage (BaseURL cfg) (ac_JWTSecret (cf_Auth cfg)))
            (AddTool lib (VersionTool, CombinedVersion p)
              (fold (\<lambda>ct s. AddTool lib (generic_tool p ct) s) cts (NewMCPServer lib))),
          hd_proxy = p, hd_stopped = False\<rparr>)"

lemma run_NewHandler:
  "run_state (fetch_retry (NewMCPProxy (cf_APIURL cfg) cfg bi) (nat (cf_CatalogRetries cfg))) (s, w) = (r, t)
     \<Longrightarrow> run_state (NewHandler lib bi cfg) (s, w) = (made_handler lib bi cfg r, t)"
  by (simp add: NewHandler_def RegisterToolsFromCatalog_def made_handler_def Let_def)

lemma made_handler_ok:
  assumes "tool_registry lib look"
  shows "handler_ok look (made_handler lib bi cfg r)"
proof -
  have "distinct (map ct_name (case r of Inl _ \<Rightarrow> [] | Inr c \<Rightarrow> ValidateCatalog c))"
    by (simp add: ValidateCatalog_distinct split: sum.split)
  note look = registered_lookup [OF assms this]
  have "ValidateCatalog [] = []" by (simp add: ValidateCatalog_def)
  then have "ValidateCatalog (hd_catalog (made_handler lib bi cfg r)) = hd_catalog (made_handler lib bi cfg r)"
    by (simp add: made_handler_def Let_def ValidateCatalog_fix split: sum.split)
  then show ?thesis
    by (simp add: handler_ok_def served_def made_handler_def Let_def look registryD [OF assms] local_names split: option.split)
qed

lemma keeps_FetchCatalog [inv_intros]:
  "keeps (st_inv I) (FetchCatalog p u)" "keeps (env_inv w0) (FetchCatalog p u)"
  unfolding FetchCatalog_def by (intro inv_intros)+

text \<open>The two outcomes of a refresh.\<close>

lemma run_RefreshCatalog:
  assumes "run_state (FetchCatalog (hd_proxy h) None) (h, w) = (r, (h1, w1))"
  shows "run_state (RefreshCatalog lib) (h, w) =
    (case r of
       Inl e \<Rightarrow> (Inl (''fetch catalog: '' @ e), (h, w1))
     | Inr cat \<Rightarrow> (Inr (length (ValidateCatalog cat)),
         (h\<lparr>hd_mcpSrv := SetTools lib (map (generic_tool (hd_proxy h)) (ValidateCatalog cat) @ local_tools h) (hd_mcpSrv h),
            hd_catalog := ValidateCatalog cat\<rparr>, w1)))"
proof -
  have "h1 = h" by (rule st_unchanged [OF keeps_FetchCatalog(1) assms])
  with assms show ?thesis by (simp add: RefreshCatalog_def Let_def split: sum.split)
qed

lemma set_tools_ok:
  assumes "tool_registry lib look"
  shows "handler_ok look (h\<lparr>hd_mcpSrv := SetTools lib (map (generic_tool (hd_proxy h)) (ValidateCatalog cat) @ local_tools h) s,
    hd_catalog := ValidateCatalog cat\<rparr>)"
  using map_of_rev_tools [OF ValidateCatalog_distinct]
  by (simp add: handler_ok_def registryD [OF assms] served_def local_tools_def local_names ValidateCatalog_fix comp_def map_add_def
      split: option.split)

lemma RefreshCatalog_ok:
  assumes "tool_registry lib look"
  shows "keeps (st_inv (handler_ok look)) (RefreshCatalog lib)"
proof (rule keeps_pairI)
  fix h w a h' w'
  assume ok: "st_inv (handler_ok look) (h, w)" and run: "run_state (RefreshCatalog lib) (h, w) = (a, (h', w'))"
  obtain r h1 w1 where "run_state (FetchCatalog (hd_proxy h) None) (h, w) = (r, (h1, w1))"
    by (metis prod_cases3)
  from run_RefreshCatalog [OF this, of lib] run ok show "st_inv (handler_ok look) (h', w')"
    by (auto simp: set_tools_ok [OF assms] split: sum.splits)
qed

lemma watch_poll_ok:
  "tool_registry lib look \<Longrightarrow> keeps (st_inv (handler_ok look)) (watch_poll lib b)"
  unfolding watch_poll_def triggerRefresh_def fetchServerBuild_def
  by (intro inv_intros RefreshCatalog_ok)

lemma Close_ok: "handler_ok look h \<Longrightarrow> handler_ok look (Handler_Close h)"
  by (simp add: handler_ok_def served_def Handler_Close_def)

text \<open>The handler of a state of the watcher.\<close>

primrec handler_of :: "'m watch \<Rightarrow> 'm Handler" where
  "handler_of (Watching h b w) = h"
| "handler_of (Ended h w) = h"

lemma watch_step_ok:
  assumes "tool_registry lib look" "watch_step lib x y" "handler_ok look (handler_of x)"
  shows "handler_ok look (handler_of y)"
  using assms(2,3)
  by cases (auto intro: Close_ok dest: keeps_st_invD [OF watch_poll_ok [OF assms(1)]])

section \<open>Fetching with retries\<close>

definition catalog_request :: "MCPProxy \<Rightarrow> http_request" where
  "catalog_request p = applyUserHeaders p None
     \<lparr>ro_method = ''GET'', ro_url = px_serverURL p @ ''/api/mcp/tools'', ro_header = [], ro_body = []\<rparr>"

text \<open>What the fetch returns when it sends the i-th request of a series.\<close>

definition fetch_at :: "world \<Rightarrow> MCPProxy \<Rightarrow> nat \<Rightarrow> error + CatalogTool list" where
  "fetch_at w p i = fst (run_state (FetchCatalog p None) ((), w\<lparr>sent := sent w @ replicate i (catalog_request p)\<rparr>))"

lemma run_FetchCatalog:
  assumes "url_Parse (px_serverURL p @ ''/api/mcp/tools'') \<noteq> None"
  shows "run_state (FetchCatalog p None) (s, w) =
    (fetch_at w p 0, (s, w\<lparr>ticks := Suc (Suc (ticks w)), sent := sent w @ [catalog_request p]\<rparr>))"
  using assms
  by (auto simp: fetch_at_def FetchCatalog_def proxy_get_def NewRequest_def run_proxy_Do catalog_request_def
      split: option.split http_result.split sum.split)

lemma fetch_at_Suc:
  assumes "url_Parse (px_serverURL p @ ''/api/mcp/tools'') \<noteq> None"
  shows "fetch_at (w\<lparr>ticks := t, sent := sent w @ [catalog_request p]\<rparr>) p i = fetch_at w p (Suc i)"
  using assms
  by (auto simp: fetch_at_def FetchCatalog_def proxy_get_def NewRequest_def run_proxy_Do
      split: option.split http_result.split sum.split)

lemma run_fetch_retry:
  assumes url: "url_Parse (px_serverURL p @ ''/api/mcp/tools'') \<noteq> None"
  shows "run_state (fetch_retry p (Suc n)) (s, w) = (r, (s', w')) \<Longrightarrow>
    \<exists>k\<le>n. sent w' = sent w @ replicate (Suc k) (catalog_request p) \<and> r = fetch_at w p k
      \<and> (\<forall>i<k. isl (fetch_at w p i)) \<and> (k < n \<longrightarrow> \<not> isl r)"
proof (induction n arbitrary: w)
  case 0
  then show ?case by (auto simp: run_FetchCatalog [OF url] split: sum.splits)
next
  case (Suc n)
  let ?w1 = "w\<lparr>ticks := Suc (Suc (ticks w)), sent := sent w @ [catalog_request p]\<rparr>"
  show ?case
  proof (cases "fetch_at w p 0")
    case (Inr cat)
    then have "r = fetch_at w p 0" "w' = ?w1" using Suc.prems by (auto simp: run_FetchCatalog [OF url])
    then show ?thesis using Inr by (intro exI [of _ 0]) simp
  next
    case (Inl e)
    then have "run_state (fetch_retry p (Suc n)) (s, ?w1) = (r, (s', w'))"
      using Suc.prems by (subst (asm) fetch_retry.simps) (simp add: run_FetchCatalog [OF url])
    from Suc.IH [OF this] obtain k where k: "k \<le> n" "sent w' = sent ?w1 @ replicate (Suc k) (catalog_request p)"
      "r = fetch_at ?w1 p k" "\<forall>i<k. isl (fetch_at ?w1 p i)" "k < n \<longrightarrow> \<not> isl r" by blast
    have "\<forall>i<Suc k. isl (fetch_at w p i)"
      using k(4) Inl by (auto simp: fetch_at_Suc [OF url] less_Suc_eq_0_disj)
    then show ?thesis
      using k by (intro exI [of _ "Suc k"]) (simp add: fetch_at_Suc [OF url] replicate_append_same)
  qed
qed

section \<open>Authentication\<close>

text \<open>The claims in the second of the three parts of a token.\<close>

definition carries :: "string \<Rightarrow> jwtClaims \<Rightarrow> bool" where
  "carries tok claims \<longleftrightarrow>
     (\<exists>h p g. tok = h @ ''.'' @ p @ ''.'' @ g \<and> CHR ''.'' \<notin> set h \<and> CHR ''.'' \<notin> set p
        \<and> Option.bind (Option.bind (b64_Decode p) json_Unmarshal) jwtClaims_of = Some claims)"

lemma validateJWT_mcp_carries:
  assumes "run_state (validateJWT_mcp tok secret) (s, w) = (Inr claims, (s', w'))"
  shows "carries tok claims"
proof -
  have n: "length (SplitN tok (CHR ''.'') 4) = 3" using assms by (auto simp: validateJWT_mcp_def Let_def split: if_splits)
  obtain a b d where s: "SplitN tok (CHR ''.'') 4 = [a, b, d]"
    and t: "tok = a @ CHR ''.'' # b @ CHR ''.'' # d" "CHR ''.'' \<notin> set a" "CHR ''.'' \<notin> set b"
    using SplitN_4_length_3 [OF n] by metis
  have "Option.bind (Option.bind (b64_Decode b) json_Unmarshal) jwtClaims_of = Some claims"
    using assms by (auto simp: validateJWT_mcp_def s Let_def split: if_splits sig_result.splits option.splits)
  with t show ?thesis unfolding carries_def by (intro exI [of _ a] exI [of _ b] exI [of _ d]) simp
qed

text \<open>The tokens a request presents, and that one of them is signed and names the user.\<close>

definition presents :: "request \<Rightarrow> string \<Rightarrow> bool" where
  "presents r tok \<longleftrightarrow> req_Get r ''Authorization'' = ''Bearer '' @ tok \<or> req_Cookie r ''vire_session'' = Some tok"

definition proves_user :: "string \<Rightarrow> request \<Rightarrow> string \<Rightarrow> bool" where
  "proves_user secret r u \<longleftrightarrow> (\<exists>tok claims. presents r tok \<and> signed_by secret tok \<and> carries tok claims \<and> mc_sub claims = u)"

lemma validated_proves:
  assumes "run_state (validateJWT_mcp tok secret) (s, w) = (c, (s', w'))" "presents r tok" "secret \<noteq> []"
    and "(case c of Inl _ \<Rightarrow> [] | Inr claims \<Rightarrow> mc_sub claims) = u" "u \<noteq> []"
  shows "proves_user secret r u"
  using assms validateJWT_mcp_sound [of tok secret s w _ s' w'] validateJWT_mcp_carries [of tok secret s w _ s' w']
  unfolding proves_user_def by (cases c) auto

lemma keeps_user [inv_intros]:
  "keeps (st_inv I) (bearer_user sec r)" "keeps (env_inv w0) (bearer_user sec r)"
  "keeps (st_inv I) (withUserContext sec r)" "keeps (env_inv w0) (withUserContext sec r)"
  unfolding bearer_user_def withUserContext_def Let_def by (intro inv_intros)+

lemma keeps_quiet_jwt [inv_intros]: "keeps (quiet x) (validateJWT_mcp t sec)"
  unfolding validateJWT_mcp_def Let_def
  by (auto intro!: inv_intros split: sig_result.splits option.splits if_splits)

lemma keeps_quiet_user: "keeps (quiet x) (withUserContext sec r)"
  unfolding withUserContext_def bearer_user_def Let_def by (intro inv_intros)

lemma HasPrefix_split: "HasPrefix s p \<Longrightarrow> s = p @ TrimPrefix s p"
  by (simp add: TrimPrefix_def HasPrefix_def) (metis append_take_drop_id)

lemma bearer_user_proves:
  assumes "run_state (bearer_user secret r) (s, w) = (u, (s', w'))" "secret \<noteq> []" "u \<noteq> []"
  shows "proves_user secret r u"
proof -
  from assms have pre: "HasPrefix (req_Get r ''Authorization'') ''Bearer ''" by (auto simp: bearer_user_def split: if_splits)
  let ?tok = "TrimPrefix (req_Get r ''Authorization'') ''Bearer ''"
  have "presents r ?tok" unfolding presents_def by (rule disjI1, rule HasPrefix_split [OF pre])
  moreover obtain c s2 w2 where v: "run_state (validateJWT_mcp ?tok secret) (s, w) = (c, (s2, w2))" by (metis prod_cases3)
  ultimately show ?thesis
    using validated_proves [OF v _ assms(2)] assms pre by (simp add: bearer_user_def)
qed

lemma withUserContext_proves:
  assumes "run_state (withUserContext secret r) (s, w) = (r', (s', w'))" "secret \<noteq> []" "rq_user r = None"
  shows "r' = r \<or> (\<exists>u. u \<noteq> [] \<and> r' = r\<lparr>rq_user := Some u\<rparr> \<and> proves_user secret r u)"
proof -
  obtain u s1 w1 where b: "run_state (bearer_user secret r) (s, w) = (u, (s1, w1))" by (metis prod_cases3)
  show ?thesis
  proof (cases "u \<noteq> []")
    case True
    then have "r' = r\<lparr>rq_user := Some u\<rparr>" using b assms(1) by (simp add: withUserContext_def)
    with True bearer_user_proves [OF b assms(2)] show ?thesis by (intro disjI2 exI [of _ u] conjI)
  next
    case False
    then have rest: "run_state (case req_Cookie r ''vire_session'' of
        None \<Rightarrow> ret r
      | Some tok \<Rightarrow>
          if tok = [] then ret r
          else do { c \<leftarrow> validateJWT_mcp tok secret;
                    let u = (case c of Inl _ \<Rightarrow> [] | Inr claims \<Rightarrow> mc_sub claims);
                    ret (if u \<noteq> [] then r\<lparr>rq_user := Some u\<rparr>
                         else if secret = [] \<and> extractJWTSub tok \<noteq> [] then r\<lparr>rq_user := Some (extractJWTSub tok)\<rparr>
                         else r) }) (s1, w1) = (r', (s', w'))"
      using b assms(1) by (simp add: withUserContext_def)
    show ?thesis
    proof (cases "req_Cookie r ''vire_session''")
      case None
      with rest show ?thesis by simp
    next
      case (Some tok)
      obtain c s2 w2 where v: "run_state (validateJWT_mcp tok secret) (s1, w1) = (c, (s2, w2))" by (metis prod_cases3)
      let ?u = "case c of Inl _ \<Rightarrow> [] | Inr claims \<Rightarrow> mc_sub claims"
      have p: "presents r tok" using Some by (simp add: presents_def)
      have "run_state (do { c \<leftarrow> validateJWT_mcp tok secret;
          let u = (case c of Inl _ \<Rightarrow> [] | Inr claims \<Rightarrow> mc_sub claims);
          ret (if u \<noteq> [] then g u else if secret = [] \<and> b then k else r) }) (s1, w1) = (r', (s', w'))
        \<Longrightarrow> r' = r \<or> ?u \<noteq> [] \<and> r' = g ?u" for g b k
        using v assms(2) by (auto simp: Let_def split: if_splits)
      then have "r' = r \<or> ?u \<noteq> [] \<and> r' = r\<lparr>rq_user := Some ?u\<rparr>"
        using rest unfolding Some by (cases "tok = []") (simp, simp only: option.case if_False)
      then show ?thesis using validated_proves [OF v p assms(2) refl] by blast
    qed
  qed
qed

lemma unauthorized_status: "rs_code w = None \<Longrightarrow> status_of (unauthorized r w) = 401"
  by (simp add: unauthorized_def Let_def Encode_json_def status_WriteHeader Header_Set_def)

lemma MCP_ServeHTTP_guard:
  assumes "secret \<noteq> []" "rq_user r = None" "rs_code wr = None"
    and run: "run_state (MCP_ServeHTTP streamable secret wr r) (s, w) = (res, (s', w'))"
  shows "((\<exists>x. res = Returned x \<and> status_of x = 401) \<and> s' = s \<and> sent w' = sent w)
    \<or> (\<exists>u w1. u \<noteq> [] \<and> proves_user secret r u \<and> sent w1 = sent w \<and> evolves w w1
        \<and> run_state (streamable wr (r\<lparr>rq_user := Some u\<rparr>)) (s, w1) = (res, (s', w')))"
proof -
  obtain r1 s1 w1 where c: "run_state (withUserContext secret r) (s, w) = (r1, (s1, w1))" by (metis prod_cases3)
  have q: "s1 = s" "sent w1 = sent w" "evolves w w1"
    using st_unchanged [OF keeps_user(3) c] keeps_quietD [OF keeps_quiet_user c] keeps_evolves [OF keeps_user(4) c]
    by simp_all
  have r1: "run_state (case rq_user r1 of None \<Rightarrow> ret (Returned (unauthorized r1 wr)) | Some _ \<Rightarrow> streamable wr r1) (s, w1)
      = (res, (s', w'))"
    using run c q by (simp add: MCP_ServeHTTP_def)
  from withUserContext_proves [OF c assms(1,2)] show ?thesis
  proof (elim disjE exE conjE)
    assume "r1 = r"
    then show ?thesis using r1 q assms(2) unauthorized_status [OF assms(3)] by auto
  next
    fix u
    assume "u \<noteq> []" "r1 = r\<lparr>rq_user := Some u\<rparr>" "proves_user secret r u"
    then show ?thesis using r1 q by (intro disjI2 exI [of _ u] exI [of _ w1]) simp
  qed
qed

text \<open>The pointer in the refusal cannot be broken up: the host loses quotes and line breaks.\<close>

lemma ReplaceAll_removes: "ReplaceAll s [c] [] = filter (\<lambda>x. x \<noteq> c) s"
  by (induction s) (auto simp: ReplaceAll.simps [of "[]"] ReplaceAll.simps [of "_ # _"] HasPrefix_def)

lemma sanitizeHost_clean: "set (sanitizeHost host) \<inter> {CHR 0x0D, CHR 0x0A, CHR 0x22} = {}"
  by (auto simp: sanitizeHost_def ReplaceAll_removes)

section \<open>A steady build\<close>

lemma keeps_fetchServerBuild [inv_intros]: "keeps (st_inv I) fetchServerBuild" "keeps (env_inv w0) fetchServerBuild"
  unfolding fetchServerBuild_def by (intro inv_intros)+

text \<open>From w on, vire-server answers the version request with the build b.\<close>

definition reports :: "'m Handler \<Rightarrow> world \<Rightarrow> string \<Rightarrow> bool" where
  "reports h w b \<longleftrightarrow> (\<forall>v. evolves w v \<longrightarrow> fst (run_state fetchServerBuild (h, v)) = b)"

lemma fetchServerBuild_proxy:
  "hd_proxy h = hd_proxy h' \<Longrightarrow> fst (run_state fetchServerBuild (h, v)) = fst (run_state fetchServerBuild (h', v))"
  by (auto simp: fetchServerBuild_def proxy_get_def NewRequest_def run_proxy_Do split: option.split)

lemma poll_steady:
  assumes "reports h w b" "evolves w v" "b \<noteq> []" "run_state (watch_poll lib b) (h, v) = (b', (h', v'))"
  shows "b' = b \<and> h' = h \<and> evolves w v'"
proof -
  obtain x h1 v1 where f: "run_state fetchServerBuild (h, v) = (x, (h1, v1))" by (metis prod_cases3)
  have "x = b" using assms(1,2) f by (metis reports_def fst_conv)
  moreover have "h1 = h" by (rule st_unchanged [OF keeps_fetchServerBuild(1) f])
  moreover have "evolves v v1" by (rule keeps_evolves [OF keeps_fetchServerBuild(2) f])
  ultimately show ?thesis using assms f by (auto simp: watch_poll_def intro: evolves_trans)
qed

lemma reports_close: "reports (Handler_Close h) w b = reports h w b"
proof -
  have "hd_proxy (Handler_Close h) = hd_proxy h" by (simp add: Handler_Close_def)
  from fetchServerBuild_proxy [OF this] show ?thesis unfolding reports_def by simp
qed

definition steady :: "'m Handler \<Rightarrow> world \<Rightarrow> string \<Rightarrow> 'm watch \<Rightarrow> bool" where
  "steady h w b x \<longleftrightarrow>
     (case x of
        Watching g b' v \<Rightarrow> b' = b \<and> evolves w v \<and> reports g w b \<and> hd_catalog g = hd_catalog h \<and> hd_mcpSrv g = hd_mcpSrv h
      | Ended g v \<Rightarrow> hd_catalog g = hd_catalog h \<and> hd_mcpSrv g = hd_mcpSrv h)"

lemma steady_step: "watch_step lib x y \<Longrightarrow> b \<noteq> [] \<Longrightarrow> steady h w b x \<Longrightarrow> steady h w b y"
proof (induction rule: watch_step.induct)
  case (tick b1 g v b' g' v')
  then show ?case using poll_steady [of g w b v lib b' g' v'] by (auto simp: steady_def)
qed (auto simp: steady_def reports_close, auto simp: Handler_Close_def)

section \<open>Properties\<close>

text \<open>
  C24: The start of the MCP handler ends after at most \<open>CatalogRetries\<close> requests for the catalog (none
  for a negative number), whatever vire-server answers or fails to answer: k requests are sent, all
  but the last of them failed, the loop gives up early only after a success, and the handler starts
  with the validated catalog of the last answer, or with none.
\<close>
theorem startup_fetch_bounded:
  assumes url: "url_Parse (cf_APIURL cfg @ ''/api/mcp/tools'') \<noteq> None"
    and run: "run_state (NewHandler lib bi cfg) (s, w) = (h, (s', w'))"
  shows "\<exists>k \<le> nat (cf_CatalogRetries cfg).
    sent w' = sent w @ replicate k (catalog_request (NewMCPProxy (cf_APIURL cfg) cfg bi))
    \<and> (\<forall>i. Suc i < k \<longrightarrow> isl (fetch_at w (NewMCPProxy (cf_APIURL cfg) cfg bi) i))
    \<and> (k < nat (cf_CatalogRetries cfg) \<longrightarrow> 0 < k \<and> \<not> isl (fetch_at w (NewMCPProxy (cf_APIURL cfg) cfg bi) (k - 1)))
    \<and> hd_catalog h = (if k = 0 then []
        else case fetch_at w (NewMCPProxy (cf_APIURL cfg) cfg bi) (k - 1) of Inl _ \<Rightarrow> [] | Inr c \<Rightarrow> ValidateCatalog c)"
proof -
  define p where "p = NewMCPProxy (cf_APIURL cfg) cfg bi"
  have u: "url_Parse (px_serverURL p @ ''/api/mcp/tools'') \<noteq> None" using url by (simp add: p_def NewMCPProxy_def Let_def)
  obtain r t where f: "run_state (fetch_retry p (nat (cf_CatalogRetries cfg))) (s, w) = (r, (s', t))" and t: "t = w'"
    and h: "h = made_handler lib bi cfg r"
    using run run_NewHandler [of cfg bi s w _ _ lib] unfolding p_def by (metis prod.exhaust_sel prod.inject)
  have cat: "hd_catalog h = (case r of Inl _ \<Rightarrow> [] | Inr c \<Rightarrow> ValidateCatalog c)"
    by (simp add: h made_handler_def Let_def)
  show ?thesis
  proof (cases "nat (cf_CatalogRetries cfg)")
    case 0
    with f t cat show ?thesis by (auto simp: ValidateCatalog_def)
  next
    case (Suc n)
    from run_fetch_retry [OF u f [unfolded Suc]] obtain k where k: "k \<le> n"
      "sent w' = sent w @ replicate (Suc k) (catalog_request p)" "r = fetch_at w p k"
      "\<forall>i<k. isl (fetch_at w p i)" "k < n \<longrightarrow> \<not> isl r" unfolding t by blast
    then show ?thesis unfolding p_def [symmetric] Suc using cat by (intro exI [of _ "Suc k"]) auto
  qed
qed

text \<open>A registry that keeps its tools in a list, the latest first.\<close>

definition list_registry :: "(string \<times> tool_handler) list mcp_lib" where
  "list_registry = \<lparr>NewMCPServer = [], AddTool = (\<lambda>t s. (fst (fst t), snd t) # s),
     SetTools = (\<lambda>ts s. rev (map (\<lambda>t. (fst (fst t), snd t)) ts))\<rparr>"

lemma list_registry_ok: "tool_registry list_registry map_of"
  by (simp add: tool_registry_def list_registry_def)

definition sample_build :: build_info where
  "sample_build = \<lparr>bi_version = ''1'', bi_build = ''2'', bi_commit = ''3''\<rparr>"

lemma sample_api_url: "url_Parse (cf_APIURL NewDefaultConfig @ ''/api/mcp/tools'') \<noteq> None"
  by code_simp

theorem startup_fetch_bounded_witness:
  "\<exists>k\<le>3. length (sent (snd (snd (run_state (NewHandler list_registry sample_build NewDefaultConfig) ((), sample_world))))) = k"
proof -
  have "nat (cf_CatalogRetries NewDefaultConfig) = 3" by (simp add: NewDefaultConfig_def)
  with startup_fetch_bounded [OF sample_api_url run_eta, of list_registry sample_build "()" sample_world]
  show ?thesis by (auto simp: sample_world_def)
qed

text \<open>
  C23: At any time, whatever vire-server answers and whenever the handler is closed, the MCP server
  offers exactly the tools of the handler's current catalog and the two tools of the portal, which
  no catalog entry can replace; and that catalog is a validated one.
\<close>
theorem tools_follow_catalog:
  assumes "tool_registry lib look" "watched lib bi cfg w x"
  shows "look (hd_mcpSrv (handler_of x)) n = served (handler_of x) n
    \<and> ValidateCatalog (hd_catalog (handler_of x)) = hd_catalog (handler_of x)"
proof -
  from assms(2) have "handler_ok look (handler_of x)"
  proof induction
    case (start h u w1 b h' w2)
    have "h' = h" by (rule st_unchanged [OF keeps_fetchServerBuild(1) start(2)])
    with start(1) run_NewHandler [of cfg bi "()" w _ _ lib] made_handler_ok [OF assms(1)] show ?case
      by (metis handler_of.simps(1) prod.exhaust_sel prod.inject)
  next
    case (step x y)
    then show ?case using watch_step_ok [OF assms(1)] by blast
  qed
  then show ?thesis by (simp add: handler_ok_def)
qed

definition sample_watch :: "(string \<times> tool_handler) list watch" where
  "sample_watch =
     (let (h, u, w1) = run_state (NewHandler list_registry sample_build NewDefaultConfig) ((), sample_world);
          (b, h', w2) = run_state fetchServerBuild (h, w1)
      in Watching h' b w2)"

lemma sample_watched: "watched list_registry sample_build NewDefaultConfig sample_world sample_watch"
  unfolding sample_watch_def Let_def by (auto split: prod.split intro: watched.start)

theorem tools_follow_catalog_witness:
  "map_of (hd_mcpSrv (handler_of sample_watch)) ''get_version'' = served (handler_of sample_watch) ''get_version''"
  using tools_follow_catalog [OF list_registry_ok sample_watched] by blast

text \<open>
  C25: The watcher refreshes only on a change of the build. While vire-server reports the build the
  watcher has already seen, the tools and the catalog stay what they are for ever, also when they
  are empty because the fetches at the start failed, or outdated because the refresh for this build
  failed.
\<close>
theorem tools_frozen_while_build_unchanged:
  assumes "b \<noteq> []" "reports h w b" "(watch_step lib)\<^sup>*\<^sup>* (Watching h b w) x"
  shows "hd_catalog (handler_of x) = hd_catalog h \<and> hd_mcpSrv (handler_of x) = hd_mcpSrv h"
proof -
  from assms(3) have "steady h w b x"
  proof induction
    case base
    then show ?case using assms(2) by (simp add: steady_def)
  next
    case (step y z)
    then show ?case using steady_step assms(1) by blast
  qed
  then show ?thesis by (cases x) (simp_all add: steady_def)
qed

text \<open>A server that knows its version and has no catalog.\<close>

definition version_body :: string where
  "version_body = json_encode (JObj [(''build'', JStr ''7'')])"

definition version_world :: world where
  "version_world = sample_world\<lparr>peer := (\<lambda>_ rq. if HasSuffix (ro_url rq) ''/api/version'' then HttpResp 200 [] version_body False
     else HttpResp 404 [] [] False)\<rparr>"

definition empty_handler :: "(string \<times> tool_handler) list Handler" where
  "empty_handler = made_handler list_registry sample_build NewDefaultConfig (Inl ''error'')"

lemma version_reports: "reports empty_handler version_world ''7''"
proof -
  have d: "Option.bind (json_Unmarshal version_body) build_of_json = Some ''7''" by code_simp
  have u: "px_serverURL (hd_proxy empty_handler) @ ''/api/version'' = ''http://localhost:8080/api/version''"
    by (simp add: empty_handler_def made_handler_def Let_def NewMCPProxy_def NewDefaultConfig_def)
  have "url_Parse ''http://localhost:8080/api/version'' \<noteq> None" by code_simp
  then obtain l where l: "url_Parse ''http://localhost:8080/api/version'' = Some l" by auto
  have x: "HasSuffix ''http://localhost:8080/api/version'' ''/api/version''" by code_simp
  have "length version_body < 20" by (simp add: version_body_def json_string_def json_chr_def)
  then have r: "LimitRead maxResponseSize version_body False = Some version_body"
    by (simp add: LimitRead_def maxResponseSize_def)
  show ?thesis
    unfolding reports_def
    by (auto simp: evolves_def version_world_def fetchServerBuild_def proxy_get_def NewRequest_def u l run_proxy_Do r d x)
qed

theorem tools_frozen_while_build_unchanged_witness:
  "reports empty_handler version_world ''7'' \<and> hd_catalog (handler_of (Watching empty_handler ''7'' version_world)) = []"
  using tools_frozen_while_build_unchanged [OF _ version_reports rtranclp.rtrancl_refl] version_reports
  by (simp add: empty_handler_def made_handler_def Let_def)

end
