(* ===== verification/Go_AES.thy ===== *)
theory Go_AES
  imports Go_Crypto
begin

text \<open>
  AES and its Galois/Counter Mode (crypto/aes, crypto/cipher) as the dev endpoint uses them:
  \<open>NewCipher\<close> with a 32-byte key, \<open>NewGCM\<close>, \<open>Seal\<close> and \<open>Open\<close> without additional data. A block is a
  list of 16 bytes, an element of the field of GHASH a 128-bit word.
\<close>

unbundle bit_operations_syntax

section \<open>The block cipher\<close>

definition xtime :: "8 word \<Rightarrow> 8 word" where
  "xtime x = push_bit 1 x XOR (if bit x 7 then 0x1b else 0)"

text \<open>The product in the field of 256 elements, by shifting and adding.\<close>

primrec gmul_loop :: "nat \<Rightarrow> 8 word \<Rightarrow> 8 word \<Rightarrow> 8 word" where
  "gmul_loop 0 a b = 0"
| "gmul_loop (Suc n) a b = (if bit b 0 then a else 0) XOR gmul_loop n (xtime a) (drop_bit 1 b)"

definition gmul :: "8 word \<Rightarrow> 8 word \<Rightarrow> 8 word" where
  "gmul a b = gmul_loop 8 a b"

text \<open>The inverse is the 254th power; the substitution applies an affine map to it.\<close>

definition ginv :: "8 word \<Rightarrow> 8 word" where
  "ginv a = (let a2 = gmul a a; a4 = gmul a2 a2; a8 = gmul a4 a4; a16 = gmul a8 a8; a32 = gmul a16 a16;
     a64 = gmul a32 a32; a128 = gmul a64 a64 in gmul a2 (gmul a4 (gmul a8 (gmul a16 (gmul a32 (gmul a64 a128))))))"

definition sub_byte :: "8 word \<Rightarrow> 8 word" where
  "sub_byte a = (let b = ginv a in b XOR word_rotl 1 b XOR word_rotl 2 b XOR word_rotl 3 b XOR word_rotl 4 b XOR 0x63)"

text \<open>Words of the key schedule have four bytes.\<close>

definition xor_bytes :: "8 word list \<Rightarrow> 8 word list \<Rightarrow> 8 word list" where
  "xor_bytes xs ys = map2 (XOR) xs ys"

text \<open>
  The schedule for eight key words, latest word first: \<open>i\<close> is the index of the next word and \<open>rcon\<close>
  the current round constant.
\<close>

primrec expand_key :: "nat \<Rightarrow> nat \<Rightarrow> 8 word \<Rightarrow> 8 word list list \<Rightarrow> 8 word list list" where
  "expand_key 0 i rcon ws = rev ws"
| "expand_key (Suc n) i rcon ws =
     (let t = hd ws;
          t = (if i mod 8 = 0 then xor_bytes (map sub_byte (rotate1 t)) [rcon, 0, 0, 0]
               else if i mod 8 = 4 then map sub_byte t else t)
      in expand_key n (Suc i) (if i mod 8 = 0 then xtime rcon else rcon) (xor_bytes (ws ! 7) t # ws))"

fun chunks4 :: "'a list \<Rightarrow> 'a list list" where
  "chunks4 (a # b # c # d # xs) = [a, b, c, d] # chunks4 xs"
| "chunks4 _ = []"

text \<open>The fifteen round keys of a 32-byte key.\<close>

definition round_keys :: "8 word list \<Rightarrow> 8 word list list" where
  "round_keys key =
     (let ws = expand_key 52 8 1 (rev (chunks4 key)) in map (\<lambda>r. concat (take 4 (drop (4 * r) ws))) [0..<15])"

definition shift_rows :: "8 word list \<Rightarrow> 8 word list" where
  "shift_rows s = map (\<lambda>i. s ! ((i + 4 * (i mod 4)) mod 16)) [0..<16]"

definition mix_column :: "8 word list \<Rightarrow> 8 word list" where
  "mix_column c =
     map (\<lambda>i. gmul 2 (c ! i) XOR gmul 3 (c ! ((i + 1) mod 4)) XOR c ! ((i + 2) mod 4) XOR c ! ((i + 3) mod 4)) [0..<4]"

definition aes_round :: "8 word list \<Rightarrow> 8 word list \<Rightarrow> 8 word list" where
  "aes_round k s = xor_bytes (concat (map mix_column (chunks4 (shift_rows (map sub_byte s))))) k"

definition aes_Encrypt :: "8 word list \<Rightarrow> 8 word list \<Rightarrow> 8 word list" where
  "aes_Encrypt key block =
     (let ks = round_keys key;
          s = fold aes_round (take 13 (tl ks)) (xor_bytes block (hd ks))
      in xor_bytes (shift_rows (map sub_byte s)) (last ks))"

section \<open>Galois/Counter Mode\<close>

definition word_of_block :: "8 word list \<Rightarrow> 128 word" where
  "word_of_block b = foldl (\<lambda>a x. push_bit 8 a OR ucast x) 0 b"

definition block_of_word :: "128 word \<Rightarrow> 8 word list" where
  "block_of_word w = map (\<lambda>i. ucast (drop_bit (120 - 8 * i) w)) [0..<16]"

text \<open>The product of GHASH: bit 127 is the coefficient of the constant term.\<close>

primrec ghash_mul_loop :: "nat \<Rightarrow> 128 word \<Rightarrow> 128 word \<Rightarrow> 128 word \<Rightarrow> 128 word" where
  "ghash_mul_loop 0 x v z = z"
| "ghash_mul_loop (Suc n) x v z =
     ghash_mul_loop n x (drop_bit 1 v XOR (if bit v 0 then push_bit 120 0xe1 else 0)) (if bit x n then z XOR v else z)"

definition ghash_mul :: "128 word \<Rightarrow> 128 word \<Rightarrow> 128 word" where
  "ghash_mul x y = ghash_mul_loop 128 x y 0"

function chunks16 :: "'a list \<Rightarrow> 'a list list" where
  "chunks16 xs = (if xs = [] then [] else take 16 xs # chunks16 (drop 16 xs))"
  by pat_completeness auto
termination
  by (relation "measure length") auto

declare chunks16.simps [simp del]

definition pad16 :: "8 word list \<Rightarrow> 8 word list" where
  "pad16 b = b @ replicate (16 - length b) 0"

definition ghash :: "128 word \<Rightarrow> 8 word list \<Rightarrow> 128 word" where
  "ghash h data =
     (let y = foldl (\<lambda>y b. ghash_mul (y XOR word_of_block (pad16 b)) h) 0 (chunks16 data)
      in ghash_mul (y XOR of_nat (8 * length data)) h)"

definition counter_block :: "8 word list \<Rightarrow> nat \<Rightarrow> 8 word list" where
  "counter_block nonce i = nonce @ drop 12 (block_of_word (of_nat i))"

definition key_stream :: "8 word list \<Rightarrow> 8 word list \<Rightarrow> nat \<Rightarrow> 8 word list" where
  "key_stream key nonce n = concat (map (\<lambda>i. aes_Encrypt key (counter_block nonce (i + 2))) [0..<(n + 15) div 16])"

definition gcm_crypt :: "8 word list \<Rightarrow> 8 word list \<Rightarrow> 8 word list \<Rightarrow> 8 word list" where
  "gcm_crypt key nonce data = xor_bytes data (key_stream key nonce (length data))"

definition gcm_tag :: "8 word list \<Rightarrow> 8 word list \<Rightarrow> 8 word list \<Rightarrow> 8 word list" where
  "gcm_tag key nonce cipher =
     xor_bytes (block_of_word (ghash (word_of_block (aes_Encrypt key (replicate 16 0))) cipher))
       (aes_Encrypt key (counter_block nonce 1))"

text \<open>\<open>NonceSize\<close>, \<open>Overhead\<close>, \<open>Seal\<close> (without the prefix it appends to) and \<open>Open\<close>.\<close>

definition gcm_NonceSize :: nat where
  "gcm_NonceSize = 12"

definition gcm_Overhead :: nat where
  "gcm_Overhead = 16"

definition bytes_of :: "string \<Rightarrow> 8 word list" where
  "bytes_of s = map (\<lambda>c. word_of_nat (of_char c)) s"

definition string_of :: "8 word list \<Rightarrow> string" where
  "string_of b = map (\<lambda>x. char_of (unat x)) b"

definition gcm_Seal :: "string \<Rightarrow> string \<Rightarrow> string \<Rightarrow> string" where
  "gcm_Seal key nonce plaintext =
     (let c = gcm_crypt (bytes_of key) (bytes_of nonce) (bytes_of plaintext)
      in string_of (c @ gcm_tag (bytes_of key) (bytes_of nonce) c))"

definition gcm_Open :: "string \<Rightarrow> string \<Rightarrow> string \<Rightarrow> string option" where
  "gcm_Open key nonce ciphertext =
     (let c = bytes_of ciphertext; n = length c - gcm_Overhead
      in if length c < gcm_Overhead then None
         else if gcm_tag (bytes_of key) (bytes_of nonce) (take n c) = drop n c
              then Some (string_of (gcm_crypt (bytes_of key) (bytes_of nonce) (take n c))) else None)"

section \<open>Lemmas\<close>

lemma length_xor_bytes [simp]: "length (xor_bytes a b) = min (length a) (length b)"
  by (simp add: xor_bytes_def)

lemma xor_bytes_twice: "length p \<le> length k \<Longrightarrow> xor_bytes (xor_bytes p k) k = p"
  by (rule nth_equalityI) (simp_all add: xor_bytes_def xor.assoc)

lemma length_shift_rows [simp]: "length (shift_rows s) = 16"
  by (simp add: shift_rows_def)

definition words4 :: "8 word list list \<Rightarrow> bool" where
  "words4 ws \<longleftrightarrow> list_all (\<lambda>w. length w = 4) ws"

lemma expand_key_shape:
  "8 \<le> length ws \<Longrightarrow> words4 ws \<Longrightarrow> length (expand_key n i rcon ws) = n + length ws \<and> words4 (expand_key n i rcon ws)"
proof (induction n arbitrary: i rcon ws)
  case (Suc n)
  have "hd ws \<in> set ws" "ws ! 7 \<in> set ws" using Suc.prems(1) by (cases ws, auto)+
  then have h: "length (hd ws) = 4" "length (ws ! 7) = 4"
    using Suc.prems(2) unfolding words4_def list_all_iff by blast+
  then have "length (xor_bytes (ws ! 7)
      (if i mod 8 = 0 then xor_bytes (map sub_byte (rotate1 (hd ws))) [rcon, 0, 0, 0]
       else if i mod 8 = 4 then map sub_byte (hd ws) else hd ws)) = 4" by simp
  with Suc show ?case by (simp add: Let_def words4_def)
qed (simp add: words4_def list_all_iff)

lemma chunks4_shape: "length xs = 4 * n \<Longrightarrow> length (chunks4 xs) = n \<and> words4 (chunks4 xs)"
proof (induction n arbitrary: xs)
  case (Suc n)
  then show ?case by (cases xs rule: chunks4.cases) (simp_all add: words4_def)
qed (simp add: words4_def)

lemma length_concat4: "words4 ws \<Longrightarrow> length (concat ws) = 4 * length ws"
  by (induction ws) (simp_all add: words4_def)

lemma length_last_key:
  assumes "length key = 32"
  shows "length (last (round_keys key)) = 16"
proof -
  let ?ws = "expand_key 52 8 1 (rev (chunks4 key))"
  have "length (chunks4 key) = 8" "words4 (rev (chunks4 key))"
    using chunks4_shape [of key 8] assms by (auto simp: words4_def list_all_iff)
  then have ws: "length ?ws = 60" "words4 ?ws" using expand_key_shape [of "rev (chunks4 key)" 52 8 1] by simp_all
  have "words4 (take 4 (drop 56 ?ws))" using ws(2) by (auto simp: words4_def list_all_iff dest!: in_set_takeD in_set_dropD)
  from length_concat4 [OF this] ws(1) have "length (concat (take 4 (drop 56 ?ws))) = 16" by simp
  moreover have "last (round_keys key) = concat (take 4 (drop 56 ?ws))"
    by (simp add: round_keys_def Let_def upt_rec)
  ultimately show ?thesis by simp
qed

lemma length_aes_Encrypt: "length key = 32 \<Longrightarrow> length (aes_Encrypt key b) = 16"
  by (simp add: aes_Encrypt_def Let_def length_last_key)

lemma length_key_stream:
  assumes "length key = 32"
  shows "n \<le> length (key_stream key nonce n)"
proof -
  have "length (concat (map (\<lambda>i. aes_Encrypt key (counter_block nonce (i + 2))) [0..<m])) = 16 * m" for m
    by (induction m) (simp_all add: length_aes_Encrypt [OF assms])
  then show ?thesis by (simp add: key_stream_def)
qed

lemma gcm_crypt_twice:
  assumes "length key = 32"
  shows "gcm_crypt key nonce (gcm_crypt key nonce p) = p" "length (gcm_crypt key nonce p) = length p"
proof -
  have n: "length p \<le> length (key_stream key nonce (length p))" by (rule length_key_stream [OF assms])
  then show l: "length (gcm_crypt key nonce p) = length p" by (simp add: gcm_crypt_def)
  show "gcm_crypt key nonce (gcm_crypt key nonce p) = p"
    unfolding gcm_crypt_def [of _ _ "gcm_crypt key nonce p"] l
    by (simp add: gcm_crypt_def xor_bytes_twice [OF n])
qed

lemma length_gcm_tag: "length key = 32 \<Longrightarrow> length (gcm_tag key nonce c) = 16"
  by (simp add: gcm_tag_def length_aes_Encrypt block_of_word_def)

lemma bytes_of_string_of [simp]: "bytes_of (string_of b) = b"
proof -
  have "word_of_nat (of_char (char_of (unat x) :: char)) = x" for x :: "8 word"
    using unsigned_less [of x, where 'a = nat] by (simp add: mod_less)
  then show ?thesis by (induction b) (simp_all add: bytes_of_def string_of_def)
qed

lemma string_of_bytes_of [simp]: "string_of (bytes_of s) = s"
proof -
  have "char_of (unat (word_of_nat (of_char c) :: 8 word)) = c" for c
    using of_char_less [of c] by (simp add: unat_of_nat mod_less)
  then show ?thesis by (induction s) (simp_all add: bytes_of_def string_of_def)
qed

lemma length_bytes_of [simp]: "length (bytes_of s) = length s"
  by (simp add: bytes_of_def)

text \<open>Opening what was sealed with the same key and nonce gives the text back.\<close>

lemma gcm_Open_Seal:
  assumes "length key = 32"
  shows "gcm_Open key nonce (gcm_Seal key nonce text) = Some text"
proof -
  have k: "length (bytes_of key) = 32" using assms by simp
  define c where "c = gcm_crypt (bytes_of key) (bytes_of nonce) (bytes_of text)"
  have "bytes_of (gcm_Seal key nonce text) = c @ gcm_tag (bytes_of key) (bytes_of nonce) c"
    by (simp add: gcm_Seal_def Let_def c_def)
  moreover have "gcm_crypt (bytes_of key) (bytes_of nonce) c = bytes_of text"
    unfolding c_def by (rule gcm_crypt_twice(1) [OF k])
  ultimately show ?thesis by (simp add: gcm_Open_def Let_def gcm_Overhead_def length_gcm_tag [OF k])
qed

end
