(* ===== verification/MCP_Dev.thy ===== *)
theory MCP_Dev
  imports MCP_Handler Go_AES
begin

text \<open>
  The MCP endpoint of dev mode (src/internal/mcp/dev_handler.go): a URL that carries the encrypted
  id of its user. The cipher is represented by its key.
\<close>

unbundle bit_operations_syntax

record DevHandler =
  dv_gcm :: "string option"
  dv_devMode :: bool
  dv_portalURL :: string

definition deriveKey :: "string \<Rightarrow> string" where
  "deriveKey secret =
     fold (\<lambda>i key. key[i := char_of (i XOR (of_char (key ! (i mod length secret)) :: nat))]) [length secret..<32]
       (take 32 secret @ replicate (32 - length secret) (CHR 0x00))"

definition NewDevHandler :: "string \<Rightarrow> bool \<Rightarrow> string \<Rightarrow> DevHandler" where
  "NewDevHandler jwtSecret devMode portalURL =
     \<lparr>dv_gcm = (if jwtSecret \<noteq> [] then Some (deriveKey jwtSecret) else None), dv_devMode = devMode, dv_portalURL = portalURL\<rparr>"

definition encryptUID :: "DevHandler \<Rightarrow> string \<Rightarrow> ('s, error + string) io" where
  "encryptUID dh userID =
     (case dv_gcm dh of
        None \<Rightarrow> ret (Inl ''cipher not initialized'')
      | Some key \<Rightarrow>
          do { n \<leftarrow> rand_Read gcm_NonceSize;
               case n of
                 Inl e \<Rightarrow> ret (Inl e)
               | Inr nonce \<Rightarrow> ret (Inr (b64_Encode (nonce @ gcm_Seal key nonce userID))) })"

definition decryptUID :: "DevHandler \<Rightarrow> string \<Rightarrow> ('s, error + string) io" where
  "decryptUID dh encrypted =
     (case dv_gcm dh of
        None \<Rightarrow> ret (Inl ''cipher not initialized'')
      | Some key \<Rightarrow>
          (case b64_Decode encrypted of
             None \<Rightarrow> do { e \<leftarrow> error_for encrypted; ret (Inl e) }
           | Some ciphertext \<Rightarrow>
               if length ciphertext < gcm_NonceSize then ret (Inl ''ciphertext too short'')
               else (case gcm_Open key (take gcm_NonceSize ciphertext) (drop gcm_NonceSize ciphertext) of
                   None \<Rightarrow> do { e \<leftarrow> error_for ''gcm''; ret (Inl e) }
                 | Some plaintext \<Rightarrow> ret (Inr plaintext))))"

definition GenerateEndpoint :: "DevHandler \<Rightarrow> string \<Rightarrow> ('s, string) io" where
  "GenerateEndpoint dh userID =
     (if \<not> dv_devMode dh \<or> dv_gcm dh = None then ret []
      else do { r \<leftarrow> encryptUID dh userID;
                ret (case r of
                       Inl _ \<Rightarrow> []
                     | Inr encrypted \<Rightarrow>
                         (if dv_portalURL dh = [] then ''http://localhost:8881'' else dv_portalURL dh) @ ''/mcp/'' @ encrypted) })"

definition Dev_ServeHTTP :: "'s handler \<Rightarrow> DevHandler \<Rightarrow> 's handler" where
  "Dev_ServeHTTP streamable dh w r =
     (if \<not> dv_devMode dh then ret (Returned (http_Error ''not found'' 404 w))
      else let path = Trim (TrimPrefix (rq_path r) ''/mcp/'') (CHR ''/'')
           in if path = [] \<or> Contains path ''/'' then ret (Returned (http_Error ''invalid endpoint'' 400 w))
              else do { u \<leftarrow> decryptUID dh path;
                        case u of
                          Inl _ \<Rightarrow> ret (Returned (http_Error ''invalid endpoint'' 404 w))
                        | Inr userID \<Rightarrow> streamable w (r\<lparr>rq_user := Some userID\<rparr>) })"

section \<open>Lemmas\<close>

lemma length_deriveKey: "length (deriveKey secret) = 32"
proof -
  have "length (fold (\<lambda>i key. key[i := f i key]) ns (k :: string)) = length k" for f ns k
    by (induction ns arbitrary: k) simp_all
  then show ?thesis by (simp add: deriveKey_def)
qed

lemma b64_slash_free: "CHR ''/'' \<notin> set (b64_Encode s)"
proof
  assume "CHR ''/'' \<in> set (b64_Encode s)"
  then have "b64_val (CHR ''/'') \<noteq> None" by (rule b64_Encode_valid)
  then show False by (simp add: b64_val_def isUpper_def isLower_def isDigit_def)
qed

lemma Trim_id: "c \<notin> set s \<Longrightarrow> Trim s c = s"
proof -
  have "dropWhile (\<lambda>x. x = c) t = t" if "c \<notin> set t" for t
    using that by (cases t) auto
  then show "c \<notin> set s \<Longrightarrow> Trim s c = s" by (simp add: Trim_def TrimLeftFunc_def TrimRightFunc_def)
qed

lemma Contains_chr: "Contains s [c] \<longleftrightarrow> c \<in> set s"
  by (induction s) (auto simp: Contains_def HasPrefix_def)

lemma decrypt_sealed:
  assumes "dv_gcm dh = Some key" "length key = 32" "length nonce = 12"
  shows "run_state (decryptUID dh (b64_Encode (nonce @ gcm_Seal key nonce uid))) sw = (Inr uid, sw)"
  using assms by (simp add: decryptUID_def gcm_NonceSize_def gcm_Open_Seal)

section \<open>Properties\<close>

text \<open>
  C26: In dev mode an endpoint generated for a user leads back to that user. If the random source
  works, \<open>GenerateEndpoint\<close> returns the portal URL followed by a path, and a later request for that
  path is handed to the MCP server in the name of exactly that user; outside dev mode no endpoint
  is generated and every such request gets 404.
\<close>
theorem dev_endpoint_roundtrip:
  assumes "secret \<noteq> []" "portalURL \<noteq> []" "entropy_ok w (draws w)" "rs_code wr = None"
  shows "(\<exists>enc s1 w1. run_state (GenerateEndpoint (NewDevHandler secret True portalURL) uid) (s, w)
        = (portalURL @ ''/mcp/'' @ enc, (s1, w1))
      \<and> run_state (Dev_ServeHTTP streamable (NewDevHandler secret True portalURL) wr (r\<lparr>rq_path := ''/mcp/'' @ enc\<rparr>)) (t, v)
        = run_state (streamable wr (r\<lparr>rq_path := ''/mcp/'' @ enc, rq_user := Some uid\<rparr>)) (t, v))
    \<and> fst (run_state (GenerateEndpoint (NewDevHandler secret False portalURL) uid) (s, w)) = []
    \<and> status_of (written (fst (run_state (Dev_ServeHTTP streamable (NewDevHandler secret False portalURL) wr r) (t, v)))) = 404"
proof -
  let ?dh = "NewDevHandler secret True portalURL"
  have k: "dv_gcm ?dh = Some (deriveKey secret)" using assms(1) by (simp add: NewDevHandler_def)
  define nonce where "nonce = draw_bytes w 12"
  define enc where "enc = b64_Encode (nonce @ gcm_Seal (deriveKey secret) nonce uid)"
  have n: "length nonce = 12" by (simp add: nonce_def)
  have g: "run_state (GenerateEndpoint ?dh uid) (s, w) = (portalURL @ ''/mcp/'' @ enc, (s, w\<lparr>draws := Suc (draws w)\<rparr>))"
    using assms by (simp add: GenerateEndpoint_def encryptUID_def NewDevHandler_def gcm_NonceSize_def enc_def nonce_def)
  have path: "Trim (TrimPrefix (''/mcp/'' @ enc) ''/mcp/'') (CHR ''/'') = enc" "enc \<noteq> []" "\<not> Contains enc ''/''"
    using n b64_slash_free by (auto simp: TrimPrefix_def HasPrefix_def Trim_id Contains_chr enc_def)
  have d: "run_state (decryptUID ?dh enc) (t, v) = (Inr uid, (t, v))"
    unfolding enc_def by (rule decrypt_sealed [OF k length_deriveKey n])
  have "run_state (Dev_ServeHTTP streamable ?dh wr (r\<lparr>rq_path := ''/mcp/'' @ enc\<rparr>)) (t, v)
      = run_state (streamable wr (r\<lparr>rq_path := ''/mcp/'' @ enc, rq_user := Some uid\<rparr>)) (t, v)"
    using path d by (simp add: Dev_ServeHTTP_def Let_def NewDevHandler_def)
  with g have on: "\<exists>enc s1 w1. run_state (GenerateEndpoint ?dh uid) (s, w) = (portalURL @ ''/mcp/'' @ enc, (s1, w1))
      \<and> run_state (Dev_ServeHTTP streamable ?dh wr (r\<lparr>rq_path := ''/mcp/'' @ enc\<rparr>)) (t, v)
        = run_state (streamable wr (r\<lparr>rq_path := ''/mcp/'' @ enc, rq_user := Some uid\<rparr>)) (t, v)"
    by (intro exI conjI)
  have "fst (run_state (GenerateEndpoint (NewDevHandler secret False portalURL) uid) (s, w)) = []"
    by (simp add: GenerateEndpoint_def NewDevHandler_def)
  moreover have "status_of (written (fst (run_state (Dev_ServeHTTP streamable (NewDevHandler secret False portalURL) wr r) (t, v)))) = 404"
    using assms(4) by (simp add: Dev_ServeHTTP_def NewDevHandler_def status_Error)
  ultimately show ?thesis using on by (intro conjI)
qed

theorem dev_endpoint_roundtrip_witness:
  "\<exists>enc s1 w1. run_state (GenerateEndpoint (NewDevHandler ''k'' True ''http://p'') ''alice'') ((), sample_world)
      = (''http://p'' @ ''/mcp/'' @ enc, (s1, w1))"
proof -
  have h: "''k'' \<noteq> []" "''http://p'' \<noteq> []" "entropy_ok sample_world (draws sample_world)" "rs_code new_response = None"
    by (simp_all add: sample_world_def new_response_def)
  from dev_endpoint_roundtrip [OF h, of "''alice''" "()" "\<lambda>w r. ret (Returned w)" sample_request "()" sample_world]
  show ?thesis by (elim exE conjE) (intro exI)
qed

end
