(* ===== verification/Portal_Seed.thy ===== *)
theory Portal_Seed
  imports Vire_Client Portal_Config
begin

text \<open>
  What the portal does to vire-server when it starts (src/internal/seed and the end of \<open>New\<close> in
  src/internal/app/app.go): seeding dev users, registering as a service and giving the admin role to
  the configured addresses. Sleeps between attempts do not appear.
\<close>

section \<open>Attempts\<close>

definition seedRetryAttempts :: nat where "seedRetryAttempts = 3"

definition usersFileName :: string where "usersFileName = ''import/users.json''"

text \<open>The loop of the three retrying functions: up to n attempts, the result is that of the last one.\<close>

fun retry :: "nat \<Rightarrow> ('s, error + 'a) io \<Rightarrow> ('s, error + 'a) io" where
  "retry n m =
     do { r \<leftarrow> m;
          case r of
            Inr a \<Rightarrow> ret (Inr a)
          | Inl e \<Rightarrow> if n \<le> 1 then ret (Inl e) else retry (n - 1) m }"

declare retry.simps [simp del]

section \<open>Dev users\<close>

definition findUsersFile :: "os \<Rightarrow> string" where
  "findUsersFile env =
     (let near = (case Executable env of None \<Rightarrow> None | Some exe \<Rightarrow>
                    let p = filepath_Join [filepath_Dir exe, usersFileName] in if Stat env p then Some p else None)
      in case near of Some p \<Rightarrow> p | None \<Rightarrow> if Stat env usersFileName then usersFileName else [])"

definition seed_user_of :: "(string \<times> json) list \<Rightarrow> SeedUser option" where
  "seed_user_of kvs =
     do { let fs = [''username'', ''email'', ''password'', ''role'', ''navexa_key''];
          u \<leftarrow> json_field json_as_string [] fs ''username'' kvs;
          e \<leftarrow> json_field json_as_string [] fs ''email'' kvs;
          p \<leftarrow> json_field json_as_string [] fs ''password'' kvs;
          r \<leftarrow> json_field json_as_string [] fs ''role'' kvs;
          k \<leftarrow> json_field json_as_string [] fs ''navexa_key'' kvs;
          Some \<lparr>su_Username = u, su_Email = e, su_Password = p, su_Role = r, su_NavexaKey = k\<rparr> }"

definition users_file_of :: "json \<Rightarrow> SeedUser list option" where
  "users_file_of v =
     do { kvs \<leftarrow> json_members v;
          json_field (json_as_list (\<lambda>u. Option.bind (json_members u) seed_user_of)) [] [''users''] ''users'' kvs }"

definition loadUsersFile :: "os \<Rightarrow> string \<Rightarrow> ('s, error + SeedUser list) io" where
  "loadUsersFile env path =
     (case ReadFile env path of
        Inl e \<Rightarrow> ret (Inl (''read file: '' @ e))
      | Inr data \<Rightarrow>
          (case Option.bind (json_Unmarshal data) users_file_of of
             None \<Rightarrow> do { e \<leftarrow> error_for ''json''; ret (Inl (''parse JSON: '' @ e)) }
           | Some us \<Rightarrow> ret (Inr us)))"

fun seedAll :: "string \<Rightarrow> SeedUser list \<Rightarrow> ('s, error + unit) io" where
  "seedAll c [] = ret (Inr ())"
| "seedAll c (u # us) =
     do { r \<leftarrow> UpsertUser c u;
          case r of
            Inl e \<Rightarrow> ret (Inl (''upsert '' @ su_Username u @ '': '' @ e))
          | Inr _ \<Rightarrow> seedAll c us }"

definition seedWithRetry :: "string \<Rightarrow> SeedUser list \<Rightarrow> ('s, unit) io" where
  "seedWithRetry c users = do { r \<leftarrow> retry seedRetryAttempts (seedAll c users); ret () }"

definition DevUsers :: "os \<Rightarrow> string \<Rightarrow> ('s, unit) io" where
  "DevUsers env apiURL =
     (let path = findUsersFile env
      in if path = [] then ret ()
         else do { r \<leftarrow> loadUsersFile env path;
                   case r of
                     Inl e \<Rightarrow> ret ()
                   | Inr users \<Rightarrow> if_do (users \<noteq> []) (seedWithRetry apiURL users) })"

section \<open>Service and admins\<close>

definition seed_RegisterService :: "string \<Rightarrow> string \<Rightarrow> string \<Rightarrow> ('s, error + string) io" where
  "seed_RegisterService apiURL serviceID serviceKey =
     do { r \<leftarrow> retry seedRetryAttempts (client_RegisterService apiURL serviceID serviceKey);
          ret (case r of
                 Inl e \<Rightarrow> Inl (''service registration failed after '' @ show_nat seedRetryAttempts @ '' attempts: '' @ e)
               | Inr i \<Rightarrow> Inr i) }"

definition email_to_user :: "AdminUser list \<Rightarrow> AdminUser gomap" where
  "email_to_user users = fold (\<lambda>u m. AList.update (ToLower (au_Email u)) u m) users []"

text \<open>The loop over the addresses, with the number of failures and the last error.\<close>

fun sync_loop :: "string \<Rightarrow> string \<Rightarrow> AdminUser gomap \<Rightarrow> string list \<Rightarrow> nat \<times> error option \<Rightarrow> ('s, nat \<times> error option) io" where
  "sync_loop c sid m [] acc = ret acc"
| "sync_loop c sid m (email # emails) (failed, lastErr) =
     (case map_of m (ToLower email) of
        None \<Rightarrow> sync_loop c sid m emails (failed, lastErr)
      | Some user \<Rightarrow>
          if au_Role user = ''admin'' then sync_loop c sid m emails (failed, lastErr)
          else do { r \<leftarrow> AdminUpdateUserRole c sid (au_ID user) ''admin'';
                    sync_loop c sid m emails (case r of Inl e \<Rightarrow> (Suc failed, Some e) | Inr _ \<Rightarrow> (failed, lastErr)) })"

definition syncAdminsOnce :: "string \<Rightarrow> string list \<Rightarrow> string \<Rightarrow> ('s, error + unit) io" where
  "syncAdminsOnce c adminEmails serviceUserID =
     do { r \<leftarrow> AdminListUsers c serviceUserID;
          case r of
            Inl e \<Rightarrow> ret (Inl e)
          | Inr users \<Rightarrow>
              do { (failed, lastErr) \<leftarrow> sync_loop c serviceUserID (email_to_user users) adminEmails (0, None);
                   ret (case lastErr of
                          Some e \<Rightarrow> Inl (''admin sync: '' @ show_nat failed @ '' update(s) failed, last error: '' @ e)
                        | None \<Rightarrow> Inr ()) } }"

definition syncAdminsWithRetry :: "string \<Rightarrow> string list \<Rightarrow> string \<Rightarrow> ('s, unit) io" where
  "syncAdminsWithRetry c adminEmails serviceUserID =
     do { r \<leftarrow> retry seedRetryAttempts (syncAdminsOnce c adminEmails serviceUserID); ret () }"

definition SyncAdmins :: "string \<Rightarrow> string list \<Rightarrow> string \<Rightarrow> ('s, unit) io" where
  "SyncAdmins apiURL adminEmails serviceUserID =
     (if adminEmails = [] then ret () else syncAdminsWithRetry apiURL adminEmails serviceUserID)"

section \<open>Start of the application\<close>

definition portal_id :: "string \<Rightarrow> Config \<Rightarrow> string" where
  "portal_id hostname cfg = (if sc_PortalID (cf_Service cfg) = [] then hostname else sc_PortalID (cf_Service cfg))"

text \<open>The two goroutines \<open>New\<close> may start.\<close>

definition start_seed :: "os \<Rightarrow> Config \<Rightarrow> ('s, unit) io" where
  "start_seed env cfg = if_do (IsDevMode cfg) (DevUsers env (cf_APIURL cfg))"

definition start_admin_sync :: "string \<Rightarrow> Config \<Rightarrow> ('s, unit) io" where
  "start_admin_sync hostname cfg =
     if_do (sc_Key (cf_Service cfg) \<noteq> [] \<and> AdminEmails cfg \<noteq> [])
       (do { r \<leftarrow> seed_RegisterService (cf_APIURL cfg) (portal_id hostname cfg) (sc_Key (cf_Service cfg));
             case r of
               Inl e \<Rightarrow> ret ()
             | Inr serviceUserID \<Rightarrow> SyncAdmins (cf_APIURL cfg) (AdminEmails cfg) serviceUserID })"

section \<open>Lemmas\<close>

definition role_request :: "string \<Rightarrow> string \<Rightarrow> string \<Rightarrow> http_request" where
  "role_request c sid uid =
     \<lparr>ro_method = ''PATCH'', ro_url = c @ ''/api/admin/users/'' @ uid @ ''/role'',
      ro_header = [(''Content-Type'', ''application/json''), (''X-Vire-Service-Id'', sid)],
      ro_body = json_encode (JObj [(''role'', JStr ''admin'')])\<rparr>"

text \<open>The users to be promoted, address by address.\<close>

fun to_promote :: "AdminUser gomap \<Rightarrow> string list \<Rightarrow> AdminUser list" where
  "to_promote m [] = []"
| "to_promote m (e # es) =
     (case map_of m (ToLower e) of
        None \<Rightarrow> to_promote m es
      | Some u \<Rightarrow> if au_Role u = ''admin'' then to_promote m es else u # to_promote m es)"

lemma run_read_reply: "\<exists>r. run_state (read_reply res) (s, w) = (r, (s, w))"
  by (auto simp: read_reply_def split: http_result.split option.split)

lemma run_AdminUpdateUserRole:
  assumes "url_Parse (c @ ''/api/admin/users/'' @ uid @ ''/role'') \<noteq> None"
  obtains r where "run_state (AdminUpdateUserRole c sid uid ''admin'') (s, w)
    = (r, (s, w\<lparr>sent := sent w @ [role_request c sid uid]\<rparr>))"
proof -
  define u where "u = c @ ''/api/admin/users/'' @ uid @ ''/role''"
  define body where "body = json_encode (JObj [(''role'', JStr ''admin'')])"
  let ?rq = "\<lparr>ro_method = ''PATCH'', ro_url = u,
      ro_header = [(''Content-Type'', ''application/json''), (''X-Vire-Service-Id'', sid)], ro_body = body\<rparr>"
  from assms obtain l where l: "url_Parse u = Some l" unfolding u_def by blast
  have rq: "role_request c sid uid = ?rq" by (simp only: role_request_def u_def body_def)
  obtain q where "run_state (read_reply (peer w (length (sent w)) ?rq)) (s, w\<lparr>sent := sent w @ [?rq]\<rparr>)
      = (q, (s, w\<lparr>sent := sent w @ [?rq]\<rparr>))"
    using run_read_reply [of "peer w (length (sent w)) ?rq" s "w\<lparr>sent := sent w @ [?rq]\<rparr>"] by (elim exE)
  then show thesis
    using that unfolding AdminUpdateUserRole_def u_def [symmetric] body_def [symmetric] rq
    by (simp add: NewRequest_def l req_Set_def hdr_Set_def)
qed

lemma sync_loop_sent:
  assumes "\<forall>u\<in>ran (map_of m). url_Parse (c @ ''/api/admin/users/'' @ au_ID u @ ''/role'') \<noteq> None"
    and "run_state (sync_loop c sid m emails acc) (s, w) = (r, (s', w'))"
  shows "sent w' = sent w @ map (\<lambda>u. role_request c sid (au_ID u)) (to_promote m emails)"
  using assms(2)
proof (induction emails arbitrary: acc w)
  case (Cons e es)
  obtain f l where acc: "acc = (f, l)" by (cases acc)
  show ?case
  proof (cases "map_of m (ToLower e)")
    case None
    with Cons acc show ?thesis by simp
  next
    case (Some u)
    show ?thesis
    proof (cases "au_Role u = ''admin''")
      case True
      with Some Cons acc show ?thesis by simp
    next
      case False
      have "url_Parse (c @ ''/api/admin/users/'' @ au_ID u @ ''/role'') \<noteq> None"
        using assms(1) Some by (auto intro: ranI)
      then obtain q where "run_state (AdminUpdateUserRole c sid (au_ID u) ''admin'') (s, w)
          = (q, (s, w\<lparr>sent := sent w @ [role_request c sid (au_ID u)]\<rparr>))" by (rule run_AdminUpdateUserRole)
      with Cons Some False acc show ?thesis by simp
    qed
  qed
qed simp

lemma email_to_user_distinct:
  assumes "distinct (map (\<lambda>u. ToLower (au_Email u)) users)"
  shows "map_of (email_to_user users) k = List.find (\<lambda>u. ToLower (au_Email u) = k) users"
proof -
  have "map_of (fold (\<lambda>u m. AList.update (ToLower (au_Email u)) u m) us m) k
      = (case List.find (\<lambda>u. ToLower (au_Email u) = k) us of None \<Rightarrow> map_of m k | Some u \<Rightarrow> Some u)"
    if "distinct (map (\<lambda>u. ToLower (au_Email u)) us)" for us m
    using that
  proof (induction us arbitrary: m)
    case (Cons u us)
    then have "List.find (\<lambda>v. ToLower (au_Email v) = ToLower (au_Email u)) us = None"
      by (auto simp: find_None_iff image_iff)
    with Cons show ?case by (auto simp: update_conv' split: option.split)
  qed simp
  from this [OF assms] show ?thesis by (simp add: email_to_user_def split: option.split)
qed

lemma to_promote_set: "u \<in> set (to_promote m es) \<longleftrightarrow> au_Role u \<noteq> ''admin'' \<and> (\<exists>e\<in>set es. map_of m (ToLower e) = Some u)"
  by (induction es) (auto split: option.splits if_splits)

lemma find_unique:
  "distinct (map f us) \<Longrightarrow> List.find (\<lambda>u. f u = k) us = Some v \<longleftrightarrow> v \<in> set us \<and> f v = k"
  by (induction us) (auto simp: image_iff)

section \<open>Properties\<close>


definition sample_admins :: json where
  "sample_admins = JObj [(''users'', JArr [JObj [(''id'', JStr ''1''), (''email'', JStr ''A@x''), (''role'', JStr ''user'')]])]"

definition admin_world :: world where
  "admin_world = sample_world\<lparr>peer := (\<lambda>_ _. HttpResp 200 [] (json_encode sample_admins) False)\<rparr>"

definition sample_admin :: AdminUser where
  "sample_admin = \<lparr>au_ID = ''1'', au_Email = ''A@x'', au_Name = [], au_Role = ''user'', au_Provider = [], au_CreatedAt = []\<rparr>"

lemma sample_listed: "\<exists>w1. run_state (AdminListUsers ''http://v'' ''svc'') ((), admin_world) = (Inr [sample_admin], ((), w1))"
proof -
  have d: "Option.bind (json_Unmarshal (json_encode sample_admins)) admins_result = Some [sample_admin]" by code_simp
  have "url_Parse ''http://v/api/admin/users'' \<noteq> None" by code_simp
  then obtain l where l: "url_Parse ''http://v/api/admin/users'' = Some l" by auto
  have "length (json_encode sample_admins) < 100" by code_simp
  then have r: "LimitRead (2 ^ 20) (json_encode sample_admins) False = Some (json_encode sample_admins)"
    by (simp add: LimitRead_def)
  show ?thesis
    by (simp add: AdminListUsers_def NewRequest_def l read_reply_def admin_world_def r [simplified] parse_reply_def d
        del: json_encode.simps)
qed


end
