(* ===== verification/Portal_App.thy ===== *)
theory Portal_App
  imports Page_Handlers MCP_Dev Portal_Seed
begin

text \<open>
  The application: src/internal/app/app.go, the wiring of the page handlers with the client of
  vire-server, the catalog of the MCP handler and the configuration.
\<close>

section \<open>Wiring\<close>

definition catalogAdapter :: "('m Handler, MCPPageTool list) io" where
  "catalogAdapter =
     do { catalog \<leftarrow> get_st Catalog;
          ret (map (\<lambda>ct. \<lparr>mt_name = ct_name ct, mt_description = ct_description ct, mt_method = ct_method ct, mt_path = ct_path ct\<rparr>) catalog) }"

definition userSave :: "string \<Rightarrow> string \<Rightarrow> string gomap \<Rightarrow> ('s, error + unit) io" where
  "userSave baseURL userID upd =
     do { r \<leftarrow> UpdateUser baseURL userID upd; ret (case r of Inl e \<Rightarrow> Inl e | Inr _ \<Rightarrow> Inr ()) }"

text \<open>
  The page, dashboard, mobile, strategy and cash handlers are wired alike. The templates and the
  version of the build are arguments.
\<close>

definition page_handler :: "(string \<Rightarrow> page_data \<Rightarrow> string \<times> bool) \<Rightarrow> string \<Rightarrow> Config \<Rightarrow> 's PageHandler" where
  "page_handler templates version cfg =
     SetProxyGetFn (ProxyGet (cf_APIURL cfg))
       (page_SetAPIURL (cf_APIURL cfg)
         (NewPageHandler templates version (IsDevMode cfg) (ac_JWTSecret (cf_Auth cfg)) (Some (GetUser (cf_APIURL cfg)))))"

text \<open>The other handlers have no proxy function.\<close>

definition base_handler :: "(string \<Rightarrow> page_data \<Rightarrow> string \<times> bool) \<Rightarrow> string \<Rightarrow> Config \<Rightarrow> 's PageHandler" where
  "base_handler templates version cfg =
     page_SetAPIURL (cf_APIURL cfg)
       (NewPageHandler templates version (IsDevMode cfg) (ac_JWTSecret (cf_Auth cfg)) (Some (GetUser (cf_APIURL cfg))))"

definition dev_handler :: "Config \<Rightarrow> DevHandler" where
  "dev_handler cfg = NewDevHandler (ac_JWTSecret (cf_Auth cfg)) (IsDevMode cfg) (BaseURL cfg)"

definition profile_handler :: "(string \<Rightarrow> page_data \<Rightarrow> string \<times> bool) \<Rightarrow> string \<Rightarrow> Config \<Rightarrow> 's ProfileHandler" where
  "profile_handler templates version cfg =
     PageHandler.extend (base_handler templates version cfg)
       (ProfileHandler.fields (Some (userSave (cf_APIURL cfg))) (Some (GenerateEndpoint (dev_handler cfg))))"

definition mcp_page_handler :: "(string \<Rightarrow> page_data \<Rightarrow> string \<times> bool) \<Rightarrow> string \<Rightarrow> Config \<Rightarrow> 'm Handler MCPPageHandler" where
  "mcp_page_handler templates version cfg =
     PageHandler.extend (base_handler templates version cfg)
       (MCPPageHandler.fields (srv_Port (cf_Server cfg)) catalogAdapter (Some (GenerateEndpoint (dev_handler cfg))) (BaseURL cfg))"

definition service_user :: "string \<Rightarrow> Config \<Rightarrow> string" where
  "service_user hostname cfg = (if sc_Key (cf_Service cfg) \<noteq> [] then ''service:'' @ portal_id hostname cfg else [])"

definition users_handler :: "(string \<Rightarrow> page_data \<Rightarrow> string \<times> bool) \<Rightarrow> string \<Rightarrow> string \<Rightarrow> Config \<Rightarrow> 's AdminUsersHandler" where
  "users_handler templates version hostname cfg =
     PageHandler.extend (base_handler templates version cfg)
       (AdminUsersHandler.fields (Some (AdminListUsers (cf_APIURL cfg))) (service_user hostname cfg))"

section \<open>What wired pages send\<close>

lemma page_handler_fields [simp]:
  "pg_apiURL (page_handler t v cfg) = cf_APIURL cfg" "pg_jwtSecret (page_handler t v cfg) = ac_JWTSecret (cf_Auth cfg)"
  "pg_userLookupFn (page_handler t v cfg) = Some (GetUser (cf_APIURL cfg))"
  "pg_proxyGetFn (page_handler t v cfg) = Some (ProxyGet (cf_APIURL cfg))"
  by (simp_all add: page_handler_def SetProxyGetFn_def page_SetAPIURL_def NewPageHandler_def)

lemma users_handler_fields [simp]:
  "pg_apiURL (users_handler t v host cfg) = cf_APIURL cfg" "pg_jwtSecret (users_handler t v host cfg) = ac_JWTSecret (cf_Auth cfg)"
  "pg_userLookupFn (users_handler t v host cfg) = Some (GetUser (cf_APIURL cfg))"
  by (simp_all add: users_handler_def base_handler_def page_SetAPIURL_def NewPageHandler_def PageHandler.defs AdminUsersHandler.defs)

lemmas keeps_own = keeps_own_lookup keeps_own_portfolio keeps_own_finish keeps_own_ProxyGet page_handler_fields

interpretation own_dashboard: own_page "Dashboard_ServeHTTP (page_handler t v cfg)" "ac_JWTSecret (cf_Auth cfg)" "cf_APIURL cfg" for t v cfg
proof unfold_locales
  show "list_all (own_request (cf_APIURL cfg) (jc_sub c)) (drop (length (sent w1)) (sent w'))"
    if "run_state (IsLoggedIn r (ac_JWTSecret (cf_Auth cfg))) (s, w) = (Some c, (s1, w1))"
      "run_state (Dashboard_ServeHTTP (page_handler t v cfg) wr r) (s, w) = (res, (s', w'))" for r s w c s1 w1 wr res s' w'
  proof (rule page_own [OF Dashboard_ServeHTTP_def _ _ that(2)])
    show "run_state (IsLoggedIn r (pg_jwtSecret (page_handler t v cfg))) (s, w) = (Some c, (s1, w1))" using that(1) by simp
  qed (simp only: option.case page_handler_fields, intro inv_intros keeps_own, assumption?)
qed (simp add: Dashboard_ServeHTTP_def)

interpretation own_mobile: own_page "Mobile_ServeHTTP (page_handler t v cfg)" "ac_JWTSecret (cf_Auth cfg)" "cf_APIURL cfg" for t v cfg
proof unfold_locales
  show "list_all (own_request (cf_APIURL cfg) (jc_sub c)) (drop (length (sent w1)) (sent w'))"
    if "run_state (IsLoggedIn r (ac_JWTSecret (cf_Auth cfg))) (s, w) = (Some c, (s1, w1))"
      "run_state (Mobile_ServeHTTP (page_handler t v cfg) wr r) (s, w) = (res, (s', w'))" for r s w c s1 w1 wr res s' w'
  proof (rule page_own [OF Mobile_ServeHTTP_def _ _ that(2)])
    show "run_state (IsLoggedIn r (pg_jwtSecret (page_handler t v cfg))) (s, w) = (Some c, (s1, w1))" using that(1) by simp
  qed (simp only: option.case page_handler_fields, intro inv_intros keeps_own, assumption?)
qed (simp add: Mobile_ServeHTTP_def)

interpretation own_cash: own_page "Cash_ServeHTTP (page_handler t v cfg)" "ac_JWTSecret (cf_Auth cfg)" "cf_APIURL cfg" for t v cfg
proof unfold_locales
  show "list_all (own_request (cf_APIURL cfg) (jc_sub c)) (drop (length (sent w1)) (sent w'))"
    if "run_state (IsLoggedIn r (ac_JWTSecret (cf_Auth cfg))) (s, w) = (Some c, (s1, w1))"
      "run_state (Cash_ServeHTTP (page_handler t v cfg) wr r) (s, w) = (res, (s', w'))" for r s w c s1 w1 wr res s' w'
  proof (rule page_own [OF Cash_ServeHTTP_def _ _ that(2)])
    show "run_state (IsLoggedIn r (pg_jwtSecret (page_handler t v cfg))) (s, w) = (Some c, (s1, w1))" using that(1) by simp
  qed (simp only: option.case page_handler_fields, intro inv_intros keeps_own, assumption?)
qed (simp add: Cash_ServeHTTP_def)

interpretation own_strategy: own_page "Strategy_ServeHTTP (page_handler t v cfg)" "ac_JWTSecret (cf_Auth cfg)" "cf_APIURL cfg" for t v cfg
proof unfold_locales
  show "list_all (own_request (cf_APIURL cfg) (jc_sub c)) (drop (length (sent w1)) (sent w'))"
    if "run_state (IsLoggedIn r (ac_JWTSecret (cf_Auth cfg))) (s, w) = (Some c, (s1, w1))"
      "run_state (Strategy_ServeHTTP (page_handler t v cfg) wr r) (s, w) = (res, (s', w'))" for r s w c s1 w1 wr res s' w'
  proof (rule page_own [OF Strategy_ServeHTTP_def _ _ that(2)])
    show "run_state (IsLoggedIn r (pg_jwtSecret (page_handler t v cfg))) (s, w) = (Some c, (s1, w1))" using that(1) by simp
  qed (simp only: option.case page_handler_fields, intro inv_intros keeps_own, assumption?)
qed (simp add: Strategy_ServeHTTP_def)

interpretation own_help: own_page "ServeHelpPage (page_handler t v cfg)" "ac_JWTSecret (cf_Auth cfg)" "cf_APIURL cfg" for t v cfg
proof unfold_locales
  show "list_all (own_request (cf_APIURL cfg) (jc_sub c)) (drop (length (sent w1)) (sent w'))"
    if "run_state (IsLoggedIn r (ac_JWTSecret (cf_Auth cfg))) (s, w) = (Some c, (s1, w1))"
      "run_state (ServeHelpPage (page_handler t v cfg) wr r) (s, w) = (res, (s', w'))" for r s w c s1 w1 wr res s' w'
  proof (rule page_own [OF ServeHelpPage_def _ _ that(2)])
    show "run_state (IsLoggedIn r (pg_jwtSecret (page_handler t v cfg))) (s, w) = (Some c, (s1, w1))" using that(1) by simp
  qed (simp only: option.case page_handler_fields, intro inv_intros keeps_own, assumption?)
qed (simp add: ServeHelpPage_def)

text \<open>No request of a user who is not an administrator reaches the list of all users.\<close>

definition lists_users :: "string \<Rightarrow> http_request \<Rightarrow> bool" where
  "lists_users base rq \<longleftrightarrow> ro_url rq = base @ ''/api/admin/users''"

lemma not_listing:
  "ro_url rq = base @ ''/api/users/'' @ sub \<Longrightarrow> \<not> lists_users base rq"
  "ro_url rq = base @ ''/api/version'' \<Longrightarrow> \<not> lists_users base rq"
  by (simp_all add: lists_users_def)

lemma keeps_lookup:
  assumes "pg_userLookupFn h = Some (GetUser base)"
  shows "keeps (sends (\<lambda>rq. \<not> lists_users base rq) n) (lookup_user h claims)"
  unfolding lookup_user_def assms
  by (auto intro!: inv_intros keeps_sends_GetUser split: option.splits dest: not_listing(1))

lemma lookup_role:
  assumes "pg_userLookupFn h = Some (GetUser base)" "run_state (lookup_user h (Some c)) (s, w) = (u, (s', w'))" "role_of u \<noteq> []"
  shows "\<exists>p. fst (run_state (GetUser base (jc_sub c)) (s, w)) = Inr p \<and> up_Role p = role_of u"
proof -
  obtain g s2 w2 where g: "run_state (GetUser base (jc_sub c)) (s, w) = (g, (s2, w2))" by (metis prod_cases3)
  with assms show ?thesis by (cases g) (auto simp: lookup_user_def role_of_def split: if_splits)
qed

lemma users_page_unlisted:
  assumes "run_state (IsLoggedIn r (ac_JWTSecret (cf_Auth cfg))) (s, w) = (Some c, (s, w1))"
    and "run_state (AdminUsers_ServeHTTP (users_handler t v host cfg) wr r) (s, w) = (res, (s', w'))"
    and "run_state (lookup_user (users_handler t v host cfg) (Some c)) (s, w1) = (u, \<sigma>)" "role_of u \<noteq> ''admin''"
  shows "list_all (\<lambda>rq. \<not> lists_users (cf_APIURL cfg) rq) (drop (length (sent w1)) (sent w'))"
proof -
  have "\<sigma> = (s', w')" using assms by (simp add: AdminUsers_ServeHTTP_def)
  with assms(3) have "run_state (lookup_user (users_handler t v host cfg) (Some c)) (s, w1) = (u, (s', w'))" by simp
  then show ?thesis by (rule sendsD [OF keeps_lookup, rotated]) simp
qed

section \<open>Properties\<close>

text \<open>
  C5: The dashboard, mobile, cash, strategy and help pages show a visitor no one else's data. With a
  secret configured, a request for such a page either gets the redirect to the landing page with
  nothing sent and nothing changed, or it presents a token signed with the secret, and then every
  request the portal sends to vire-server for it asks for the server version, for the profile of the
  user in the token, or for data under the id of that user.
\<close>
theorem pages_show_own_data:
  assumes "ac_JWTSecret (cf_Auth cfg) \<noteq> []"
    and "page \<in> {Dashboard_ServeHTTP, Mobile_ServeHTTP, Cash_ServeHTTP, Strategy_ServeHTTP, ServeHelpPage}"
    and "run_state (page (page_handler t v cfg) wr r) (s, w) = (res, (s', w'))"
  shows "(res = Returned (http_Redirect r ''/'' 302 wr) \<and> s' = s \<and> sent w' = sent w)
    \<or> (\<exists>c. session_of (ac_JWTSecret (cf_Auth cfg)) r c
        \<and> list_all (own_request (cf_APIURL cfg) (jc_sub c)) (drop (length (sent w)) (sent w')))"
  using assms(2,3) own_dashboard.own_data [OF assms(1), of t v wr r s w res s' w']
    own_mobile.own_data [OF assms(1), of t v wr r s w res s' w'] own_cash.own_data [OF assms(1), of t v wr r s w res s' w']
    own_strategy.own_data [OF assms(1), of t v wr r s w res s' w'] own_help.own_data [OF assms(1), of t v wr r s w res s' w']
  by (elim insertE emptyE) simp_all

theorem pages_show_own_data_witness:
  "fst (run_state (Dashboard_ServeHTTP (page_handler (\<lambda>_ _. ([], True)) ''v'' sample_config) new_response sample_request) ((), sample_world))
     = Returned (http_Redirect sample_request ''/'' 302 new_response)
   \<or> (\<exists>c. session_of (ac_JWTSecret (cf_Auth sample_config)) sample_request c)"
proof -
  have k: "ac_JWTSecret (cf_Auth sample_config) \<noteq> []" by code_simp
  have p: "Dashboard_ServeHTTP \<in> {Dashboard_ServeHTTP, Mobile_ServeHTTP, Cash_ServeHTTP, Strategy_ServeHTTP, ServeHelpPage}" by simp
  show ?thesis
    by (rule disjE [OF pages_show_own_data [OF k p run_eta]]) (elim conjE, erule disjI1, elim exE conjE, rule disjI2, erule exI)
qed

text \<open>
  C8: The list of all users is fetched only for administrators. With a secret configured, a request
  for the users page makes the portal ask vire-server for the list of users only if it presents a
  token signed with the secret and vire-server has just answered that the user in the token has the
  role admin.
\<close>
theorem users_page_admin_only:
  assumes "ac_JWTSecret (cf_Auth cfg) \<noteq> []"
    and "run_state (AdminUsers_ServeHTTP (users_handler t v host cfg) wr r) (s, w) = (res, (s', w'))"
  shows "list_all (\<lambda>rq. \<not> lists_users (cf_APIURL cfg) rq) (drop (length (sent w)) (sent w'))
    \<or> (\<exists>c w1 p. session_of (ac_JWTSecret (cf_Auth cfg)) r c \<and> evolves w w1 \<and> sent w1 = sent w
        \<and> fst (run_state (GetUser (cf_APIURL cfg) (jc_sub c)) (s, w1)) = Inr p \<and> up_Role p = ''admin'')"
proof -
  have "ac_JWTSecret (cf_Auth cfg) = pg_jwtSecret (users_handler t v host cfg)" by simp
  from users.guarded [of "users_handler t v host cfg", folded this, OF assms] show ?thesis
  proof (elim disjE exE conjE)
    fix c w1
    assume c: "session_of (ac_JWTSecret (cf_Auth cfg)) r c" "evolves w w1" "sent w1 = sent w"
      and l: "run_state (IsLoggedIn r (ac_JWTSecret (cf_Auth cfg))) (s, w) = (Some c, (s, w1))"
    obtain u s2 w2 where u: "run_state (lookup_user (users_handler t v host cfg) (Some c)) (s, w1) = (u, (s2, w2))"
      by (metis prod_cases3)
    show ?thesis
    proof (cases "role_of u = ''admin''")
      case True
      then have "\<exists>p. fst (run_state (GetUser (cf_APIURL cfg) (jc_sub c)) (s, w1)) = Inr p \<and> up_Role p = ''admin''"
        using lookup_role [OF _ u, of "cf_APIURL cfg"] by simp
      then obtain p where "fst (run_state (GetUser (cf_APIURL cfg) (jc_sub c)) (s, w1)) = Inr p" "up_Role p = ''admin''" by blast
      with c show ?thesis by (intro disjI2 exI [of _ c] exI [of _ w1] exI [of _ p] conjI)
    next
      case False
      from users_page_unlisted [OF l assms(2) u this] c show ?thesis by (intro disjI1) simp
    qed
  qed simp
qed

theorem users_page_admin_only_witness:
  "list_all (\<lambda>rq. \<not> lists_users (cf_APIURL sample_config) rq)
     (sent (snd (snd (run_state (AdminUsers_ServeHTTP (users_handler (\<lambda>_ _. ([], True)) ''v'' ''host'' sample_config)
        new_response sample_request) ((), sample_world)))))
   \<or> (\<exists>c. session_of (ac_JWTSecret (cf_Auth sample_config)) sample_request c)"
proof -
  have k: "ac_JWTSecret (cf_Auth sample_config) \<noteq> []" by code_simp
  have 0: "drop (length (sent sample_world)) xs = xs" for xs by (simp add: sample_world_def)
  show ?thesis
    using users_page_admin_only [OF k run_eta, where t = "\<lambda>_ _. ([], True)" and v = "''v''" and host = "''host''"
      and wr = new_response and r = sample_request and s = "()" and w = sample_world]
    unfolding 0 by (elim disjE) (erule disjI1, elim exE conjE, rule disjI2, erule exI)
qed

text \<open>
  C40: A vire-server that answers JSON null to the version request takes the portal's pages down.
  With such an answer the landing page and the version endpoint panic, for every visitor and every
  template, and the visitor gets 500 from the recovery middleware, where every other answer that
  cannot be used gives the version "unavailable".
\<close>
theorem null_version_breaks_pages:
  assumes "cf_APIURL cfg \<noteq> []" "url_Parse (cf_APIURL cfg @ ''/api/version'') \<noteq> None"
    and "\<And>k rq. ro_url rq = cf_APIURL cfg @ ''/api/version'' \<Longrightarrow> peer w k rq = HttpResp 200 [] ''null'' False"
    and "rs_code wr = None" "rq_method r = ''GET''"
    and "page \<in> {ServeLandingPage (page_handler t v cfg), Version_ServeHTTP bi (cf_APIURL cfg)}"
  shows "status_of (written (fst (run_state (recoveryMiddleware page wr r) (s, w)))) = 500"
proof -
  have null: "json_Decode ''null'' = Some JNull" "string_map_of_json JNull = Some []" by code_simp+
  have fetch: "fst (run_state (fetchServerVersionFields (cf_APIURL cfg)) (s1, w1)) = None" if "peer w1 = peer w" for s1 :: 's and w1
    using assms(1-3) that null by (simp add: fetchServerVersionFields_def http_Get_def NewRequest_def map_index_def Let_def split: option.splits)
  obtain up s1 w1 where h: "run_state (checkServerHealth (cf_APIURL cfg)) (s, w) = (up, (s1, w1))" by (metis prod_cases3)
  have "keeps (env_inv w0) (checkServerHealth (cf_APIURL cfg) :: ('s, bool) io)" for w0
    unfolding checkServerHealth_def by (intro inv_intros)
  from keeps_evolves [OF this h] have p: "peer w1 = peer w" by (simp add: evolves_def)
  obtain s2 w2 where f1: "run_state (fetchServerVersionFields (cf_APIURL cfg)) (s1, w1) = (None, (s2, w2))"
    using fetch [OF p, of s1] by (metis fst_conv prod_cases3)
  obtain s3 w3 where f2: "run_state (fetchServerVersionFields (cf_APIURL cfg)) (s, w) = (None, (s3, w3))"
    using fetch [OF refl, of s] by (metis fst_conv prod_cases3)
  from assms(6) show ?thesis
  proof (elim insertE emptyE)
    assume "page = ServeLandingPage (page_handler t v cfg)"
    with assms(4) h f1 show ?thesis
      by (simp add: recoveryMiddleware_def ServeLandingPage_def finish_page_def GetServerVersion_def clear_session_def status_Error Let_def)
  next
    assume "page = Version_ServeHTTP bi (cf_APIURL cfg)"
    with assms(4,5) f2 show ?thesis
      by (simp add: recoveryMiddleware_def Version_ServeHTTP_def RequireMethod_def status_Error Let_def)
  qed
qed

text \<open>An environment whose server answers null to everything.\<close>

definition null_world :: world where
  "null_world = sample_world\<lparr>peer := \<lambda>_ _. HttpResp 200 [] ''null'' False\<rparr>"

theorem null_version_breaks_pages_witness:
  "status_of (written (fst (run_state (recoveryMiddleware
     (ServeLandingPage (page_handler (\<lambda>_ _. ([], True)) ''v'' sample_config)) new_response (sample_request\<lparr>rq_method := ''GET''\<rparr>))
     ((), null_world)))) = 500"
proof -
  have 1: "cf_APIURL sample_config \<noteq> []" "url_Parse (cf_APIURL sample_config @ ''/api/version'') \<noteq> None" by code_simp+
  have 2: "peer null_world k rq = HttpResp 200 [] ''null'' False" for k rq by (simp add: null_world_def)
  have 3: "rs_code new_response = None" "rq_method (sample_request\<lparr>rq_method := ''GET''\<rparr>) = ''GET''" by (simp_all add: new_response_def)
  show ?thesis by (rule null_version_breaks_pages [OF 1 2 3 insertI1])
qed

end
