(* ===== verification/Portal_Server.thy ===== *)
theory Portal_Server
  imports API_Proxy Auth_Handlers Log_Store Portal_App
begin

text \<open>
  The whole HTTP server: the handlers of all components behind the routing table of
  src/internal/server/routes.go and the middleware of src/internal/server/middleware.go, as
  src/internal/server/server.go (\<open>New\<close>) and src/internal/app/app.go (\<open>initHandlers\<close>) put them
  together. The state is that of the components; a request is one action on it.
\<close>

section \<open>State\<close>

record 'm portal =
  pt_oauth :: OAuthServer
  pt_server :: Server
  pt_mcp :: "'m Handler"

definition on_oauth :: "(OAuthServer, 'a) io \<Rightarrow> ('m portal, 'a) io" where
  "on_oauth m = zoom pt_oauth (\<lambda>x p. p\<lparr>pt_oauth := x\<rparr>) m"

definition on_server :: "(Server, 'a) io \<Rightarrow> ('m portal, 'a) io" where
  "on_server m = zoom pt_server (\<lambda>x p. p\<lparr>pt_server := x\<rparr>) m"

definition on_mcp :: "('m Handler, 'a) io \<Rightarrow> ('m portal, 'a) io" where
  "on_mcp m = zoom pt_mcp (\<lambda>x p. p\<lparr>pt_mcp := x\<rparr>) m"

text \<open>
  What the process is given: the configuration, the build, the host and its file system, the
  templates, and the HTTP side of the MCP library, which serves requests on the state of the MCP
  handler.
\<close>

record 'm site =
  st_config :: Config
  st_build :: build_info
  st_hostname :: string
  st_os :: os
  st_isDir :: "string \<Rightarrow> bool"
  st_ServeFile :: "string \<Rightarrow> response \<Rightarrow> request \<Rightarrow> response"
  st_templates :: "string \<Rightarrow> page_data \<Rightarrow> string \<times> bool"
  st_streamable :: "'m Handler handler"

definition site_secret :: "'m site \<Rightarrow> string" where
  "site_secret st = ac_JWTSecret (cf_Auth (st_config st))"

definition auth_handler :: "Config \<Rightarrow> AuthHandler" where
  "auth_handler cfg =
     SetOAuthServer (NewAuthHandler (IsDevMode cfg) (cf_APIURL cfg) (ac_CallbackURL (cf_Auth cfg)) (ac_JWTSecret (cf_Auth cfg)))"

section \<open>Endpoints\<close>

text \<open>Handlers that cannot panic.\<close>

definition returns :: "('s, response) io \<Rightarrow> ('s, outcome) io" where
  "returns m = do { w \<leftarrow> m; ret (Returned w) }"

definition the_page :: "'m site \<Rightarrow> 'm portal PageHandler" where
  "the_page st = page_handler (st_templates st) (bi_version (st_build st)) (st_config st)"

definition the_profile :: "'m site \<Rightarrow> 'm portal ProfileHandler" where
  "the_profile st = profile_handler (st_templates st) (bi_version (st_build st)) (st_config st)"

fun serve :: "'m site \<Rightarrow> endpoint \<Rightarrow> 'm portal handler" where
  "serve st HandleAuthorizationServer_ep w r = ret (Returned (HandleAuthorizationServer w r))"
| "serve st HandleProtectedResource_ep w r = ret (Returned (HandleProtectedResource w r))"
| "serve st WellKnownNotFound_ep w r = ret (Returned (handleWellKnownNotFound w r))"
| "serve st HandleRegister_ep w r = on_oauth (returns (HandleRegister w r))"
| "serve st HandleAuthorize_ep w r = on_oauth (returns (HandleAuthorize w r))"
| "serve st HandleAuthorizeResume_ep w r = on_oauth (returns (HandleAuthorizeResume w r))"
| "serve st HandleToken_ep w r = on_oauth (returns (HandleToken w r))"
| "serve st Dashboard_ep w r = Dashboard_ServeHTTP (the_page st) w r"
| "serve st MobileDashboard_ep w r = Mobile_ServeHTTP (the_page st) w r"
| "serve st Strategy_ep w r = Strategy_ServeHTTP (the_page st) w r"
| "serve st Cash_ep w r = Cash_ServeHTTP (the_page st) w r"
| "serve st MCPPage_ep w r = on_mcp (MCPPage_ServeHTTP (mcp_page_handler (st_templates st) (bi_version (st_build st)) (st_config st)) w r)"
| "serve st HelpPage_ep w r = ServeHelpPage (the_page st) w r"
| "serve st ChangelogPage_ep w r = ServeChangelogPage (the_page st) w r"
| "serve st GlossaryPage_ep w r = ServeGlossaryPage (the_page st) w r"
| "serve st DocsPage_ep w r = ServePage (the_page st) ''docs.html'' ''docs'' w r"
| "serve st ErrorPage_ep w r = ServeErrorPage (the_page st) w r"
| "serve st LandingPage_ep w r = ServeLandingPage (the_page st) w r"
| "serve st StaticFile_ep w r = StaticFileHandler (st_os st) (st_isDir st) (st_ServeFile st) w r"
| "serve st MCP_ep w r = on_mcp (MCP_ServeHTTP (st_streamable st) (site_secret st) w r)"
| "serve st MCPDev_ep w r = on_mcp (Dev_ServeHTTP (st_streamable st) (dev_handler (st_config st)) w r)"
| "serve st HandleProfile_ep w r = HandleProfile (the_profile st) w r"
| "serve st HandleSaveProfile_ep w r = HandleSaveProfile (the_profile st) w r"
| "serve st AdminUsers_ep w r =
     AdminUsers_ServeHTTP (users_handler (st_templates st) (bi_version (st_build st)) (st_hostname st) (st_config st)) w r"
| "serve st HandleLogin_ep w r = on_oauth (returns (HandleLogin (auth_handler (st_config st)) w r))"
| "serve st HandleTestLogin_ep w r = returns (HandleTestLogin (auth_handler (st_config st)) w r)"
| "serve st HandleLogout_ep w r = ret (Returned (HandleLogout w r))"
| "serve st HandleGoogleLogin_ep w r = returns (HandleGoogleLogin (auth_handler (st_config st)) w r)"
| "serve st HandleGitHubLogin_ep w r = returns (HandleGitHubLogin (auth_handler (st_config st)) w r)"
| "serve st HandleOAuthCallback_ep w r = on_oauth (returns (HandleOAuthCallback (auth_handler (st_config st)) w r))"
| "serve st HandleGoogleCallback_ep w r = returns (HandleGoogleCallback (auth_handler (st_config st)) w r)"
| "serve st HandleGitHubCallback_ep w r = returns (HandleGitHubCallback (auth_handler (st_config st)) w r)"
| "serve st Health_ep w r = Health_ServeHTTP w r"
| "serve st ServerHealth_ep w r = ServerHealth_ServeHTTP (cf_APIURL (st_config st)) w r"
| "serve st Version_ep w r = Version_ServeHTTP (st_build st) (cf_APIURL (st_config st)) w r"
| "serve st Shutdown_ep w r = on_server (returns (handleShutdown w r))"
| "serve st APIProxy_ep w r = on_server (returns (handleAPIProxy w r))"

section \<open>Dispatch\<close>

text \<open>
  \<open>ServeMux.ServeHTTP\<close>: the redirect of an unclean path is to the clean escaped path, the one to a
  directory to the clean path with a slash, both with the query; their targets are escaped.
\<close>

definition redirect_url :: "request \<Rightarrow> string \<Rightarrow> string" where
  "redirect_url r p =
     url_String (empty_url\<lparr>u_path := (if p = clean_path (rq_escaped r) then p else clean_path (rq_path r) @ ''/''),
                           u_rawquery := rq_rawquery r\<rparr>)"

definition mux_ServeHTTP :: "(pattern \<times> 'e) list \<Rightarrow> ('e \<Rightarrow> 's handler) \<Rightarrow> 's handler" where
  "mux_ServeHTTP table srv w r =
     (case find_handler table (rq_method r) (rq_escaped r) of
        ToHandler e \<Rightarrow> srv e w r
      | MovedPermanently p \<Rightarrow> ret (Returned (http_Redirect r (redirect_url r p) 301 w))
      | MuxNotFound \<Rightarrow> ret (Returned (http_NotFound w)))"

definition portal_router :: "'m site \<Rightarrow> 'm portal handler" where
  "portal_router st = mux_ServeHTTP (setupRoutes True True) (serve st)"

text \<open>The server: a request with a fresh response writer. \<open>uuid\<close> draws the identifiers of the middleware.\<close>

definition portal_serve :: "(world \<Rightarrow> string) \<Rightarrow> 'm site \<Rightarrow> request \<Rightarrow> ('m portal, outcome) io" where
  "portal_serve uuid st r = withMiddleware uuid (portal_router st) new_response r"

section \<open>The process\<close>

text \<open>
  What \<open>main\<close> does once the configuration is loaded: the application is built, which fetches the
  tool catalog, then the server, which gets the shutdown channel, and the remote log store.
\<close>

definition initHandlers :: "'m mcp_lib \<Rightarrow> 'm site \<Rightarrow> ('s, OAuthServer \<times> 'm Handler) io" where
  "initHandlers lib st =
     (let cfg = st_config st
      in do { mcp \<leftarrow> NewHandler lib (st_build st) cfg;
              ret (NewOAuthServer (BaseURL cfg) (cf_APIURL cfg) (site_secret st), mcp) })"

definition portal_start :: "'m mcp_lib \<Rightarrow> 'm site \<Rightarrow> ('s, 'm portal) io" where
  "portal_start lib st =
     do { (oauth, mcp) \<leftarrow> initHandlers lib st;
          let srv = server_New (cf_APIURL (st_config st)) (site_secret st) (IsDevMode (st_config st));
          ret \<lparr>pt_oauth = oauth, pt_server = srv\<lparr>sv_chan := True\<rparr>, pt_mcp = mcp\<rparr> }"

definition remote_log :: "'m site \<Rightarrow> HTTPLogStore option" where
  "remote_log st =
     (if sc_Key (cf_Service (st_config st)) \<noteq> []
      then Some (NewHTTPLogStore (cf_APIURL (st_config st)) (''service:'' @ portal_id (st_hostname st) (st_config st)))
      else None)"

text \<open>
  What happens afterwards, in any order: requests, the catalog watcher with the last build it saw,
  the two goroutines of \<open>New\<close>, and \<open>Close\<close>. Each is taken as one step.
\<close>

definition app_Close :: "('m portal, unit) io" where
  "app_Close = on_mcp (mod_st Handler_Close)"

datatype event = Request request | WatchPoll string | SeedUsers | AdminSync | CloseApp

fun portal_event :: "'m mcp_lib \<Rightarrow> (world \<Rightarrow> string) \<Rightarrow> 'm site \<Rightarrow> event \<Rightarrow> ('m portal, outcome option) io" where
  "portal_event lib uuid st (Request r) = do { out \<leftarrow> portal_serve uuid st r; ret (Some out) }"
| "portal_event lib uuid st (WatchPoll lastBuild) = on_mcp (do { b \<leftarrow> watch_poll lib lastBuild; ret None })"
| "portal_event lib uuid st SeedUsers = do { start_seed (st_os st) (st_config st); ret None }"
| "portal_event lib uuid st AdminSync = do { start_admin_sync (st_hostname st) (st_config st); ret None }"
| "portal_event lib uuid st CloseApp = do { app_Close; ret None }"

section \<open>Invariants of the environment's operations\<close>

lemma users_handler_list [simp]: "au_listFn (users_handler t v host cfg) = Some (AdminListUsers (cf_APIURL cfg))"
  by (simp add: users_handler_def PageHandler.defs AdminUsersHandler.defs)

lemma profile_handler_fields [simp]:
  "pf_userSaveFn (profile_handler t v cfg) = Some (userSave (cf_APIURL cfg))"
  "pf_devMCPEndpoint (profile_handler t v cfg) = Some (GenerateEndpoint (dev_handler cfg))"
  "pg_userLookupFn (profile_handler t v cfg) = Some (GetUser (cf_APIURL cfg))"
  "pg_jwtSecret (profile_handler t v cfg) = ac_JWTSecret (cf_Auth cfg)"
  by (simp_all add: profile_handler_def base_handler_def page_SetAPIURL_def NewPageHandler_def PageHandler.defs ProfileHandler.defs)

text \<open>
  An invariant that reading the clock, drawing random bytes, sending requests and ranging over maps
  preserve. Everything the pages do is made of these, so they preserve it too: this gives at once
  that pages change no state of the portal and that they only advance the environment.
\<close>

locale env_stable =
  fixes P :: "'s \<times> world \<Rightarrow> bool"
  assumes now: "keeps P time_Now"
    and draw: "keeps P (rand_Read n)"
    and send: "keeps P (client_Do rq)"
    and range: "keeps P (range_map (m :: string gomap))"
    and err: "keeps P (error_for e)"
begin

lemma new_request: "keeps P (NewRequest m u b)"
  unfolding NewRequest_def by (intro inv_intros err)

lemma calls: "keeps P (http_Get u)" "keeps P (http_Post u c b)"
  unfolding http_Get_def http_Post_def by (intro inv_intros new_request send)+

lemma replies: "keeps P (read_reply res)" "keeps P (parse_reply conv body)"
  unfolding read_reply_def parse_reply_def by (intro inv_intros err)+

lemma client:
  "keeps P (GetUser base u)" "keeps P (ProxyGet base path u)" "keeps P (AdminListUsers base sid)" "keeps P (UpdateUser base u upd)"
  unfolding GetUser_def ProxyGet_def AdminListUsers_def UpdateUser_def by (intro inv_intros calls replies new_request send)+

lemma version: "keeps P (fetchServerVersionFields base)" "keeps P (GetServerVersion base)" "keeps P (checkServerHealth base)"
  unfolding GetServerVersion_def fetchServerVersionFields_def checkServerHealth_def by (intro inv_intros calls)+

lemma tokens: "keeps P (ValidateJWT t sec)"
  unfolding ValidateJWT_def Let_def
  by (auto intro!: inv_intros now err split: sig_result.splits option.splits if_splits)

lemma login: "keeps P (IsLoggedIn r sec)"
  unfolding IsLoggedIn_def by (intro inv_intros tokens)

lemma finish: "keeps P (finish_page h w body)"
  unfolding finish_page_def by (intro inv_intros version)

lemma lookup: "pg_userLookupFn h = Some (GetUser base) \<Longrightarrow> keeps P (lookup_user h c)"
  unfolding lookup_user_def by (auto intro!: inv_intros client split: option.splits)

lemma fetch:
  assumes "pg_proxyGetFn h = Some (ProxyGet base)"
  shows "keeps P (portfolio_data h sub u jobs run_jobs)" "keeps P (portfolio_data h sub u jobs fetch_parallel)"
proof -
  have jobs: "keeps P (run_jobs (ProxyGet base) sub js)" for js by (rule keeps_run_jobs) (rule client)
  have par: "keeps P (fetch_parallel (ProxyGet base) sub js)" for js
    unfolding fetch_parallel_def by (intro inv_intros range jobs)
  show "keeps P (portfolio_data h sub u jobs run_jobs)" "keeps P (portfolio_data h sub u jobs fetch_parallel)"
    by (rule keeps_portfolio_data [OF assms]; rule client jobs par)+
qed

lemmas page_parts = login lookup [OF page_handler_fields(3)] fetch [OF page_handler_fields(4)] client version finish

lemma portfolio_pages:
  "keeps P (Dashboard_ServeHTTP (page_handler t v cfg) w r)" "keeps P (Mobile_ServeHTTP (page_handler t v cfg) w r)"
  "keeps P (Cash_ServeHTTP (page_handler t v cfg) w r)" "keeps P (Strategy_ServeHTTP (page_handler t v cfg) w r)"
  unfolding Dashboard_ServeHTTP_def Mobile_ServeHTTP_def Cash_ServeHTTP_def Strategy_ServeHTTP_def
  by (intro inv_intros page_parts)+

lemma public_pages:
  "keeps P (ServePage (page_handler t v cfg) n k w r)" "keeps P (ServeErrorPage (page_handler t v cfg) w r)"
  "keeps P (ServeLandingPage (page_handler t v cfg) w r)" "keeps P (StaticFileHandler env isDir sf w r)"
  unfolding ServePage_def ServeErrorPage_def ServeLandingPage_def StaticFileHandler_def Let_def
  by (intro inv_intros page_parts)+

lemma data_pages:
  "keeps P (ServeGlossaryPage (page_handler t v cfg) w r)" "keeps P (ServeChangelogPage (page_handler t v cfg) w r)"
  "keeps P (ServeHelpPage (page_handler t v cfg) w r)"
  unfolding ServeGlossaryPage_def ServeChangelogPage_def ServeHelpPage_def page_handler_fields option.case
  by (intro inv_intros page_parts)+

lemma status_pages:
  "keeps P (Health_ServeHTTP w r)" "keeps P (ServerHealth_ServeHTTP base w r)" "keeps P (Version_ServeHTTP bi base w r)"
  unfolding Health_ServeHTTP_def ServerHealth_ServeHTTP_def Version_ServeHTTP_def
  by (intro inv_intros new_request send version range)+

lemma users_page: "keeps P (AdminUsers_ServeHTTP (users_handler t v host cfg) w r)"
  unfolding AdminUsers_ServeHTTP_def users_handler_list option.case
  by (intro inv_intros page_parts lookup [OF users_handler_fields(3)])

lemma profile_page: "keeps P (HandleSaveProfile (profile_handler t v cfg) w r)" "keeps P (HandleProfile (profile_handler t v cfg) w r)"
proof -
  have dev: "keeps P (dev_endpoint (Some (GenerateEndpoint dh)) sub)" for dh sub
    unfolding dev_endpoint_def GenerateEndpoint_def encryptUID_def option.case by (intro inv_intros draw)
  show "keeps P (HandleSaveProfile (profile_handler t v cfg) w r)"
    unfolding HandleSaveProfile_def profile_handler_fields option.case userSave_def by (intro inv_intros page_parts)
  show "keeps P (HandleProfile (profile_handler t v cfg) w r)"
    unfolding HandleProfile_def profile_handler_fields jwt_data_def format_unix_def
    by (intro inv_intros page_parts lookup [OF profile_handler_fields(3)] dev err now)
qed

lemma auth_calls:
  "keeps P (HandleTestLogin ah w r)" "keeps P (HandleGoogleLogin ah w r)" "keeps P (HandleGitHubLogin ah w r)"
  "keeps P (HandleGoogleCallback ah w r)" "keeps P (HandleGitHubCallback ah w r)"
  unfolding HandleTestLogin_def HandleGoogleLogin_def HandleGitHubLogin_def HandleGoogleCallback_def HandleGitHubCallback_def
    proxyOAuthRedirect_def proxyOAuthCallback_def Let_def
  by (intro inv_intros calls new_request send)+

lemma retries:
  assumes "keeps P m"
  shows "keeps P (retry n m)"
proof (induction n)
  case 0
  then show ?case by (subst retry.simps, intro inv_intros assms) simp
next
  case (Suc n)
  then show ?case by (subst retry.simps, intro inv_intros assms) simp
qed

lemma seeding: "keeps P (start_seed env cfg)"
proof -
  have upsert: "keeps P (UpsertUser c u)" for c u
    unfolding UpsertUser_def by (intro inv_intros calls replies new_request send)
  have all: "keeps P (seedAll c us)" for c us
    by (induction us) (simp_all only: seedAll.simps, (intro inv_intros upsert; assumption)+)
  show ?thesis
    unfolding start_seed_def DevUsers_def loadUsersFile_def seedWithRetry_def Let_def
    by (intro inv_intros retries all err)
qed

lemma syncing: "keeps P (start_admin_sync host cfg)"
proof -
  have role: "keeps P (AdminUpdateUserRole c sid i role)" for c sid i role
    unfolding AdminUpdateUserRole_def by (intro inv_intros calls replies new_request send)
  have loop: "keeps P (sync_loop c sid m es acc)" for c sid m es acc
    by (induction c sid m es acc rule: sync_loop.induct) (simp_all only: sync_loop.simps, (intro inv_intros role; assumption?)+)
  have reg: "keeps P (client_RegisterService c i k)" for c i k
    unfolding client_RegisterService_def by (intro inv_intros calls replies new_request send)
  show ?thesis
    unfolding start_admin_sync_def seed_RegisterService_def SyncAdmins_def syncAdminsWithRetry_def syncAdminsOnce_def
    by (intro inv_intros retries client loop reg)
qed

end

interpretation state_only: env_stable "st_inv I" for I
  by unfold_locales (intro inv_intros)+

interpretation advance: env_stable "env_inv w0" for w0
  by unfold_locales (intro inv_intros)+

section \<open>Every endpoint only advances the environment\<close>

lemma keeps_on_env [inv_intros]:
  "keeps (env_inv w0) m1 \<Longrightarrow> keeps (env_inv w0) (on_oauth m1)" "keeps (env_inv w0) m2 \<Longrightarrow> keeps (env_inv w0) (on_server m2)"
  "keeps (env_inv w0) m3 \<Longrightarrow> keeps (env_inv w0) (on_mcp m3)"
  unfolding on_oauth_def on_server_def on_mcp_def by (intro inv_intros; assumption)+

lemma keeps_returns [inv_intros]: "keeps P m \<Longrightarrow> keeps P (returns m)"
  unfolding returns_def by (intro inv_intros)

lemma keeps_oauth_env:
  "keeps (env_inv w0) (HandleAuthorize w r)" "keeps (env_inv w0) (HandleToken w r)"
  "keeps (env_inv w0) (HandleLogin ah w r)" "keeps (env_inv w0) (HandleOAuthCallback ah w r)"
  unfolding HandleAuthorize_def HandleToken_def HandleLogin_def HandleOAuthCallback_def login_answer_def finish_login_def
    tryCompleteMCPSession_def Let_def
  by (intro inv_intros advance.calls)+

lemma keeps_server_proxy_env: "keeps (env_inv w0) (handleShutdown w r)" "keeps (env_inv w0) (handleAPIProxy w r)"
  unfolding handleShutdown_def handleAPIProxy_def handle_upstream_def forward_def on_cache_def Let_def by (intro inv_intros)+

text \<open>The MCP library, like everything else, only advances the environment.\<close>

definition streamable_ok :: "'m site \<Rightarrow> bool" where
  "streamable_ok st \<longleftrightarrow> (\<forall>w r w0. keeps (env_inv w0) (st_streamable st w r))"

lemma keeps_mcp_env:
  assumes "streamable_ok st"
  shows "keeps (env_inv w0) (MCP_ServeHTTP (st_streamable st) sec w r)" "keeps (env_inv w0) (Dev_ServeHTTP (st_streamable st) dh w r)"
    "keeps (env_inv w0) (MCPPage_ServeHTTP (mcp_page_handler t v cfg) w r)"
proof -
  have s: "keeps (env_inv w0) (st_streamable st w r)" for w r using assms by (simp add: streamable_ok_def)
  show "keeps (env_inv w0) (MCP_ServeHTTP (st_streamable st) sec w r)"
    unfolding MCP_ServeHTTP_def by (intro inv_intros s)
  show "keeps (env_inv w0) (Dev_ServeHTTP (st_streamable st) dh w r)"
    unfolding Dev_ServeHTTP_def decryptUID_def Let_def by (intro inv_intros s)
  have f: "pg_userLookupFn (mcp_page_handler t v cfg :: 'b Handler MCPPageHandler) = Some (GetUser (cf_APIURL cfg))"
    "mp_catalogFn (mcp_page_handler t v cfg) = (catalogAdapter :: ('b Handler, _) io)"
    "mp_devMCPEndpoint (mcp_page_handler t v cfg :: 'b Handler MCPPageHandler) = Some (GenerateEndpoint (dev_handler cfg))" for t v cfg
    by (simp_all add: mcp_page_handler_def base_handler_def page_SetAPIURL_def NewPageHandler_def PageHandler.defs MCPPageHandler.defs)
  show "keeps (env_inv w0) (MCPPage_ServeHTTP (mcp_page_handler t v cfg :: 'b Handler MCPPageHandler) w r)"
    unfolding MCPPage_ServeHTTP_def f catalogAdapter_def dev_endpoint_def GenerateEndpoint_def encryptUID_def option.case
    by (intro inv_intros advance.login advance.lookup [OF f(1)] advance.finish)
qed

lemma serve_env:
  assumes "streamable_ok st"
  shows "keeps (env_inv w0) (serve st e w r)"
  by (cases e; simp only: serve.simps the_page_def the_profile_def;
      intro inv_intros keeps_oauth_env keeps_server_proxy_env keeps_mcp_env [OF assms] advance.portfolio_pages advance.public_pages
        advance.data_pages advance.status_pages advance.users_page advance.profile_page advance.auth_calls)

section \<open>A used code stays used\<close>

text \<open>\<open>f\<close> finds the authorization server in the state: the whole portal or the server itself.\<close>

definition spent :: "('s \<Rightarrow> OAuthServer) \<Rightarrow> string \<Rightarrow> 's \<times> world \<Rightarrow> bool" where
  "spent f code sw \<longleftrightarrow> code_used code (os_codes (f (fst sw))) \<and> code_fresh code (snd sw)"

lemma spent_simp [simp]: "spent f code (s, w) \<longleftrightarrow> code_used code (os_codes (f s)) \<and> code_fresh code w"
  by (simp add: spent_def)

lemma spent_quietly:
  assumes "\<And>I. keeps (st_inv I) m" "\<And>w0. keeps (env_inv w0) m"
  shows "keeps (spent f code) m"
proof (rule keeps_pairI)
  fix s w a s' w'
  assume u: "spent f code (s, w)" and run: "run_state m (s, w) = (a, (s', w'))"
  from u code_fresh_evolves [OF _ keeps_evolves [OF assms(2) run]] show "spent f code (s', w')"
    by (simp add: st_unchanged [OF assms(1) run])
qed

interpretation spent: env_stable "spent f code" for f code
  by unfold_locales (rule spent_quietly; intro inv_intros)+

lemma codes_spent:
  assumes "\<And>w0. keeps (env_inv w0) m" "\<And>s w a s' w'. run_state m (s, w) = (a, (s', w')) \<Longrightarrow> codes_after s w s'"
  shows "keeps (spent (\<lambda>s. s) code) m"
proof (rule keeps_pairI)
  fix s w a s' w'
  assume "spent (\<lambda>s. s) code (s, w)" and run: "run_state m (s, w) = (a, (s', w'))"
  then have u: "code_used code (os_codes s)" "code_fresh code w" by simp_all
  have "code_used code (os_codes s')" by (rule codes_keep_used [OF assms(2) [OF run] u])
  moreover have "code_fresh code w'" by (rule code_fresh_evolves [OF u(2) keeps_evolves [OF assms(1) run]])
  ultimately show "spent (\<lambda>s. s) code (s', w')" by simp
qed

lemma keeps_spentD: "keeps (spent f code) m \<Longrightarrow> spent f code (s, w) \<Longrightarrow> run_state m (s, w) = (a, (s', w')) \<Longrightarrow> spent f code (s', w')"
  by (rule keepsD)

lemma keeps_zoom_spent:
  assumes "\<And>w0. keeps (env_inv w0) m" "\<And>x p. os_codes (f (put x p)) = os_codes (f p)"
  shows "keeps (spent f code) (zoom get put m)"
  using assms(2) code_fresh_evolves [OF _ keeps_evolves [OF assms(1)]] by (auto intro!: keeps_pairI split: prod.splits)

lemma keeps_on_spent [inv_intros]:
  "keeps (spent (\<lambda>s. s) code) m \<Longrightarrow> keeps (spent pt_oauth code) (on_oauth m)"
  "(\<And>w0. keeps (env_inv w0) m2) \<Longrightarrow> keeps (spent pt_oauth code) (on_server m2)"
  "(\<And>w0. keeps (env_inv w0) m3) \<Longrightarrow> keeps (spent pt_oauth code) (on_mcp m3)"
proof -
  show "keeps (spent (\<lambda>s. s) code) m \<Longrightarrow> keeps (spent pt_oauth code) (on_oauth m)"
    unfolding on_oauth_def by (rule keeps_pairI) (auto split: prod.splits dest: keeps_spentD)
qed (simp_all add: on_server_def on_mcp_def keeps_zoom_spent)

lemma oauth_spent [inv_intros]:
  "keeps (spent (\<lambda>s. s) code) (HandleAuthorize wr r)" "keeps (spent (\<lambda>s. s) code) (HandleAuthorizeResume wr r)"
  "keeps (spent (\<lambda>s. s) code) (HandleToken wr r)" "keeps (spent (\<lambda>s. s) code) (HandleRegister wr r)"
  "keeps (spent (\<lambda>s. s) code) (CompleteAuthorization sid u)"
proof -
  have register: "codes_after s w s'" if "run_state (HandleRegister wr r) (s, w) = (a, (s', w'))" for s w a s' w'
    using Register_codes [OF that] by (simp add: codes_after_def)
  show "keeps (spent (\<lambda>s. s) code) (HandleAuthorize wr r)" by (rule codes_spent [OF keeps_oauth_env(1) Authorize_codes])
  show "keeps (spent (\<lambda>s. s) code) (HandleToken wr r)" by (rule codes_spent [OF keeps_oauth_env(2) Token_codes])
  show "keeps (spent (\<lambda>s. s) code) (HandleAuthorizeResume wr r)" by (rule codes_spent [OF _ Resume_codes]) (intro inv_intros)
  show "keeps (spent (\<lambda>s. s) code) (HandleRegister wr r)" by (rule codes_spent [OF _ register]) (intro inv_intros)
  show "keeps (spent (\<lambda>s. s) code) (CompleteAuthorization sid u)" by (rule codes_spent [OF _ Complete_codes]) (intro inv_intros)
qed

lemma login_spent:
  "keeps (spent (\<lambda>s. s) code) (HandleLogin ah wr r)" "keeps (spent (\<lambda>s. s) code) (HandleOAuthCallback ah wr r)"
  unfolding HandleLogin_def HandleOAuthCallback_def login_answer_def finish_login_def tryCompleteMCPSession_def Let_def
  by (intro inv_intros spent.calls)+

lemma serve_spent:
  assumes "streamable_ok st"
  shows "keeps (spent pt_oauth code) (serve st e w r)"
  by (cases e; simp only: serve.simps the_page_def the_profile_def;
      intro inv_intros login_spent keeps_server_proxy_env keeps_mcp_env [OF assms] spent.portfolio_pages spent.public_pages
        spent.data_pages spent.status_pages spent.users_page spent.profile_page spent.auth_calls)

section \<open>Through the middleware\<close>

lemma keeps_portal_serve:
  assumes "\<And>e w r. keeps P (serve st e w r)" "\<And>s v v'. P (s, v) \<Longrightarrow> evolves v v' \<Longrightarrow> P (s, v')"
  shows "keeps P (portal_serve uuid st r)"
  unfolding portal_serve_def withMiddleware_def
proof (rule chain.keeps_by_next)
  show "P (s, v) \<Longrightarrow> evolves v v' \<Longrightarrow> P (s, v')" for s v v' by (rule assms(2))
  fix w r
  show "keeps P (recoveryMiddleware (portal_router st) w r)"
    unfolding recoveryMiddleware_def portal_router_def mux_ServeHTTP_def
    by (cases "find_handler (setupRoutes True True) (rq_method r) (rq_escaped r)") (simp_all only: dispatch.case, (intro inv_intros assms(1))+)
qed

lemma portal_serve_env:
  assumes "streamable_ok st"
  shows "keeps (env_inv w0) (portal_serve uuid st r)"
  by (rule keeps_portal_serve [OF serve_env [OF assms]]) (use evolves_trans in auto)

lemma portal_serve_spent:
  assumes "streamable_ok st"
  shows "keeps (spent pt_oauth code) (portal_serve uuid st r)"
  by (rule keeps_portal_serve [OF serve_spent [OF assms]]) (use code_fresh_evolves in auto)

section \<open>Every event\<close>

lemma keeps_watch_env: "keeps (env_inv w0) (watch_poll lib b)"
  unfolding watch_poll_def triggerRefresh_def RefreshCatalog_def Let_def by (intro inv_intros)

lemma portal_event_env:
  assumes "streamable_ok st"
  shows "keeps (env_inv w0) (portal_event lib uuid st x)"
  by (cases x; simp only: portal_event.simps app_Close_def;
      intro inv_intros portal_serve_env [OF assms] keeps_watch_env advance.seeding advance.syncing)

lemma portal_event_spent:
  assumes "streamable_ok st"
  shows "keeps (spent pt_oauth code) (portal_event lib uuid st x)"
  by (cases x; simp only: portal_event.simps app_Close_def;
      intro inv_intros portal_serve_spent [OF assms] keeps_watch_env spent.seeding spent.syncing)

section \<open>Token requests to the server\<close>

text \<open>The request as the handlers see it: with the limit on its body.\<close>

definition limited :: "request \<Rightarrow> request" where
  "limited r = r\<lparr>rq_limit := Some (body_limit (2 ^ 20) r)\<rparr>"

definition token_request :: "string \<Rightarrow> request \<Rightarrow> bool" where
  "token_request code r \<longleftrightarrow>
     rq_path r = ''/token'' \<and> find_handler (setupRoutes True True) (rq_method r) (rq_escaped r) = ToHandler HandleToken_ep
     \<and> is_code_exchange (limited r) \<and> FormValue (limited r) ''code'' = code"

text \<open>An exchange of the code that was answered with tokens.\<close>

fun exchanged :: "string \<Rightarrow> event \<times> outcome option \<Rightarrow> bool" where
  "exchanged code (Request r, Some out) \<longleftrightarrow> token_request code r \<and> status_of (written out) = 200"
| "exchanged code _ \<longleftrightarrow> False"

lemma token_request_run:
  assumes "token_request code r" "run_state (portal_serve uuid st r) (s, v) = (out, (s', v'))"
  obtains wr res where "rs_code wr = None" "run_state (HandleToken wr (limited r)) (pt_oauth s, v) = (res, (pt_oauth s', v'))"
    "out = Returned res"
proof -
  let ?wr = "outer_writer uuid v new_response r"
  have m: "rq_method r = ''POST''" "rq_path r = ''/token''" "csrf_exempt (rq_path r)"
    using assms(1) by (auto simp: token_request_def is_code_exchange_def limited_def csrf_exempt_def)
  have d: "find_handler (setupRoutes True True) (rq_method (limited r)) (rq_escaped (limited r)) = ToHandler HandleToken_ep"
    using assms(1) by (simp add: token_request_def limited_def)
  have "run_state (recoveryMiddleware (portal_router st) ?wr (limited r)) (s, v) = (out, (s', v'))"
    using assms(2) m unfolding portal_serve_def
    by (simp add: withMiddleware_run new_response_def csrf_cases maxBodySizeMiddleware_def limited_def)
  then have "run_state (on_oauth (HandleToken ?wr (limited r))) (s, v) = (written out, (s', v'))" "out = Returned (written out)"
    using d by (auto simp: recoveryMiddleware_def portal_router_def mux_ServeHTTP_def on_oauth_def returns_def split: prod.splits)
  then show thesis
    using that [of ?wr "written out"] outer_writer_props(1) [of new_response uuid v r]
    by (auto simp: on_oauth_def new_response_def split: prod.splits)
qed

interpretation portal_code: single_use "portal_event lib uuid st" "exchanged code" "\<lambda>_. True"
  "\<lambda>p. code_used code (os_codes (pt_oauth p))" "\<lambda>w. code_fresh code w \<and> streamable_ok st" for lib uuid st code
proof
  fix x p w r p' w'
  assume run: "run_state (portal_event lib uuid st x) (p, w) = (r, (p', w'))"
  show "code_fresh code w \<and> streamable_ok st \<Longrightarrow> code_fresh code w' \<and> streamable_ok st"
    using code_fresh_evolves keeps_evolves [OF portal_event_env run] by blast
  show "code_used code (os_codes (pt_oauth p)) \<Longrightarrow> code_fresh code w \<and> streamable_ok st \<Longrightarrow> code_used code (os_codes (pt_oauth p'))"
    using keeps_spentD [OF portal_event_spent _ run, of code] by simp
  assume "exchanged code (x, r)"
  then obtain q out where x: "x = Request q" "r = Some out" and t: "token_request code q" "status_of (written out) = 200"
    by (cases "(code, x, r)" rule: exchanged.cases) auto
  have "run_state (portal_serve uuid st q) (p, w) = (out, (p', w'))" using run by (simp add: x split: prod.splits)
  from token_request_run [OF t(1) this] obtain wr res where
    a: "rs_code wr = None" "run_state (HandleToken wr (limited q)) (pt_oauth p, w) = (res, (pt_oauth p', w'))" "out = Returned res" .
  from token_grant_uses [OF a(2) _ a(1)] t a(3)
  show "\<not> code_used code (os_codes (pt_oauth p)) \<and> code_used code (os_codes (pt_oauth p'))" by (auto simp: token_request_def)
qed

section \<open>The state of the server over a history\<close>

text \<open>
  What holds of the server's state between requests: the cache is in order and holds at most a
  thousand responses, the configuration is the one it was started with, and outside dev mode no
  shutdown has been requested.
\<close>

definition server_ok :: "Config \<Rightarrow> Server \<Rightarrow> bool" where
  "server_ok cfg s \<longleftrightarrow> cache_inv (sv_cache s) \<and> maxEntries (sv_cache s) = 1000
     \<and> sv_apiURL s = cf_APIURL cfg \<and> sv_jwtSecret s = ac_JWTSecret (cf_Auth cfg) \<and> sv_devMode s = IsDevMode cfg
     \<and> (\<not> IsDevMode cfg \<longrightarrow> sv_shutdown s = 0)"

definition cache_ok :: "ResponseCache \<Rightarrow> bool" where
  "cache_ok c \<longleftrightarrow> cache_inv c \<and> maxEntries c = 1000"

lemma keeps_cache_ok:
  "keeps (st_inv cache_ok) (cache_Get key)" "keeps (st_inv cache_ok) (InvalidatePrefix pre)"
  "key \<noteq> [] \<Longrightarrow> keeps (st_inv cache_ok) (cache_Set key resp)"
  by (rule keeps_pairI;
      auto simp: cache_ok_def dest!: cache_Get_run [rotated] InvalidatePrefix_run [rotated] cache_Set_run [rotated 3])+

lemma keeps_on_cache_ok: "keeps (st_inv cache_ok) m \<Longrightarrow> keeps (st_inv (server_ok cfg)) (on_cache m)"
  unfolding on_cache_def by (erule keeps_zoom_st) (auto simp: server_ok_def cache_ok_def)

lemma keeps_server_ok:
  "keeps (st_inv (server_ok cfg)) (handleAPIProxy w r)" "keeps (st_inv (server_ok cfg)) (handleShutdown w r)"
proof -
  have k: "MakeKey u m p \<noteq> []" for u m p by (simp add: MakeKey_def)
  show "keeps (st_inv (server_ok cfg)) (handleAPIProxy w r)"
    unfolding handleAPIProxy_def handle_upstream_def forward_def Let_def
    by (intro inv_intros keeps_on_cache_ok keeps_cache_ok k)
  show "keeps (st_inv (server_ok cfg)) (handleShutdown w r)"
    by (rule keeps_pairI) (auto simp: handleShutdown_def server_ok_def split: if_splits)
qed

lemma keeps_on_server_ok [inv_intros]:
  "keeps (st_inv J) m \<Longrightarrow> keeps (st_inv (\<lambda>p. J (pt_server p))) (on_server m)"
  "keeps (st_inv (\<lambda>p. J (pt_server p))) (on_oauth m1)" "keeps (st_inv (\<lambda>p. J (pt_server p))) (on_mcp m2)"
  unfolding on_server_def on_oauth_def on_mcp_def by (rule keeps_pairI; auto split: prod.splits dest: keeps_st_invD)+

lemma serve_server_ok: "keeps (st_inv (\<lambda>p. server_ok cfg (pt_server p))) (serve st e w r)"
  by (cases e; simp only: serve.simps the_page_def the_profile_def;
      intro inv_intros keeps_server_ok state_only.portfolio_pages state_only.public_pages
        state_only.data_pages state_only.status_pages state_only.users_page state_only.profile_page state_only.auth_calls)

lemma event_server_ok: "keeps (st_inv (\<lambda>p. server_ok cfg (pt_server p))) (portal_event lib uuid st x)"
proof -
  have serve: "keeps (st_inv (\<lambda>p. server_ok cfg (pt_server p))) (portal_serve uuid st r)" for r
    by (rule keeps_portal_serve [OF serve_server_ok]) simp
  show ?thesis
    by (cases x; simp only: portal_event.simps app_Close_def; intro inv_intros serve state_only.seeding state_only.syncing)
qed

lemma portal_start_ok:
  "run_state (portal_start lib st) (s, w) = (p, (s', w')) \<Longrightarrow> server_ok (st_config st) (pt_server p)"
  by (auto simp: portal_start_def initHandlers_def Let_def server_New_def server_ok_def site_secret_def cache_inv_New split: prod.splits)
     (simp add: cache_New_def)

section \<open>A sample\<close>

definition sample_site :: "(string \<times> tool_handler) list site" where
  "sample_site = \<lparr>st_config = sample_config, st_build = sample_build, st_hostname = ''host'', st_os = sample_os, st_isDir = (\<lambda>_. False),
     st_ServeFile = (\<lambda>_ w _. http_NotFound w), st_templates = (\<lambda>_ _. ([], True)), st_streamable = (\<lambda>w r. ret (Returned (http_NotFound w)))\<rparr>"

lemma sample_streamable: "streamable_ok sample_site"
  unfolding streamable_ok_def by (intro allI, rule keeps_pairI) (simp add: sample_site_def)

definition sample_token_request :: request where
  "sample_token_request = sample_exchange\<lparr>rq_path := ''/token'', rq_escaped := ''/token''\<rparr>"

text \<open>A body within the limits is read the same with and without the limit.\<close>

lemma ParseForm_limited:
  assumes "length (rq_body r) \<le> 2 ^ 20" "rq_limit r = None"
  shows "ParseForm (limited r) = ParseForm r"
proof -
  have "(2::nat) ^ 20 \<le> body_limit (2 ^ 20) r" "(2::nat) ^ 20 \<le> maxFormSize" by (simp_all add: body_limit_def maxFormSize_def)
  with assms(1) have "\<not> length (rq_body r) > body_limit (2 ^ 20) r" "\<not> length (rq_body r) > maxFormSize" by linarith+
  with assms(2) show ?thesis
    unfolding limited_def ParseForm_def parsePostForm_def ReadAll_def read_body_def by (cases "rq_form r") (simp_all add: Let_def)
qed

lemma sample_is_token_request: "token_request ''c1'' sample_token_request"
proof -
  have d: "find_handler (setupRoutes True True) ''POST'' ''/token'' = ToHandler HandleToken_ep" by code_simp
  have r: "rq_method sample_token_request = ''POST''" "rq_path sample_token_request = ''/token''"
    "rq_escaped sample_token_request = ''/token''" "rq_body sample_token_request = exchange_form" "rq_limit sample_token_request = None"
    by (simp_all add: sample_token_request_def sample_exchange_def post_form_def sample_request_def)
  have b: "length exchange_form \<le> 2 ^ 20" by (simp add: exchange_form_def)
  have q: "ParseForm sample_token_request = ParseForm sample_exchange"
    unfolding sample_token_request_def ParseForm_def parsePostForm_def ReadAll_def read_body_def
    by (cases "rq_form sample_exchange"; cases "rq_limit sample_exchange") (simp_all add: Let_def)
  from ParseForm_limited [of sample_token_request] r b q have f: "ParseForm (limited sample_token_request) = ParseForm sample_exchange"
    by simp
  show ?thesis
    using d sample_exchange_form(1,2) unfolding token_request_def is_code_exchange_def FormValue_def f by (simp add: r) (simp add: limited_def r)
qed

end
