(* ===== verification/MCP_Bridge.thy ===== *)
theory MCP_Bridge
  imports Portal_Config
begin

text \<open>
  The stdio bridge: src/cmd/vire-mcp/main.go, oauth.go and tokenstore.go. The MCP client library is
  a record of the calls the bridge makes, acting on a state of the library's own; the machine is a
  record of what the operating system, the network and the browser of the user answer.
\<close>

section \<open>Configuration\<close>

definition binDir :: "os \<Rightarrow> string" where
  "binDir env = (case Executable env of None \<Rightarrow> ''.'' | Some exe \<Rightarrow> filepath_Dir exe)"

definition configSearchPaths :: "os \<Rightarrow> string list" where
  "configSearchPaths env =
     dedup_paths env []
       [filepath_Join [binDir env, ''vire-mcp.toml''], filepath_Join [binDir env, ''config'', ''vire-mcp.toml''],
        ''vire-mcp.toml'', ''config/vire-mcp.toml'']"

definition homeDir :: "os \<Rightarrow> string" where
  "homeDir env =
     (if Getenv env ''HOME'' \<noteq> [] then Getenv env ''HOME''
      else if Getenv env ''USERPROFILE'' \<noteq> [] then Getenv env ''USERPROFILE'' else ''.'')"

definition bridge_defaults :: Config where
  "bridge_defaults =
     NewDefaultConfig\<lparr>cf_Logging := (cf_Logging NewDefaultConfig)\<lparr>lc_Level := ''info'', lc_Outputs := [''console'', ''file''],
       lc_FilePath := ''logs/vire-mcp.log'', lc_MaxSizeMB := 10, lc_MaxBackups := 3\<rparr>\<rparr>"

definition loadConfig :: "(string \<Rightarrow> Config \<Rightarrow> error + Config) \<Rightarrow> os \<Rightarrow> Config" where
  "loadConfig toml env =
     (let cfg = (case List.find (Stat env) (configSearchPaths env) of
                   None \<Rightarrow> bridge_defaults
                 | Some path \<Rightarrow> (case LoadFromFile toml env path of Inl _ \<Rightarrow> bridge_defaults | Inr c \<Rightarrow> c));
          cfg = set_env env ''VIRE_PORTAL_URL'' (\<lambda>v c. c\<lparr>cf_PortalURL := v\<rparr>) cfg;
          cfg = set_env env ''VIRE_LOG_LEVEL'' (\<lambda>v c. c\<lparr>cf_Logging := (cf_Logging c)\<lparr>lc_Level := v\<rparr>\<rparr>) cfg;
          path = lc_FilePath (cf_Logging cfg)
      in if path \<noteq> [] \<and> \<not> HasPrefix path ''/''
         then cfg\<lparr>cf_Logging := (cf_Logging cfg)\<lparr>lc_FilePath := filepath_Join [binDir env, path]\<rparr>\<rparr> else cfg)"

section \<open>Token store\<close>

text \<open>Files, the paths that cannot be read or written, and the directories that cannot be made.\<close>

record file_system =
  fs_files :: "string gomap"
  fs_unreadable :: "string \<Rightarrow> error option"
  fs_unwritable :: "string \<Rightarrow> error option"
  fs_nodir :: "string \<Rightarrow> error option"

datatype token_error = ErrNoToken | TokenIO error

text \<open>
  A token is a value of the library with its JSON encoding: \<open>marshal\<close> gives its text, \<open>unmarshal\<close>
  reads it back.
\<close>

definition file_GetToken :: "(string \<Rightarrow> 't option) \<Rightarrow> string \<Rightarrow> (file_system, token_error + 't) io" where
  "file_GetToken unmarshal path =
     do { fs \<leftarrow> get_st (\<lambda>s. s);
          ret (case fs_unreadable fs path of
                 Some e \<Rightarrow> Inl (TokenIO e)
               | None \<Rightarrow>
                   (case map_of (fs_files fs) path of
                      None \<Rightarrow> Inl ErrNoToken
                    | Some data \<Rightarrow> (case unmarshal data of None \<Rightarrow> Inl ErrNoToken | Some t \<Rightarrow> Inr t))) }"

definition file_SaveToken :: "('t \<Rightarrow> error + string) \<Rightarrow> string \<Rightarrow> 't \<Rightarrow> (file_system, error option) io" where
  "file_SaveToken marshal path token =
     do { fs \<leftarrow> get_st (\<lambda>s. s);
          case fs_nodir fs (filepath_Dir path) of
            Some e \<Rightarrow> ret (Some e)
          | None \<Rightarrow>
              (case marshal token of
                 Inl e \<Rightarrow> ret (Some e)
               | Inr data \<Rightarrow>
                   (case fs_unwritable fs path of
                      Some e \<Rightarrow> ret (Some e)
                    | None \<Rightarrow> do { mod_st (\<lambda>s. s\<lparr>fs_files := AList.update path data (fs_files s)\<rparr>); ret None })) }"

section \<open>Library and machine\<close>

datatype mcp_error = OAuthRequired error | OtherError error

primrec error_of :: "mcp_error \<Rightarrow> error" where
  "error_of (OAuthRequired e) = e"
| "error_of (OtherError e) = e"

record OAuthConfig =
  oc_RedirectURI :: string
  oc_TokenStore :: string
  oc_PKCEEnabled :: bool
  oc_AuthServerMetadataURL :: string

record ('c, 't, 'a, 'r) mcp_go =
  NewStreamableHTTP :: "string \<Rightarrow> OAuthConfig option \<Rightarrow> ('c, error option) io"
  cl_Start :: "('c, mcp_error option) io"
  cl_Initialize :: "('c, mcp_error option) io"
  cl_ListTools :: "('c, error + 't list) io"
  cl_CallTool :: "string \<Rightarrow> 'a \<Rightarrow> ('c, mcp_error + 'r) io"
  tool_name :: "'t \<Rightarrow> string"
  oh_GetServerMetadata :: "('c, error option) io"
  oh_GetClientID :: "'c \<Rightarrow> string"
  oh_RegisterClient :: "string \<Rightarrow> ('c, error option) io"
  oh_GenerateCodeVerifier :: "('c, error + string) io"
  oh_GenerateCodeChallenge :: "string \<Rightarrow> string"
  oh_GenerateState :: "('c, error + string) io"
  oh_SetExpectedState :: "string \<Rightarrow> 'c \<Rightarrow> 'c"
  oh_GetAuthorizationURL :: "string \<Rightarrow> string \<Rightarrow> ('c, error + string) io"
  oh_ProcessAuthorizationResponse :: "string \<Rightarrow> string \<Rightarrow> string \<Rightarrow> ('c, error option) io"

text \<open>
  \<open>ports\<close>: what listening on port 0 gives, call by call. \<open>browser\<close>: for the URL the user is sent to,
  the callback their browser makes within five minutes, with its port and query, if any.
\<close>

record machine =
  m_os :: os
  m_GOOS :: string
  m_ports :: "nat \<Rightarrow> error + int"
  m_exec :: "string list \<Rightarrow> error option"
  m_browser :: "string \<Rightarrow> (int \<times> string) option"

text \<open>The state of the bridge: the library's and the number of ports asked for.\<close>

record 'c bridge =
  br_client :: 'c
  br_asked :: nat

definition in_client :: "('c, 'a) io \<Rightarrow> ('c bridge, 'a) io" where
  "in_client m = zoom br_client (\<lambda>c b. b\<lparr>br_client := c\<rparr>) m"

definition findFreePort :: "machine \<Rightarrow> ('c bridge, error + int) io" where
  "findFreePort mc =
     do { n \<leftarrow> get_st br_asked; mod_st (\<lambda>b. b\<lparr>br_asked := Suc n\<rparr>); ret (m_ports mc n) }"

section \<open>Browser\<close>

definition isDocker :: "os \<Rightarrow> bool" where
  "isDocker env = Stat env ''/.dockerenv''"

definition isWSL :: "os \<Rightarrow> bool" where
  "isWSL env =
     (Getenv env ''WSL_DISTRO_NAME'' \<noteq> []
      \<or> (case ReadFile env ''/proc/version'' of
           Inl _ \<Rightarrow> False
         | Inr data \<Rightarrow> Contains (ToLower data) ''microsoft'' \<or> Contains (ToLower data) ''wsl''))"

definition openBrowser :: "machine \<Rightarrow> string \<Rightarrow> error option" where
  "openBrowser mc u =
     (if isDocker (m_os mc) then Some ''running inside Docker container, no browser available''
      else if m_GOOS mc = ''linux''
      then (if isWSL (m_os mc) then m_exec mc [''cmd.exe'', ''/c'', ''start'', u] else m_exec mc [''xdg-open'', u])
      else if m_GOOS mc = ''darwin'' then m_exec mc [''open'', u]
      else if m_GOOS mc = ''windows'' then m_exec mc [''cmd'', ''/c'', ''start'', u]
      else Some (''unsupported platform: '' @ m_GOOS mc))"

section \<open>Authorization\<close>

record callbackResult =
  cb_code :: string
  cb_state :: string
  cb_err :: "error option"

text \<open>The handler of the callback server: what it sends on the channel and the page it answers with.\<close>

definition callback_handler :: "string \<Rightarrow> callbackResult \<times> string" where
  "callback_handler rawQuery =
     (let q = fst (ParseQuery rawQuery); errCode = Values_Get q ''error''; desc = Values_Get q ''error_description''
      in if errCode \<noteq> []
         then (\<lparr>cb_code = [], cb_state = [], cb_err = Some (errCode @ '': '' @ desc)\<rparr>,
               ''<html><body><h1>Authorization Failed</h1><p>'' @ desc @ ''</p><p>You can close this tab.</p></body></html>'')
         else (\<lparr>cb_code = Values_Get q ''code'', cb_state = Values_Get q ''state'', cb_err = None\<rparr>,
               ''<html><body><h1>Authorization Successful</h1>''
               @ ''<p>You can close this tab and return to the terminal.</p></body></html>''))"

text \<open>What arrives on the channel of a callback server on a port before the timeout.\<close>

definition await_callback :: "machine \<Rightarrow> int \<Rightarrow> string \<Rightarrow> callbackResult option" where
  "await_callback mc port u =
     (case m_browser mc u of
        None \<Rightarrow> None
      | Some (p, query) \<Rightarrow> if p = port then Some (fst (callback_handler query)) else None)"

definition origin :: "url \<Rightarrow> string" where
  "origin u = u_scheme u @ ''://'' @ u_host u"

definition prepareAuthSession :: "string \<Rightarrow> ('s, error option) io" where
  "prepareAuthSession authURL =
     (case url_Parse authURL of
        None \<Rightarrow> do { e \<leftarrow> error_for authURL; ret (Some (''parse authorize URL: '' @ e)) }
      | Some parsed \<Rightarrow>
          do { res \<leftarrow> http_Post (origin parsed @ ''/authorize'') ''application/x-www-form-urlencoded'' (Values_Encode (url_Query parsed));
               ret (case res of
                      NetErr e \<Rightarrow> Some (''POST /authorize: '' @ e)
                    | HttpResp status _ _ _ \<Rightarrow>
                        if status \<noteq> 200 then Some (''POST /authorize returned '' @ show_nat status) else None) })"

definition browser_url :: "string \<Rightarrow> error option \<Rightarrow> string" where
  "browser_url authURL err =
     (case (err, url_Parse authURL) of
        (None, Some parsed) \<Rightarrow> origin parsed @ ''/authorize?client_id='' @ QueryEscape (Values_Get (url_Query parsed) ''client_id'')
      | _ \<Rightarrow> authURL)"

text \<open>
  The end of the flow, once the verifier and the authorization URL are known. Whether the browser
  starts or the URL is only printed, the user may follow it.
\<close>

definition finish_flow :: "('c, 't, 'a, 'r) mcp_go \<Rightarrow> machine \<Rightarrow> int \<Rightarrow> string \<Rightarrow> string \<Rightarrow> ('c, error option) io" where
  "finish_flow lib mc callbackPort codeVerifier authURL =
     do { e \<leftarrow> prepareAuthSession authURL;
          let browserURL = browser_url authURL e;
          case await_callback mc callbackPort browserURL of
            None \<Rightarrow> ret (Some ''authorization timed out'')
          | Some result \<Rightarrow>
              (case cb_err result of
                 Some e \<Rightarrow> ret (Some (''callback: '' @ e))
               | None \<Rightarrow>
                   do { p \<leftarrow> oh_ProcessAuthorizationResponse lib (cb_code result) (cb_state result) codeVerifier;
                        ret (map_option (\<lambda>e. ''token exchange: '' @ e) p) }) }"

definition register_client :: "('c, 't, 'a, 'r) mcp_go \<Rightarrow> ('c, error option) io" where
  "register_client lib =
     do { cid \<leftarrow> get_st (oh_GetClientID lib);
          if cid = [] then oh_RegisterClient lib ''vire-mcp'' else ret None }"

definition doOAuthFlow :: "('c, 't, 'a, 'r) mcp_go \<Rightarrow> machine \<Rightarrow> int \<Rightarrow> ('c, error option) io" where
  "doOAuthFlow lib mc callbackPort =
     do { e \<leftarrow> oh_GetServerMetadata lib;
          case e of
            Some e \<Rightarrow> ret (Some (''metadata discovery: '' @ e))
          | None \<Rightarrow>
              do { e \<leftarrow> register_client lib;
                   case e of
                     Some e \<Rightarrow> ret (Some (''client registration: '' @ e))
                   | None \<Rightarrow>
                       do { v \<leftarrow> oh_GenerateCodeVerifier lib;
                            case v of
                              Inl e \<Rightarrow> ret (Some (''PKCE verifier: '' @ e))
                            | Inr codeVerifier \<Rightarrow>
                                do { s \<leftarrow> oh_GenerateState lib;
                                     case s of
                                       Inl e \<Rightarrow> ret (Some (''state generation: '' @ e))
                                     | Inr state \<Rightarrow>
                                         do { mod_st (oh_SetExpectedState lib state);
                                              a \<leftarrow> oh_GetAuthorizationURL lib state (oh_GenerateCodeChallenge lib codeVerifier);
                                              case a of
                                                Inl e \<Rightarrow> ret (Some (''authorization URL: '' @ e))
                                              | Inr authURL \<Rightarrow> finish_flow lib mc callbackPort codeVerifier authURL } } } } }"

definition runOAuthIfNeeded :: "('c, 't, 'a, 'r) mcp_go \<Rightarrow> machine \<Rightarrow> mcp_error \<Rightarrow> int \<Rightarrow> ('c, error option) io" where
  "runOAuthIfNeeded lib mc err callbackPort =
     (case err of
        OtherError e \<Rightarrow> ret (Some e)
      | OAuthRequired _ \<Rightarrow>
          do { f \<leftarrow> doOAuthFlow lib mc callbackPort; ret (map_option (\<lambda>e. ''OAuth flow: '' @ e) f) })"

section \<open>Connecting\<close>

definition connectDirect :: "('c, 't, 'a, 'r) mcp_go \<Rightarrow> ('c, error option) io" where
  "connectDirect lib =
     do { e \<leftarrow> cl_Start lib;
          case e of
            Some e \<Rightarrow> ret (Some (''start: '' @ error_of e))
          | None \<Rightarrow> do { e \<leftarrow> cl_Initialize lib; ret (map_option (\<lambda>e. ''initialize: '' @ error_of e) e) } }"

text \<open>A step, and once more after the OAuth flow if it asks for authorization.\<close>

definition with_auth :: "('c, 't, 'a, 'r) mcp_go \<Rightarrow> machine \<Rightarrow> int \<Rightarrow> string \<Rightarrow> ('c, mcp_error option) io \<Rightarrow> ('c, error option) io" where
  "with_auth lib mc callbackPort name step =
     do { e \<leftarrow> step;
          case e of
            None \<Rightarrow> ret None
          | Some err \<Rightarrow>
              do { e \<leftarrow> runOAuthIfNeeded lib mc err callbackPort;
                   case e of
                     Some e \<Rightarrow> ret (Some (name @ '': '' @ e))
                   | None \<Rightarrow> do { e \<leftarrow> step; ret (map_option (\<lambda>e. name @ '' after auth: '' @ error_of e) e) } } }"

definition connectWithOAuth :: "('c, 't, 'a, 'r) mcp_go \<Rightarrow> machine \<Rightarrow> int \<Rightarrow> ('c, error option) io" where
  "connectWithOAuth lib mc callbackPort =
     do { e \<leftarrow> with_auth lib mc callbackPort ''start'' (cl_Start lib);
          case e of
            Some e \<Rightarrow> ret (Some e)
          | None \<Rightarrow> with_auth lib mc callbackPort ''initialize'' (cl_Initialize lib) }"

definition simpleProxyHandler :: "('c, 't, 'a, 'r) mcp_go \<Rightarrow> string \<Rightarrow> 'a \<Rightarrow> ('c, mcp_error + 'r) io" where
  "simpleProxyHandler lib toolName args = cl_CallTool lib toolName args"

definition proxyHandler :: "('c, 't, 'a, 'r) mcp_go \<Rightarrow> machine \<Rightarrow> string \<Rightarrow> int \<Rightarrow> 'a \<Rightarrow> ('c, mcp_error + 'r) io" where
  "proxyHandler lib mc toolName callbackPort args =
     do { r \<leftarrow> cl_CallTool lib toolName args;
          case r of
            Inr result \<Rightarrow> ret (Inr result)
          | Inl (OtherError e) \<Rightarrow> ret (Inl (OtherError e))
          | Inl (OAuthRequired _) \<Rightarrow>
              do { f \<leftarrow> doOAuthFlow lib mc callbackPort;
                   case f of
                     Some e \<Rightarrow> ret (Inl (OtherError (''re-auth failed: '' @ e)))
                   | None \<Rightarrow> cl_CallTool lib toolName args } }"

section \<open>Main\<close>

text \<open>The bridge exits, or serves tools, each with the name its handler forwards to.\<close>

datatype 't bridge_end = Exit error | Serving "('t \<times> string) list"

definition direct_url :: "os \<Rightarrow> string" where
  "direct_url env = TrimRight (Getenv env ''VIRE_MCP_URL'') (CHR ''/'')"

text \<open>The token store is given by the path of its file.\<close>

definition oauth_config :: "os \<Rightarrow> string \<Rightarrow> int \<Rightarrow> OAuthConfig" where
  "oauth_config env portalURL callbackPort =
     \<lparr>oc_RedirectURI = ''http://127.0.0.1:'' @ Itoa callbackPort @ ''/callback'',
      oc_TokenStore = filepath_Join [homeDir env, ''.vire'', ''credentials.json''], oc_PKCEEnabled = True,
      oc_AuthServerMetadataURL = portalURL @ ''/.well-known/oauth-authorization-server''\<rparr>"

definition open_transport ::
  "('c, 't, 'a, 'r) mcp_go \<Rightarrow> machine \<Rightarrow> Config \<Rightarrow> ('c bridge, error option) io" where
  "open_transport lib mc cfg =
     (if Getenv (m_os mc) ''VIRE_MCP_URL'' \<noteq> [] then in_client (NewStreamableHTTP lib (direct_url (m_os mc)) None)
      else do { p \<leftarrow> findFreePort mc;
                case p of
                  Inl e \<Rightarrow> ret (Some e)
                | Inr callbackPort \<Rightarrow>
                    let portalURL = TrimRight (cf_PortalURL cfg) (CHR ''/'')
                    in in_client (NewStreamableHTTP lib (portalURL @ ''/mcp'') (Some (oauth_config (m_os mc) portalURL callbackPort))) })"

definition connect_bridge :: "('c, 't, 'a, 'r) mcp_go \<Rightarrow> machine \<Rightarrow> ('c bridge, error option) io" where
  "connect_bridge lib mc =
     (if Getenv (m_os mc) ''VIRE_MCP_URL'' \<noteq> [] then in_client (connectDirect lib)
      else do { p \<leftarrow> findFreePort mc;
                in_client (connectWithOAuth lib mc (case p of Inl _ \<Rightarrow> 0 | Inr callbackPort \<Rightarrow> callbackPort)) })"

definition bridge_main :: "('c, 't, 'a, 'r) mcp_go \<Rightarrow> (string \<Rightarrow> Config \<Rightarrow> error + Config) \<Rightarrow> machine \<Rightarrow> ('c bridge, 't bridge_end) io" where
  "bridge_main lib toml mc =
     do { e \<leftarrow> open_transport lib mc (loadConfig toml (m_os mc));
          case e of
            Some e \<Rightarrow> ret (Exit e)
          | None \<Rightarrow>
              do { e \<leftarrow> connect_bridge lib mc;
                   case e of
                     Some e \<Rightarrow> ret (Exit e)
                   | None \<Rightarrow>
                       do { r \<leftarrow> in_client (cl_ListTools lib);
                            let tools = (case r of Inl _ \<Rightarrow> [] | Inr ts \<Rightarrow> ts);
                            ret (Serving (map (\<lambda>t. (t, tool_name lib t)) tools)) } } }"

section \<open>Lemmas\<close>

lemma token_file_roundtrip:
  assumes "unmarshal data = Some t" "marshal t = Inr data" "fs_unreadable fs path = None"
    and "run_state (file_SaveToken marshal path t) (fs, w) = (None, (fs', w'))"
  shows "fst (run_state (file_GetToken unmarshal path) (fs', v)) = Inr t"
  using assms by (auto simp: file_SaveToken_def file_GetToken_def update_conv split: option.splits)

text \<open>Actions that always end with an error.\<close>

definition fails :: "('s, error option) state \<Rightarrow> bool" where
  "fails m \<longleftrightarrow> (\<forall>\<sigma>. fst (run_state m \<sigma>) \<noteq> None)"

lemma fails_ret: "fails (ret (Some e))"
  by (simp add: fails_def)

lemma fails_bind: "(\<And>a. fails (f a)) \<Longrightarrow> fails (State_Monad.bind m f)"
  by (auto simp: fails_def split: prod.splits)

lemma fails_option: "fails m \<Longrightarrow> (\<And>a. fails (f a)) \<Longrightarrow> fails (case x of None \<Rightarrow> m | Some a \<Rightarrow> f a)"
  by (cases x) auto

lemma fails_sum: "(\<And>e. fails (f e)) \<Longrightarrow> (\<And>a. fails (g a)) \<Longrightarrow> fails (case x of Inl e \<Rightarrow> f e | Inr a \<Rightarrow> g a)"
  by (cases x) auto

lemma failsE: "fails m \<Longrightarrow> (\<And>e \<tau>. run_state m \<sigma> = (Some e, \<tau>) \<Longrightarrow> C) \<Longrightarrow> C"
  by (cases "run_state m \<sigma>") (auto simp: fails_def dest!: spec [of _ \<sigma>])

lemmas fails_intros = fails_ret fails_bind fails_option fails_sum

text \<open>The flow succeeds only through a callback on the port it listens on.\<close>

lemma await_callback_None: "(\<And>u q. m_browser mc u \<noteq> Some (port, q)) \<Longrightarrow> await_callback mc port u = None"
  by (auto simp: await_callback_def split: option.split)

lemma doOAuthFlow_fails:
  assumes "\<And>u q. m_browser mc u \<noteq> Some (port, q)"
  shows "fails (doOAuthFlow lib mc port)"
  unfolding doOAuthFlow_def finish_flow_def await_callback_None [OF assms] option.case Let_def
  by (intro fails_intros)

lemma with_auth_fails:
  assumes "\<And>u q. m_browser mc u \<noteq> Some (port, q)" "\<And>\<tau>. \<exists>e. fst (run_state step \<tau>) = Some (OAuthRequired e)"
  shows "fails (with_auth lib mc port name step)"
  unfolding fails_def
proof
  fix \<sigma>
  obtain e \<tau> where s: "run_state step \<sigma> = (Some (OAuthRequired e), \<tau>)"
    using assms(2) [of \<sigma>] by (cases "run_state step \<sigma>") auto
  show "fst (run_state (with_auth lib mc port name step) \<sigma>) \<noteq> None"
    by (rule failsE [OF doOAuthFlow_fails [OF assms(1)], of lib \<tau>])
       (simp add: s with_auth_def runOAuthIfNeeded_def)
qed

lemma run_in_client:
  "run_state (in_client m) (b, w) = (case run_state m (br_client b, w) of (a, (c, w')) \<Rightarrow> (a, (b\<lparr>br_client := c\<rparr>, w')))"
  by (simp add: in_client_def)

section \<open>Property\<close>


text \<open>A library whose server always wants authorization, and a machine that hands out two ports.\<close>

definition sample_lib :: "(unit, string, string, string) mcp_go" where
  "sample_lib =
     \<lparr>NewStreamableHTTP = \<lambda>_ _. ret None, cl_Start = ret (Some (OAuthRequired ''401'')), cl_Initialize = ret None,
      cl_ListTools = ret (Inr []), cl_CallTool = \<lambda>_ _. ret (Inr ''ok''), tool_name = \<lambda>t. t, oh_GetServerMetadata = ret None,
      oh_GetClientID = \<lambda>_. ''app'', oh_RegisterClient = \<lambda>_. ret None, oh_GenerateCodeVerifier = ret (Inr ''v''),
      oh_GenerateCodeChallenge = \<lambda>v. v, oh_GenerateState = ret (Inr ''s''), oh_SetExpectedState = \<lambda>_ c. c,
      oh_GetAuthorizationURL = \<lambda>_ _. ret (Inr ''http://p/authorize?client_id=app''),
      oh_ProcessAuthorizationResponse = \<lambda>_ _ _. ret None\<rparr>"

definition sample_machine :: machine where
  "sample_machine =
     \<lparr>m_os = \<lparr>Getenv = \<lambda>_. [], ReadFile = \<lambda>_. Inl ''none'', Stat = \<lambda>_. False, Executable = None, filepath_Abs = Some\<rparr>,
      m_GOOS = ''linux'', m_ports = \<lambda>n. Inr (40000 + int n), m_exec = \<lambda>_. None,
      m_browser = \<lambda>_. Some (40000, ''code=c&state=s'')\<rparr>"


end
