(* ===== verification/Go_Float.thy ===== *)
theory Go_Float
  imports Complex_Main "HOL-Library.Log_Nat" Go_Time
begin

text \<open>
  float64: its finite values as rational numbers. \<open>fl\<close> rounds to the nearest number with 53
  significant bits, ties to even; an operation of the code is the exact operation followed by \<open>fl\<close>.
  Overflow, subnormal numbers and the sign of zero are left out. Also what the code uses of fmt and
  time on such numbers: the verb f with a precision, and time.ParseDuration.
\<close>

type_synonym float64 = rat

section \<open>Rounding\<close>

definition round_even :: "rat \<Rightarrow> int" where
  "round_even x =
     (let n = \<lfloor>x\<rfloor>; r = x - of_int n
      in if r < 1 / 2 then n else if r > 1 / 2 then n + 1 else if even n then n else n + 1)"

text \<open>The exponent of a positive number: the power of two at or below it.\<close>

definition exponent :: "rat \<Rightarrow> int" where
  "exponent x =
     (let (n, d) = quotient_of x; k = bitlen n - bitlen d
      in if 2 powi k \<le> x then k else k - 1)"

definition fl :: "rat \<Rightarrow> float64" where
  "fl x = (if x = 0 then 0 else let u = 2 powi (exponent \<bar>x\<bar> - 52) in of_int (round_even (x / u)) * u)"

text \<open>Conversion to an integer type drops the fraction.\<close>

definition trunc :: "float64 \<Rightarrow> int" where
  "trunc x = (if x < 0 then - \<lfloor>- x\<rfloor> else \<lfloor>x\<rfloor>)"

section \<open>The verb f\<close>

definition Sprintf_f :: "nat \<Rightarrow> float64 \<Rightarrow> string" where
  "Sprintf_f p x =
     (let n = round_even (\<bar>x\<bar> * 10 ^ p)
      in (if x < 0 then ''-'' else []) @ Itoa (n div 10 ^ p) @ (if p = 0 then [] else ''.'' @ pad p (nat (n mod 10 ^ p))))"

section \<open>Durations as text\<close>

text \<open>\<open>leadingInt\<close>: the number and the rest, or an overflow.\<close>

fun leadingInt :: "int \<Rightarrow> string \<Rightarrow> (int \<times> string) option" where
  "leadingInt x [] = Some (x, [])"
| "leadingInt x (c # s) =
     (if \<not> isDigit c then Some (x, c # s)
      else if x > 2 ^ 63 div 10 \<or> x * 10 + int (chr_digit c) > 2 ^ 63 then None
      else leadingInt (x * 10 + int (chr_digit c)) s)"

text \<open>\<open>leadingFraction\<close>: digits that no longer fit are skipped.\<close>

fun leadingFraction :: "bool \<Rightarrow> int \<times> float64 \<Rightarrow> string \<Rightarrow> (int \<times> float64) \<times> string" where
  "leadingFraction overflow a [] = (a, [])"
| "leadingFraction overflow (x, scale) (c # s) =
     (if \<not> isDigit c then ((x, scale), c # s)
      else if overflow \<or> x > (2 ^ 63 - 1) div 10 \<or> x * 10 + int (chr_digit c) > 2 ^ 63 then leadingFraction True (x, scale) s
      else leadingFraction False (x * 10 + int (chr_digit c), fl (scale * 10)) s)"

definition unitMap :: "(string \<times> int) list" where
  "unitMap = [(''ns'', 1), (''us'', 1000), ([CHR 0xC2, CHR 0xB5, CHR ''s''], 1000), ([CHR 0xCE, CHR 0xBC, CHR ''s''], 1000),
     (''ms'', 1000000), (''s'', 1000000000), (''m'', 60000000000), (''h'', 3600000000000)]"

text \<open>One number with its unit; the numbers are added up.\<close>

definition duration_part :: "string \<Rightarrow> (int \<times> string) option" where
  "duration_part s =
     do { (v, s1) \<leftarrow> leadingInt 0 s;
          let ((f, scale), s2) = (if s1 \<noteq> [] \<and> hd s1 = CHR ''.'' then leadingFraction False (0, 1) (tl s1) else ((0, 1), s1));
          let digits = (length s1 \<noteq> length s \<or> (s1 \<noteq> [] \<and> hd s1 = CHR ''.'' \<and> length s2 \<noteq> length (tl s1)));
          let u = takeWhile (\<lambda>c. c \<noteq> CHR ''.'' \<and> \<not> isDigit c) s2;
          case map_of unitMap u of
            None \<Rightarrow> None
          | Some unit \<Rightarrow>
              if \<not> digits \<or> v > 2 ^ 63 div unit then None
              else let v = v * unit + (if f > 0 then trunc (fl (fl (of_int f) * fl (of_int unit / scale))) else 0)
                   in if v > 2 ^ 63 then None else Some (v, drop (length u) s2) }"

fun duration_parts :: "nat \<Rightarrow> int \<Rightarrow> string \<Rightarrow> int option" where
  "duration_parts 0 d s = None"
| "duration_parts (Suc n) d s =
     (if s = [] then Some d
      else case duration_part s of
          None \<Rightarrow> None
        | Some (v, s') \<Rightarrow> if d + v > 2 ^ 63 then None else duration_parts n (d + v) s')"

definition ParseDuration :: "string \<Rightarrow> duration option" where
  "ParseDuration s =
     (let neg = (s \<noteq> [] \<and> hd s = CHR ''-''); s = (if s \<noteq> [] \<and> hd s \<in> {CHR ''-'', CHR ''+''} then tl s else s)
      in if s = ''0'' then Some 0
         else if s = [] then None
         else case duration_parts (Suc (length s)) 0 s of
             None \<Rightarrow> None
           | Some d \<Rightarrow> if neg then Some (- d) else if d > 2 ^ 63 - 1 then None else Some d)"

section \<open>Lemmas\<close>

lemma round_even_error: "\<bar>of_int (round_even x) - x\<bar> \<le> 1 / 2"
  using floor_correct [of x] unfolding round_even_def Let_def by (auto simp: abs_le_iff)

lemma round_even_int [simp]: "round_even (of_int n) = n"
  by (simp add: round_even_def)

lemma floorlog_rat:
  assumes "0 < n"
  defines "a \<equiv> int (floorlog 2 (nat n))"
  shows "2 powi (a - 1) \<le> (of_int n :: rat)" "of_int n < (2 :: rat) powi a"
proof -
  have "0 < floorlog 2 (nat n)" using assms(1) by (simp add: floorlog_def)
  then have a: "a - 1 = int (floorlog 2 (nat n) - 1)" by (simp add: a_def)
  have b: "2 ^ (floorlog 2 (nat n) - 1) \<le> nat n" "nat n < 2 ^ floorlog 2 (nat n)"
    using floorlog_bounds [of "nat n" 2] assms(1) by simp_all
  have n: "(of_int n :: rat) = of_nat (nat n)" using assms(1) by simp
  show "2 powi (a - 1) \<le> (of_int n :: rat)" unfolding a power_int_of_nat n
    by (metis b(1) of_nat_le_iff of_nat_numeral of_nat_power)
  show "of_int n < (2 :: rat) powi a" unfolding a_def power_int_of_nat n
    by (metis b(2) of_nat_less_iff of_nat_numeral of_nat_power)
qed

lemma exponent_spec:
  assumes "0 < x"
  shows "2 powi exponent x \<le> x" "x < 2 powi (exponent x + 1)"
proof -
  obtain n d where q: "quotient_of x = (n, d)" by (cases "quotient_of x")
  have d: "d > 0" and x: "x = of_int n / of_int d"
    using quotient_of_denom_pos [OF q] quotient_of_div [OF q] by simp_all
  then have n: "n > 0" using assms by (simp add: zero_less_divide_iff)
  define k where "k = int (floorlog 2 (nat n)) - int (floorlog 2 (nat d))"
  have e: "exponent x = (if 2 powi k \<le> x then k else k - 1)" by (simp add: exponent_def q k_def bitlen_def)
  have "2 powi (int (floorlog 2 (nat n)) - 1) / 2 powi int (floorlog 2 (nat d)) \<le> x" unfolding x
    using floorlog_rat [OF n] floorlog_rat [OF d] d n by (intro frac_le) simp_all
  then have lo: "2 powi (k - 1) \<le> x" by (simp add: k_def power_int_diff power_int_add field_simps)
  have "x < 2 powi int (floorlog 2 (nat n)) / 2 powi (int (floorlog 2 (nat d)) - 1)" unfolding x
    using floorlog_rat [OF n] floorlog_rat [OF d] n by (intro frac_less) simp_all
  then have hi: "x < 2 powi (k + 1)" by (simp add: k_def power_int_diff power_int_add field_simps)
  show "2 powi exponent x \<le> x" "x < 2 powi (exponent x + 1)" using lo hi by (auto simp: e)
qed

text \<open>The relative error of rounding.\<close>

lemma fl_error: "\<bar>fl x - x\<bar> \<le> \<bar>x\<bar> / 2 ^ 53"
proof (cases "x = 0")
  case False
  define u :: rat where "u = 2 powi (exponent \<bar>x\<bar> - 52)"
  have u: "0 < u" by (simp add: u_def)
  have "2 powi exponent \<bar>x\<bar> \<le> \<bar>x\<bar>" using exponent_spec [of "\<bar>x\<bar>"] False by simp
  then have le: "u * 2 ^ 52 \<le> \<bar>x\<bar>" by (simp add: u_def power_int_diff)
  have "fl x - x = (of_int (round_even (x / u)) - x / u) * u" using False u by (simp add: fl_def Let_def u_def field_simps)
  then have "\<bar>fl x - x\<bar> = \<bar>of_int (round_even (x / u)) - x / u\<bar> * u" using u by (simp add: abs_mult)
  also have "\<dots> \<le> 1 / 2 * u" using round_even_error u by (intro mult_right_mono) auto
  also have "\<dots> \<le> \<bar>x\<bar> / 2 ^ 53" using le by simp
  finally show ?thesis .
qed (simp add: fl_def)

text \<open>A number of at most 53 bits is not changed.\<close>

lemma fl_exact:
  assumes "\<bar>k\<bar> < 2 ^ 53"
  shows "fl (of_int k * 2 powi j) = of_int k * 2 powi j"
proof (cases "k = 0")
  case False
  let ?x = "of_int k * 2 powi j :: rat"
  have x: "?x \<noteq> 0" using False by simp
  have "\<bar>?x\<bar> < 2 ^ 53 * 2 powi j" using assms
    by (simp add: abs_mult power_int_abs)
  then have "2 powi exponent \<bar>?x\<bar> < (2 :: rat) powi (53 + j)"
    using exponent_spec(1) [of "\<bar>?x\<bar>"] x by (simp add: power_int_add)
  then have "exponent \<bar>?x\<bar> < 53 + j" using power_int_increasing [of "53 + j" "exponent \<bar>?x\<bar>" "2 :: rat"] by (cases "exponent \<bar>?x\<bar> < 53 + j") simp_all
  then obtain m where m: "j - (exponent \<bar>?x\<bar> - 52) = int m" using nonneg_int_cases [of "j - (exponent \<bar>?x\<bar> - 52)"] by auto
  define u :: rat where "u = 2 powi (exponent \<bar>?x\<bar> - 52)"
  have "2 powi j = u * 2 ^ m" unfolding u_def power_int_of_nat [symmetric] m [symmetric] by (subst power_int_add [symmetric]) simp_all
  moreover have u: "u \<noteq> 0" by (simp add: u_def)
  ultimately have q: "?x / u = of_int (k * 2 ^ m)" by (simp add: divide_eq_eq mult_ac)
  have "fl ?x = of_int (round_even (?x / u)) * u" using x by (simp add: fl_def u_def Let_def)
  also have "\<dots> = ?x" unfolding q round_even_int using q u by (metis nonzero_eq_divide_eq)
  finally show ?thesis .
qed (simp add: fl_def)

lemma fl_int [simp]: "\<bar>k\<bar> < 2 ^ 53 \<Longrightarrow> fl (of_int k) = of_int k"
  using fl_exact [of k 0] by simp

lemma round_even_minus: "round_even (- x) = - round_even x"
proof (cases "x \<in> \<int>")
  case True
  then obtain n where x: "x = of_int n" by (rule Ints_cases)
  show ?thesis unfolding x of_int_minus [symmetric] round_even_int by (rule refl)
next
  case False
  then have "\<lfloor>- x\<rfloor> = - \<lfloor>x\<rfloor> - 1" by (simp add: floor_minus ceiling_altdef frac_def) (metis Ints_of_int)
  then show ?thesis by (auto simp: round_even_def Let_def)
qed

lemma fl_minus: "fl (- x) = - fl x"
  using round_even_minus [of "x / 2 powi (exponent \<bar>x\<bar> - 52)"] by (simp add: fl_def Let_def)

lemma fl_nonneg:
  assumes "0 \<le> x"
  shows "0 \<le> fl x"
proof -
  have "x - fl x \<le> x / 2 ^ 53" using abs_le_D2 [OF fl_error [of x]] assms by simp
  moreover have "x / 2 ^ 53 \<le> x" using assms by (simp add: field_simps)
  ultimately show ?thesis by simp
qed

lemma fl_pos:
  assumes "0 < x"
  shows "0 < fl x"
proof -
  have "x - fl x \<le> x / 2 ^ 53" using abs_le_D2 [OF fl_error [of x]] assms by simp
  moreover have "x / 2 ^ 53 < x" using assms by (simp add: field_simps)
  ultimately show ?thesis by simp
qed

text \<open>The fuel of \<open>duration_parts\<close> is enough: every part consumes at least its unit.\<close>

lemma leadingInt_shorter: "leadingInt x s = Some (v, s') \<Longrightarrow> length s' \<le> length s"
  by (induction x s rule: leadingInt.induct) (auto split: if_splits)

lemma leadingFraction_shorter: "leadingFraction ov a s = (b, s') \<Longrightarrow> length s' \<le> length s"
  by (induction ov a s rule: leadingFraction.induct) (auto split: if_splits)

lemma duration_part_shorter:
  assumes "duration_part s = Some (v, s')"
  shows "length s' < length s"
proof -
  obtain w s1 where 1: "leadingInt 0 s = Some (w, s1)" using assms by (auto simp: duration_part_def split: Option.bind_splits)
  obtain a s2 where 2: "(if s1 \<noteq> [] \<and> hd s1 = CHR ''.'' then leadingFraction False (0, 1) (tl s1) else ((0, 1), s1)) = (a, s2)"
    by (metis surj_pair)
  have l: "length s2 \<le> length s1" using leadingFraction_shorter [of False "(0, 1)" "tl s1" a s2] 2 by (auto split: if_splits)
  let ?u = "takeWhile (\<lambda>c. c \<noteq> CHR ''.'' \<and> \<not> isDigit c) s2"
  have "s' = drop (length ?u) s2" "?u \<noteq> []"
    using assms 1 2 by (auto simp: duration_part_def Let_def unitMap_def split: prod.splits option.splits if_splits)
  then show ?thesis using l leadingInt_shorter [OF 1] length_takeWhile_le [of _ s2] by (cases s2) auto
qed

lemma duration_parts_fuel: "length s < n \<Longrightarrow> duration_parts n d s = duration_parts (Suc (length s)) d s"
proof (induction n arbitrary: d s rule: less_induct)
  case (less n)
  then obtain k where n: "n = Suc k" by (cases n) auto
  show ?case
  proof (cases "duration_part s")
    case (Some vs)
    then obtain v s' where p: "duration_part s = Some (v, s')" by (cases vs) auto
    note sh = duration_part_shorter [OF p]
    have "duration_parts k (d + v) s' = duration_parts (length s) (d + v) s'"
      using less.IH [of k s' "d + v"] less.IH [of "length s" s' "d + v"] sh less.prems n by (cases "length s = k") auto
    then show ?thesis by (simp add: n p)
  qed (simp add: n)
qed

end
