(* ===== verification/Vire_Format.thy ===== *)
theory Vire_Format
  imports Go_Float
begin

text \<open>
  The formatting of amounts (src/internal/vire/common/format.go). The arithmetic is that of float64
  without fused operations; amounts are below the range of int64.
\<close>

section \<open>Amounts\<close>

text \<open>The loop that cuts off groups of three digits from the right.\<close>

function cut_groups :: "string \<Rightarrow> string list \<Rightarrow> string \<times> string list" where
  "cut_groups s parts =
     (if length s > 3 then cut_groups (take (length s - 3) s) (drop (length s - 3) s # parts) else (s, parts))"
  by pat_completeness auto
termination by (relation "measure (\<lambda>(s, _). length s)") auto

declare cut_groups.simps [simp del]

definition commas :: "string \<Rightarrow> string" where
  "commas s = (if length s > 3 then (case cut_groups s [] of (s, parts) \<Rightarrow> Join (s # parts) '','') else s)"

text \<open>The whole units and the cents of an amount that is not negative.\<close>

definition split_cents :: "float64 \<Rightarrow> int \<times> int" where
  "split_cents v =
     (let whole = trunc v;
          cents = trunc (fl (fl (fl (v - fl (of_int whole)) * 100) + 1 / 2))
      in if cents \<ge> 100 then (whole + 1, cents - 100) else (whole, cents))"

definition FormatMoney :: "float64 \<Rightarrow> string" where
  "FormatMoney v =
     (let negative = (v < 0); v = (if negative then - v else v); (whole, cents) = split_cents v; s = commas (Itoa whole)
      in if negative then ''-$'' @ s @ ''.'' @ pad 2 (nat cents) else ''$'' @ s @ ''.'' @ pad 2 (nat cents))"

definition FormatSignedMoney :: "float64 \<Rightarrow> string" where
  "FormatSignedMoney v = (if v \<ge> 0 then ''+'' @ FormatMoney v else FormatMoney v)"

definition FormatSignedPct :: "float64 \<Rightarrow> string" where
  "FormatSignedPct v = (if v \<ge> 0 then ''+'' @ Sprintf_f 2 v @ ''%'' else Sprintf_f 2 v @ ''%'')"

definition currencySymbol :: "string \<Rightarrow> string" where
  "currencySymbol currency =
     (if ToUpper currency = ''AUD'' then ''A$'' else if ToUpper currency = ''USD'' then ''US$'' else ''$'')"

definition FormatMoneyWithCurrency :: "float64 \<Rightarrow> string \<Rightarrow> string" where
  "FormatMoneyWithCurrency v currency =
     (let sym = currencySymbol currency; negative = (v < 0); v = (if negative then - v else v);
          (whole, cents) = split_cents v; s = commas (Itoa whole)
      in if negative then ''-'' @ sym @ s @ ''.'' @ pad 2 (nat cents) else sym @ s @ ''.'' @ pad 2 (nat cents))"

definition FormatSignedMoneyWithCurrency :: "float64 \<Rightarrow> string \<Rightarrow> string" where
  "FormatSignedMoneyWithCurrency v currency =
     (if v \<ge> 0 then ''+'' @ FormatMoneyWithCurrency v currency else FormatMoneyWithCurrency v currency)"

definition FormatMarketCap :: "float64 \<Rightarrow> string" where
  "FormatMarketCap v =
     (if v \<ge> 10 ^ 9 then ''$'' @ Sprintf_f 2 (fl (v / 10 ^ 9)) @ ''B'' else ''$'' @ Sprintf_f 2 (fl (v / 10 ^ 6)) @ ''M'')"

section \<open>Funds\<close>

text \<open>Of the fundamentals of a holding the three fields the test looks at.\<close>

record etf_fields =
  ef_IsETF :: bool
  ef_Sector :: string
  ef_Industry :: string

definition IsETF :: "etf_fields option \<Rightarrow> string \<Rightarrow> bool" where
  "IsETF fundamentals holding_name =
     (if (case fundamentals of Some f \<Rightarrow> ef_IsETF f | None \<Rightarrow> False) then True
      else let name = ToUpper holding_name
           in if Contains name '' ETF'' \<or> HasSuffix name '' ETF'' then True
              else (case fundamentals of Some f \<Rightarrow> ef_Sector f = [] \<and> ef_Industry f = [] | None \<Rightarrow> False))"

section \<open>Lemmas\<close>

lemma cut_groups_concat: "cut_groups s parts = (s', parts') \<Longrightarrow> s' @ concat parts' = s @ concat parts"
proof (induction s parts rule: cut_groups.induct)
  case (1 s parts)
  show ?case
  proof (cases "length s > 3")
    case True
    from 1(1) [OF True] 1(2) show ?thesis using append_take_drop_id [of "length s - 3" s] by (simp add: cut_groups.simps [of s] True)
  next
    case False
    with 1(2) show ?thesis by (simp add: cut_groups.simps [of s])
  qed
qed

lemma cut_groups_lengths:
  "cut_groups s parts = (s', parts') \<Longrightarrow> list_all (\<lambda>p. length p = 3) parts \<Longrightarrow> list_all (\<lambda>p. length p = 3) parts' \<and> length s' \<le> 3"
proof (induction s parts rule: cut_groups.induct)
  case (1 s parts)
  then show ?case by (cases "length s > 3") (auto simp: cut_groups.simps [of s])
qed

lemma filter_Join: "\<forall>x\<in>set xs. c \<notin> set x \<Longrightarrow> filter (\<lambda>d. d \<noteq> c) (Join xs [c]) = concat xs"
  by (induction xs rule: induct_list012) (auto simp: filter_id_conv)

lemma commas_groups:
  assumes "CHR '','' \<notin> set s"
  shows "filter (\<lambda>c. c \<noteq> CHR '','') (commas s) = s" "length (hd (Split (commas s) (CHR '',''))) \<le> 3"
    "list_all (\<lambda>p. length p = 3) (tl (Split (commas s) (CHR '','')))"
proof -
  obtain s' parts where c: "cut_groups s [] = (s', parts)" by (cases "cut_groups s []")
  have l: "list_all (\<lambda>p. length p = 3) parts" "length s' \<le> 3" and cc: "s' @ concat parts = s"
    using cut_groups_lengths [OF c] cut_groups_concat [OF c] by simp_all
  have free: "\<forall>x\<in>set (s' # parts). CHR '','' \<notin> set x" using assms cc by auto
  have "filter (\<lambda>c. c \<noteq> CHR '','') (commas s) = s \<and> (\<exists>g gs. Split (commas s) (CHR '','') = g # gs \<and> length g \<le> 3 \<and> list_all (\<lambda>p. length p = 3) gs)"
  proof (cases "length s > 3")
    case True
    then have w: "commas s = Join (s' # parts) '',''" by (simp add: commas_def c)
    have "filter (\<lambda>c. c \<noteq> CHR '','') (commas s) = s" unfolding w filter_Join [OF free] by (simp add: cc)
    moreover have "Split (commas s) (CHR '','') = s' # parts" unfolding w by (rule Split_Join [OF _ free]) simp
    ultimately show ?thesis using l by simp
  next
    case False
    then have w: "commas s = s" by (simp add: commas_def)
    have "Split s (CHR '','') = [s]" using Split_Join [of "[s]" "CHR '',''"] assms by simp
    then show ?thesis unfolding w using assms False by (auto simp: filter_id_conv)
  qed
  then show "filter (\<lambda>c. c \<noteq> CHR '','') (commas s) = s" "length (hd (Split (commas s) (CHR '',''))) \<le> 3"
    "list_all (\<lambda>p. length p = 3) (tl (Split (commas s) (CHR '','')))" by auto
qed

lemma Itoa_no_comma: "CHR '','' \<notin> set (Itoa i)"
proof -
  have "\<not> isDigit (CHR '','')" by code_simp
  then show ?thesis using show_nat_digits [of "nat i"] show_nat_digits [of "nat (- i)"] by (auto simp: Itoa_def list_all_iff)
qed

lemma trunc_near:
  assumes "0 \<le> r" "of_int r < a" "a < of_int r + 1"
  shows "trunc a = r"
proof -
  have "0 \<le> a" using assms by (metis le_less_trans less_imp_le of_int_0_le_iff)
  moreover have "\<lfloor>a\<rfloor> = r" using assms(2,3) by (simp add: floor_eq_iff)
  ultimately show ?thesis by (simp add: trunc_def)
qed

lemma fl_near: "\<bar>x\<bar> \<le> b \<Longrightarrow> \<bar>fl x - x\<bar> \<le> b / 2 ^ 53"
  by (rule order_trans [OF fl_error divide_right_mono]) simp_all

lemma fl_zero: "fl 0 = 0"
  by (simp add: fl_def)

lemma cents_near:
  fixes x :: rat
  assumes "\<bar>x - of_int r / 100\<bar> \<le> 1 / 500" "0 \<le> r" "1 \<le> (of_int r :: rat)" "(of_int r :: rat) \<le> 99"
  shows "trunc (fl (fl (fl x * 100) + 1 / 2)) = r"
proof -
  define d m a where "d = fl x" and "m = fl (d * 100)" and "a = fl (m + 1 / 2)"
  note bounds = abs_le_iff
  have x: "\<bar>x\<bar> \<le> 1" using assms unfolding bounds by linarith
  have d: "\<bar>d - x\<bar> \<le> 1 / 1000" using fl_near [OF x] by (simp add: d_def)
  have "\<bar>d * 100\<bar> \<le> 200" using d x unfolding bounds by linarith
  then have m: "\<bar>m - d * 100\<bar> \<le> 1 / 1000" using fl_near [of "d * 100" 200] by (simp add: m_def)
  have "\<bar>m + 1 / 2\<bar> \<le> 300" using m d x unfolding bounds by linarith
  then have a: "\<bar>a - (m + 1 / 2)\<bar> \<le> 1 / 1000" using fl_near [of "m + 1 / 2" 300] by (simp add: a_def)
  have "of_int r < a" "a < of_int r + 1" using a m d assms(1) unfolding bounds by linarith+
  with assms(2) have "trunc a = r" by (intro trunc_near)
  then show ?thesis by (simp add: a_def m_def d_def)
qed

text \<open>The cents of the float nearest to an amount of cents.\<close>

lemma split_cents_exact:
  assumes "0 \<le> n" "n \<le> 10 ^ 15"
  shows "split_cents (fl (of_int n / 100)) = (n div 100, n mod 100)"
proof -
  define q r where "q = n div 100" and "r = n mod 100"
  have n: "n = 100 * q + r" "0 \<le> q" "0 \<le> r" "r < 100" "q \<le> 10 ^ 13" using assms by (auto simp: q_def r_def)
  define v where "v = fl (of_int n / 100)"
  have q53: "fl (of_int q) = of_int q" using n by (intro fl_int) simp
  have e: "\<bar>v - of_int n / 100\<bar> \<le> 1 / 500"
    using fl_near [of "of_int n / 100" "10 ^ 13"] assms by (simp add: v_def)
  show ?thesis unfolding v_def [symmetric] q_def [symmetric] r_def [symmetric]
  proof (cases "r = 0")
    case True
    then have v: "v = of_int q" unfolding v_def using q53 by (simp add: n(1))
    have "fl (1 / 2) = 1 / 2" using fl_exact [of 1 "-1"] by (simp add: power_int_minus)
    then have "trunc (fl (1 / 2)) = 0" by (simp only: trunc_def) (simp add: floor_eq_iff)
    moreover have "trunc (of_int q) = q" using n(2) by (simp add: trunc_def)
    ultimately show "split_cents v = (q, r)" by (simp add: split_cents_def v True Let_def q53 fl_zero)
  next
    case False
    then have r: "1 \<le> (of_int r :: rat)" "(of_int r :: rat) \<le> 99" using n by simp_all
    have vq: "\<bar>(v - of_int q) - of_int r / 100\<bar> \<le> 1 / 500" using e by (simp add: n(1) add_divide_distrib diff_diff_eq)
    then have v: "of_int q < v" "v < of_int q + 1" using r unfolding abs_le_iff by linarith+
    with n(2) have w: "trunc v = q" by (intro trunc_near)
    show "split_cents v = (q, r)"
      using cents_near [OF vq _ r] n(3,4) v by (simp add: split_cents_def Let_def w q53)
  qed
qed

lemma FormatMoney_plain: "FormatMoney v = FormatMoneyWithCurrency v []"
proof -
  have "currencySymbol [] = ''$''" by code_simp
  then show ?thesis by (simp add: FormatMoney_def FormatMoneyWithCurrency_def Let_def split: prod.split)
qed

section \<open>Properties\<close>

text \<open>
  C29: Amounts in cents survive the formatting: the float nearest to any amount of cents up to ten
  trillion dollars is printed as exactly that amount, with its sign, its currency, the digits of its
  whole part in groups of three and two digits of cents.
\<close>
theorem money_exact:
  assumes "\<bar>n\<bar> \<le> 10 ^ 15"
  shows "\<exists>whole. FormatMoneyWithCurrency (fl (of_int n / 100)) cur
      = (if n < 0 then ''-'' else []) @ currencySymbol cur @ whole @ ''.'' @ pad 2 (nat (\<bar>n\<bar> mod 100))
    \<and> filter (\<lambda>c. c \<noteq> CHR '','') whole = Itoa (\<bar>n\<bar> div 100)
    \<and> length (hd (Split whole (CHR '',''))) \<le> 3 \<and> list_all (\<lambda>p. length p = 3) (tl (Split whole (CHR '','')))"
proof (intro exI [of _ "commas (Itoa (\<bar>n\<bar> div 100))"] conjI)
  show "filter (\<lambda>c. c \<noteq> CHR '','') (commas (Itoa (\<bar>n\<bar> div 100))) = Itoa (\<bar>n\<bar> div 100)"
    "length (hd (Split (commas (Itoa (\<bar>n\<bar> div 100))) (CHR '',''))) \<le> 3"
    "list_all (\<lambda>p. length p = 3) (tl (Split (commas (Itoa (\<bar>n\<bar> div 100))) (CHR '','')))"
    by (rule commas_groups [OF Itoa_no_comma])+
  let ?v = "fl (of_int n / 100)"
  have abs: "(if ?v < 0 then - ?v else ?v) = fl (of_int \<bar>n\<bar> / 100)"
    using fl_minus [of "of_int n / 100"] fl_nonneg [of "of_int \<bar>n\<bar> / 100"] by (cases "n < 0") auto
  have sc: "split_cents (if ?v < 0 then - ?v else ?v) = (\<bar>n\<bar> div 100, \<bar>n\<bar> mod 100)"
    unfolding abs by (rule split_cents_exact) (use assms in simp_all)
  have neg: "?v < 0 \<longleftrightarrow> n < 0"
    using fl_minus [of "of_int n / 100"] fl_pos [of "of_int \<bar>n\<bar> / 100"] fl_nonneg [of "of_int n / 100"] by (cases "n < 0") auto
  show "FormatMoneyWithCurrency ?v cur
    = (if n < 0 then ''-'' else []) @ currencySymbol cur @ commas (Itoa (\<bar>n\<bar> div 100)) @ ''.'' @ pad 2 (nat (\<bar>n\<bar> mod 100))"
    unfolding FormatMoneyWithCurrency_def Let_def sc using neg by simp
qed

theorem money_exact_witness:
  "\<exists>whole. FormatMoneyWithCurrency (fl (of_int (- 123456) / 100)) ''aud'' = ''-A$'' @ whole @ ''.56''
     \<and> filter (\<lambda>c. c \<noteq> CHR '','') whole = ''1234''"
proof -
  have "currencySymbol ''aud'' = ''A$''" "pad 2 56 = ''56''" "Itoa 1234 = ''1234''" by code_simp+
  with money_exact [of "- 123456" "''aud''"] show ?thesis by auto
qed

end
