(* ===== verification/Vire_Common.thy ===== *)
theory Vire_Common
  imports Portal_Config Go_Float
begin

text \<open>
  The configuration and the per-request context of the package shared with vire-server
  (src/internal/vire/common: config.go, userctx.go, freshness.go, logging.go). As in the configuration of the
  portal, the TOML decoder is a parameter and the operating system a record of its answers; \<open>missing\<close>
  says for which paths os.Stat reports that the file does not exist. A key-value storage is what its
  \<open>Get\<close> returns.
\<close>

section \<open>Data\<close>

record vire_ServerConfig =
  vs_Host :: string
  vs_Port :: int

record FileConfig =
  fc_Path :: string
  fc_Versions :: int

record GCSConfig =
  gc_Bucket :: string
  gc_Prefix :: string
  gc_CredentialsFile :: string

record S3Config =
  s3_Bucket :: string
  s3_Prefix :: string
  s3_Region :: string
  s3_Endpoint :: string
  s3_AccessKey :: string
  s3_SecretKey :: string

record StorageConfig =
  sto_Backend :: string
  sto_UserData :: FileConfig
  sto_Data :: FileConfig
  sto_GCS :: GCSConfig
  sto_S3 :: S3Config

text \<open>The configurations of the EODHD and the Navexa client have the same fields.\<close>

record EODHDConfig =
  cl_BaseURL :: string
  cl_APIKey :: string
  cl_RateLimit :: int
  cl_Timeout :: string

type_synonym NavexaConfig = EODHDConfig

record GeminiConfig =
  gm_APIKey :: string
  gm_Model :: string
  gm_MaxURLs :: int
  gm_MaxContentSize :: string

record ClientsConfig =
  cc_EODHD :: EODHDConfig
  cc_Navexa :: NavexaConfig
  cc_Gemini :: GeminiConfig

record vire_Config =
  vc_Environment :: string
  vc_Portfolios :: "string list"
  vc_DisplayCurrency :: string
  vc_Server :: vire_ServerConfig
  vc_Storage :: StorageConfig
  vc_Clients :: ClientsConfig
  vc_Logging :: LoggingConfig

definition vire_NewDefaultConfig :: vire_Config where
  "vire_NewDefaultConfig =
     \<lparr>vc_Environment = ''prod'', vc_Portfolios = [], vc_DisplayCurrency = ''AUD'',
      vc_Server = \<lparr>vs_Host = ''0.0.0.0'', vs_Port = 4242\<rparr>,
      vc_Storage = \<lparr>sto_Backend = ''file'', sto_UserData = \<lparr>fc_Path = ''data/user'', fc_Versions = 5\<rparr>,
        sto_Data = \<lparr>fc_Path = ''data/data'', fc_Versions = 0\<rparr>,
        sto_GCS = \<lparr>gc_Bucket = [], gc_Prefix = [], gc_CredentialsFile = []\<rparr>,
        sto_S3 = \<lparr>s3_Bucket = [], s3_Prefix = [], s3_Region = [], s3_Endpoint = [], s3_AccessKey = [], s3_SecretKey = []\<rparr>\<rparr>,
      vc_Clients = \<lparr>
        cc_EODHD = \<lparr>cl_BaseURL = ''https://eodhd.com/api'', cl_APIKey = [], cl_RateLimit = 10, cl_Timeout = ''30s''\<rparr>,
        cc_Navexa = \<lparr>cl_BaseURL = ''https://api.navexa.com.au'', cl_APIKey = [], cl_RateLimit = 5, cl_Timeout = ''30s''\<rparr>,
        cc_Gemini = \<lparr>gm_APIKey = [], gm_Model = ''gemini-2.0-flash'', gm_MaxURLs = 20, gm_MaxContentSize = ''34MB''\<rparr>\<rparr>,
      vc_Logging = \<lparr>lc_Level = ''info'', lc_Format = ''json'', lc_Outputs = [''console'', ''file''],
        lc_FilePath = ''./logs/vire.log'', lc_MaxSizeMB = 100, lc_MaxBackups = 3\<rparr>\<rparr>"

definition EODHD_GetTimeout :: "EODHDConfig \<Rightarrow> duration" where
  "EODHD_GetTimeout c = (case ParseDuration (cl_Timeout c) of None \<Rightarrow> 30 * Second | Some d \<Rightarrow> d)"

definition Navexa_GetTimeout :: "NavexaConfig \<Rightarrow> duration" where
  "Navexa_GetTimeout c = (case ParseDuration (cl_Timeout c) of None \<Rightarrow> 30 * Second | Some d \<Rightarrow> d)"

definition DefaultPortfolio :: "vire_Config \<Rightarrow> string" where
  "DefaultPortfolio c = (case vc_Portfolios c of [] \<Rightarrow> [] | p # _ \<Rightarrow> p)"

section \<open>Loading\<close>

text \<open>The portfolio of the environment goes first; it is removed elsewhere unless it was first already.\<close>

definition put_first :: "string \<Rightarrow> string list \<Rightarrow> string list" where
  "put_first dp ps = (case ps of [] \<Rightarrow> [dp] | p # _ \<Rightarrow> if p \<noteq> dp then dp # filter (\<lambda>p. p \<noteq> dp) ps else ps)"

definition vire_applyEnvOverrides :: "os \<Rightarrow> vire_Config \<Rightarrow> vire_Config" where
  "vire_applyEnvOverrides env c =
     (let c = set_env env ''VIRE_ENV'' (\<lambda>v c. c\<lparr>vc_Environment := v\<rparr>) c;
          c = set_env env ''VIRE_HOST'' (\<lambda>v c. c\<lparr>vc_Server := (vc_Server c)\<lparr>vs_Host := v\<rparr>\<rparr>) c;
          c = set_env env ''VIRE_PORT''
                (\<lambda>v c. case Atoi v of None \<Rightarrow> c | Some p \<Rightarrow> c\<lparr>vc_Server := (vc_Server c)\<lparr>vs_Port := p\<rparr>\<rparr>) c;
          c = set_env env ''VIRE_LOG_LEVEL'' (\<lambda>v c. c\<lparr>vc_Logging := (vc_Logging c)\<lparr>lc_Level := v\<rparr>\<rparr>) c;
          c = set_env env ''VIRE_DATA_PATH''
                (\<lambda>v c. c\<lparr>vc_Storage := (vc_Storage c)
                  \<lparr>sto_UserData := (sto_UserData (vc_Storage c))\<lparr>fc_Path := filepath_Join [v, ''user'']\<rparr>,
                   sto_Data := (sto_Data (vc_Storage c))\<lparr>fc_Path := filepath_Join [v, ''data'']\<rparr>\<rparr>\<rparr>) c;
          c = set_env env ''VIRE_DISPLAY_CURRENCY'' (\<lambda>v c. c\<lparr>vc_DisplayCurrency := ToUpper v\<rparr>) c
      in set_env env ''VIRE_DEFAULT_PORTFOLIO'' (\<lambda>v c. c\<lparr>vc_Portfolios := put_first v (vc_Portfolios c)\<rparr>) c)"

definition IsProduction :: "vire_Config \<Rightarrow> bool" where
  "IsProduction c \<longleftrightarrow> ToLower (TrimSpace (vc_Environment c)) = ''prod''"

definition vire_normalizeEnvironment :: "string \<Rightarrow> string" where
  "vire_normalizeEnvironment env =
     (let e = ToLower (TrimSpace env)
      in if e = ''development'' then ''dev'' else if e = ''production'' then ''prod'' else env)"

definition validateDisplayCurrency :: "vire_Config \<Rightarrow> vire_Config" where
  "validateDisplayCurrency c =
     (let dc = ToUpper (vc_DisplayCurrency c)
      in c\<lparr>vc_DisplayCurrency := (if dc \<noteq> ''AUD'' \<and> dc \<noteq> ''USD'' then ''AUD'' else dc)\<rparr>)"

fun load_configs ::
  "(string \<Rightarrow> vire_Config \<Rightarrow> error + vire_Config) \<Rightarrow> os \<Rightarrow> (string \<Rightarrow> bool) \<Rightarrow> string list \<Rightarrow> vire_Config \<Rightarrow> error + vire_Config" where
  "load_configs toml env missing [] c = Inr c"
| "load_configs toml env missing (path # paths) c =
     (if path = [] \<or> missing path then load_configs toml env missing paths c
      else case ReadFile env path of
          Inl e \<Rightarrow> Inl (''failed to read config file '' @ path @ '': '' @ e)
        | Inr data \<Rightarrow>
            (case toml data c of
               Inl e \<Rightarrow> Inl (''failed to parse config file '' @ path @ '': '' @ e)
             | Inr c \<Rightarrow> load_configs toml env missing paths c))"

definition LoadConfig ::
  "(string \<Rightarrow> vire_Config \<Rightarrow> error + vire_Config) \<Rightarrow> os \<Rightarrow> (string \<Rightarrow> bool) \<Rightarrow> string list \<Rightarrow> error + vire_Config" where
  "LoadConfig toml env missing paths =
     (case load_configs toml env missing paths vire_NewDefaultConfig of
        Inl e \<Rightarrow> Inl e
      | Inr c \<Rightarrow>
          let c = vire_applyEnvOverrides env c;
              c = c\<lparr>vc_Environment := vire_normalizeEnvironment (vc_Environment c)\<rparr>
          in Inr (validateDisplayCurrency c))"

section \<open>Resolution at run time\<close>

type_synonym kv_storage = "(string \<Rightarrow> error + string) option"

definition kv_value :: "kv_storage \<Rightarrow> string \<Rightarrow> string" where
  "kv_value kv key = (case kv of None \<Rightarrow> [] | Some get \<Rightarrow> (case get key of Inl _ \<Rightarrow> [] | Inr v \<Rightarrow> v))"

definition ResolveDefaultPortfolio :: "kv_storage \<Rightarrow> os \<Rightarrow> string \<Rightarrow> string" where
  "ResolveDefaultPortfolio kv env configDefault =
     (if kv_value kv ''default_portfolio'' \<noteq> [] then kv_value kv ''default_portfolio''
      else if Getenv env ''VIRE_DEFAULT_PORTFOLIO'' \<noteq> [] then Getenv env ''VIRE_DEFAULT_PORTFOLIO''
      else configDefault)"

definition keyToEnvMapping :: "string \<Rightarrow> string list" where
  "keyToEnvMapping name =
     (case map_of [(''eodhd_api_key'', [''EODHD_API_KEY'', ''VIRE_EODHD_API_KEY'']),
                   (''navexa_api_key'', [''NAVEXA_API_KEY'', ''VIRE_NAVEXA_API_KEY'']),
                   (''gemini_api_key'', [''GEMINI_API_KEY'', ''VIRE_GEMINI_API_KEY'', ''GOOGLE_API_KEY''])] name of
        None \<Rightarrow> [] | Some ns \<Rightarrow> ns)"

definition ResolveAPIKey :: "kv_storage \<Rightarrow> os \<Rightarrow> string \<Rightarrow> string \<Rightarrow> error + string" where
  "ResolveAPIKey kv env name fallback =
     (case List.find (\<lambda>n. Getenv env n \<noteq> []) (keyToEnvMapping name) of
        Some n \<Rightarrow> Inr (Getenv env n)
      | None \<Rightarrow>
          if kv_value kv name \<noteq> [] then Inr (kv_value kv name)
          else if fallback \<noteq> [] then Inr fallback
          else Inl (''API key '' @ [CHR 0x27] @ name @ [CHR 0x27] @ '' not found in environment or KV store''))"

section \<open>The context of a request\<close>

record UserContext =
  ux_Portfolios :: "string list"
  ux_DisplayCurrency :: string
  ux_NavexaAPIKey :: string

text \<open>
  The values of a context under the two keys of the package; \<open>'n\<close> are Navexa clients. A nil pointer
  stored under a key hides what an outer context has there.
\<close>

record 'n context_values =
  cx_user :: "UserContext option"
  cx_navexa :: "'n option"

definition WithUserContext :: "'n context_values \<Rightarrow> UserContext option \<Rightarrow> 'n context_values" where
  "WithUserContext ctx uc = ctx\<lparr>cx_user := uc\<rparr>"

definition UserContextFromContext :: "'n context_values \<Rightarrow> UserContext option" where
  "UserContextFromContext ctx = cx_user ctx"

definition WithNavexaClient :: "'n context_values \<Rightarrow> 'n option \<Rightarrow> 'n context_values" where
  "WithNavexaClient ctx client = ctx\<lparr>cx_navexa := client\<rparr>"

definition NavexaClientFromContext :: "'n context_values \<Rightarrow> 'n option" where
  "NavexaClientFromContext ctx = cx_navexa ctx"

definition ResolvePortfolios :: "'n context_values \<Rightarrow> string list \<Rightarrow> string list" where
  "ResolvePortfolios ctx configPortfolios =
     (case UserContextFromContext ctx of
        Some uc \<Rightarrow> if ux_Portfolios uc \<noteq> [] then ux_Portfolios uc else configPortfolios
      | None \<Rightarrow> configPortfolios)"

definition ResolveDisplayCurrency :: "'n context_values \<Rightarrow> string \<Rightarrow> string" where
  "ResolveDisplayCurrency ctx configCurrency =
     (case UserContextFromContext ctx of
        Some uc \<Rightarrow>
          let dc = ToUpper (ux_DisplayCurrency uc)
          in if ux_DisplayCurrency uc \<noteq> [] \<and> (dc = ''AUD'' \<or> dc = ''USD'') then dc else configCurrency
      | None \<Rightarrow> configCurrency)"

section \<open>Freshness\<close>

text \<open>The zero of Go's calendar, 0001-01-01 UTC.\<close>

definition zero_time :: time where
  "zero_time = - (719162 * 24 * Hour)"

definition IsZero :: "time \<Rightarrow> bool" where
  "IsZero t \<longleftrightarrow> t = zero_time"

text \<open>\<open>time.Since\<close> is cut off at the largest duration.\<close>

definition Since :: "time \<Rightarrow> time \<Rightarrow> duration" where
  "Since now t = max (- (2 ^ 63)) (min (2 ^ 63 - 1) (now - t))"

definition IsFresh :: "time \<Rightarrow> duration \<Rightarrow> ('s, bool) io" where
  "IsFresh updated ttl =
     (if IsZero updated then ret False else do { now \<leftarrow> time_Now; ret (Since now updated < ttl) })"

section \<open>Loggers\<close>

text \<open>
  What a logger of the arbor library is asked for (src/internal/vire/common/logging.go): its level
  and its writers in order. The product of int64 values wraps.
\<close>

datatype log_writer = ConsoleWriter | FileWriter (fw_path: string) (fw_size: int) (fw_backups: int) | MemoryWriter | LogStoreWriter

record logger_spec =
  lg_level :: string
  lg_writers :: "log_writer list"

definition wrap64 :: "int \<Rightarrow> int" where
  "wrap64 x = (x + 2 ^ 63) mod 2 ^ 64 - 2 ^ 63"

definition file_writer :: "LoggingConfig \<Rightarrow> log_writer" where
  "file_writer cfg =
     (let filePath = (if lc_FilePath cfg = [] then ''logs/vire.log'' else lc_FilePath cfg);
          maxSize = wrap64 (wrap64 (lc_MaxSizeMB cfg * 1024) * 1024);
          maxSize = (if maxSize \<le> 0 then 500 * 1024 else maxSize);
          maxBackups = (if lc_MaxBackups cfg \<le> 0 then 20 else lc_MaxBackups cfg)
      in FileWriter filePath maxSize maxBackups)"

definition NewLoggerFromConfig :: "LoggingConfig \<Rightarrow> bool \<Rightarrow> logger_spec" where
  "NewLoggerFromConfig cfg has_store =
     (let outputs = (if lc_Outputs cfg = [] then [''console'', ''file''] else lc_Outputs cfg)
      in \<lparr>lg_level = (if lc_Level cfg = [] then ''info'' else lc_Level cfg),
          lg_writers = concat (map (\<lambda>out. if out = ''console'' then [ConsoleWriter] else if out = ''file'' then [file_writer cfg] else []) outputs)
            @ [MemoryWriter] @ (if has_store then [LogStoreWriter] else [])\<rparr>)"

definition NewLogger :: "string \<Rightarrow> logger_spec" where
  "NewLogger level =
     NewLoggerFromConfig \<lparr>lc_Level = level, lc_Format = [], lc_Outputs = [''console'', ''file''], lc_FilePath = [], lc_MaxSizeMB = 0, lc_MaxBackups = 0\<rparr> False"

definition NewDefaultLogger :: logger_spec where
  "NewDefaultLogger = NewLogger ''info''"

definition AttachLogStore :: "logger_spec \<Rightarrow> logger_spec" where
  "AttachLogStore l = l\<lparr>lg_writers := lg_writers l @ [LogStoreWriter]\<rparr>"

text \<open>The logger of the portal (src/cmd/vire-portal/main.go).\<close>

definition setupLogger :: "Config \<Rightarrow> logger_spec" where
  "setupLogger cfg =
     NewLoggerFromConfig
       \<lparr>lc_Level = lc_Level (cf_Logging cfg), lc_Format = [], lc_Outputs = lc_Outputs (cf_Logging cfg),
        lc_FilePath = lc_FilePath (cf_Logging cfg), lc_MaxSizeMB = lc_MaxSizeMB (cf_Logging cfg),
        lc_MaxBackups = lc_MaxBackups (cf_Logging cfg)\<rparr> False"

section \<open>Lemmas\<close>

text \<open>Every logger keeps its lines in memory, and a file has a positive size limit and number of backups.\<close>

lemma logger_writers:
  "MemoryWriter \<in> set (lg_writers (NewLoggerFromConfig cfg st))"
  "FileWriter p n k \<in> set (lg_writers (NewLoggerFromConfig cfg st)) \<Longrightarrow> 0 < n \<and> 0 < k \<and> p \<noteq> []"
  by (auto simp: NewLoggerFromConfig_def file_writer_def Let_def split: if_splits)

lemma portal_logger:
  "setupLogger NewDefaultConfig = \<lparr>lg_level = ''info'', lg_writers = [ConsoleWriter, FileWriter ''logs/vire-portal.log'' 512000 20, MemoryWriter]\<rparr>"
  by (simp add: setupLogger_def NewLoggerFromConfig_def file_writer_def wrap64_def NewDefaultConfig_def Let_def)


lemma put_first_hd [simp]: "put_first dp ps \<noteq> [] \<and> hd (put_first dp ps) = dp"
  by (cases ps) (auto simp: put_first_def)

lemma put_first_others: "filter (\<lambda>p. p \<noteq> dp) (put_first dp ps) = filter (\<lambda>p. p \<noteq> dp) ps"
  by (cases ps) (auto simp: put_first_def)

lemma env_portfolios:
  "vc_Portfolios (vire_applyEnvOverrides env c)
     = (let dp = Getenv env ''VIRE_DEFAULT_PORTFOLIO'' in if dp \<noteq> [] then put_first dp (vc_Portfolios c) else vc_Portfolios c)"
proof -
  have last: "vc_Portfolios (set_env env n (\<lambda>v c. c\<lparr>vc_Portfolios := put_first v (vc_Portfolios c)\<rparr>) d)
      = (if Getenv env n \<noteq> [] then put_first (Getenv env n) (vc_Portfolios d) else vc_Portfolios d)" for n d
    by (simp add: set_env_def Let_def)
  have port: "vc_Portfolios (set_env env n (\<lambda>v c. case Atoi v of None \<Rightarrow> c | Some p \<Rightarrow> c\<lparr>vc_Server := f p c\<rparr>) d) = vc_Portfolios d" for n f d
    by (simp add: set_env_def Let_def split: option.split)
  show ?thesis unfolding vire_applyEnvOverrides_def Let_def last by (simp add: set_env_other port)
qed

lemma normalize_idem: "vire_normalizeEnvironment (vire_normalizeEnvironment e) = vire_normalizeEnvironment e"
proof -
  have "vire_normalizeEnvironment ''dev'' = ''dev''" "vire_normalizeEnvironment ''prod'' = ''prod''" by code_simp+
  then show ?thesis by (simp add: vire_normalizeEnvironment_def Let_def)
qed

lemma LoadConfig_Inr:
  assumes "LoadConfig toml env missing paths = Inr c"
  obtains c0 where "load_configs toml env missing paths vire_NewDefaultConfig = Inr c0"
    "vc_Portfolios c = vc_Portfolios (vire_applyEnvOverrides env c0)"
    "vc_Environment c = vire_normalizeEnvironment (vc_Environment (vire_applyEnvOverrides env c0))"
    "vc_DisplayCurrency c \<in> {''AUD'', ''USD''}"
  using assms by (auto simp: LoadConfig_def Let_def validateDisplayCurrency_def split: sum.splits)

lemma DefaultPortfolio_hd: "DefaultPortfolio c = (if vc_Portfolios c = [] then [] else hd (vc_Portfolios c))"
  by (simp add: DefaultPortfolio_def split: list.split)

text \<open>The default timeouts are read as thirty seconds, and a text that is no duration counts as that.\<close>

lemma default_timeouts:
  "EODHD_GetTimeout (cc_EODHD (vc_Clients vire_NewDefaultConfig)) = 30 * Second"
  "ParseDuration (cl_Timeout c) = None \<Longrightarrow> EODHD_GetTimeout c = 30 * Second \<and> Navexa_GetTimeout c = 30 * Second"
proof -
  have "ParseDuration ''30s'' = Some (30 * Second)" by code_simp
  then show "EODHD_GetTimeout (cc_EODHD (vc_Clients vire_NewDefaultConfig)) = 30 * Second"
    by (simp add: EODHD_GetTimeout_def vire_NewDefaultConfig_def)
qed (simp add: EODHD_GetTimeout_def Navexa_GetTimeout_def)

section \<open>Properties\<close>

text \<open>
  C28: A configuration that loads has the display currency AUD or USD and a normal form of the
  environment; when the environment names a default portfolio it comes first and the others of the
  files follow in their order; and at run time the default portfolio is that of the key-value store
  if there is one, and otherwise the first of the configuration.
\<close>
theorem vire_config_sound:
  assumes "LoadConfig toml env missing paths = Inr c"
  shows "vc_DisplayCurrency c \<in> {''AUD'', ''USD''}
    \<and> vire_normalizeEnvironment (vc_Environment c) = vc_Environment c
    \<and> (let dp = Getenv env ''VIRE_DEFAULT_PORTFOLIO''
       in (dp \<noteq> [] \<longrightarrow> DefaultPortfolio c = dp)
        \<and> (\<exists>c0. load_configs toml env missing paths vire_NewDefaultConfig = Inr c0
             \<and> filter (\<lambda>p. p \<noteq> dp) (vc_Portfolios c) = filter (\<lambda>p. p \<noteq> dp) (vc_Portfolios c0)))
    \<and> ResolveDefaultPortfolio kv env (DefaultPortfolio c)
       = (if kv_value kv ''default_portfolio'' \<noteq> [] then kv_value kv ''default_portfolio'' else DefaultPortfolio c)"
proof (rule LoadConfig_Inr [OF assms])
  fix c0
  let ?dp = "Getenv env ''VIRE_DEFAULT_PORTFOLIO''"
  assume c0: "load_configs toml env missing paths vire_NewDefaultConfig = Inr c0"
    and p: "vc_Portfolios c = vc_Portfolios (vire_applyEnvOverrides env c0)"
    and e: "vc_Environment c = vire_normalizeEnvironment (vc_Environment (vire_applyEnvOverrides env c0))"
    and d: "vc_DisplayCurrency c \<in> {''AUD'', ''USD''}"
  have first: "?dp \<noteq> [] \<Longrightarrow> DefaultPortfolio c = ?dp"
    by (simp add: DefaultPortfolio_hd p env_portfolios Let_def)
  have "filter (\<lambda>p. p \<noteq> ?dp) (vc_Portfolios c) = filter (\<lambda>p. p \<noteq> ?dp) (vc_Portfolios c0)"
    by (simp add: p env_portfolios Let_def put_first_others)
  with first c0 d show ?thesis by (simp add: Let_def e normalize_idem ResolveDefaultPortfolio_def)
qed

definition sample_vire_toml :: "string \<Rightarrow> vire_Config \<Rightarrow> error + vire_Config" where
  "sample_vire_toml text c = Inr (c\<lparr>vc_Portfolios := [''a'', ''b'', ''c''], vc_DisplayCurrency := ''eur''\<rparr>)"

definition sample_vire_os :: os where
  "sample_vire_os = sample_os\<lparr>Getenv := (\<lambda>n. if n = ''VIRE_DEFAULT_PORTFOLIO'' then ''b'' else [])\<rparr>"

theorem vire_config_sound_witness:
  "\<exists>c. LoadConfig sample_vire_toml sample_vire_os (\<lambda>_. False) [''vire.toml''] = Inr c
     \<and> DefaultPortfolio c = ''b'' \<and> vc_DisplayCurrency c \<in> {''AUD'', ''USD''}"
proof -
  have "load_configs sample_vire_toml sample_vire_os (\<lambda>_. False) [''vire.toml''] vire_NewDefaultConfig \<noteq> Inl e" for e
    by (simp add: sample_vire_toml_def sample_vire_os_def sample_os_def)
  then obtain c where c: "LoadConfig sample_vire_toml sample_vire_os (\<lambda>_. False) [''vire.toml''] = Inr c"
    by (cases "LoadConfig sample_vire_toml sample_vire_os (\<lambda>_. False) [''vire.toml'']") (auto simp: LoadConfig_def Let_def split: sum.splits)
  have "Getenv sample_vire_os ''VIRE_DEFAULT_PORTFOLIO'' = ''b''" by (simp add: sample_vire_os_def)
  with c vire_config_sound [OF c, of None] show ?thesis by (auto simp: Let_def)
qed

end
