(* ===== verification/Vire_Models.thy ===== *)
theory Vire_Models
  imports Vire_Common MCP_Catalog "HOL-Library.Sublist"
begin

text \<open>
  The documents of a portfolio (src/internal/vire/models): the watchlist, the plan and the strategy
  with their Markdown texts, and the ticker symbols. Strings are UTF-8 bytes. Dates are those of UTC,
  for instants from the year 1 on.
\<close>

section \<open>Text\<close>

definition line :: "string \<Rightarrow> string" where
  "line s = s @ [CHR 0x0A]"

definition para :: "string \<Rightarrow> string" where
  "para s = s @ [CHR 0x0A, CHR 0x0A]"

definition opt :: "bool \<Rightarrow> string \<Rightarrow> string" where
  "opt b s = (if b then s else [])"

text \<open>\<open>Format\<close> with the layout 2006-01-02.\<close>

definition Format_date :: "time \<Rightarrow> string" where
  "Format_date t =
     (case civil_of_day (nat (t div (24 * Hour) + 719162)) of (y, m, d) \<Rightarrow> pad 4 y @ ''-'' @ pad 2 m @ ''-'' @ pad 2 d)"

definition dated :: "string \<Rightarrow> time \<Rightarrow> string" where
  "dated label t = opt (\<not> IsZero t) ('' | '' @ label @ '' '' @ Format_date t)"

section \<open>Tickers\<close>

definition eodhExchange :: "string \<Rightarrow> string" where
  "eodhExchange exchange =
     (let e = ToUpper exchange
      in if e \<in> set [''ASX'', ''AU''] then ''AU''
         else if e \<in> set [''NYSE'', ''NASDAQ'', ''US'', ''BATS'', ''AMEX'', ''ARCA''] then ''US''
         else if e \<in> set [''LSE'', ''LON''] then ''LSE''
         else if e = [] then ''AU''
         else exchange)"

definition EODHDTicker :: "string \<Rightarrow> string \<Rightarrow> string" where
  "EODHDTicker ticker exchange = ticker @ ''.'' @ eodhExchange exchange"

definition AllSignalTypes :: "string list" where
  "AllSignalTypes = [''sma'', ''rsi'', ''volume'', ''pbas'', ''vli'', ''regime'', ''relative_strength'', ''trend'', ''support_resistance'', ''macd'']"

text \<open>Options of price queries (src/internal/vire/interfaces/clients.go) are updates of the parameters.\<close>

record EODParams =
  ep_From :: time
  ep_To :: time
  ep_Period :: string
  ep_Order :: string
  ep_Limit :: int

definition WithDateRange :: "time \<Rightarrow> time \<Rightarrow> EODParams \<Rightarrow> EODParams" where
  "WithDateRange lo hi p = p\<lparr>ep_From := lo, ep_To := hi\<rparr>"

definition WithPeriod :: "string \<Rightarrow> EODParams \<Rightarrow> EODParams" where
  "WithPeriod period p = p\<lparr>ep_Period := period\<rparr>"

definition WithLimit :: "int \<Rightarrow> EODParams \<Rightarrow> EODParams" where
  "WithLimit limit p = p\<lparr>ep_Limit := limit\<rparr>"

section \<open>Watchlist\<close>

definition ValidWatchlistVerdict :: "string \<Rightarrow> bool" where
  "ValidWatchlistVerdict v \<longleftrightarrow> v \<in> set [''PASS'', ''WATCH'', ''FAIL'']"

record WatchlistItem =
  wi_Ticker :: string
  wi_Name :: string
  wi_Verdict :: string
  wi_Reason :: string
  wi_KeyMetrics :: string
  wi_Notes :: string
  wi_ReviewedAt :: time
  wi_CreatedAt :: time
  wi_UpdatedAt :: time

record PortfolioWatchlist =
  wl_PortfolioName :: string
  wl_Version :: int
  wl_Items :: "WatchlistItem list"
  wl_Notes :: string
  wl_CreatedAt :: time
  wl_UpdatedAt :: time

text \<open>The item with its index, counted from \<open>i\<close>.\<close>

fun find_ticker :: "string \<Rightarrow> int \<Rightarrow> WatchlistItem list \<Rightarrow> WatchlistItem option \<times> int" where
  "find_ticker ticker i [] = (None, -1)"
| "find_ticker ticker i (item # items) =
     (if EqualFold (wi_Ticker item) ticker then (Some item, i) else find_ticker ticker (i + 1) items)"

definition FindByTicker :: "PortfolioWatchlist \<Rightarrow> string \<Rightarrow> WatchlistItem option \<times> int" where
  "FindByTicker w ticker = find_ticker ticker 0 (wl_Items w)"

definition writeWatchlistItem :: "WatchlistItem \<Rightarrow> string" where
  "writeWatchlistItem item =
     (let icon = (if wi_Verdict item = ''PASS'' then ''+'' else if wi_Verdict item = ''WATCH'' then ''?''
                  else if wi_Verdict item = ''FAIL'' then ''-'' else ''~'')
      in ''- ['' @ icon @ ''] **'' @ wi_Ticker item @ ''**''
         @ opt (wi_Name item \<noteq> []) ([CHR '' '', CHR 0xE2, CHR 0x80, CHR 0x94, CHR '' ''] @ wi_Name item)
         @ line (opt (\<not> IsZero (wi_ReviewedAt item)) ('' (reviewed '' @ Format_date (wi_ReviewedAt item) @ '')''))
         @ opt (wi_Reason item \<noteq> []) (line (''  - '' @ wi_Reason item))
         @ opt (wi_KeyMetrics item \<noteq> []) (line (''  - Metrics: '' @ wi_KeyMetrics item))
         @ opt (wi_Notes item \<noteq> []) (line (''  - *'' @ wi_Notes item @ ''*'')))"

definition watch_section :: "string \<Rightarrow> WatchlistItem list \<Rightarrow> string" where
  "watch_section verdict items =
     (let sel = filter (\<lambda>i. wi_Verdict i = verdict) items
      in opt (sel \<noteq> []) (para (''## '' @ verdict) @ line (concat (map writeWatchlistItem sel))))"

definition watchlist_ToMarkdown :: "PortfolioWatchlist \<Rightarrow> string" where
  "watchlist_ToMarkdown w =
     para (''# Watchlist: '' @ wl_PortfolioName w)
     @ (if wl_Items w = [] then para ''No watchlist items.''
        else watch_section ''PASS'' (wl_Items w) @ watch_section ''WATCH'' (wl_Items w) @ watch_section ''FAIL'' (wl_Items w))
     @ opt (wl_Notes w \<noteq> []) (para ''## Notes'' @ para (wl_Notes w))
     @ para ''---''
     @ line (''Version '' @ Itoa (wl_Version w) @ '' | '' @ show_nat (length (wl_Items w)) @ '' items''
             @ dated ''Created'' (wl_CreatedAt w) @ dated ''Updated'' (wl_UpdatedAt w))"

section \<open>Plan\<close>

record RuleCondition =
  rc_Field :: string
  rc_Operator :: string
  rc_Value :: goval

record PlanItem =
  pi_ID :: string
  pi_Type :: string
  pi_Description :: string
  pi_Status :: string
  pi_Deadline :: "time option"
  pi_Conditions :: "RuleCondition list"
  pi_Ticker :: string
  pi_Action :: string
  pi_TargetValue :: float64
  pi_CreatedAt :: time
  pi_UpdatedAt :: time
  pi_CompletedAt :: "time option"
  pi_Notes :: string

record PortfolioPlan =
  pp_PortfolioName :: string
  pp_Version :: int
  pp_Items :: "PlanItem list"
  pp_Notes :: string
  pp_CreatedAt :: time
  pp_UpdatedAt :: time

definition statusIcon :: "string \<Rightarrow> string" where
  "statusIcon s =
     (if s = ''triggered'' then [CHR 0xF0, CHR 0x9F, CHR 0x9F, CHR 0xA1]
      else if s = ''completed'' then [CHR 0xE2, CHR 0x9C, CHR 0x85]
      else if s = ''expired'' then [CHR 0xE2, CHR 0x8F, CHR 0xB0]
      else if s = ''cancelled'' then [CHR 0xE2, CHR 0x9D, CHR 0x8C]
      else [CHR 0xE2, CHR 0xAC, CHR 0x9C])"

text \<open>\<open>Duration.Hours\<close>, and the days as the code takes them from it.\<close>

definition Hours :: "duration \<Rightarrow> float64" where
  "Hours d = fl (fl (of_int (d div Hour)) + fl (of_int (d mod Hour) / (60 * 60 * 10 ^ 9)))"

definition due_text :: "time \<Rightarrow> time \<Rightarrow> string" where
  "due_text deadline now =
     (let remaining = Since deadline now
      in if remaining > 0
         then '' (due '' @ Format_date deadline @ '', '' @ Itoa (trunc (fl (Hours remaining / 24))) @ '' days remaining)''
         else '' (due '' @ Format_date deadline @ '', **overdue**)'')"

text \<open>The text of an item around what depends on the clock.\<close>

definition plan_entry :: "PlanItem \<Rightarrow> string \<Rightarrow> string" where
  "plan_entry item due =
     ''- '' @ statusIcon (pi_Status item) @ '' **['' @ pi_ID item @ '']** '' @ pi_Description item
     @ due
     @ opt (pi_Ticker item \<noteq> []) ('' | Ticker: '' @ pi_Ticker item)
     @ line (opt (pi_Action item \<noteq> []) ('' | Action: '' @ pi_Action item))
     @ opt (pi_Notes item \<noteq> []) (line (''  - *'' @ pi_Notes item @ ''*''))"

definition writePlanItem :: "PlanItem \<Rightarrow> ('s, string) io" where
  "writePlanItem item =
     (case pi_Deadline item of
        Some deadline \<Rightarrow>
          if pi_Type item = ''time'' then do { now \<leftarrow> time_Now; ret (plan_entry item (due_text deadline now)) }
          else ret (plan_entry item [])
      | None \<Rightarrow> ret (plan_entry item []))"

fun write_items :: "PlanItem list \<Rightarrow> ('s, string) io" where
  "write_items [] = ret []"
| "write_items (item # items) = do { e \<leftarrow> writePlanItem item; es \<leftarrow> write_items items; ret (e @ es) }"

definition plan_section :: "string \<Rightarrow> PlanItem list \<Rightarrow> ('s, string) io" where
  "plan_section title items =
     (if items = [] then ret [] else do { es \<leftarrow> write_items items; ret (para (''## '' @ title) @ es) })"

definition plan_ToMarkdown :: "PortfolioPlan \<Rightarrow> ('s, string) io" where
  "plan_ToMarkdown p =
     do { body \<leftarrow>
            (if pp_Items p = [] then ret (para ''No plan items.'')
             else do { t \<leftarrow> plan_section ''Triggered'' (filter (\<lambda>i. pi_Status i = ''triggered'') (pp_Items p));
                       n \<leftarrow> plan_section ''Pending'' (filter (\<lambda>i. pi_Status i = ''pending'') (pp_Items p));
                       c \<leftarrow> plan_section ''Completed'' (filter (\<lambda>i. pi_Status i = ''completed'') (pp_Items p));
                       x \<leftarrow> plan_section ''Other''
                             (filter (\<lambda>i. pi_Status i \<notin> set [''triggered'', ''pending'', ''completed'']) (pp_Items p));
                       ret (t @ n @ c @ x) });
          ret (para (''# Portfolio Plan: '' @ pp_PortfolioName p) @ body
               @ opt (pp_Notes p \<noteq> []) (para ''## Notes'' @ para (pp_Notes p))
               @ para ''---''
               @ line (''Version '' @ Itoa (pp_Version p) @ dated ''Created'' (pp_CreatedAt p) @ dated ''Updated'' (pp_UpdatedAt p))) }"

section \<open>Strategy\<close>

record vire_Rule =
  rl_Name :: string
  rl_Conditions :: "RuleCondition list"
  rl_Action :: string
  rl_Reason :: string
  rl_Priority :: int
  rl_Enabled :: bool

record CompanyFilter =
  cm_MinMarketCap :: float64
  cm_MaxMarketCap :: float64
  cm_MaxPE :: float64
  cm_MinQtrReturnPct :: float64
  cm_MinDividendYield :: float64
  cm_MaxBeta :: float64
  cm_AllowedSectors :: "string list"
  cm_ExcludedSectors :: "string list"
  cm_AllowedCountries :: "string list"

record RiskAppetite =
  ra_Level :: string
  ra_MaxDrawdownPct :: float64
  ra_Description :: string

record TargetReturns =
  tr_AnnualPct :: float64
  tr_Timeframe :: string

record IncomeRequirements =
  ir_DividendYieldPct :: float64
  ir_Description :: string

record SectorPreferences =
  sp_Preferred :: "string list"
  sp_Excluded :: "string list"

record PositionSizing =
  ps_MaxPositionPct :: float64
  ps_MaxSectorPct :: float64

record ReferenceStrategy =
  rf_Name :: string
  rf_Description :: string

record PortfolioStrategy =
  sg_PortfolioName :: string
  sg_Version :: int
  sg_AccountType :: string
  sg_InvestmentUniverse :: "string list"
  sg_RiskAppetite :: RiskAppetite
  sg_TargetReturns :: TargetReturns
  sg_IncomeRequirements :: IncomeRequirements
  sg_SectorPreferences :: SectorPreferences
  sg_PositionSizing :: PositionSizing
  sg_ReferenceStrategies :: "ReferenceStrategy list"
  sg_Rules :: "vire_Rule list"
  sg_CompanyFilter :: CompanyFilter
  sg_RebalanceFrequency :: string
  sg_Notes :: string
  sg_Disclaimer :: string
  sg_CreatedAt :: time
  sg_UpdatedAt :: time
  sg_LastReviewedAt :: time

text \<open>A line of a list with a bold label.\<close>

definition item_line :: "string \<Rightarrow> string \<Rightarrow> string" where
  "item_line label s = line (''- **'' @ label @ '':** '' @ s)"

definition pct_line :: "string \<Rightarrow> float64 \<Rightarrow> string" where
  "pct_line label x = opt (x > 0) (item_line label (Sprintf_f 1 x @ ''%''))"

definition list_line :: "string \<Rightarrow> string list \<Rightarrow> string" where
  "list_line label xs = opt (xs \<noteq> []) (item_line label (Join xs '', ''))"

definition risk_text :: "RiskAppetite \<Rightarrow> string" where
  "risk_text r =
     para ''## Risk Appetite''
     @ opt (ra_Level r \<noteq> []) (item_line ''Level'' (ra_Level r)) @ pct_line ''Max Drawdown'' (ra_MaxDrawdownPct r)
     @ line (opt (ra_Description r \<noteq> []) (line (''- '' @ ra_Description r)))"

definition returns_text :: "TargetReturns \<Rightarrow> string" where
  "returns_text t =
     para ''## Target Returns'' @ pct_line ''Annual Target'' (tr_AnnualPct t)
     @ line (opt (tr_Timeframe t \<noteq> []) (item_line ''Timeframe'' (tr_Timeframe t)))"

definition income_text :: "IncomeRequirements \<Rightarrow> string" where
  "income_text i =
     opt (ir_DividendYieldPct i > 0 \<or> ir_Description i \<noteq> [])
       (para ''## Income Requirements'' @ pct_line ''Dividend Yield Target'' (ir_DividendYieldPct i)
        @ line (opt (ir_Description i \<noteq> []) (line (''- '' @ ir_Description i))))"

definition sectors_text :: "SectorPreferences \<Rightarrow> string" where
  "sectors_text p =
     opt (sp_Preferred p \<noteq> [] \<or> sp_Excluded p \<noteq> [])
       (para ''## Sector Preferences'' @ list_line ''Preferred'' (sp_Preferred p) @ line (list_line ''Excluded'' (sp_Excluded p)))"

definition sizing_text :: "PositionSizing \<Rightarrow> string" where
  "sizing_text p =
     para ''## Position Sizing'' @ pct_line ''Max Single Position'' (ps_MaxPositionPct p)
     @ line (pct_line ''Max Sector Allocation'' (ps_MaxSectorPct p))"

definition references_text :: "ReferenceStrategy list \<Rightarrow> string" where
  "references_text rs =
     opt (rs \<noteq> [])
       (para ''## Reference Strategies''
        @ line (concat (map (\<lambda>r. if rf_Description r \<noteq> [] then item_line (rf_Name r) (rf_Description r) else line (''- '' @ rf_Name r)) rs)))"

definition rule_row :: "nat \<Rightarrow> vire_Rule \<Rightarrow> string" where
  "rule_row i r =
     line (''| '' @ Join [show_nat (i + 1), rl_Name r,
             Join (map (\<lambda>c. rc_Field c @ '' '' @ rc_Operator c @ '' '' @ Sprint (rc_Value c)) (rl_Conditions r)) '' AND '',
             rl_Action r, Itoa (rl_Priority r), if rl_Enabled r then ''yes'' else ''no''] '' | '' @ '' |'')"

definition rules_text :: "vire_Rule list \<Rightarrow> string" where
  "rules_text rs =
     opt (rs \<noteq> [])
       (para ''## Trading Rules''
        @ line ''| # | Name | Conditions | Action | Priority | Enabled |''
        @ line ''|---|------|------------|--------|----------|--------|''
        @ line (concat (map (\<lambda>(i, r). rule_row i r) (enumerate 0 rs))))"

definition filter_text :: "CompanyFilter \<Rightarrow> string" where
  "filter_text c =
     opt (cm_MinMarketCap c > 0 \<or> cm_MaxMarketCap c > 0 \<or> cm_MaxPE c > 0 \<or> cm_MinQtrReturnPct c > 0
          \<or> cm_MinDividendYield c > 0 \<or> cm_MaxBeta c > 0 \<or> cm_AllowedSectors c \<noteq> []
          \<or> cm_ExcludedSectors c \<noteq> [] \<or> cm_AllowedCountries c \<noteq> [])
       (para ''## Company Filter''
        @ opt (cm_MinMarketCap c > 0) (item_line ''Min Market Cap'' (''$'' @ Sprintf_f 0 (fl (cm_MinMarketCap c / 10 ^ 6)) @ ''M''))
        @ opt (cm_MaxMarketCap c > 0) (item_line ''Max Market Cap'' (''$'' @ Sprintf_f 0 (fl (cm_MaxMarketCap c / 10 ^ 9)) @ ''B''))
        @ opt (cm_MaxPE c > 0) (item_line ''Max P/E'' (Sprintf_f 1 (cm_MaxPE c)))
        @ opt (cm_MinQtrReturnPct c > 0) (item_line ''Min Quarterly Return'' (Sprintf_f 1 (cm_MinQtrReturnPct c) @ ''% annualised''))
        @ opt (cm_MinDividendYield c > 0) (item_line ''Min Dividend Yield'' (Sprintf_f 2 (fl (cm_MinDividendYield c * 100)) @ ''%''))
        @ opt (cm_MaxBeta c > 0) (item_line ''Max Beta'' (Sprintf_f 2 (cm_MaxBeta c)))
        @ list_line ''Allowed Sectors'' (cm_AllowedSectors c) @ list_line ''Excluded Sectors'' (cm_ExcludedSectors c)
        @ line (list_line ''Allowed Countries'' (cm_AllowedCountries c)))"

definition strategy_ToMarkdown :: "PortfolioStrategy \<Rightarrow> string" where
  "strategy_ToMarkdown s =
     para (''# Portfolio Strategy: '' @ sg_PortfolioName s)
     @ opt (sg_AccountType s \<noteq> []) (line (''**Account Type:** '' @ sg_AccountType s))
     @ line (opt (sg_InvestmentUniverse s \<noteq> []) (line (''**Investment Universe:** '' @ Join (sg_InvestmentUniverse s) '', '')))
     @ risk_text (sg_RiskAppetite s) @ returns_text (sg_TargetReturns s) @ income_text (sg_IncomeRequirements s)
     @ sectors_text (sg_SectorPreferences s) @ sizing_text (sg_PositionSizing s) @ references_text (sg_ReferenceStrategies s)
     @ rules_text (sg_Rules s) @ filter_text (sg_CompanyFilter s)
     @ opt (sg_RebalanceFrequency s \<noteq> []) (para (''**Rebalancing:** '' @ sg_RebalanceFrequency s))
     @ opt (sg_Notes s \<noteq> []) (para ''## Notes'' @ para (sg_Notes s))
     @ opt (sg_Disclaimer s \<noteq> []) (para ''---'' @ para (''*'' @ sg_Disclaimer s @ ''*''))
     @ para ''---''
     @ line (''Version '' @ Itoa (sg_Version s) @ dated ''Created'' (sg_CreatedAt s) @ dated ''Updated'' (sg_UpdatedAt s)
             @ dated ''Last Reviewed'' (sg_LastReviewedAt s))"

section \<open>Lemmas\<close>

lemma find_ticker_spec:
  "find_ticker t i items = (r, j) \<Longrightarrow>
     (case r of None \<Rightarrow> j = -1 \<and> (\<forall>x\<in>set items. \<not> EqualFold (wi_Ticker x) t)
      | Some x \<Rightarrow> \<exists>k < length items. j = i + int k \<and> items ! k = x \<and> EqualFold (wi_Ticker x) t
          \<and> (\<forall>l < k. \<not> EqualFold (wi_Ticker (items ! l)) t))"
proof (induction items arbitrary: i)
  case (Cons y items)
  show ?case
  proof (cases "EqualFold (wi_Ticker y) t")
    case False
    with Cons show ?thesis by (cases r) (force simp: nth_Cons' less_Suc_eq_0_disj)+
  qed (use Cons.prems in auto)
qed auto

lemma sublist_within: "sublist x a \<Longrightarrow> sublist x (a @ b)" "sublist x b \<Longrightarrow> sublist x (a @ b)"
  by (metis append.assoc sublist_def)+

lemma sublist_parts: "sublist x a \<Longrightarrow> sublist x (line a)" "sublist x a \<Longrightarrow> sublist x (para a)" "b \<Longrightarrow> sublist x a \<Longrightarrow> sublist x (opt b a)"
  by (simp_all add: line_def para_def opt_def sublist_within)

lemma sublist_concat: "sublist x a \<Longrightarrow> a \<in> set as \<Longrightarrow> sublist x (concat as)"
  by (induction as) (auto intro: sublist_within)

lemma sublist_concat_map: "x \<in> set xs \<Longrightarrow> sublist (f x) (concat (map f xs))"
  by (rule sublist_concat [of _ "f x"]) auto

text \<open>What a list of items writes contains the text of each.\<close>

lemma write_items_all:
  "run_state (write_items items) (s, w) = (doc, y) \<Longrightarrow> item \<in> set items \<Longrightarrow> \<exists>due. sublist (plan_entry item due) doc"
proof (induction items arbitrary: s w doc y)
  case (Cons x items)
  obtain e s1 w1 where 1: "run_state (writePlanItem x) (s, w) = (e, (s1, w1))" by (rule run_split)
  obtain es y' where 2: "run_state (write_items items) (s1, w1) = (es, y')" by (metis surj_pair)
  have doc: "doc = e @ es" using Cons.prems(1) 1 2 by simp
  have "\<exists>due. e = plan_entry x due" using 1 by (auto simp: writePlanItem_def split: option.splits if_splits)
  with Cons.IH [OF 2] Cons.prems(2) show ?case by (auto simp: doc intro: sublist_within)
qed simp

lemma plan_section_all:
  assumes "run_state (plan_section title items) (s, w) = (doc, y)" "item \<in> set items"
  shows "\<exists>due. sublist (plan_entry item due) doc"
proof -
  obtain es y' where e: "run_state (write_items items) (s, w) = (es, y')" by (metis surj_pair)
  have "items \<noteq> []" using assms(2) by auto
  with assms(1) e have "doc = para (''## '' @ title) @ es" by (simp add: plan_section_def)
  with write_items_all [OF e assms(2)] show ?thesis by (auto intro: sublist_within)
qed

lemma plan_lists_item:
  assumes "run_state (plan_ToMarkdown p) (s, w) = (doc, y)" "item \<in> set (pp_Items p)"
  shows "\<exists>due. sublist (plan_entry item due) doc"
proof -
  let ?f = "\<lambda>P. filter P (pp_Items p)"
  obtain t s1 w1 where 1: "run_state (plan_section ''Triggered'' (?f (\<lambda>i. pi_Status i = ''triggered''))) (s, w) = (t, (s1, w1))"
    by (rule run_split)
  obtain n s2 w2 where 2: "run_state (plan_section ''Pending'' (?f (\<lambda>i. pi_Status i = ''pending''))) (s1, w1) = (n, (s2, w2))"
    by (rule run_split)
  obtain c s3 w3 where 3: "run_state (plan_section ''Completed'' (?f (\<lambda>i. pi_Status i = ''completed''))) (s2, w2) = (c, (s3, w3))"
    by (rule run_split)
  obtain x s4 w4 where 4: "run_state (plan_section ''Other''
      (?f (\<lambda>i. pi_Status i \<notin> set [''triggered'', ''pending'', ''completed'']))) (s3, w3) = (x, (s4, w4))"
    by (rule run_split)
  have ne: "pp_Items p \<noteq> []" using assms(2) by auto
  let ?post = "opt (pp_Notes p \<noteq> []) (para ''## Notes'' @ para (pp_Notes p)) @ para ''---''
    @ line (''Version '' @ Itoa (pp_Version p) @ dated ''Created'' (pp_CreatedAt p) @ dated ''Updated'' (pp_UpdatedAt p))"
  have doc: "doc = para (''# Portfolio Plan: '' @ pp_PortfolioName p) @ (t @ n @ c @ x) @ ?post"
    using assms(1) 1 2 3 4 unfolding plan_ToMarkdown_def if_not_P [OF ne] by simp
  consider "pi_Status item = ''triggered''" | "pi_Status item = ''pending''" | "pi_Status item = ''completed''"
    | "pi_Status item \<notin> set [''triggered'', ''pending'', ''completed'']" by auto
  then have "\<exists>d \<in> set [t, n, c, x]. \<exists>due. sublist (plan_entry item due) d"
  proof cases
    case a: 1
    then show ?thesis using plan_section_all [OF 1, of item] assms(2) by simp
  next
    case a: 2
    then show ?thesis using plan_section_all [OF 2, of item] assms(2) by simp
  next
    case a: 3
    then show ?thesis using plan_section_all [OF 3, of item] assms(2) by simp
  next
    case a: 4
    then show ?thesis using plan_section_all [OF 4, of item] assms(2) by simp
  qed
  then obtain due d where "sublist (plan_entry item due) d" "d \<in> set [t, n, c, x]" by blast
  from sublist_concat [OF this] have "sublist (plan_entry item due) (t @ n @ c @ x)" by simp
  then show ?thesis unfolding doc by (intro exI [of _ due]) (rule sublist_within(2) [OF sublist_within(1)])
qed

lemma watch_lists_item:
  assumes "item \<in> set (wl_Items w)" "ValidWatchlistVerdict (wi_Verdict item)"
  shows "sublist (writeWatchlistItem item) (watchlist_ToMarkdown w)"
proof -
  have "sublist (writeWatchlistItem item) (watch_section (wi_Verdict item) (wl_Items w))"
    unfolding watch_section_def Let_def
    by (intro sublist_parts sublist_within(2) sublist_concat_map) (use assms(1) in \<open>auto simp: filter_empty_conv\<close>)
  moreover have "wi_Verdict item \<in> {''PASS'', ''WATCH'', ''FAIL''}" using assms(2) by (auto simp: ValidWatchlistVerdict_def)
  ultimately have "sublist (writeWatchlistItem item)
      (watch_section ''PASS'' (wl_Items w) @ watch_section ''WATCH'' (wl_Items w) @ watch_section ''FAIL'' (wl_Items w))"
    using sublist_concat [of "writeWatchlistItem item" "watch_section (wi_Verdict item) (wl_Items w)"
      "[watch_section ''PASS'' (wl_Items w), watch_section ''WATCH'' (wl_Items w), watch_section ''FAIL'' (wl_Items w)]"] by auto
  then have "sublist (writeWatchlistItem item) ((if wl_Items w = [] then para ''No watchlist items.''
      else watch_section ''PASS'' (wl_Items w) @ watch_section ''WATCH'' (wl_Items w) @ watch_section ''FAIL'' (wl_Items w)))"
    using assms(1) by auto
  then show ?thesis unfolding watchlist_ToMarkdown_def by (rule sublist_within(2) [OF sublist_within(1)])
qed

section \<open>Properties\<close>

text \<open>
  C30: The documents of a portfolio are complete. The text of a plan contains the entry of every item,
  whatever its status and at whatever time it is written; the text of a watchlist contains the entry
  of every item with a valid verdict; and a ticker is found, by its first item up to case, exactly if
  the watchlist has it.
\<close>
theorem documents_complete:
  "(run_state (plan_ToMarkdown p) (s, w) = (doc, y) \<longrightarrow> (\<forall>item\<in>set (pp_Items p). \<exists>due. sublist (plan_entry item due) doc))
   \<and> (\<forall>item\<in>set (wl_Items wl). ValidWatchlistVerdict (wi_Verdict item) \<longrightarrow> sublist (writeWatchlistItem item) (watchlist_ToMarkdown wl))
   \<and> (case FindByTicker wl t of
        (None, j) \<Rightarrow> j = -1 \<and> (\<forall>item\<in>set (wl_Items wl). \<not> EqualFold (wi_Ticker item) t)
      | (Some item, j) \<Rightarrow> \<exists>k < length (wl_Items wl). j = int k \<and> wl_Items wl ! k = item \<and> EqualFold (wi_Ticker item) t
          \<and> (\<forall>l < k. \<not> EqualFold (wi_Ticker (wl_Items wl ! l)) t))"
proof (intro conjI)
  show "run_state (plan_ToMarkdown p) (s, w) = (doc, y) \<longrightarrow> (\<forall>item\<in>set (pp_Items p). \<exists>due. sublist (plan_entry item due) doc)"
    by (intro impI ballI plan_lists_item)
  show "\<forall>item\<in>set (wl_Items wl). ValidWatchlistVerdict (wi_Verdict item) \<longrightarrow> sublist (writeWatchlistItem item) (watchlist_ToMarkdown wl)"
    using watch_lists_item by blast
  obtain r j where f: "FindByTicker wl t = (r, j)" by (cases "FindByTicker wl t")
  then show "case FindByTicker wl t of
        (None, j) \<Rightarrow> j = -1 \<and> (\<forall>item\<in>set (wl_Items wl). \<not> EqualFold (wi_Ticker item) t)
      | (Some item, j) \<Rightarrow> \<exists>k < length (wl_Items wl). j = int k \<and> wl_Items wl ! k = item \<and> EqualFold (wi_Ticker item) t
          \<and> (\<forall>l < k. \<not> EqualFold (wi_Ticker (wl_Items wl ! l)) t)"
    using find_ticker_spec [of t 0 "wl_Items wl" r j] by (cases r) (simp_all add: FindByTicker_def)
qed

definition sample_item :: WatchlistItem where
  "sample_item = \<lparr>wi_Ticker = ''BHP.AU'', wi_Name = [], wi_Verdict = ''PASS'', wi_Reason = ''cheap'', wi_KeyMetrics = [], wi_Notes = [],
     wi_ReviewedAt = zero_time, wi_CreatedAt = zero_time, wi_UpdatedAt = zero_time\<rparr>"

definition sample_watchlist :: PortfolioWatchlist where
  "sample_watchlist = \<lparr>wl_PortfolioName = ''smsf'', wl_Version = 1, wl_Items = [sample_item], wl_Notes = [],
     wl_CreatedAt = zero_time, wl_UpdatedAt = zero_time\<rparr>"

definition sample_plan :: PortfolioPlan where
  "sample_plan = \<lparr>pp_PortfolioName = ''smsf'', pp_Version = 1, pp_Items = [\<lparr>pi_ID = ''1'', pi_Type = ''time'', pi_Description = ''sell'',
     pi_Status = ''expired'', pi_Deadline = Some Hour, pi_Conditions = [], pi_Ticker = [], pi_Action = ''SELL'', pi_TargetValue = 0,
     pi_CreatedAt = 0, pi_UpdatedAt = 0, pi_CompletedAt = None, pi_Notes = []\<rparr>], pp_Notes = [], pp_CreatedAt = 0, pp_UpdatedAt = 0\<rparr>"

theorem documents_complete_witness:
  "(\<exists>due. sublist (plan_entry (hd (pp_Items sample_plan)) due) (fst (run_state (plan_ToMarkdown sample_plan) ((), sample_world))))
   \<and> sublist (writeWatchlistItem sample_item) (watchlist_ToMarkdown sample_watchlist)"
proof
  have "hd (pp_Items sample_plan) \<in> set (pp_Items sample_plan)" by (simp add: sample_plan_def)
  then show "\<exists>due. sublist (plan_entry (hd (pp_Items sample_plan)) due) (fst (run_state (plan_ToMarkdown sample_plan) ((), sample_world)))"
    using documents_complete [of sample_plan "()" sample_world "fst (run_state (plan_ToMarkdown sample_plan) ((), sample_world))"
        "snd (run_state (plan_ToMarkdown sample_plan) ((), sample_world))" sample_watchlist "[]"] by simp
  show "sublist (writeWatchlistItem sample_item) (watchlist_ToMarkdown sample_watchlist)"
    using documents_complete [of sample_plan "()" sample_world "[]" "((), sample_world)" sample_watchlist "[]"]
    by (simp add: ValidWatchlistVerdict_def sample_item_def sample_watchlist_def)
qed

end
