(* ===== verification/Spec2Isabelle.thy ===== *)
theory Spec2Isabelle
  imports Portal_Server MCP_Bridge Vire_Format Vire_Models
begin

text \<open>
  Verification of the vire portal (src/): a web front end of the investment service vire-server. It
  signs users in, renders their pages, forwards API calls, and is at the same time an OAuth 2.1
  authorization server and an MCP server, through which assistants call the tools of vire-server. A
  second program, vire-mcp, bridges a local assistant on stdio to the MCP endpoint.

  \<^bold>\<open>How the parts interact.\<close> A request passes the middleware (middleware.go), is dispatched by the
  routing table (routes.go) and answered by a handler. Page handlers read the session cookie, a JWT,
  and fetch data from vire-server in the name of its subject. The API proxy forwards everything under
  /api/ that has no handler of its own, with a response cache. The authorization server registers
  clients, keeps pending sessions, codes and refresh tokens, in memory and behind it in a backend of
  vire-server, and issues access tokens; a login handler completes a pending session. The MCP handler
  accepts access tokens and session cookies, and its tools, taken from a catalog that a watcher keeps
  up to date, are calls of the API. The process reads its configuration, builds all this, and starts
  the seeding of users and the sync of administrators beside it.

  \<^bold>\<open>How the code is modelled.\<close> A Go string is a \<^typ>\<open>string\<close> (its bytes); an int is an \<^typ>\<open>int\<close>; a
  time is a number of nanoseconds; a map is an association list with distinct keys, whose iteration
  order is a choice of the environment; a struct is a record; an error is the left summand of a sum.
  An operation is an action of the state monad of HOL-Library on the component's state and the world:
  the world (Go_HTTP) has a clock, a random generator, the answers of remote servers as a function
  of all requests sent so far, and the log of these requests. Clock readings, draws, sends and
  iterations are counted, so every theorem holds for all clocks, generators and servers, also faulty
  ones. A handler takes a response writer and a request and returns the response, or panics with what
  was written. A request, like any operation under a mutex, is one step; goroutines that touch
  shared state are events interleaved in any order.

  \<^bold>\<open>Theories.\<close> Go_Prelude, Go_Encoding, Go_JSON, Go_Crypto, Go_AES, Go_Time, Go_Float, Go_URL and Go_HTTP model what
  the code uses of the Go language and library: strings, hex and base64, encoding/json, SHA-256 and
  HMAC, AES-GCM, times, float64, net/url and net/http; they also hold the collections, the invariants of actions (\<open>keeps\<close>) and
  the histories that the components share.
  \<^item> Response_Cache (internal/cache): the invariant, and the refinement of a bounded queue.
  \<^item> OAuth_Backend, OAuth_Store, JWT_Auth, OAuth_Server, OAuth_Flow (internal/auth, token checks of
    internal/handlers/auth.go): the persistence format and its round trip, the stores, tokens, the
    endpoints, and what they guarantee together: codes bound to client, redirect URI, verifier and
    user, used once, refresh tokens rotated.
  \<^item> Middleware, Portal_Routes, API_Proxy (internal/server): CSRF protection, headers, panics,
    routing, and the identity and the caching of forwarded requests.
  \<^item> Auth_Handlers, Page_Common, Page_Handlers, Portal_App (internal/handlers, internal/app): login,
    pages, and that a page shows only data of the signed-in user.
  \<^item> MCP_Proxy, MCP_Catalog, MCP_Handler, MCP_Dev (internal/mcp): tool calls, the catalog and its
    watcher, authentication of the endpoint, the encrypted dev links.
  \<^item> Portal_Config (internal/config and the start of cmd/vire-portal/main.go), Vire_Client and
    Log_Store (internal/client), Portal_Seed (internal/seed), MCP_Bridge (cmd/vire-mcp).
  \<^item> Vire_Common, Vire_Format, Vire_Models (internal/vire): what the repository shares with
    vire-server: configuration and request context, the formatting of amounts, and the documents of
    a portfolio.
  \<^item> Portal_Server: the whole server. \<open>portal_serve\<close> is one request from the socket to the response,
    \<open>portal_event\<close> adds what runs beside it, \<open>portal_start\<close> is the end of \<open>main\<close>'s start-up.
  This theory imports them all and states the properties that need several components.

  \<^bold>\<open>What the theorems show.\<close> Interfaces are locales with their laws as assumptions, interpreted on the
  definitions of the code: stores with and without a backend, the bounded cache, a middleware, a page
  behind the login, things used once, invariants of the environment. The properties rest on them:
  safety of the authorization flow over all histories, authentication of the MCP endpoint and of
  proxied calls, round trips of tokens, codes and links, exactness of validation and exchange,
  refinement and bounds of the cache, termination of start-up, conservation of log entries, exactness
  of formatted amounts. Some state
  what goes wrong: a callback that trusts unsigned tokens, a path guard that dots pass, a forwarded
  user header of anonymous callers, tokens without expiry, the two ports of the bridge, a null
  version.

  \<^bold>\<open>Bounds.\<close> The JSON parser and the scanner of raw members recurse on fuel, the length of the
  input, which is enough as every step consumes a character; everything else is structural or has a
  proved measure; durations are read with fuel one above the length of the text, likewise enough.
  Limits of the code (1 MB and 10 MB bodies, 5 MB cached responses, 1000 cache
  entries, three catalog attempts) are the numbers of the code.

  \<^bold>\<open>Not modelled.\<close> Log output and the access log middleware; delays and timeouts; interleavings
  inside a request; the waiting for signals and the graceful shutdown in \<open>main\<close>; HTML templates and
  browser scripts; case mapping outside ASCII; overflow and
  subnormal numbers of float64; time zones of printed dates; CONNECT requests and the request URI * in the router.
  Types of vire-server that no code of the repository uses (market data, signals, reports) and its
  interfaces are declarations only. The libraries outside the repository (TOML, google/uuid, the logger, the
  MCP server and client libraries) are parameters with their documented behaviour as hypotheses.
\<close>

section \<open>Properties that span components\<close>

text \<open>
  C1: Whatever happens at the portal, an authorization code is exchanged for tokens at most once.
  Over every sequence of HTTP requests to any endpoint, through the whole middleware and the routes,
  mixed in any order with the catalog watcher and the start-up goroutines, from any state and with any
  answers of vire-server, at most one token request presenting the code is answered with 200, provided
  the random generator does not draw that code again and the MCP library does not turn the clock or
  the generator back.
\<close>
theorem portal_code_grants_once:
  assumes "streamable_ok st" "code_fresh code w"
    and "run_state (history (portal_event lib uuid st) events) (p, w) = (answers, (p', w'))"
  shows "length (filter (exchanged code) answers) \<le> 1"
  by (rule portal_code.one_hit [OF assms(3)]) (use assms(1,2) in \<open>simp_all add: list_all_iff\<close>)

theorem portal_code_grants_once_witness:
  "token_request ''c1'' sample_token_request
   \<and> length (filter (exchanged ''c1'') (fst (run_state
       (history (portal_event list_registry (\<lambda>_. ''id'') sample_site)
          [Request sample_token_request, AdminSync, WatchPoll [], Request sample_request, Request sample_token_request])
       (fst (run_state (portal_start list_registry sample_site) ((), sample_world)), sample_world)))) \<le> 1"
proof
  have "length (hex_EncodeToString (map (entropy sample_world d) [0..<16])) \<noteq> length ''c1''" for d by simp
  then have f: "code_fresh ''c1'' sample_world" unfolding code_fresh_def by metis
  show "length (filter (exchanged ''c1'') (fst (run_state
       (history (portal_event list_registry (\<lambda>_. ''id'') sample_site)
          [Request sample_token_request, AdminSync, WatchPoll [], Request sample_request, Request sample_token_request])
       (fst (run_state (portal_start list_registry sample_site) ((), sample_world)), sample_world)))) \<le> 1"
    by (rule portal_code_grants_once [OF sample_streamable f run_eta])
qed (rule sample_is_token_request)

text \<open>
  C15: From its start, through every sequence of events, the portal's cache never holds more than a
  thousand responses, the portal goes on forwarding to the configured vire-server and checking
  sessions with the configured secret, and unless it was started in dev mode no request shuts it down.
\<close>
theorem portal_state_sound:
  assumes "run_state (portal_start lib st) ((), w) = (p0, (u, w0))"
    and "run_state (history (portal_event lib uuid st) events) (p0, w0) = (answers, (p, w'))"
  shows "length (items (sv_cache (pt_server p))) \<le> 1000
    \<and> sv_apiURL (pt_server p) = cf_APIURL (st_config st) \<and> sv_jwtSecret (pt_server p) = ac_JWTSecret (cf_Auth (st_config st))
    \<and> (\<not> IsDevMode (st_config st) \<longrightarrow> sv_shutdown (pt_server p) = 0)"
proof -
  have "keeps (st_inv (\<lambda>p. server_ok (st_config st) (pt_server p))) (history (portal_event lib uuid st) events)"
    by (rule keeps_history) (rule event_server_ok)
  from keeps_st_invD [OF this portal_start_ok [OF assms(1)] assms(2)] show ?thesis
    using cache_invD(5) [of "sv_cache (pt_server p)"] by (auto simp: server_ok_def)
qed

theorem portal_state_sound_witness:
  "sv_shutdown (pt_server (fst (snd (run_state
     (history (portal_event list_registry (\<lambda>_. ''id'') sample_site) [Request sample_request, SeedUsers, CloseApp])
     (fst (run_state (portal_start list_registry sample_site) ((), sample_world)),
      snd (snd (run_state (portal_start list_registry sample_site) ((), sample_world)))))))) = 0"
proof -
  have "\<not> IsDevMode (st_config sample_site)" unfolding sample_site_def by code_simp
  with portal_state_sound [OF run_eta run_eta] show ?thesis by blast
qed



end
